(* ===== verification/JsPrelude.thy ===== *)
theory JsPrelude
  imports Main "HOL-Library.AList" "HOL-Library.List_Lexorder" "HOL-Library.Char_ord"
    "HOL-Library.Multiset"
begin

text \<open>
  Prelude of the Cryptox development: the parts of the JavaScript runtime that every
  module of the repository uses. Errors thrown as \<^verbatim>\<open>new Error(code)\<close> are the left
  summand of a result; a JavaScript \<^verbatim>\<open>Map\<close> is an association list in insertion order;
  \<^verbatim>\<open>Array.prototype.sort\<close> is the stable sort by a comparator. Strings are
  character lists compared by code unit, which is also what \<^verbatim>\<open>localeCompare\<close> gives on
  the strings the modules sort (ISO timestamps, lower-case identifiers).
\<close>

named_theorems store_simps
named_theorems result_simps

section \<open>Results: a thrown error code or a value\<close>

type_synonym 'a result = "string + 'a"

abbreviation throw :: "string \<Rightarrow> 'a result" where
  "throw code \<equiv> Inl code"

abbreviation return :: "'a \<Rightarrow> 'a result" where
  "return x \<equiv> Inr x"

fun and_then :: "'e + 'a \<Rightarrow> ('a \<Rightarrow> 'e + 'b) \<Rightarrow> 'e + 'b" where
  "and_then (Inl e) f = Inl e"
| "and_then (Inr x) f = f x"

definition reject_if :: "bool \<Rightarrow> 'e \<Rightarrow> 'e + unit" where
  "reject_if b e = (if b then Inl e else Inr ())"

fun map_results :: "('a \<Rightarrow> 'e + 'b) \<Rightarrow> 'a list \<Rightarrow> 'e + 'b list" where
  "map_results f [] = Inr []"
| "map_results f (x # xs) = and_then (f x) (\<lambda>y. and_then (map_results f xs) (\<lambda>ys. Inr (y # ys)))"

text \<open>A loop whose body may throw.\<close>

fun fold_results :: "('a \<Rightarrow> 's \<Rightarrow> 'e + 's) \<Rightarrow> 'a list \<Rightarrow> 's \<Rightarrow> 'e + 's" where
  "fold_results f [] s = Inr s"
| "fold_results f (x # xs) s = and_then (f x s) (fold_results f xs)"

lemma and_then_Inr_iff [result_simps]:
  "and_then r f = Inr y \<longleftrightarrow> (\<exists>x. r = Inr x \<and> f x = Inr y)"
  by (cases r) auto

lemma and_then_returnE:
  assumes "and_then r f = Inr y"
  obtains x where "r = Inr x" and "f x = Inr y"
  using assms by (cases r) auto

lemma and_then_Inl_iff [result_simps]:
  "and_then r f = Inl e \<longleftrightarrow> r = Inl e \<or> (\<exists>x. r = Inr x \<and> f x = Inl e)"
  by (cases r) auto

lemma reject_if_Inr_iff [simp, result_simps]: "reject_if b e = Inr u \<longleftrightarrow> \<not> b"
  by (simp add: reject_if_def)

lemma reject_if_Inl_iff [simp, result_simps]: "reject_if b e = Inl e' \<longleftrightarrow> b \<and> e = e'"
  by (simp add: reject_if_def)

lemma reject_if_simps [simp]:
  "b \<Longrightarrow> reject_if b e = Inl e"
  "\<not> b \<Longrightarrow> reject_if b e = Inr ()"
  by (simp_all add: reject_if_def)

lemma fold_results_invariant:
  "fold_results f xs s = Inr s' \<Longrightarrow> P s \<Longrightarrow> (\<And>x s s'. x \<in> set xs \<Longrightarrow> P s \<Longrightarrow> f x s = Inr s' \<Longrightarrow> P s') \<Longrightarrow> P s'"
  by (induction xs arbitrary: s) (auto simp: result_simps)

lemma fold_results_append:
  "fold_results f (xs @ ys) s = and_then (fold_results f xs s) (fold_results f ys)"
proof (induction xs arbitrary: s)
  case (Cons x xs)
  then show ?case by (cases "f x s") simp_all
qed simp

lemma map_results_length: "map_results f xs = Inr ys \<Longrightarrow> length ys = length xs"
  by (induction xs arbitrary: ys) (auto simp: result_simps)

lemma map_results_set:
  "map_results f xs = Inr ys \<Longrightarrow> y \<in> set ys \<Longrightarrow> \<exists>x\<in>set xs. f x = Inr y"
  by (induction xs arbitrary: ys) (auto simp: result_simps)

section \<open>JavaScript maps\<close>

type_synonym ('k, 'v) jsmap = "('k \<times> 'v) list"

definition js_get :: "('k, 'v) jsmap \<Rightarrow> 'k \<Rightarrow> 'v option" where
  "js_get m k = map_of m k"

definition js_set :: "'k \<Rightarrow> 'v \<Rightarrow> ('k, 'v) jsmap \<Rightarrow> ('k, 'v) jsmap" where
  "js_set k v m = AList.update k v m"

definition js_delete :: "'k \<Rightarrow> ('k, 'v) jsmap \<Rightarrow> ('k, 'v) jsmap" where
  "js_delete k m = AList.delete k m"

definition js_has :: "('k, 'v) jsmap \<Rightarrow> 'k \<Rightarrow> bool" where
  "js_has m k = (js_get m k \<noteq> None)"

definition js_values :: "('k, 'v) jsmap \<Rightarrow> 'v list" where
  "js_values m = map snd m"

definition js_wf :: "('k, 'v) jsmap \<Rightarrow> bool" where
  "js_wf m = distinct (map fst m)"

text \<open>What every repository of the program relies on: a keyed store.\<close>

locale keyed_store =
  fixes lookup :: "'s \<Rightarrow> 'k \<Rightarrow> 'v option"
    and insert_row :: "'k \<Rightarrow> 'v \<Rightarrow> 's \<Rightarrow> 's"
    and remove_row :: "'k \<Rightarrow> 's \<Rightarrow> 's"
    and rows :: "'s \<Rightarrow> 'v list"
    and ok :: "'s \<Rightarrow> bool"
  assumes lookup_insert: "lookup (insert_row k v s) k' = (if k' = k then Some v else lookup s k')"
    and lookup_remove: "lookup (remove_row k s) k' = (if k' = k then None else lookup s k')"
    and rows_lookup: "ok s \<Longrightarrow> v \<in> set (rows s) \<longleftrightarrow> (\<exists>k. lookup s k = Some v)"
    and ok_insert: "ok s \<Longrightarrow> ok (insert_row k v s)"
    and ok_remove: "ok s \<Longrightarrow> ok (remove_row k s)"
begin

lemma insert_same: "lookup (insert_row k v s) k = Some v"
  by (simp add: lookup_insert)

lemma insert_other: "k' \<noteq> k \<Longrightarrow> lookup (insert_row k v s) k' = lookup s k'"
  by (simp add: lookup_insert)

lemma remove_same: "lookup (remove_row k s) k = None"
  by (simp add: lookup_remove)

lemma insert_twice: "lookup (insert_row k v (insert_row k w s)) = lookup (insert_row k v s)"
  by (rule ext) (simp add: lookup_insert)

lemma insert_commutes:
  "k \<noteq> k' \<Longrightarrow>
    lookup (insert_row k v (insert_row k' w s)) = lookup (insert_row k' w (insert_row k v s))"
  by (rule ext) (auto simp: lookup_insert)

lemma rows_inserted: "ok s \<Longrightarrow> v \<in> set (rows (insert_row k v s))"
  using rows_lookup [of "insert_row k v s" v] ok_insert [of s k v] insert_same [of k v s] by blast

lemma rows_cases:
  "ok s \<Longrightarrow> w \<in> set (rows (insert_row k v s)) \<Longrightarrow> w = v \<or> w \<in> set (rows s)"
  using rows_lookup [of "insert_row k v s" w] rows_lookup [of s w] ok_insert [of s k v]
  by (auto simp: lookup_insert split: if_splits)

lemma all_rows_insert:
  "ok s \<Longrightarrow> (\<And>w. w \<in> set (rows s) \<Longrightarrow> P w) \<Longrightarrow> P v \<Longrightarrow> w \<in> set (rows (insert_row k v s)) \<Longrightarrow> P w"
  using rows_cases [of s w k v] by blast

end

lemma js_get_set: "js_get (js_set k v m) k' = (if k' = k then Some v else js_get m k')"
  by (simp add: js_get_def js_set_def update_conv')

lemma js_get_delete: "js_get (js_delete k m) k' = (if k' = k then None else js_get m k')"
  by (simp add: js_get_def js_delete_def delete_conv')

lemma js_wf_set: "js_wf m \<Longrightarrow> js_wf (js_set k v m)"
  by (simp add: js_wf_def js_set_def distinct_update)

lemma js_wf_delete: "js_wf m \<Longrightarrow> js_wf (js_delete k m)"
  by (simp add: js_wf_def js_delete_def distinct_delete)

lemma js_wf_Nil [simp]: "js_wf []"
  by (simp add: js_wf_def)

lemma js_get_Nil [simp]: "js_get [] k = None"
  by (simp add: js_get_def)

lemma js_values_iff: "js_wf m \<Longrightarrow> v \<in> set (js_values m) \<longleftrightarrow> (\<exists>k. js_get m k = Some v)"
  by (auto simp: js_wf_def js_values_def js_get_def image_iff) force+

interpretation js_store: keyed_store js_get js_set js_delete js_values js_wf
  by unfold_locales (simp_all add: js_get_set js_get_delete js_wf_set js_wf_delete js_values_iff)

lemmas js_map_simps [store_simps] =
  js_get_set js_get_delete js_wf_set js_wf_delete

lemma js_has_set [store_simps]: "js_has (js_set k v m) k' \<longleftrightarrow> k' = k \<or> js_has m k'"
  by (simp add: js_has_def js_get_set)

lemma js_values_fresh: "\<not> js_has m k \<Longrightarrow> js_values (js_set k v m) = js_values m @ [v]"
  by (induction m) (auto simp: js_values_def js_set_def js_has_def js_get_def split: if_splits)

section \<open>Stable sort by a comparator\<close>

type_synonym 'a compare_fn = "'a \<Rightarrow> 'a \<Rightarrow> int"

fun insert_by :: "'a compare_fn \<Rightarrow> 'a \<Rightarrow> 'a list \<Rightarrow> 'a list" where
  "insert_by cmp x [] = [x]"
| "insert_by cmp x (y # ys) = (if cmp x y \<le> 0 then x # y # ys else y # insert_by cmp x ys)"

fun sort_by :: "'a compare_fn \<Rightarrow> 'a list \<Rightarrow> 'a list" where
  "sort_by cmp [] = []"
| "sort_by cmp (x # xs) = insert_by cmp x (sort_by cmp xs)"

lemma mset_insert_by [simp]: "mset (insert_by cmp x xs) = add_mset x (mset xs)"
  by (induction xs) auto

lemma mset_sort_by [simp]: "mset (sort_by cmp xs) = mset xs"
  by (induction xs) auto

lemma set_insert_by [simp]: "set (insert_by cmp x xs) = insert x (set xs)"
  by (induction xs) auto

lemma set_sort_by [simp]: "set (sort_by cmp xs) = set xs"
  by (induction xs) auto

lemma length_sort_by [simp]: "length (sort_by cmp xs) = length xs"
  by (metis mset_sort_by size_mset)

lemma sort_by_Nil_iff [simp]: "sort_by cmp xs = [] \<longleftrightarrow> xs = []"
  by (metis length_0_conv length_sort_by)

lemma distinct_sort_by [simp]: "distinct (sort_by cmp xs) = distinct xs"
  by (rule mset_eq_imp_distinct_iff) simp

locale comparator_laws =
  fixes cmp :: "'a compare_fn" and ok :: "'a \<Rightarrow> bool"
  assumes total: "ok x \<Longrightarrow> ok y \<Longrightarrow> cmp x y \<le> 0 \<or> cmp y x \<le> 0"
    and trans: "ok x \<Longrightarrow> ok y \<Longrightarrow> ok z \<Longrightarrow> cmp x y \<le> 0 \<Longrightarrow> cmp y z \<le> 0 \<Longrightarrow> cmp x z \<le> 0"
begin

lemma insert_by_sorted:
  "list_all ok (x # xs) \<Longrightarrow> sorted_wrt (\<lambda>a b. cmp a b \<le> 0) xs \<Longrightarrow>
    sorted_wrt (\<lambda>a b. cmp a b \<le> 0) (insert_by cmp x xs)"
proof (induction xs)
  case Nil
  then show ?case by simp
next
  case (Cons y ys)
  then have k: "ok x" "ok y" "\<And>z. z \<in> set ys \<Longrightarrow> ok z" by (auto simp: list_all_iff)
  show ?case
  proof (cases "cmp x y \<le> 0")
    case True
    with Cons.prems k show ?thesis by (auto intro: trans [of x y])
  next
    case False
    then have "cmp y x \<le> 0" using total [of x y] k by simp
    with False Cons show ?thesis by auto
  qed
qed

lemma sort_by_sorted: "list_all ok xs \<Longrightarrow> sorted_wrt (\<lambda>a b. cmp a b \<le> 0) (sort_by cmp xs)"
proof (induction xs)
  case (Cons x xs)
  then have "list_all ok (x # sort_by cmp xs)" by (simp add: list_all_iff)
  with Cons show ?case by (auto intro: insert_by_sorted)
qed simp

lemma insert_by_head: "(\<And>y. y \<in> set xs \<Longrightarrow> cmp x y \<le> 0) \<Longrightarrow> insert_by cmp x xs = x # xs"
  by (cases xs) auto

lemma sort_by_id: "sorted_wrt (\<lambda>a b. cmp a b \<le> 0) xs \<Longrightarrow> sort_by cmp xs = xs"
  by (induction xs) (auto intro: insert_by_head)

lemma sort_by_idem: "list_all ok xs \<Longrightarrow> sort_by cmp (sort_by cmp xs) = sort_by cmp xs"
  by (rule sort_by_id) (rule sort_by_sorted)

end

text \<open>Comparators are built with \<^verbatim>\<open>||\<close>: the next key decides when the first one is 0.\<close>

definition or_else :: "int \<Rightarrow> int \<Rightarrow> int" where
  "or_else a b = (if a \<noteq> 0 then a else b)"

definition order_of :: "'a::linorder \<Rightarrow> 'a \<Rightarrow> int" where
  "order_of x y = (if x < y then -1 else if y < x then 1 else 0)"

abbreviation locale_compare :: "string \<Rightarrow> string \<Rightarrow> int" where
  "locale_compare \<equiv> order_of"

lemma order_of_le_0 [simp]: "order_of x y \<le> 0 \<longleftrightarrow> x \<le> y"
  by (auto simp: order_of_def not_less)

lemma order_of_eq_0 [simp]: "order_of x y = 0 \<longleftrightarrow> x = y"
  by (auto simp: order_of_def)

lemma or_else_order_le_0:
  "or_else (order_of x y) c \<le> 0 \<longleftrightarrow> x < y \<or> x = y \<and> c \<le> 0"
  by (auto simp: or_else_def order_of_def)

section \<open>Lists\<close>

definition uniq :: "'a list \<Rightarrow> 'a list" where
  "uniq xs = rev (remdups (rev xs))"

lemma set_uniq [simp]: "set (uniq xs) = set xs"
  by (simp add: uniq_def)

lemma distinct_uniq [simp]: "distinct (uniq xs)"
  by (simp add: uniq_def)

lemma length_uniq_le: "length (uniq xs) \<le> length xs"
  using length_remdups_leq [of "rev xs"] by (simp add: uniq_def)

lemma uniq_full_iff: "length (uniq xs) = length xs \<longleftrightarrow> distinct xs"
  using length_remdups_eq [of "rev xs"] by (simp add: uniq_def)

text \<open>\<^verbatim>\<open>xs.slice(-n)\<close> for a positive \<open>n\<close>, and \<^verbatim>\<open>xs.slice(a, b)\<close> for \<open>0 \<le> a\<close>.\<close>

definition last_n :: "nat \<Rightarrow> 'a list \<Rightarrow> 'a list" where
  "last_n n xs = drop (length xs - n) xs"

definition slice :: "nat \<Rightarrow> nat \<Rightarrow> 'a list \<Rightarrow> 'a list" where
  "slice a b xs = take (b - a) (drop a xs)"

lemma length_last_n [simp]: "length (last_n n xs) = min n (length xs)"
  by (simp add: last_n_def)

lemma set_last_n: "set (last_n n xs) \<subseteq> set xs"
  by (simp add: last_n_def set_drop_subset)

lemma length_slice [simp]: "length (slice a b xs) = min (b - a) (length xs - a)"
  by (simp add: slice_def)

lemma set_slice: "set (slice a b xs) \<subseteq> set xs"
  by (auto simp: slice_def dest: in_set_takeD in_set_dropD)

text \<open>\<^verbatim>\<open>Array.prototype.findIndex\<close>: the position of the first hit, or none.\<close>

fun find_index :: "('a \<Rightarrow> bool) \<Rightarrow> 'a list \<Rightarrow> nat option" where
  "find_index P [] = None"
| "find_index P (x # xs) = (if P x then Some 0 else map_option Suc (find_index P xs))"

lemma find_index_Some: "find_index P xs = Some i \<Longrightarrow> i < length xs \<and> P (xs ! i)"
  by (induction xs arbitrary: i) (auto split: if_splits)

lemma find_index_None: "find_index P xs = None \<longleftrightarrow> (\<forall>x\<in>set xs. \<not> P x)"
  by (induction xs) auto

lemma find_index_first: "find_index P xs = Some i \<Longrightarrow> j < i \<Longrightarrow> \<not> P (xs ! j)"
proof (induction xs arbitrary: i j)
  case Nil
  then show ?case by simp
next
  case (Cons x xs)
  then show ?case by (cases j) (auto split: if_splits)
qed

lemma find_append: "find P (xs @ ys) = (case find P xs of None \<Rightarrow> find P ys | Some x \<Rightarrow> Some x)"
  by (induction xs) auto

section \<open>Texts that are there\<close>

text \<open>An optional string used as a condition: absent and empty are false.\<close>

fun present :: "string option \<Rightarrow> string option" where
  "present (Some (c # cs)) = Some (c # cs)"
| "present _ = None"

lemma present_Some_iff: "present t = Some x \<longleftrightarrow> t = Some x \<and> x \<noteq> []"
  by (cases t rule: present.cases) auto

lemma present_None_iff: "present t = None \<longleftrightarrow> t = None \<or> t = Some []"
  by (cases t rule: present.cases) auto

end
