(* ===== verification/JsNumber.thy ===== *)
theory JsNumber
  imports Complex_Main JsPrelude
begin

text \<open>
  The JavaScript number: an IEEE 754 binary64 value. A finite value is held as the exact
  rational it denotes, and every operation rounds the exact result to nearest, ties to
  even, with the overflow threshold of the format. The two signed zeros are one value here:
  the program never divides by a zero it has not excluded and prints both as \<^verbatim>\<open>0\<close>.
\<close>

named_theorems number_simps

section \<open>Rounding an exact value\<close>

datatype number = NaN | PInf | NInf | Fin rat

definition half_even :: "rat \<Rightarrow> int" where
  "half_even q = (let f = \<lfloor>q\<rfloor>; d = q - of_int f in
     if d < 1 / 2 then f else if d > 1 / 2 then f + 1 else if even f then f else f + 1)"

fun ilen :: "int \<Rightarrow> nat" where
  "ilen n = (if n \<le> 0 then 0 else Suc (ilen (n div 2)))"

declare ilen.simps [simp del]

text \<open>The binary exponent: \<open>2 powi ilog2 q \<le> q < 2 powi (ilog2 q + 1)\<close> for a positive \<open>q\<close>.\<close>

definition ilog2 :: "rat \<Rightarrow> int" where
  "ilog2 q = (if 1 \<le> q then int (ilen \<lfloor>q\<rfloor>) - 1 else - int (ilen (\<lceil>1 / q\<rceil> - 1)))"

definition ulp_exp :: "rat \<Rightarrow> int" where
  "ulp_exp q = max (ilog2 \<bar>q\<bar> - 52) (-1074)"

definition rnd_val :: "rat \<Rightarrow> rat" where
  "rnd_val q = (if q = 0 then 0
     else let u = 2 powi (ulp_exp q) in of_int (half_even (q / u)) * u)"

definition of_val :: "rat \<Rightarrow> number" where
  "of_val v = (if v \<ge> 2 ^ 1024 then PInf else if v \<le> - (2 ^ 1024) then NInf else Fin v)"

definition rnd :: "rat \<Rightarrow> number" where
  "rnd q = of_val (rnd_val q)"

section \<open>Arithmetic and comparison\<close>

fun nneg :: "number \<Rightarrow> number" where
  "nneg NaN = NaN"
| "nneg PInf = NInf"
| "nneg NInf = PInf"
| "nneg (Fin a) = Fin (- a)"

fun nadd :: "number \<Rightarrow> number \<Rightarrow> number" where
  "nadd (Fin a) (Fin b) = rnd (a + b)"
| "nadd NaN _ = NaN"
| "nadd _ NaN = NaN"
| "nadd PInf NInf = NaN"
| "nadd NInf PInf = NaN"
| "nadd PInf _ = PInf"
| "nadd NInf _ = NInf"
| "nadd (Fin _) PInf = PInf"
| "nadd (Fin _) NInf = NInf"

definition nsub :: "number \<Rightarrow> number \<Rightarrow> number" where
  "nsub a b = nadd a (nneg b)"

definition inf_of_sign :: "rat \<Rightarrow> number" where
  "inf_of_sign s = (if s > 0 then PInf else if s < 0 then NInf else NaN)"

fun sign_of :: "number \<Rightarrow> rat" where
  "sign_of NaN = 0"
| "sign_of PInf = 1"
| "sign_of NInf = -1"
| "sign_of (Fin a) = sgn a"

fun nmul :: "number \<Rightarrow> number \<Rightarrow> number" where
  "nmul (Fin a) (Fin b) = rnd (a * b)"
| "nmul NaN _ = NaN"
| "nmul _ NaN = NaN"
| "nmul a b = inf_of_sign (sign_of a * sign_of b)"

fun ndiv :: "number \<Rightarrow> number \<Rightarrow> number" where
  "ndiv (Fin a) (Fin b) = (if b = 0 then inf_of_sign (sgn a) else rnd (a / b))"
| "ndiv NaN _ = NaN"
| "ndiv _ NaN = NaN"
| "ndiv (Fin _) _ = Fin 0"
| "ndiv a (Fin b) = inf_of_sign (sign_of a * (if b < 0 then -1 else 1))"
| "ndiv _ _ = NaN"

fun nlt :: "number \<Rightarrow> number \<Rightarrow> bool" where
  "nlt (Fin a) (Fin b) = (a < b)"
| "nlt NaN _ = False"
| "nlt _ NaN = False"
| "nlt PInf _ = False"
| "nlt _ NInf = False"
| "nlt NInf _ = True"
| "nlt (Fin _) PInf = True"

fun nle :: "number \<Rightarrow> number \<Rightarrow> bool" where
  "nle (Fin a) (Fin b) = (a \<le> b)"
| "nle NaN _ = False"
| "nle _ NaN = False"
| "nle NInf _ = True"
| "nle _ PInf = True"
| "nle PInf _ = False"
| "nle (Fin _) NInf = False"

definition neq :: "number \<Rightarrow> number \<Rightarrow> bool" where
  "neq a b = (a = b \<and> a \<noteq> NaN)"

fun is_finite :: "number \<Rightarrow> bool" where
  "is_finite (Fin _) = True"
| "is_finite _ = False"

fun is_integer :: "number \<Rightarrow> bool" where
  "is_integer (Fin a) = (of_int \<lfloor>a\<rfloor> = a)"
| "is_integer _ = False"

fun nat_of_number :: "number \<Rightarrow> nat" where
  "nat_of_number (Fin q) = nat \<lfloor>q\<rfloor>"
| "nat_of_number _ = 0"

definition nmax :: "number \<Rightarrow> number \<Rightarrow> number" where
  "nmax a b = (if a = NaN \<or> b = NaN then NaN else if nlt a b then b else a)"

definition nmin :: "number \<Rightarrow> number \<Rightarrow> number" where
  "nmin a b = (if a = NaN \<or> b = NaN then NaN else if nlt b a then b else a)"

fun nabs :: "number \<Rightarrow> number" where
  "nabs NaN = NaN"
| "nabs (Fin a) = Fin \<bar>a\<bar>"
| "nabs _ = PInf"

fun nfloor :: "number \<Rightarrow> number" where
  "nfloor (Fin a) = Fin (of_int \<lfloor>a\<rfloor>)"
| "nfloor x = x"

fun nround :: "number \<Rightarrow> number" where
  "nround (Fin a) = Fin (of_int \<lfloor>a + 1 / 2\<rfloor>)"
| "nround x = x"

definition num :: "int \<Rightarrow> number" where
  "num i = rnd (of_int i)"

text \<open>A decimal literal of the source: \<open>lit m k\<close> is \<open>m * 10 ^ (- k)\<close>, rounded.\<close>

definition lit :: "int \<Rightarrow> nat \<Rightarrow> number" where
  "lit m k = rnd (of_int m / 10 ^ k)"

definition nsum :: "number list \<Rightarrow> number" where
  "nsum xs = foldl nadd (Fin 0) xs"

text \<open>\<^verbatim>\<open>Math.min(...xs)\<close> and \<^verbatim>\<open>Math.max(...xs)\<close>, with the empty-list results.\<close>

definition nmin_list :: "number list \<Rightarrow> number" where
  "nmin_list xs = foldl nmin PInf xs"

definition nmax_list :: "number list \<Rightarrow> number" where
  "nmax_list xs = foldl nmax NInf xs"

text \<open>\<^verbatim>\<open>Math.sqrt\<close>, correctly rounded: an integer square root of the scaled argument.\<close>

fun isqrt :: "nat \<Rightarrow> nat" where
  "isqrt n = (if n = 0 then 0
     else let r = 2 * isqrt (n div 4) in if (r + 1)\<^sup>2 \<le> n then r + 1 else r)"

declare isqrt.simps [simp del]

definition sqrt_val :: "rat \<Rightarrow> rat" where
  "sqrt_val q = (if q \<le> 0 then 0
     else let u = 2 powi (ilog2 q div 2 - 52); t = q / u\<^sup>2;
              s = isqrt (nat \<lfloor>t\<rfloor>); m = (of_nat s + 1 / 2)\<^sup>2
          in (if t < m \<or> (t = m \<and> even s) then of_nat s else of_nat s + 1) * u)"

fun nsqrt :: "number \<Rightarrow> number" where
  "nsqrt NaN = NaN"
| "nsqrt PInf = PInf"
| "nsqrt NInf = NaN"
| "nsqrt (Fin q) = (if q < 0 then NaN else Fin (sqrt_val q))"

text \<open>
  \<^verbatim>\<open>Number(x.toFixed(d))\<close>: the integer nearest to the exact \<open>\<bar>x\<bar> * 10 ^ d\<close>, the larger
  one on a tie, read back; from \<open>10 ^ 21\<close> on \<^verbatim>\<open>toFixed\<close> prints the number itself.
\<close>

fun to_fixed_num :: "nat \<Rightarrow> number \<Rightarrow> number" where
  "to_fixed_num d (Fin x) = (if \<bar>x\<bar> \<ge> 10 ^ 21 then Fin x
     else rnd (sgn x * of_int \<lfloor>\<bar>x\<bar> * 10 ^ d + 1 / 2\<rfloor> / 10 ^ d))"
| "to_fixed_num d x = x"


section \<open>Facts about the rounding\<close>

lemma half_even_floor: "\<lfloor>q\<rfloor> \<le> half_even q" "half_even q \<le> \<lfloor>q\<rfloor> + 1"
  by (simp_all add: half_even_def Let_def)

lemma half_even_nearest: "\<bar>of_int (half_even q) - q\<bar> \<le> 1 / 2"
  unfolding half_even_def Let_def
  using floor_correct [of q] by (auto simp: abs_le_iff)

lemma half_even_of_int [simp]: "half_even (of_int k) = k"
  by (simp add: half_even_def Let_def)

lemma half_even_mono:
  assumes "q \<le> r"
  shows "half_even q \<le> half_even r"
proof (cases "\<lfloor>q\<rfloor> = \<lfloor>r\<rfloor>")
  case True
  with assms show ?thesis by (auto simp: half_even_def Let_def)
next
  case False
  with floor_mono [OF assms] have "\<lfloor>q\<rfloor> + 1 \<le> \<lfloor>r\<rfloor>" by simp
  with half_even_floor [of q] half_even_floor [of r] show ?thesis by linarith
qed

lemma half_even_minus: "half_even (- q) = - half_even q"
proof (cases "q = of_int \<lfloor>q\<rfloor>")
  case True
  then obtain k where "q = of_int k" ..
  moreover have "half_even (- of_int k) = - k" for k
    using half_even_of_int [of "- k"] by simp
  ultimately show ?thesis by simp
next
  case False
  then have f: "\<lfloor>- q\<rfloor> = - \<lfloor>q\<rfloor> - 1"
    using floor_correct [of q] by (intro floor_unique) (auto simp: le_less)
  then show ?thesis by (auto simp: half_even_def Let_def)
qed

lemma ilen_pos_bounds: "n > 0 \<Longrightarrow> 2 ^ (ilen n - 1) \<le> n \<and> n < 2 ^ ilen n \<and> ilen n > 0"
proof (induction n rule: ilen.induct)
  case (1 n)
  have e: "ilen n = Suc (ilen (n div 2))" using "1.prems" by (simp add: ilen.simps [of n])
  show ?case
  proof (cases "n = 1")
    case True
    then show ?thesis using e by (simp add: ilen.simps [of 0])
  next
    case False
    with "1.prems" have p: "n div 2 > 0" by simp
    with "1.IH" "1.prems" have ih: "2 ^ (ilen (n div 2) - 1) \<le> n div 2" "n div 2 < 2 ^ ilen (n div 2)"
      "ilen (n div 2) > 0" by auto
    from ih(3) have "(2::int) ^ ilen (n div 2) = 2 * 2 ^ (ilen (n div 2) - 1)"
      by (simp flip: power_Suc)
    with ih(1,2) have "2 ^ ilen (n div 2) \<le> n" "n < 2 * 2 ^ ilen (n div 2)"
      by linarith+
    with e show ?thesis by simp
  qed
qed

lemma ilen_eval [number_simps]:
  "ilen (numeral k) = Suc (ilen (numeral k div 2))" "ilen 1 = 1" "ilen 0 = 0"
  by (simp add: ilen.simps [of "numeral k"], simp add: ilen.simps [of 1] ilen.simps [of 0],
      simp add: ilen.simps [of 0])

lemma ilen_lower: "n > 0 \<Longrightarrow> (2::rat) powi (int (ilen n) - 1) \<le> of_int n"
proof -
  assume n: "n > 0"
  from ilen_pos_bounds [OF n] have "(2::int) ^ (ilen n - 1) \<le> n" and "ilen n > 0" by auto
  then have "(of_int (2 ^ (ilen n - 1)) :: rat) \<le> of_int n" by (simp only: of_int_le_iff)
  moreover have "(2::rat) powi (int (ilen n) - 1) = of_int (2 ^ (ilen n - 1))"
    using \<open>ilen n > 0\<close> by (simp add: power_int_def nat_diff_distrib')
  ultimately show ?thesis by simp
qed

lemma ilen_upper: "n \<ge> 0 \<Longrightarrow> of_int n + 1 \<le> (2::rat) powi (int (ilen n))"
proof -
  assume n: "n \<ge> 0"
  have "n + 1 \<le> 2 ^ ilen n"
    using ilen_pos_bounds [of n] n by (cases "n = 0") auto
  then have "(of_int (n + 1) :: rat) \<le> of_int (2 ^ ilen n)" by (simp only: of_int_le_iff)
  then show ?thesis by simp
qed

lemma ilog2_lower: "q > 0 \<Longrightarrow> 2 powi (ilog2 q) \<le> q"
proof (cases "1 \<le> q")
  case True
  then have "\<lfloor>q\<rfloor> > 0" by (simp add: less_floor_iff)
  then have "(2::rat) powi (int (ilen \<lfloor>q\<rfloor>) - 1) \<le> of_int \<lfloor>q\<rfloor>" by (rule ilen_lower)
  also have "of_int \<lfloor>q\<rfloor> \<le> q" by (rule of_int_floor_le)
  finally show ?thesis using True by (simp add: ilog2_def)
next
  case False
  assume q: "q > 0"
  with False have c: "\<lceil>1 / q\<rceil> - 1 \<ge> 0" by simp
  have "1 / q \<le> of_int (\<lceil>1 / q\<rceil> - 1) + 1" using le_of_int_ceiling [of "1 / q"] by simp
  also have "\<dots> \<le> 2 powi (int (ilen (\<lceil>1 / q\<rceil> - 1)))" using ilen_upper [OF c] .
  finally have "1 / q \<le> 2 powi (int (ilen (\<lceil>1 / q\<rceil> - 1)))" .
  then have "inverse (2 powi (int (ilen (\<lceil>1 / q\<rceil> - 1)))) \<le> inverse (1 / q)"
    using q by (intro le_imp_inverse_le) simp_all
  with q False show ?thesis by (simp add: ilog2_def power_int_minus)
qed

lemma ilog2_upper: "q > 0 \<Longrightarrow> q < 2 powi (ilog2 q + 1)"
proof (cases "1 \<le> q")
  case True
  then have f: "\<lfloor>q\<rfloor> \<ge> 0" by simp
  have "q < of_int \<lfloor>q\<rfloor> + 1" using floor_correct [of q] by simp
  also have "\<dots> \<le> 2 powi (int (ilen \<lfloor>q\<rfloor>))" using ilen_upper [OF f] .
  finally show ?thesis using True by (simp add: ilog2_def)
next
  case False
  assume q: "q > 0"
  let ?n = "\<lceil>1 / q\<rceil> - 1"
  from q False have "1 < 1 / q" by simp
  then have n: "?n > 0" by (simp add: less_ceiling_iff)
  have "(2::rat) powi (int (ilen ?n) - 1) \<le> of_int ?n" using ilen_lower [OF n] .
  also have "of_int ?n < 1 / q" using ceiling_correct [of "1 / q"] by simp
  finally have lt: "(2::rat) powi (int (ilen ?n) - 1) < 1 / q" .
  then have "inverse (1 / q) < inverse (2 powi (int (ilen ?n) - 1))"
    by (intro less_imp_inverse_less) simp_all
  then have "q < inverse (2 powi (int (ilen ?n) - 1))" by simp
  also have "inverse ((2::rat) powi (int (ilen ?n) - 1)) = 2 powi (- (int (ilen ?n) - 1))"
    by (simp only: power_int_minus)
  finally show ?thesis using False by (simp add: ilog2_def)
qed

lemma powi2_mono: "a \<le> b \<Longrightarrow> (2::rat) powi a \<le> 2 powi b"
  by (rule power_int_increasing) simp_all

lemma powi2_less_iff: "(2::rat) powi a < 2 powi b \<longleftrightarrow> a < b"
  by (metis linorder_not_le powi2_mono power_int_strict_increasing one_less_numeral_iff semiring_norm(76))

lemma ilog2_mono: "0 < q \<Longrightarrow> q \<le> r \<Longrightarrow> ilog2 q \<le> ilog2 r"
proof -
  assume "0 < q" and "q \<le> r"
  then have "(2::rat) powi (ilog2 q) < 2 powi (ilog2 r + 1)"
    using ilog2_lower [of q] ilog2_upper [of r] by linarith
  then show ?thesis by (simp add: powi2_less_iff)
qed

lemma ilog2_unique: "2 powi k \<le> q \<Longrightarrow> q < 2 powi (k + 1) \<Longrightarrow> ilog2 q = k"
proof -
  assume a: "2 powi k \<le> q" "q < 2 powi (k + 1)"
  have "(0::rat) < 2 powi k" by simp
  with a have q: "q > 0" by linarith
  have "(2::rat) powi k < 2 powi (ilog2 q + 1)" using a ilog2_upper [OF q] by linarith
  moreover have "(2::rat) powi (ilog2 q) < 2 powi (k + 1)" using a ilog2_lower [OF q] by linarith
  ultimately show ?thesis by (simp add: powi2_less_iff)
qed

lemma ulp_exp_minus [simp]: "ulp_exp (- q) = ulp_exp q"
  by (simp add: ulp_exp_def)

lemma ulp_exp_mono: "0 < q \<Longrightarrow> q \<le> r \<Longrightarrow> ulp_exp q \<le> ulp_exp r"
  using ilog2_mono [of q r] by (simp add: ulp_exp_def)

lemma rnd_val_0 [simp]: "rnd_val 0 = 0"
  by (simp add: rnd_val_def)

lemma rnd_val_minus: "rnd_val (- q) = - rnd_val q"
  by (simp add: rnd_val_def Let_def half_even_minus)

lemma rnd_val_nonneg: "0 \<le> q \<Longrightarrow> 0 \<le> rnd_val q"
proof -
  assume "0 \<le> q"
  then have "0 \<le> half_even (q / 2 powi (ulp_exp q))"
    using half_even_mono [of 0 "q / 2 powi (ulp_exp q)"] half_even_of_int [of 0] by simp
  then show ?thesis by (simp add: rnd_val_def Let_def)
qed

text \<open>A value with at most 53 significant bits in the exponent range is not changed.\<close>

lemma ulp_exp_le:
  assumes "0 < \<bar>q\<bar>" and "\<bar>q\<bar> < 2 powi (e + 53)" and "-1074 \<le> e"
  shows "ulp_exp q \<le> e"
proof -
  have "(2::rat) powi (ilog2 \<bar>q\<bar>) < 2 powi (e + 53)"
    using ilog2_lower [OF assms(1)] assms(2) by linarith
  with assms(3) show ?thesis by (simp add: powi2_less_iff ulp_exp_def)
qed

lemma powi2_split: "a \<le> b \<Longrightarrow> (2::rat) powi b = of_int (2 ^ nat (b - a)) * 2 powi a"
proof -
  assume "a \<le> b"
  have "(2::rat) powi b = 2 powi ((b - a) + a)" by simp
  also have "\<dots> = 2 powi (b - a) * 2 powi a" using power_int_add [of "2::rat" "b - a" a] by simp
  finally show ?thesis using \<open>a \<le> b\<close> by (simp add: power_int_def)
qed

lemma rnd_val_grid:
  assumes "ulp_exp (of_int m * 2 powi e) \<le> e"
  shows "rnd_val (of_int m * 2 powi e) = of_int m * 2 powi e"
proof -
  let ?q = "of_int m * (2::rat) powi e"
  have "?q = of_int (m * 2 ^ nat (e - ulp_exp ?q)) * 2 powi (ulp_exp ?q)"
    using powi2_split [OF assms] by simp
  then have "?q / 2 powi (ulp_exp ?q) = of_int (m * 2 ^ nat (e - ulp_exp ?q))"
    by (metis nonzero_mult_div_cancel_right power_int_not_zero zero_neq_numeral)
  then show ?thesis
    unfolding rnd_val_def Let_def
    by (metis half_even_of_int nonzero_eq_divide_eq power_int_not_zero zero_neq_numeral)
qed

lemma scaled_half_even_le:
  assumes "0 < q" and "q \<le> of_int k * 2 powi (ulp_exp q)"
  shows "rnd_val q \<le> of_int k * 2 powi (ulp_exp q)"
proof -
  have "q / 2 powi (ulp_exp q) \<le> of_int k" using assms(2) by (simp add: divide_le_eq)
  then have "half_even (q / 2 powi (ulp_exp q)) \<le> k"
    using half_even_mono [of _ "of_int k"] half_even_of_int [of k] by fastforce
  with assms(1) show ?thesis by (simp add: rnd_val_def Let_def)
qed

lemma scaled_half_even_ge:
  assumes "0 < q" and "of_int k * 2 powi (ulp_exp q) \<le> q"
  shows "of_int k * 2 powi (ulp_exp q) \<le> rnd_val q"
proof -
  have "of_int k \<le> q / 2 powi (ulp_exp q)" using assms(2) by (simp add: le_divide_eq)
  then have "k \<le> half_even (q / 2 powi (ulp_exp q))"
    using half_even_mono [of "of_int k"] half_even_of_int [of k] by fastforce
  with assms(1) show ?thesis by (simp add: rnd_val_def Let_def)
qed

lemma ulp_exp_upper: "0 < q \<Longrightarrow> q < 2 powi (ulp_exp q + 53)"
proof -
  assume q: "0 < q"
  have "q < 2 powi (ilog2 q + 1)" using ilog2_upper [OF q] .
  also have "\<dots> \<le> (2::rat) powi (ulp_exp q + 53)" using q by (intro powi2_mono) (simp add: ulp_exp_def)
  finally show ?thesis .
qed

lemma ulp_exp_lower: "0 < q \<Longrightarrow> -1074 < ulp_exp q \<Longrightarrow> 2 powi (ulp_exp q + 52) \<le> q"
  using ilog2_lower [of q] by (simp add: ulp_exp_def split: if_splits)

lemma powi2_53: "(2::rat) powi (e + 53) = of_int (2 ^ 53) * 2 powi e"
  using powi2_split [of e "e + 53"] by simp

lemma powi2_52: "(2::rat) powi (e + 52) = of_int (2 ^ 52) * 2 powi e"
  using powi2_split [of e "e + 52"] by simp

lemma rnd_val_upper: "0 < q \<Longrightarrow> rnd_val q \<le> 2 powi (ulp_exp q + 53)"
  using scaled_half_even_le [where k = "2 ^ 53" and q = q] ulp_exp_upper [of q] powi2_53 [of "ulp_exp q"] by simp

lemma rnd_val_lower: "0 < q \<Longrightarrow> -1074 < ulp_exp q \<Longrightarrow> 2 powi (ulp_exp q + 52) \<le> rnd_val q"
  using scaled_half_even_ge [where k = "2 ^ 52" and q = q] ulp_exp_lower [of q] powi2_52 [of "ulp_exp q"] by simp

lemma rnd_val_mono_pos:
  assumes "0 < q" and "q \<le> r"
  shows "rnd_val q \<le> rnd_val r"
proof (cases "ulp_exp q = ulp_exp r")
  case True
  have "q / 2 powi (ulp_exp r) \<le> r / 2 powi (ulp_exp r)" using assms by (simp add: divide_right_mono)
  then have "half_even (q / 2 powi (ulp_exp r)) \<le> half_even (r / 2 powi (ulp_exp r))"
    by (rule half_even_mono)
  with assms True show ?thesis by (simp add: rnd_val_def Let_def)
next
  case False
  with ulp_exp_mono [OF assms] have lt: "ulp_exp q + 53 \<le> ulp_exp r + 52" by simp
  moreover have "-1074 \<le> ulp_exp q" by (simp add: ulp_exp_def)
  ultimately have "-1074 < ulp_exp r" by simp
  with assms have "2 powi (ulp_exp r + 52) \<le> rnd_val r" by (intro rnd_val_lower) simp_all
  with rnd_val_upper [OF assms(1)] powi2_mono [OF lt] show ?thesis by linarith
qed

lemma rnd_val_mono:
  assumes "q \<le> r"
  shows "rnd_val q \<le> rnd_val r"
proof -
  consider "0 < q" | "q \<le> 0" "0 \<le> r" | "r < 0" by linarith
  then show ?thesis
  proof cases
    case 1
    with assms show ?thesis by (intro rnd_val_mono_pos)
  next
    case 2
    then have "rnd_val q \<le> 0" using rnd_val_nonneg [of "- q"] rnd_val_minus [of q] by simp
    with 2 rnd_val_nonneg [of r] show ?thesis by linarith
  next
    case 3
    with assms rnd_val_mono_pos [of "- r" "- q"] show ?thesis by (simp add: rnd_val_minus)
  qed
qed

lemma rnd_val_idem_pos: "0 < q \<Longrightarrow> rnd_val (rnd_val q) = rnd_val q"
proof -
  assume q: "0 < q"
  define e where "e = ulp_exp q"
  define m where "m = half_even (q / 2 powi e)"
  have v: "rnd_val q = of_int m * 2 powi e" using q by (simp add: rnd_val_def Let_def e_def m_def)
  have e: "-1074 \<le> e" by (simp add: e_def ulp_exp_def)
  have m0: "0 \<le> m" using rnd_val_nonneg [of q] q v
    by (simp add: zero_le_mult_iff) (metis leD zero_less_numeral zero_less_power_int)
  have "of_int m * 2 powi e \<le> of_int (2 ^ 53) * (2::rat) powi e"
    using rnd_val_upper [OF q] v powi2_53 [of e] by (simp add: e_def)
  then have m1: "m \<le> 2 ^ 53" by simp
  consider "m = 0" | "0 < m" "m < 2 ^ 53" | "m = 2 ^ 53" using m0 m1 by linarith
  then show ?thesis
  proof cases
    case 1
    with v show ?thesis by simp
  next
    case 2
    then have "of_int m * 2 powi e < of_int (2 ^ 53) * (2::rat) powi e"
      by (intro mult_strict_right_mono) simp_all
    with 2 have "ulp_exp (of_int m * 2 powi e) \<le> e"
      using powi2_53 [of e] e by (intro ulp_exp_le) (simp_all add: abs_mult)
    with v show ?thesis by (simp add: rnd_val_grid)
  next
    case 3
    have w: "rnd_val q = of_int 1 * 2 powi (e + 53)" using v 3 powi2_53 [of e] by simp
    have "ulp_exp (of_int 1 * 2 powi (e + 53)) \<le> e + 53"
      using e powi2_less_iff [of "e + 53" "e + 53 + 53"] by (intro ulp_exp_le) simp_all
    with w show ?thesis by (simp only: rnd_val_grid)
  qed
qed

lemma rnd_val_idem [simp]: "rnd_val (rnd_val q) = rnd_val q"
proof -
  consider "0 < q" | "q = 0" | "0 < - q" by linarith
  then show ?thesis
    by cases (use rnd_val_idem_pos [of q] rnd_val_idem_pos [of "- q"] in \<open>simp_all add: rnd_val_minus\<close>)
qed

lemma rnd_val_of_int:
  assumes "\<bar>k\<bar> \<le> 2 ^ 53"
  shows "rnd_val (of_int k) = of_int k"
proof (cases "k = 0 \<or> \<bar>k\<bar> = 2 ^ 53")
  case True
  have "ulp_exp (of_int 1 * 2 powi 53) \<le> 53"
    using powi2_less_iff [of 53 106] by (intro ulp_exp_le) simp_all
  then have "rnd_val (2 powi 53) = 2 powi 53" using rnd_val_grid [of 1 53] by simp
  then have "rnd_val (2 ^ 53) = 2 ^ 53" by (simp add: power_int_def)
  with True show ?thesis using rnd_val_minus [of "2 ^ 53"]
    by (auto simp: abs_if minus_equation_iff [of k] split: if_splits)
next
  case False
  have "ulp_exp (of_int k * 2 powi 0) \<le> 0"
  proof (rule ulp_exp_le)
    from False assms have "\<bar>k\<bar> < 2 ^ 53" by (metis order_le_less)
    then have "of_int \<bar>k\<bar> < (of_int (2 ^ 53) :: rat)" by (simp only: of_int_less_iff)
    then show "\<bar>of_int k * 2 powi 0\<bar> < (2::rat) powi (0 + 53)" by (simp add: power_int_def)
  qed (use False in simp_all)
  then show ?thesis using rnd_val_grid [of k 0] by simp
qed

lemma rnd_val_nonpos: "q \<le> 0 \<Longrightarrow> rnd_val q \<le> 0"
  using rnd_val_nonneg [of "- q"] by (simp add: rnd_val_minus)

section \<open>Facts about the numbers\<close>

lemma of_val_mono: "a \<le> b \<Longrightarrow> nle (of_val a) (of_val b)"
  by (auto simp: of_val_def)

lemma rnd_mono: "a \<le> b \<Longrightarrow> nle (rnd a) (rnd b)"
  by (simp add: rnd_def of_val_mono rnd_val_mono)

lemma rnd_not_NaN [simp]: "rnd q \<noteq> NaN" "NaN \<noteq> rnd q"
  by (simp_all add: rnd_def of_val_def)

lemma nle_refl [simp]: "nle a a \<longleftrightarrow> a \<noteq> NaN"
  by (cases a) auto

lemma nle_trans: "nle a b \<Longrightarrow> nle b c \<Longrightarrow> nle a c"
  by (cases a; cases b; cases c) auto

lemma nle_antisym: "nle a b \<Longrightarrow> nle b a \<Longrightarrow> a = b"
  by (cases a; cases b) auto

lemma nle_total: "a \<noteq> NaN \<Longrightarrow> b \<noteq> NaN \<Longrightarrow> nle a b \<or> nle b a"
  by (cases a; cases b) auto

lemma nlt_iff: "nlt a b \<longleftrightarrow> a \<noteq> NaN \<and> b \<noteq> NaN \<and> \<not> nle b a"
  by (cases a; cases b) auto

lemma nlt_nle: "nlt a b \<Longrightarrow> nle a b"
  by (cases a; cases b) auto

lemma nlt_trans: "nlt a b \<Longrightarrow> nlt b c \<Longrightarrow> nlt a c"
  by (cases a; cases b; cases c) auto

lemma nlt_irrefl [simp]: "\<not> nlt a a"
  by (cases a) auto

lemma nle_NaN [simp]: "\<not> nle NaN a" "\<not> nle a NaN" "\<not> nlt NaN a" "\<not> nlt a NaN"
  by (cases a; simp)+

lemma is_finite_iff: "is_finite a \<longleftrightarrow> (\<exists>q. a = Fin q)"
  by (cases a) auto

lemma rnd_0 [simp]: "rnd 0 = Fin 0"
  by (simp add: rnd_def of_val_def)

lemma rnd_of_int: "\<bar>k\<bar> \<le> 2 ^ 53 \<Longrightarrow> rnd (of_int k) = Fin (of_int k)"
proof -
  assume k: "\<bar>k\<bar> \<le> 2 ^ 53"
  have lt: "(2::int) ^ 53 < 2 ^ 1024" by (rule power_strict_increasing) simp_all
  from k lt have "k < 2 ^ 1024" "- (2 ^ 1024) < k" by linarith+
  then have "(of_int k :: rat) < of_int (2 ^ 1024)" "of_int (- (2 ^ 1024)) < (of_int k :: rat)"
    by (simp_all only: of_int_less_iff)
  with rnd_val_of_int [OF k] show ?thesis by (simp add: rnd_def of_val_def)
qed

lemma num_exact: "\<bar>k\<bar> \<le> 2 ^ 53 \<Longrightarrow> num k = Fin (of_int k)"
  by (simp add: num_def rnd_of_int)

lemma num_0 [simp]: "num 0 = Fin 0"
  by (simp add: num_def)

lemma rnd_numeral [number_simps]:
  "(numeral k :: int) \<le> 2 ^ 53 \<Longrightarrow> rnd (numeral k) = Fin (numeral k)"
  "(numeral k :: int) \<le> 2 ^ 53 \<Longrightarrow> rnd (- numeral k) = Fin (- numeral k)"
  "rnd 1 = Fin 1" "rnd (- 1) = Fin (- 1)"
  using rnd_of_int [of "numeral k"] rnd_of_int [of "- numeral k"] rnd_of_int [of 1] rnd_of_int [of "- 1"]
  by simp_all

lemma num_numeral [number_simps]:
  "(numeral k :: int) \<le> 2 ^ 53 \<Longrightarrow> num (numeral k) = Fin (numeral k)"
  "(numeral k :: int) \<le> 2 ^ 53 \<Longrightarrow> num (- numeral k) = Fin (- numeral k)"
  "num 1 = Fin 1" "num (- 1) = Fin (- 1)"
  using num_exact [of "numeral k"] num_exact [of "- numeral k"] num_exact [of 1] num_exact [of "- 1"]
  by simp_all

lemma rnd_idem: "rnd q = Fin v \<Longrightarrow> rnd v = Fin v"
  by (auto simp: rnd_def of_val_def split: if_splits)

lemma floor_fraction [number_simps]:
  "\<lfloor>numeral a / numeral b :: rat\<rfloor> = numeral a div numeral b"
  "\<lfloor>1 / numeral b :: rat\<rfloor> = 1 div numeral b"
  "\<lfloor>- (numeral a / numeral b) :: rat\<rfloor> = (- numeral a) div numeral b"
  "\<lfloor>- (1 / numeral b) :: rat\<rfloor> = (- 1) div numeral b"
  using floor_divide_of_int_eq [where ?'a = rat and k = "numeral a" and l = "numeral b"]
    floor_divide_of_int_eq [where ?'a = rat and k = 1 and l = "numeral b"]
    floor_divide_of_int_eq [where ?'a = rat and k = "- numeral a" and l = "numeral b"]
    floor_divide_of_int_eq [where ?'a = rat and k = "- 1" and l = "numeral b"]
  by simp_all

lemma ceiling_fraction [number_simps]:
  "\<lceil>numeral a / numeral b :: rat\<rceil> = - ((- numeral a) div numeral b)"
  "\<lceil>1 / numeral b :: rat\<rceil> = - ((- 1) div numeral b)"
  by (simp_all add: ceiling_def floor_fraction)

text \<open>What a client needs to know of the rounding: it is monotone and keeps the doubles.\<close>

locale rounding =
  fixes fl :: "rat \<Rightarrow> number"
  assumes mono: "a \<le> b \<Longrightarrow> nle (fl a) (fl b)"
    and kept: "fl q = Fin v \<Longrightarrow> fl v = Fin v"
    and odd: "fl (- q) = nneg (fl q)"
    and zero: "fl 0 = Fin 0"
begin

lemma lower: "fl a = Fin a \<Longrightarrow> a \<le> q \<Longrightarrow> nle (Fin a) (fl q)"
  using mono [of a q] by simp

lemma upper: "fl b = Fin b \<Longrightarrow> q \<le> b \<Longrightarrow> nle (fl q) (Fin b)"
  using mono [of q b] by simp

lemma between: "fl a = Fin a \<Longrightarrow> fl b = Fin b \<Longrightarrow> a \<le> q \<Longrightarrow> q \<le> b \<Longrightarrow> \<exists>v. fl q = Fin v \<and> a \<le> v \<and> v \<le> b"
  using lower [of a q] upper [of b q] by (cases "fl q") auto

lemma nonneg: "0 \<le> q \<Longrightarrow> nle (Fin 0) (fl q)"
  by (rule lower [OF zero])

end

lemma rnd_minus: "rnd (- q) = nneg (rnd q)"
  by (auto simp: rnd_def of_val_def rnd_val_minus)

interpretation double: rounding rnd
  by unfold_locales (simp_all add: rnd_mono rnd_idem rnd_minus)

lemma nadd_nonneg: "nle (Fin 0) a \<Longrightarrow> nle (Fin 0) b \<Longrightarrow> nle (Fin 0) (nadd a b)"
  by (cases a; cases b) (auto intro: double.nonneg)

lemma nneg_nneg [simp]: "nneg (nneg a) = a"
  by (cases a) auto

lemma nadd_commute: "nadd a b = nadd b a"
  by (cases a; cases b) (auto simp: add.commute)

lemma nadd_nneg: "nadd (nneg a) (nneg b) = nneg (nadd a b)"
  by (cases a; cases b) (auto simp: rnd_minus [symmetric])

lemma ndiv_nonneg: "nle (Fin 0) a \<Longrightarrow> nle (Fin 0) b \<Longrightarrow> ndiv a b = NaN \<or> nle (Fin 0) (ndiv a b)"
  by (cases a; cases b) (auto simp: inf_of_sign_def intro: double.nonneg)

text \<open>Subtraction of doubles is zero only for equal ones: the grid of the subnormals is fine enough.\<close>

definition tiny :: rat where
  "tiny = 2 powi (- 1074)"

lemma tiny_pos: "0 < tiny"
  by (simp add: tiny_def)

lemma rnd_tiny: "rnd tiny = Fin tiny"
proof -
  have e: "- 1074 + 53 = (- 1021 :: int)" by simp
  have "ulp_exp (of_int 1 * tiny) \<le> - 1074"
    unfolding tiny_def by (intro ulp_exp_le) (simp_all only: e, simp_all add: powi2_less_iff)
  then have "rnd_val (of_int 1 * tiny) = of_int 1 * tiny" unfolding tiny_def by (rule rnd_val_grid)
  moreover have "tiny \<le> 2 powi 0" unfolding tiny_def by (rule powi2_mono) simp
  then have "tiny \<le> 1" by simp
  moreover have "(1::rat) < 2 ^ 1024" by (rule one_less_power) simp_all
  ultimately show ?thesis using tiny_pos by (simp add: rnd_def of_val_def)
qed

lemma double_grid_tiny:
  assumes "rnd q = Fin q"
  obtains m where "q = of_int m * tiny"
proof (cases "q = 0")
  case True
  then show ?thesis using that [of 0] by simp
next
  case False
  define e where "e = ulp_exp q"
  have e: "- 1074 \<le> e" by (simp add: e_def ulp_exp_def)
  define h where "h = half_even (q / 2 powi e)"
  have "rnd_val q = q" using assms by (auto simp: rnd_def of_val_def split: if_splits)
  then have "q = of_int h * 2 powi e" using False by (simp add: rnd_val_def Let_def e_def h_def)
  also have "\<dots> = of_int (h * 2 ^ nat (e - - 1074)) * tiny"
    using powi2_split [OF e] by (simp add: tiny_def)
  finally show ?thesis by (rule that)
qed

lemma nsub_double_pos:
  assumes "rnd a = Fin a" "rnd b = Fin b" "a < b"
  shows "nlt (Fin 0) (nsub (Fin b) (Fin a))"
proof -
  obtain m where m: "a = of_int m * tiny" using double_grid_tiny [OF assms(1)] .
  obtain n where n: "b = of_int n * tiny" using double_grid_tiny [OF assms(2)] .
  have "of_int m * tiny < of_int n * tiny" using assms(3) m n by simp
  then have "m + 1 \<le> n" using tiny_pos by simp
  then have "of_int (m + 1) * tiny \<le> of_int n * tiny" using tiny_pos by (simp only: mult_le_cancel_right of_int_le_iff) simp
  then have "tiny \<le> b - a" using m n by (simp add: algebra_simps)
  then have "nle (Fin tiny) (rnd (b - a))" by (rule double.lower [OF rnd_tiny])
  with tiny_pos show ?thesis by (cases "rnd (b - a)") (auto simp: nsub_def)
qed

end
