(* ===== verification/JsText.thy ===== *)
theory JsText
  imports JsNumber
begin

text \<open>
  JavaScript strings and their numbers: the string methods the modules call, the printing
  and reading of natural numbers, and \<^verbatim>\<open>String(x)\<close> of a number with the shortest digits
  that read back as the same double, in the four layouts of \<^verbatim>\<open>Number::toString\<close>.
\<close>

section \<open>String methods\<close>

definition is_space :: "char \<Rightarrow> bool" where
  "is_space c = ((of_char c :: nat) \<in> {9, 10, 11, 12, 13, 32, 160})"

definition trim :: "string \<Rightarrow> string" where
  "trim s = rev (dropWhile is_space (rev (dropWhile is_space s)))"

definition starts_with :: "string \<Rightarrow> string \<Rightarrow> bool" where
  "starts_with p s = (take (length p) s = p)"

definition ends_with :: "string \<Rightarrow> string \<Rightarrow> bool" where
  "ends_with p s = starts_with (rev p) (rev s)"

fun has_part :: "string \<Rightarrow> string \<Rightarrow> bool" where
  "has_part p [] = (p = [])"
| "has_part p (c # s) = (starts_with p (c # s) \<or> has_part p s)"

definition is_digit :: "char \<Rightarrow> bool" where
  "is_digit c = (48 \<le> (of_char c :: nat) \<and> of_char c \<le> (57 :: nat))"

definition is_lower :: "char \<Rightarrow> bool" where
  "is_lower c = (97 \<le> (of_char c :: nat) \<and> of_char c \<le> (122 :: nat))"

definition is_upper :: "char \<Rightarrow> bool" where
  "is_upper c = (65 \<le> (of_char c :: nat) \<and> of_char c \<le> (90 :: nat))"

definition lower_char :: "char \<Rightarrow> char" where
  "lower_char c = (if is_upper c then char_of (of_char c + 32 :: nat) else c)"

definition upper_char :: "char \<Rightarrow> char" where
  "upper_char c = (if is_lower c then char_of (of_char c - 32 :: nat) else c)"

definition to_lower :: "string \<Rightarrow> string" where
  "to_lower s = map lower_char s"

definition to_upper :: "string \<Rightarrow> string" where
  "to_upper s = map upper_char s"

text \<open>\<^verbatim>\<open>const [a, b] = s.split(c)\<close>: the part before the first \<open>c\<close> and the part up to the next.\<close>

definition before_char :: "char \<Rightarrow> string \<Rightarrow> string" where
  "before_char c s = takeWhile (\<lambda>x. x \<noteq> c) s"

definition second_part :: "char \<Rightarrow> string \<Rightarrow> string option" where
  "second_part c s = (case dropWhile (\<lambda>x. x \<noteq> c) s of [] \<Rightarrow> None | _ # r \<Rightarrow> Some (before_char c r))"

fun split_on :: "char \<Rightarrow> string \<Rightarrow> string list" where
  "split_on c [] = [[]]"
| "split_on c (x # s) = (if x = c then [] # split_on c s
     else (case split_on c s of [] \<Rightarrow> [[x]] | p # ps \<Rightarrow> (x # p) # ps))"

fun join_with :: "string \<Rightarrow> string list \<Rightarrow> string" where
  "join_with sep [] = []"
| "join_with sep [s] = s"
| "join_with sep (s # t # r) = s @ sep @ join_with sep (t # r)"

lemma starts_with_append [simp]: "starts_with p (p @ s)"
  by (simp add: starts_with_def)

lemma starts_with_iff: "starts_with p s \<longleftrightarrow> (\<exists>r. s = p @ r)"
  unfolding starts_with_def by (metis append_eq_conv_conj append_take_drop_id)

lemma split_on_append:
  "c \<notin> set p \<Longrightarrow> split_on c (p @ c # s) = p # split_on c s"
  by (induction p) auto

lemma split_on_single: "c \<notin> set p \<Longrightarrow> split_on c p = [p]"
  by (induction p) auto

lemma before_char_append: "c \<notin> set p \<Longrightarrow> before_char c (p @ c # s) = p"
  by (induction p) (auto simp: before_char_def)

lemma before_char_none: "c \<notin> set p \<Longrightarrow> before_char c p = p"
  by (auto simp: before_char_def takeWhile_eq_all_conv)

lemma second_part_append: "c \<notin> set p \<Longrightarrow> c \<notin> set s \<Longrightarrow> second_part c (p @ c # s) = Some s"
  by (induction p) (auto simp: second_part_def before_char_none)

lemma second_part_none: "c \<notin> set p \<Longrightarrow> second_part c p = None"
  by (induction p) (auto simp: second_part_def)

lemma of_char_inj: "(of_char c :: nat) = of_char d \<longleftrightarrow> c = d"
  by (metis char_of_char)

section \<open>Decimal digits\<close>

definition digit :: "nat \<Rightarrow> char" where
  "digit d = char_of (48 + d)"

definition digit_val :: "char \<Rightarrow> nat" where
  "digit_val c = of_char c - 48"

fun show_nat :: "nat \<Rightarrow> string" where
  "show_nat n = (if n < 10 then [digit n] else show_nat (n div 10) @ [digit (n mod 10)])"

declare show_nat.simps [simp del]

definition read_nat :: "string \<Rightarrow> nat" where
  "read_nat s = foldl (\<lambda>a c. 10 * a + digit_val c) 0 s"

definition show_int :: "int \<Rightarrow> string" where
  "show_int i = (if i < 0 then ''-'' @ show_nat (nat (- i)) else show_nat (nat i))"

fun read_signed :: "string \<Rightarrow> int" where
  "read_signed [] = 0"
| "read_signed (c # s) = (if c = CHR ''-'' then - int (read_nat s)
     else if c = CHR ''+'' then int (read_nat s) else int (read_nat (c # s)))"

definition unsign :: "string \<Rightarrow> string" where
  "unsign s = (if starts_with ''-'' s \<or> starts_with ''+'' s then drop 1 s else s)"

lemma of_char_digit: "d < 10 \<Longrightarrow> (of_char (digit d) :: nat) = 48 + d"
  by (simp add: digit_def)

lemma digit_val_digit [simp]: "d < 10 \<Longrightarrow> digit_val (digit d) = d"
  by (simp add: digit_val_def of_char_digit)

lemma is_digit_digit [simp]: "d < 10 \<Longrightarrow> is_digit (digit d)"
  by (simp add: is_digit_def of_char_digit)

lemma read_nat_Nil [simp]: "read_nat [] = 0"
  by (simp add: read_nat_def)

lemma read_nat_snoc [simp]: "read_nat (s @ [c]) = 10 * read_nat s + digit_val c"
  by (simp add: read_nat_def)

lemma read_nat_append: "read_nat (s @ t) = read_nat s * 10 ^ length t + read_nat t"
proof (induction t rule: rev_induct)
  case Nil
  then show ?case by simp
next
  case (snoc c t)
  then show ?case
    using read_nat_snoc [of "s @ t" c] by (simp del: read_nat_snoc add: algebra_simps read_nat_snoc [of t])
qed

lemma read_show_nat [simp]: "read_nat (show_nat n) = n"
proof (induction n rule: show_nat.induct)
  case (1 n)
  then show ?case
  proof (cases "n < 10")
    case True
    then show ?thesis using read_nat_snoc [of "[]" "digit n"]
      by (simp del: read_nat_snoc add: show_nat.simps [of n])
  next
    case False
    with 1 show ?thesis by (simp add: show_nat.simps [of n])
  qed
qed

lemma show_nat_digits: "\<forall>c\<in>set (show_nat n). is_digit c"
proof (induction n rule: show_nat.induct)
  case (1 n)
  then show ?case by (cases "n < 10") (simp_all add: show_nat.simps [of n])
qed

lemma show_nat_not_Nil [simp]: "show_nat n \<noteq> []"
  by (simp add: show_nat.simps [of n])

lemma show_nat_inj [simp]: "show_nat m = show_nat n \<longleftrightarrow> m = n"
  by (metis read_show_nat)

lemma show_nat_hd: "n > 0 \<Longrightarrow> hd (show_nat n) \<noteq> digit 0"
proof (induction n rule: show_nat.induct)
  case (1 n)
  show ?case
  proof (cases "n < 10")
    case True
    with 1(2) have "digit n \<noteq> digit 0"
      by (metis digit_val_digit less_numeral_extra(3) zero_less_numeral)
    with True show ?thesis by (simp add: show_nat.simps [of n])
  next
    case False
    with 1 show ?thesis by (simp add: show_nat.simps [of n])
  qed
qed

lemma read_nat_zeros [simp]: "read_nat (replicate k (digit 0)) = 0"
proof (induction k)
  case (Suc k)
  have "replicate (Suc k) (digit 0) = replicate k (digit 0) @ [digit 0]"
    by (simp add: replicate_append_same)
  with Suc show ?case by (simp del: replicate.simps)
qed simp

section \<open>Printing a number\<close>

text \<open>The decimal exponent: \<open>10 powi (n - 1) \<le> q < 10 powi n\<close> for \<open>n = dec_len q\<close>.\<close>

definition dec_len :: "rat \<Rightarrow> int" where
  "dec_len q = (if 1 \<le> q then int (length (show_nat (nat \<lfloor>q\<rfloor>)))
     else 1 - int (length (show_nat (nat (\<lceil>1 / q\<rceil> - 1)))))"

definition reads_as :: "rat \<Rightarrow> nat \<Rightarrow> int \<Rightarrow> bool" where
  "reads_as q s e = (rnd (of_nat s * 10 powi e) = Fin q)"

definition pick_digits :: "rat \<Rightarrow> nat \<Rightarrow> (nat \<times> int) option" where
  "pick_digits q k = (let e = dec_len q - int k; t = q / 10 powi e; f = nat \<lfloor>t\<rfloor> in
     if reads_as q f e \<and> (\<not> reads_as q (f + 1) e \<or> t - of_nat f \<le> 1 / 2) then Some (f, e)
     else if reads_as q (f + 1) e then Some (f + 1, e) else None)"

text \<open>
  The least digit count that reads back, up to 17, which always suffices for a double; the
  expansion with 1074 fractional digits, exact for every double, stands behind it.
\<close>

definition frac_digits :: nat where
  "frac_digits = 1074"

fun first_pick :: "rat \<Rightarrow> nat list \<Rightarrow> nat \<times> int" where
  "first_pick q [] = (nat \<lfloor>q * 10 ^ frac_digits\<rfloor>, - int frac_digits)"
| "first_pick q (k # ks) = (case pick_digits q k of Some r \<Rightarrow> r | None \<Rightarrow> first_pick q ks)"

fun strip_zeros :: "nat \<Rightarrow> int \<Rightarrow> nat \<times> int" where
  "strip_zeros s e = (if s > 0 \<and> s mod 10 = 0 then strip_zeros (s div 10) (e + 1) else (s, e))"

declare strip_zeros.simps [simp del]

definition shortest :: "rat \<Rightarrow> nat \<times> int" where
  "shortest q = (case first_pick q [1..<18] of (s, e) \<Rightarrow> strip_zeros s e)"

text \<open>The four layouts of \<^verbatim>\<open>Number::toString\<close> for the digits \<open>ds\<close> and the point position \<open>n\<close>.\<close>

definition zeros :: "nat \<Rightarrow> string" where
  "zeros k = replicate k (digit 0)"

definition layout :: "string \<Rightarrow> int \<Rightarrow> string" where
  "layout ds n = (let k = int (length ds) in
     if k \<le> n \<and> n \<le> 21 then ds @ zeros (nat (n - k))
     else if 0 < n \<and> n \<le> 21 then take (nat n) ds @ ''.'' @ drop (nat n) ds
     else if -6 < n \<and> n \<le> 0 then ''0.'' @ zeros (nat (- n)) @ ds
     else take 1 ds @ (if k = 1 then [] else ''.'' @ drop 1 ds) @ ''e'' @
       (if n - 1 < 0 then ''-'' else ''+'') @ show_nat (nat \<bar>n - 1\<bar>))"

definition show_pos :: "rat \<Rightarrow> string" where
  "show_pos q = (case shortest q of (s, e) \<Rightarrow>
     (let ds = show_nat s in layout ds (int (length ds) + e)))"

fun number_to_string :: "number \<Rightarrow> string" where
  "number_to_string NaN = ''NaN''"
| "number_to_string PInf = ''Infinity''"
| "number_to_string NInf = ''-Infinity''"
| "number_to_string (Fin q) = (if q = 0 then ''0'' else if q < 0 then ''-'' @ show_pos (- q) else show_pos q)"

lemma rnd_FinD: "rnd q = Fin v \<Longrightarrow> rnd_val q = v"
  by (auto simp: rnd_def of_val_def split: if_splits)

lemma double_grid:
  assumes "rnd q = Fin q" and d: "d = frac_digits"
  obtains m where "q * 10 ^ d = of_int m"
proof (cases "q = 0")
  case True
  then show ?thesis using that [of 0] by simp
next
  case False
  define e where "e = ulp_exp q"
  have e: "- int d \<le> e" by (simp add: e_def ulp_exp_def d frac_digits_def)
  define h where "h = half_even (q / 2 powi e)"
  have "q = of_int h * 2 powi e"
    using rnd_FinD [OF assms(1)] False by (simp add: rnd_val_def Let_def e_def h_def)
  also have "\<dots> = of_int (h * 2 ^ nat (e + int d)) * 2 powi (- int d)"
    using powi2_split [OF e] by simp
  finally have "q * 2 ^ d = of_int (h * 2 ^ nat (e + int d))"
    by (simp add: power_int_minus field_simps)
  moreover have "q * 10 ^ d = (q * 2 ^ d) * 5 ^ d"
    by (simp only: mult.assoc power_mult_distrib [symmetric]) simp
  ultimately have "q * 10 ^ d = of_int (h * 2 ^ nat (e + int d) * 5 ^ d)"
    by (simp only: of_int_mult of_int_power of_int_numeral)
  then show ?thesis by (rule that)
qed

lemma strip_zeros_value:
  "strip_zeros s e = (s', e') \<Longrightarrow> of_nat s' * (10::rat) powi e' = of_nat s * 10 powi e \<and> (0 < s \<longrightarrow> 0 < s')"
proof (induction s e rule: strip_zeros.induct)
  case (1 s e)
  show ?case
  proof (cases "s > 0 \<and> s mod 10 = 0")
    case True
    then have "s = s div 10 * 10" by auto
    then have "(of_nat s :: rat) = of_nat (s div 10) * 10" by (metis of_nat_mult of_nat_numeral)
    with True 1 show ?thesis by (auto simp: strip_zeros.simps [of s] power_int_add div_greater_zero_iff)
  next
    case False
    with 1 show ?thesis by (auto simp: strip_zeros.simps [of s])
  qed
qed

lemma reads_as_pos: "0 < q \<Longrightarrow> reads_as q s e \<Longrightarrow> 0 < s"
  by (cases "s = 0") (auto simp: reads_as_def)

lemma pick_digits_reads: "pick_digits q k = Some (s, e) \<Longrightarrow> reads_as q s e"
  by (auto simp: pick_digits_def Let_def split: if_splits)

lemma exact_digits_read:
  assumes "0 < q" and "rnd q = Fin q"
  shows "reads_as q (nat \<lfloor>q * 10 ^ frac_digits\<rfloor>) (- int frac_digits)"
proof -
  obtain m where m: "q * 10 ^ frac_digits = of_int m" using double_grid [OF assms(2) refl] .
  have "(0::rat) < q * 10 ^ frac_digits" using assms(1) by simp
  with m have "0 < m" by simp
  with m have "of_nat (nat \<lfloor>q * 10 ^ frac_digits\<rfloor>) * (10::rat) powi (- int frac_digits) = q"
    by (simp add: power_int_minus field_simps)
  with assms(2) show ?thesis by (simp add: reads_as_def)
qed

lemma first_pick_reads:
  "0 < q \<Longrightarrow> rnd q = Fin q \<Longrightarrow> first_pick q ks = (s, e) \<Longrightarrow> reads_as q s e"
  by (induction ks) (auto simp: exact_digits_read pick_digits_reads split: option.splits)

text \<open>The printed digits of a positive double read back as that double.\<close>

lemma shortest_reads:
  assumes "0 < q" and "rnd q = Fin q" and "shortest q = (s, e)"
  shows "rnd (of_nat s * 10 powi e) = Fin q" and "0 < s"
proof -
  obtain s0 e0 where f: "first_pick q [1..<18] = (s0, e0)" by fastforce
  then have z: "strip_zeros s0 e0 = (s, e)" using assms(3) by (simp add: shortest_def)
  have r: "reads_as q s0 e0" using first_pick_reads [OF assms(1,2) f] .
  then show "rnd (of_nat s * 10 powi e) = Fin q" using strip_zeros_value [OF z] by (simp add: reads_as_def)
  show "0 < s" using strip_zeros_value [OF z] reads_as_pos [OF assms(1) r] by simp
qed

section \<open>Reading a number\<close>

text \<open>\<^verbatim>\<open>Number(s)\<close> of a string: the decimal literals, the prefixed integers and infinity.\<close>

definition decimal_literal :: "string \<Rightarrow> rat option" where
  "decimal_literal t = (let u = unsign t; is_e = (\<lambda>c. c = CHR ''e'' \<or> c = CHR ''E'');
       m = takeWhile (\<lambda>c. \<not> is_e c) u; x = dropWhile (\<lambda>c. \<not> is_e c) u;
       w = before_char (CHR ''.'') m; f = drop 1 (dropWhile (\<lambda>c. c \<noteq> CHR ''.'') m);
       ok_x = (x = [] \<or> unsign (tl x) \<noteq> [] \<and> list_all is_digit (unsign (tl x)));
       e = (if x = [] then 0 else read_signed (tl x))
     in if w @ f \<noteq> [] \<and> list_all is_digit (w @ f) \<and> ok_x
        then Some ((if starts_with ''-'' t then -1 else 1) * of_nat (read_nat (w @ f)) * 10 powi (e - int (length f)))
        else None)"

definition radix_val :: "char \<Rightarrow> nat" where
  "radix_val c = (if is_digit c then digit_val c else if is_lower c then of_char c - 87
     else if is_upper c then of_char c - 55 else 36)"

definition radix_literal :: "nat \<Rightarrow> string \<Rightarrow> rat option" where
  "radix_literal b s = (if s \<noteq> [] \<and> list_all (\<lambda>c. radix_val c < b) s
     then Some (of_nat (foldl (\<lambda>a c. b * a + radix_val c) 0 s)) else None)"

definition string_to_number :: "string \<Rightarrow> number" where
  "string_to_number s = (let t = trim s; p = to_lower (take 2 t) in
     if t = [] then Fin 0
     else if t = ''Infinity'' \<or> t = ''+Infinity'' then PInf
     else if t = ''-Infinity'' then NInf
     else (case (if p = ''0x'' then radix_literal 16 (drop 2 t) else if p = ''0o'' then radix_literal 8 (drop 2 t)
                 else if p = ''0b'' then radix_literal 2 (drop 2 t) else decimal_literal t)
           of None \<Rightarrow> NaN | Some q \<Rightarrow> rnd q))"

end
