(* ===== verification/JsDate.thy ===== *)
theory JsDate
  imports JsText
begin

text \<open>
  Dates: \<^verbatim>\<open>Date.parse\<close> on the ECMAScript date-time string format and \<^verbatim>\<open>toISOString\<close>, by
  the day-from-year arithmetic of the language standard. An instant is an integer of
  milliseconds since 1970; a string outside the format gives \<^verbatim>\<open>NaN\<close>, here \<open>None\<close>. A
  date-time without an offset is read as UTC, the zone of the containers.
\<close>

section \<open>Days, years and months\<close>

definition day_from_year :: "int \<Rightarrow> int" where
  "day_from_year y = 365 * (y - 1970) + (y - 1969) div 4 - (y - 1901) div 100 + (y - 1601) div 400"

definition year_from_day :: "int \<Rightarrow> int" where
  "year_from_day d = (let y = 1970 + d * 400 div 146097 in
     if d < day_from_year y then y - 1 else if day_from_year (y + 1) \<le> d then y + 1 else y)"

definition is_leap :: "int \<Rightarrow> bool" where
  "is_leap y = (y mod 4 = 0 \<and> (y mod 100 \<noteq> 0 \<or> y mod 400 = 0))"

definition month_start :: "int \<Rightarrow> int \<Rightarrow> int" where
  "month_start y m = (let l = (if is_leap y then 1 else 0) in
     if m \<le> 1 then 0 else if m = 2 then 31 else if m = 3 then 59 + l else if m = 4 then 90 + l
     else if m = 5 then 120 + l else if m = 6 then 151 + l else if m = 7 then 181 + l
     else if m = 8 then 212 + l else if m = 9 then 243 + l else if m = 10 then 273 + l
     else if m = 11 then 304 + l else 334 + l)"

definition month_of :: "int \<Rightarrow> int \<Rightarrow> int" where
  "month_of y n = (if n < month_start y 2 then 1 else if n < month_start y 3 then 2
     else if n < month_start y 4 then 3 else if n < month_start y 5 then 4
     else if n < month_start y 6 then 5 else if n < month_start y 7 then 6
     else if n < month_start y 8 then 7 else if n < month_start y 9 then 8
     else if n < month_start y 10 then 9 else if n < month_start y 11 then 10
     else if n < month_start y 12 then 11 else 12)"

definition day_of_ymd :: "int \<Rightarrow> int \<Rightarrow> int \<Rightarrow> int" where
  "day_of_ymd y m d = day_from_year y + month_start y m + d - 1"

lemma div_window: "(0::int) < c \<Longrightarrow> c * (a div c) \<le> a \<and> a < c * (a div c) + c"
  using mult_div_mod_eq [of c a] pos_mod_bound [of c a] pos_mod_sign [of c a] by linarith

lemma year_from_day_bounds:
  "day_from_year (year_from_day d) \<le> d \<and> d < day_from_year (year_from_day d + 1)"
proof -
  define y where "y = 1970 + d * 400 div 146097"
  have w: "146097 * (y - 1970) \<le> d * 400" "d * 400 < 146097 * (y - 1970) + 146097"
    using div_window [of 146097 "d * 400"] by (simp_all add: y_def)
  have "day_from_year (y - 1) \<le> d" "d < day_from_year (y + 2)"
    using w div_window [of 4 "y - 1 - 1969"] div_window [of 100 "y - 1 - 1901"]
      div_window [of 400 "y - 1 - 1601"] div_window [of 4 "y + 2 - 1969"]
      div_window [of 100 "y + 2 - 1901"] div_window [of 400 "y + 2 - 1601"]
    by (simp_all add: day_from_year_def)
  then show ?thesis
    by (auto simp: year_from_day_def Let_def y_def [symmetric] algebra_simps)
qed

lemma div_step: "0 < c \<Longrightarrow> (x + 1) div c - x div c = (if (x + 1) mod c = 0 then 1 else (0::int))"
proof -
  assume c: "0 < c"
  define q r where "q = x div c" and "r = x mod c"
  have x: "x = q * c + r" and r: "0 \<le> r" "r < c" using c by (simp_all add: q_def r_def)
  show ?thesis
  proof (cases "r + 1 = c")
    case True
    then have "x + 1 = (q + 1) * c" using x by (simp add: algebra_simps)
    with c show ?thesis by (simp only: nonzero_mult_div_cancel_right mod_mult_self2_is_0) (simp add: q_def)
  next
    case False
    with r have "(x + 1) div c = q" "(x + 1) mod c = r + 1"
      using x int_div_pos_eq [of "x + 1" c q "r + 1"] int_mod_pos_eq [of "x + 1" c q "r + 1"]
      by (simp_all add: mult.commute)
    with r show ?thesis by (simp add: q_def)
  qed
qed

lemma shifted_mod: "c dvd k \<Longrightarrow> ((y::int) - k) mod c = y mod c"
  by (metis mod_diff_right_eq dvd_imp_mod_0 diff_zero)

lemma year_length: "day_from_year (y + 1) - day_from_year y = (if is_leap y then 366 else 365)"
proof -
  have a: "(y + 1 - 1969) div 4 - (y - 1969) div 4 = (if y mod 4 = 0 then 1 else 0)"
    using div_step [of 4 "y - 1969"] shifted_mod [of 4 1968 y] by (simp add: algebra_simps)
  have b: "(y + 1 - 1901) div 100 - (y - 1901) div 100 = (if y mod 100 = 0 then 1 else 0)"
    using div_step [of 100 "y - 1901"] shifted_mod [of 100 1900 y] by (simp add: algebra_simps)
  have c: "(y + 1 - 1601) div 400 - (y - 1601) div 400 = (if y mod 400 = 0 then 1 else 0)"
    using div_step [of 400 "y - 1601"] shifted_mod [of 400 1600 y] by (simp add: algebra_simps)
  have d: "y mod 400 = 0 \<Longrightarrow> y mod 100 = 0" "y mod 100 = 0 \<Longrightarrow> y mod 4 = 0"
    using mod_mod_cancel [of 100 400 y] mod_mod_cancel [of 4 100 y] by simp_all
  have "day_from_year (y + 1) - day_from_year y = 365 + ((y + 1 - 1969) div 4 - (y - 1969) div 4)
      - ((y + 1 - 1901) div 100 - (y - 1901) div 100) + ((y + 1 - 1601) div 400 - (y - 1601) div 400)"
    by (simp add: day_from_year_def)
  moreover have "365 + (if p then 1 else 0) - (if q then 1 else 0) + (if r then 1 else 0)
      = (if p \<and> (\<not> q \<or> r) then 366 else (365::int))" if "r \<longrightarrow> q" "q \<longrightarrow> p" for p q r
    using that by (cases p; cases q; cases r; simp)
  note this [of "y mod 400 = 0" "y mod 100 = 0" "y mod 4 = 0"]
  ultimately show ?thesis unfolding a b c is_leap_def using d by metis
qed

lemma month_start_at:
  "month_start y 1 = 0" "month_start y 2 = 31" "month_start y 3 = 59 + (if is_leap y then 1 else 0)"
  "month_start y 4 = 90 + (if is_leap y then 1 else 0)" "month_start y 5 = 120 + (if is_leap y then 1 else 0)"
  "month_start y 6 = 151 + (if is_leap y then 1 else 0)" "month_start y 7 = 181 + (if is_leap y then 1 else 0)"
  "month_start y 8 = 212 + (if is_leap y then 1 else 0)" "month_start y 9 = 243 + (if is_leap y then 1 else 0)"
  "month_start y 10 = 273 + (if is_leap y then 1 else 0)" "month_start y 11 = 304 + (if is_leap y then 1 else 0)"
  "month_start y 12 = 334 + (if is_leap y then 1 else 0)"
  by (simp_all add: month_start_def Let_def)

lemma month_bounds:
  assumes "0 \<le> n" "n < (if is_leap y then 366 else 365)"
  shows "1 \<le> month_of y n" "month_of y n \<le> 12" "0 \<le> n - month_start y (month_of y n)"
    "n - month_start y (month_of y n) < 31"
proof -
  have "1 \<le> k \<and> k \<le> 12 \<and> 0 \<le> n - month_start y k \<and> n - month_start y k < 31" if "k = month_of y n" for k
    using assms that
    by (cases "is_leap y"; simp only: month_of_def month_start_at if_True if_False simp_thms
        split: if_split_asm) (simp_all add: month_start_at)
  then show "1 \<le> month_of y n" "month_of y n \<le> 12" "0 \<le> n - month_start y (month_of y n)"
    "n - month_start y (month_of y n) < 31" by blast+
qed

section \<open>Printing\<close>

definition pad2 :: "nat \<Rightarrow> string" where
  "pad2 n = [digit (n div 10 mod 10), digit (n mod 10)]"

definition pad3 :: "nat \<Rightarrow> string" where
  "pad3 n = [digit (n div 100 mod 10), digit (n div 10 mod 10), digit (n mod 10)]"

definition pad4 :: "nat \<Rightarrow> string" where
  "pad4 n = [digit (n div 1000 mod 10), digit (n div 100 mod 10), digit (n div 10 mod 10), digit (n mod 10)]"

definition ms_per_day :: int where
  "ms_per_day = 86400000"

text \<open>\<^verbatim>\<open>new Date(t).toISOString()\<close> for an instant of the years 0 to 9999.\<close>

definition to_iso :: "int \<Rightarrow> string" where
  "to_iso t = (let day = t div ms_per_day; ms = t mod ms_per_day;
       y = year_from_day day; n = day - day_from_year y; m = month_of y n; d = n - month_start y m + 1
     in pad4 (nat y) @ ''-'' @ pad2 (nat m) @ ''-'' @ pad2 (nat d) @ ''T'' @
        pad2 (nat (ms div 3600000)) @ '':'' @ pad2 (nat (ms div 60000 mod 60)) @ '':'' @
        pad2 (nat (ms div 1000 mod 60)) @ ''.'' @ pad3 (nat (ms mod 1000)) @ ''Z'')"

section \<open>Parsing\<close>

definition num_at :: "string \<Rightarrow> nat \<Rightarrow> nat \<Rightarrow> int option" where
  "num_at s i n = (let p = take n (drop i s) in
     if length p = n \<and> list_all is_digit p then Some (int (read_nat p)) else None)"

definition char_at :: "string \<Rightarrow> nat \<Rightarrow> char \<Rightarrow> bool" where
  "char_at s i c = (i < length s \<and> s ! i = c)"

text \<open>The zone designator: the milliseconds to subtract from the local reading.\<close>

definition parse_zone :: "string \<Rightarrow> int option" where
  "parse_zone s = (if s = [] \<or> s = ''Z'' then Some 0
     else if length s = 6 \<and> char_at s 3 (CHR '':'') \<and> (char_at s 0 (CHR ''+'') \<or> char_at s 0 (CHR ''-'')) then
       (case (num_at s 1 2, num_at s 4 2) of
          (Some h, Some m) \<Rightarrow> if h < 24 \<and> m < 60
            then Some ((if char_at s 0 (CHR ''+'') then 1 else -1) * (h * 3600000 + m * 60000)) else None
        | _ \<Rightarrow> None)
     else None)"

definition parse_fraction :: "string \<Rightarrow> (int \<times> string) option" where
  "parse_fraction s = (if char_at s 0 (CHR ''.'') then
       (let ds = takeWhile is_digit (drop 1 s) in
        if ds = [] then None
        else Some (int (read_nat (take 3 (ds @ ''00''))), drop (1 + length ds) s))
     else Some (0, s))"

definition parse_seconds :: "string \<Rightarrow> (int \<times> string) option" where
  "parse_seconds s = (if char_at s 0 (CHR '':'') then
       (case num_at s 1 2 of None \<Rightarrow> None
        | Some sec \<Rightarrow> (case parse_fraction (drop 3 s) of None \<Rightarrow> None
            | Some (ms, r) \<Rightarrow> if sec < 60 then Some (sec * 1000 + ms, r) else None))
     else Some (0, s))"

definition parse_time :: "string \<Rightarrow> int option" where
  "parse_time s = (if s = [] then Some 0
     else if char_at s 0 (CHR ''T'') \<and> char_at s 3 (CHR '':'') then
       (case (num_at s 1 2, num_at s 4 2, parse_seconds (drop 6 s)) of
          (Some h, Some m, Some (ms, r)) \<Rightarrow>
            (case parse_zone r of None \<Rightarrow> None
             | Some z \<Rightarrow> if (h < 24 \<and> m < 60) \<or> (h = 24 \<and> m = 0 \<and> ms = 0)
                 then Some (h * 3600000 + m * 60000 + ms - z) else None)
        | _ \<Rightarrow> None)
     else None)"

definition date_parse :: "string \<Rightarrow> int option" where
  "date_parse s = (case (num_at s 0 4, num_at s 5 2, num_at s 8 2) of
       (Some y, Some m, Some d) \<Rightarrow>
         if char_at s 4 (CHR ''-'') \<and> char_at s 7 (CHR ''-'') \<and> 1 \<le> m \<and> m \<le> 12 \<and> 1 \<le> d \<and> d \<le> 31
         then map_option (\<lambda>t. day_of_ymd y m d * ms_per_day + t) (parse_time (drop 10 s)) else None
     | _ \<Rightarrow> None)"

lemma read_nat_cons2: "read_nat [a, b] = 10 * digit_val a + digit_val b"
  and read_nat_cons3: "read_nat [a, b, c] = 100 * digit_val a + 10 * digit_val b + digit_val c"
  and read_nat_cons4: "read_nat [a, b, c, d] = 1000 * digit_val a + 100 * digit_val b + 10 * digit_val c + digit_val d"
  by (simp_all add: read_nat_def)

lemma decimal_digits:
  "n < 1000 \<Longrightarrow> 100 * (n div 100 mod 10) + 10 * (n div 10 mod 10) + n mod 10 = (n::nat)"
  "n < 10000 \<Longrightarrow> 1000 * (n div 1000 mod 10) + 100 * (n div 100 mod 10) + 10 * (n div 10 mod 10) + n mod 10 = (n::nat)"
proof -
  have s: "10 * (k div 10) + k mod 10 = k" for k :: nat by simp
  have e: "n div 100 = n div 10 div 10" "n div 1000 = n div 10 div 10 div 10"
    by (simp_all add: div_mult2_eq [symmetric])
  have m: "n < 1000 \<Longrightarrow> n div 10 div 10 mod 10 = n div 10 div 10"
    "n < 10000 \<Longrightarrow> n div 10 div 10 div 10 mod 10 = n div 10 div 10 div 10" by simp_all
  have t2: "10 * a + x = n \<Longrightarrow> 10 * b + y = a \<Longrightarrow> 100 * b + 10 * y + x = n" for a b x y :: nat
    by linarith
  have t3: "10 * a + x = n \<Longrightarrow> 10 * b + y = a \<Longrightarrow> 10 * c + z = b \<Longrightarrow> 1000 * c + 100 * z + 10 * y + x = n"
    for a b c x y z :: nat by linarith
  show "n < 1000 \<Longrightarrow> 100 * (n div 100 mod 10) + 10 * (n div 10 mod 10) + n mod 10 = n"
    using t2 [OF s s] m(1) by (simp only: e)
  show "n < 10000 \<Longrightarrow> 1000 * (n div 1000 mod 10) + 100 * (n div 100 mod 10) + 10 * (n div 10 mod 10) + n mod 10 = n"
    using t3 [OF s s s] m(2) by (simp only: e)
qed

lemma read_pad: "n < 100 \<Longrightarrow> read_nat (pad2 n) = n" "n < 1000 \<Longrightarrow> read_nat (pad3 n) = n"
  "n < 10000 \<Longrightarrow> read_nat (pad4 n) = n"
  using decimal_digits [of n]
  by (simp_all add: pad2_def pad3_def pad4_def read_nat_cons2 read_nat_cons3 read_nat_cons4)

section \<open>Round trip\<close>

definition iso_range :: "int \<Rightarrow> bool" where
  "iso_range t = (0 \<le> year_from_day (t div ms_per_day) \<and> year_from_day (t div ms_per_day) \<le> 9999)"

lemma pad_digits: "list_all is_digit (pad2 n)" "list_all is_digit (pad3 n)" "list_all is_digit (pad4 n)"
  "length (pad2 n) = 2" "length (pad3 n) = 3" "length (pad4 n) = 4"
  by (simp_all add: pad2_def pad3_def pad4_def)

lemma num_at_append:
  "length p = i \<Longrightarrow> length q = n \<Longrightarrow> list_all is_digit q \<Longrightarrow> num_at (p @ q @ r) i n = Some (int (read_nat q))"
  by (auto simp: num_at_def Let_def)

lemma char_at_append: "length p = i \<Longrightarrow> char_at (p @ c # r) i d \<longleftrightarrow> c = d"
  by (auto simp: char_at_def nth_append)

definition clock_text :: "int \<Rightarrow> string" where
  "clock_text ms = ''T'' @ pad2 (nat (ms div 3600000)) @ '':'' @ pad2 (nat (ms div 60000 mod 60)) @ '':'' @
     pad2 (nat (ms div 1000 mod 60)) @ ''.'' @ pad3 (nat (ms mod 1000)) @ ''Z''"

lemma parse_fraction_text: "n < 1000 \<Longrightarrow> parse_fraction (''.'' @ pad3 n @ ''Z'') = Some (int n, ''Z'')"
  using read_pad(2) [of n] by (simp add: parse_fraction_def char_at_def pad3_def Let_def is_digit_def [of "CHR ''Z''"])

lemma parse_seconds_text:
  assumes "a < 60" "n < 1000"
  shows "parse_seconds ('':'' @ pad2 a @ ''.'' @ pad3 n @ ''Z'') = Some (int a * 1000 + int n, ''Z'')"
proof -
  have "num_at ('':'' @ pad2 a @ ''.'' @ pad3 n @ ''Z'') 1 2 = Some (int a)"
    using num_at_append [of "'':''" 1 "pad2 a" 2 "''.'' @ pad3 n @ ''Z''"] read_pad(1) [of a] assms
    by (simp add: pad_digits)
  moreover have "drop 3 ('':'' @ pad2 a @ ''.'' @ pad3 n @ ''Z'') = ''.'' @ pad3 n @ ''Z''"
    by (simp add: pad2_def)
  ultimately show ?thesis
    using parse_fraction_text [OF assms(2)] assms(1) by (simp add: parse_seconds_def char_at_def)
qed

lemma parse_time_text:
  assumes "h < 24" "m < 60" "a < 60" "n < 1000"
  shows "parse_time (''T'' @ pad2 h @ '':'' @ pad2 m @ '':'' @ pad2 a @ ''.'' @ pad3 n @ ''Z'') =
    Some (int h * 3600000 + int m * 60000 + int a * 1000 + int n)"
proof -
  let ?r = "'':'' @ pad2 a @ ''.'' @ pad3 n @ ''Z''"
  let ?s = "''T'' @ pad2 h @ '':'' @ pad2 m @ ?r"
  have "num_at ?s 1 2 = Some (int h)"
    using num_at_append [of "''T''" 1 "pad2 h" 2 "'':'' @ pad2 m @ ?r"] read_pad(1) [of h] assms
    by (simp add: pad_digits)
  moreover have "num_at ?s 4 2 = Some (int m)"
    using num_at_append [of "''T'' @ pad2 h @ '':''" 4 "pad2 m" 2 ?r] read_pad(1) [of m] assms
    by (simp add: pad_digits)
  moreover have "drop 6 ?s = ?r" by (simp add: pad2_def)
  moreover have "char_at ?s 0 (CHR ''T'')" "char_at ?s 3 (CHR '':'')"
    by (simp_all add: char_at_def pad2_def)
  moreover have "?s \<noteq> []" by simp
  ultimately show ?thesis
    using parse_seconds_text [OF assms(3,4)] assms
    unfolding parse_time_def by (simp del: append.simps add: parse_zone_def)
qed

text \<open>\<^verbatim>\<open>Date.parse(new Date(t).toISOString()) === t\<close> for the years 0 to 9999.\<close>

lemma date_parse_to_iso:
  assumes "iso_range t"
  shows "date_parse (to_iso t) = Some t"
proof -
  define day where "day = t div ms_per_day"
  define ms where "ms = t mod ms_per_day"
  define y where "y = year_from_day day"
  define n where "n = day - day_from_year y"
  define m where "m = month_of y n"
  define d where "d = n - month_start y m + 1"
  have y: "0 \<le> y" "y \<le> 9999" using assms by (simp_all add: iso_range_def y_def day_def)
  have n: "0 \<le> n" "n < (if is_leap y then 366 else 365)"
    using year_from_day_bounds [of day] year_length [of y] by (simp_all add: n_def y_def)
  note mb = month_bounds [OF n]
  have md: "1 \<le> m" "m \<le> 12" "1 \<le> d" "d \<le> 31" using mb by (simp_all add: m_def d_def)
  have ms: "0 \<le> ms" "ms < 86400000" by (simp_all add: ms_def ms_per_day_def)
  let ?c = "''T'' @ pad2 (nat (ms div 3600000)) @ '':'' @ pad2 (nat (ms div 60000 mod 60)) @ '':'' @
     pad2 (nat (ms div 1000 mod 60)) @ ''.'' @ pad3 (nat (ms mod 1000)) @ ''Z''"
  let ?s = "pad4 (nat y) @ ''-'' @ pad2 (nat m) @ ''-'' @ pad2 (nat d) @ ?c"
  have iso: "to_iso t = ?s" by (simp add: to_iso_def Let_def day_def ms_def y_def n_def m_def d_def)
  have lt: "nat (ms div 3600000) < 24" "nat (ms div 60000 mod 60) < 60" "nat (ms div 1000 mod 60) < 60"
    "nat (ms mod 1000) < 1000" using ms by (simp_all add: nat_less_iff zdiv_int)
  have sum: "ms div 3600000 * 3600000 + ms div 60000 mod 60 * 60000 + ms div 1000 mod 60 * 1000 + ms mod 1000 = ms"
  proof -
    have g: "c * 60 + z = b \<Longrightarrow> b * 60 + w = a \<Longrightarrow> a * 1000 + x = ms \<Longrightarrow>
      c * 3600000 + z * 60000 + w * 1000 + x = ms" for a b c x z w :: int by linarith
    have e: "ms div 60000 = ms div 1000 div 60" "ms div 3600000 = ms div 1000 div 60 div 60"
      using zdiv_zmult2_eq [of 60 ms 1000] zdiv_zmult2_eq [of 60 ms 60000] by simp_all
    show ?thesis unfolding e
      by (rule g [OF div_mult_mod_eq [of "ms div 1000 div 60" 60] div_mult_mod_eq [of "ms div 1000" 60]
            div_mult_mod_eq [of ms 1000]])
  qed
  have time: "parse_time ?c = Some ms"
  proof -
    have nn: "int (nat (ms div 3600000)) = ms div 3600000" "int (nat (ms div 60000 mod 60)) = ms div 60000 mod 60"
      "int (nat (ms div 1000 mod 60)) = ms div 1000 mod 60" "int (nat (ms mod 1000)) = ms mod 1000"
      using ms(1) by (simp_all add: pos_imp_zdiv_nonneg_iff)
    show ?thesis using parse_time_text [OF lt] by (simp only: nn sum)
  qed
  have y4: "num_at ?s 0 4 = Some y"
    using num_at_append [of "[]" 0 "pad4 (nat y)" 4] read_pad(3) [of "nat y"] y by (simp add: pad_digits)
  have m2: "num_at ?s 5 2 = Some m"
    using num_at_append [of "pad4 (nat y) @ ''-''" 5 "pad2 (nat m)" 2] read_pad(1) [of "nat m"] md
    by (simp add: pad_digits)
  have d2: "num_at ?s 8 2 = Some d"
    using num_at_append [of "pad4 (nat y) @ ''-'' @ pad2 (nat m) @ ''-''" 8 "pad2 (nat d)" 2 ?c]
      read_pad(1) [of "nat d"] md by (simp add: pad_digits)
  have "char_at ?s 4 (CHR ''-'')" "char_at ?s 7 (CHR ''-'')" "drop 10 ?s = ?c"
    by (simp_all add: char_at_def pad4_def pad2_def)
  with y4 m2 d2 md time have "date_parse ?s = Some (day_of_ymd y m d * ms_per_day + ms)"
    unfolding date_parse_def by (simp del: append.simps)
  moreover have "day_of_ymd y m d = day" by (simp add: day_of_ymd_def d_def n_def)
  moreover have "day * ms_per_day + ms = t" by (simp add: day_def ms_def)
  ultimately show ?thesis by (simp add: iso)
qed

end
