(* ===== verification/MarketTypes.thy ===== *)
theory MarketTypes
  imports JsDate
begin

text \<open>
  The shared data of the market-data module (\<^verbatim>\<open>modules/market-data/domain/contracts.ts\<close>):
  time frames, candles, ticks and sealed snapshots.
\<close>

datatype timeframe = M1 | M5 | M15 | H1 | H4 | D1

datatype trade_side = Buy_Side | Sell_Side

record candle =
  c_pair :: string
  c_timeframe :: timeframe
  c_timestamp :: string
  c_open :: number
  c_high :: number
  c_low :: number
  c_close :: number
  c_volume :: number
  c_is_closed :: bool
  c_source :: "string option"

record market_tick =
  tick_pair :: string
  tick_price :: number
  tick_quantity :: number
  tick_timestamp :: string
  tick_side :: trade_side

record pair_metadata =
  md_pair :: string
  md_base_asset :: string
  md_quote_asset :: string
  md_settlement_asset :: string

record snapshot_ref =
  sn_id :: string
  sn_pair :: string
  sn_metadata :: pair_metadata
  sn_timeframe :: timeframe
  sn_from :: string
  sn_to :: string
  sn_candle_count :: nat
  sn_sha256 :: string
  sn_created_at :: string

fun timeframe_ms :: "timeframe \<Rightarrow> int" where
  "timeframe_ms M1 = 60000"
| "timeframe_ms M5 = 300000"
| "timeframe_ms M15 = 900000"
| "timeframe_ms H1 = 3600000"
| "timeframe_ms H4 = 14400000"
| "timeframe_ms D1 = 86400000"

lemma timeframe_ms_pos [simp]: "timeframe_ms t > 0"
  by (cases t) simp_all

text \<open>Time frames are ordered by their length.\<close>

instantiation timeframe :: linorder
begin

definition less_eq_timeframe :: "timeframe \<Rightarrow> timeframe \<Rightarrow> bool" where
  "less_eq_timeframe a b = (timeframe_ms a \<le> timeframe_ms b)"

definition less_timeframe :: "timeframe \<Rightarrow> timeframe \<Rightarrow> bool" where
  "less_timeframe a b = (timeframe_ms a < timeframe_ms b)"

instance
proof
  fix x y :: timeframe
  show "x \<le> y \<Longrightarrow> y \<le> x \<Longrightarrow> x = y"
    by (cases x; cases y) (simp_all add: less_eq_timeframe_def)
qed (auto simp: less_eq_timeframe_def less_timeframe_def)

end

end
