(* ===== verification/JsJson.thy ===== *)
theory JsJson
  imports JsText
begin

text \<open>
  Values of unknown shape (parsed JSON, request bodies, model answers) and the guards the
  modules apply to them. An object is an association list in insertion order.
\<close>

datatype json = JNull | JBool bool | JNum number | JStr string
  | JArr "json list" | JObj "(string \<times> json) list"

fun is_record :: "json \<Rightarrow> bool" where
  "is_record (JObj _) = True"
| "is_record _ = False"

fun json_field :: "json \<Rightarrow> string \<Rightarrow> json option" where
  "json_field (JObj fs) k = map_of fs k"
| "json_field _ k = None"

fun json_keys :: "json \<Rightarrow> string list" where
  "json_keys (JObj fs) = map fst fs"
| "json_keys _ = []"

fun finite_json :: "json option \<Rightarrow> number option" where
  "finite_json (Some (JNum n)) = (if is_finite n then Some n else None)"
| "finite_json _ = None"

fun string_json :: "json option \<Rightarrow> string option" where
  "string_json (Some (JStr s)) = Some s"
| "string_json _ = None"

fun array_json :: "json option \<Rightarrow> json list option" where
  "array_json (Some (JArr xs)) = Some xs"
| "array_json _ = None"

definition keys_are :: "json \<Rightarrow> string list \<Rightarrow> string list \<Rightarrow> bool" where
  "keys_are v required optional = (list_all (\<lambda>k. k \<in> set (json_keys v)) required \<and>
     list_all (\<lambda>k. k \<in> set required \<or> k \<in> set optional) (json_keys v))"

lemma keys_are_exact: "keys_are v ks [] \<Longrightarrow> set (json_keys v) = set ks"
  by (auto simp: keys_are_def list_all_iff)

lemma finite_json_Some: "finite_json j = Some n \<longleftrightarrow> j = Some (JNum n) \<and> is_finite n"
  by (cases j rule: finite_json.cases) auto

end
