(* ===== verification/StrategyTypes.thy ===== *)
theory StrategyTypes
  imports MarketTypes JsJson
begin

text \<open>
  The data of the strategy module (\<^verbatim>\<open>modules/strategy/domain/contracts.ts\<close>). A strategy
  is its name, its category and its two functions; a parameter is a number or a string.
\<close>

datatype signal = BUY | SELL | HOLD

datatype strategy_category = TREND | MOMENTUM | VOLATILITY | STRUCTURE | INFORMATION

datatype combination_method = MAJORITY_VOTE | WEIGHTED_SCORE

datatype sentiment_label = POSITIVE | NEUTRAL | NEGATIVE

record strategy_candle =
  sc_timestamp :: string
  sc_open :: number
  sc_high :: number
  sc_low :: number
  sc_close :: number
  sc_volume :: number

record sentiment_context =
  se_label :: sentiment_label
  se_average_score :: number

record strategy_context =
  x_pair :: string
  x_timeframe :: timeframe
  x_candles :: "strategy_candle list"
  x_current_price :: number
  x_sentiment :: "sentiment_context option"

datatype overlay_points =
    Line_Points "(string \<times> number) list"
  | Zone_Points "(string \<times> number \<times> number) list"
  | Signal_Points "(string \<times> number \<times> signal) list"

record overlay =
  ov_id :: string
  ov_definition_id :: "string option"
  ov_label :: string
  ov_points :: overlay_points

datatype param = PNum number | PStr string

type_synonym params = "(string \<times> param) list"

record strategy =
  s_name :: string
  s_category :: strategy_category
  s_analyze :: "strategy_context \<Rightarrow> signal"
  s_visualize :: "(strategy_context list \<Rightarrow> overlay list) option"

datatype param_type = INTEGER | NUMBER | ENUM

record param_descriptor =
  pd_key :: string
  pd_label :: string
  pd_type :: param_type
  pd_required :: bool
  pd_default :: param
  pd_minimum :: "number option"
  pd_maximum :: "number option"
  pd_options :: "string list option"

record plugin_descriptor =
  d_name :: string
  d_display_name :: string
  d_description :: string
  d_category :: strategy_category
  d_implementation_version :: string
  d_implementation_sha256 :: string
  d_minimum_history :: nat
  d_parameters :: "param_descriptor list"
  d_requires_sentiment :: bool

record strategy_factory =
  f_descriptor :: plugin_descriptor
  f_create :: "params \<Rightarrow> strategy"
  f_validate :: "params \<Rightarrow> unit result"

record strategy_definition =
  sd_id :: string
  sd_user :: string
  sd_family :: string
  sd_family_name :: string
  sd_strategy_name :: string
  sd_version_tag :: string
  sd_sha256 :: string
  sd_version :: int
  sd_parameters :: params
  sd_created_at :: string

record component =
  cp_definition_id :: string
  cp_weight :: number

record thresholds =
  th_buy :: number
  th_sell :: number

record composite_definition =
  cd_id :: string
  cd_user :: string
  cd_family :: string
  cd_version :: int
  cd_method :: combination_method
  cd_components :: "component list"
  cd_thresholds :: "thresholds option"
  cd_created_at :: string

text \<open>\<^verbatim>\<open>Number(parameters.key ?? default)\<close> and \<^verbatim>\<open>Number(parameters.key)\<close>.\<close>

fun to_number :: "param \<Rightarrow> number" where
  "to_number (PNum n) = n"
| "to_number (PStr s) = string_to_number s"

definition param_or :: "params \<Rightarrow> string \<Rightarrow> number \<Rightarrow> number" where
  "param_or ps k d = (case js_get ps k of None \<Rightarrow> d | Some p \<Rightarrow> to_number p)"

definition param_number :: "params \<Rightarrow> string \<Rightarrow> number" where
  "param_number ps k = (case js_get ps k of None \<Rightarrow> NaN | Some p \<Rightarrow> to_number p)"

end
