(* ===== verification/Indicators.thy ===== *)
theory Indicators
  imports StrategyTypes
begin

text \<open>
  The indicators of \<^verbatim>\<open>modules/strategy/domain/indicators.ts\<close>. A period is a number of the
  caller; the guard of each function admits the positive integers, so the window is the
  last \<open>period_nat\<close> values.
\<close>

definition valid_period :: "number \<Rightarrow> bool" where
  "valid_period p = (is_integer p \<and> nlt (Fin 0) p)"

fun period_nat :: "number \<Rightarrow> nat" where
  "period_nat (Fin q) = nat \<lfloor>q\<rfloor>"
| "period_nat _ = 0"

definition simple_moving_average :: "number list \<Rightarrow> number \<Rightarrow> number option" where
  "simple_moving_average values period =
     (if \<not> valid_period period \<or> length values < period_nat period then None
      else Some (ndiv (nsum (last_n (period_nat period) values)) period))"

text \<open>The loop of the relative strength index over the last \<open>period\<close> changes.\<close>

fun rsi_loop :: "number \<Rightarrow> number list \<Rightarrow> number \<Rightarrow> number \<Rightarrow> number \<times> number" where
  "rsi_loop prev [] gains losses = (gains, losses)"
| "rsi_loop prev (v # vs) gains losses = (let change = nsub v prev in
     if nle (Fin 0) change then rsi_loop v vs (nadd gains change) losses
     else rsi_loop v vs gains (nsub losses change))"

definition relative_strength_index :: "number list \<Rightarrow> number \<Rightarrow> number option" where
  "relative_strength_index values period =
     (if \<not> valid_period period \<or> length values \<le> period_nat period then None
      else (let w = last_n (period_nat period + 1) values; (gains, losses) = rsi_loop (hd w) (tl w) (Fin 0) (Fin 0) in
        if losses = Fin 0 then Some (if gains = Fin 0 then num 50 else num 100)
        else Some (nsub (num 100) (ndiv (num 100) (nadd (num 1) (ndiv gains losses))))))"

record bands =
  b_middle :: number
  b_upper :: number
  b_lower :: number

definition bollinger_bands :: "number list \<Rightarrow> number \<Rightarrow> number \<Rightarrow> bands option" where
  "bollinger_bands values period deviations = (case simple_moving_average values period of None \<Rightarrow> None
     | Some middle \<Rightarrow>
        (let window = last_n (period_nat period) values;
             variance = ndiv (nsum (map (\<lambda>v. nmul (nsub v middle) (nsub v middle)) window)) period;
             spread = nmul (nsqrt variance) deviations
         in Some \<lparr>b_middle = middle, b_upper = nadd middle spread, b_lower = nsub middle spread\<rparr>))"

record levels =
  l_support :: number
  l_resistance :: number

definition support_resistance :: "strategy_candle list \<Rightarrow> number \<Rightarrow> levels option" where
  "support_resistance candles lookback =
     (if \<not> valid_period lookback \<or> length candles < period_nat lookback then None
      else (let window = last_n (period_nat lookback) candles in
        Some \<lparr>l_support = nmin_list (map sc_low window), l_resistance = nmax_list (map sc_high window)\<rparr>))"

section \<open>The range of the relative strength index\<close>

definition nonneg_or_NaN :: "number \<Rightarrow> bool" where
  "nonneg_or_NaN x = (x = NaN \<or> nle (Fin 0) x)"

lemma nonneg_or_NaN_simps [simp]: "nonneg_or_NaN NaN" "nonneg_or_NaN (Fin 0)" "nonneg_or_NaN PInf"
  by (simp_all add: nonneg_or_NaN_def)

lemma nadd_NaN [simp]: "nadd NaN x = NaN" "nadd x NaN = NaN" "ndiv NaN x = NaN" "ndiv x NaN = NaN"
  by (cases x; simp)+

lemma nonneg_or_NaN_add: "nonneg_or_NaN a \<Longrightarrow> nonneg_or_NaN b \<Longrightarrow> nonneg_or_NaN (nadd a b)"
  by (auto simp: nonneg_or_NaN_def nadd_nonneg)

lemma nonneg_or_NaN_neg: "\<not> nle (Fin 0) c \<Longrightarrow> nonneg_or_NaN (nneg c)"
  by (cases c) (auto simp: nonneg_or_NaN_def)

lemma rsi_loop_nonneg:
  "nonneg_or_NaN g \<Longrightarrow> nonneg_or_NaN l \<Longrightarrow> rsi_loop p vs g l = (g', l') \<Longrightarrow> nonneg_or_NaN g' \<and> nonneg_or_NaN l'"
proof (induction p vs g l rule: rsi_loop.induct)
  case (2 prev v vs g l)
  have "nonneg_or_NaN (nsub l (nsub v prev))" if "\<not> nle (Fin 0) (nsub v prev)"
    unfolding nsub_def [of l] by (rule nonneg_or_NaN_add [OF 2(4) nonneg_or_NaN_neg [OF that]])
  moreover have "nonneg_or_NaN (nadd g (nsub v prev))" if "nle (Fin 0) (nsub v prev)"
    using that by (intro nonneg_or_NaN_add [OF 2(3)]) (simp add: nonneg_or_NaN_def)
  ultimately show ?case using 2 by (auto simp: Let_def split: if_splits)
qed simp

lemma rsi_formula_range:
  assumes "nonneg_or_NaN g" "nonneg_or_NaN l"
  shows "nsub (num 100) (ndiv (num 100) (nadd (num 1) (ndiv g l))) = NaN \<or>
    (\<exists>v. nsub (num 100) (ndiv (num 100) (nadd (num 1) (ndiv g l))) = Fin v \<and> 0 \<le> v \<and> v \<le> 100)"
proof -
  have n: "num 100 = Fin 100" "num 1 = Fin 1" "rnd 1 = Fin 1" "rnd 100 = Fin 100" by (simp_all add: number_simps)
  have s: "\<exists>v. nsub (num 100) (Fin y) = Fin v \<and> 0 \<le> v \<and> v \<le> 100" if "0 \<le> y" "y \<le> 100" for y
    using double.between [of 0 100 "100 - y"] that by (simp add: n nsub_def)
  have d: "\<exists>y. ndiv (num 100) x = Fin y \<and> 0 \<le> y \<and> y \<le> 100" if "nle (Fin 1) x" for x
  proof (cases x)
    case (Fin a)
    with that have "1 \<le> a" by simp
    then show ?thesis using double.between [of 0 100 "100 / a"] Fin by (simp add: n divide_le_eq)
  qed (use that n in auto)
  have r: "nadd (num 1) r = NaN \<or> nle (Fin 1) (nadd (num 1) r)" if "nonneg_or_NaN r" for r
    using that double.lower [of 1] by (cases r) (auto simp: n nonneg_or_NaN_def)
  have "nonneg_or_NaN (ndiv g l)"
    using assms ndiv_nonneg [of g l] by (auto simp: nonneg_or_NaN_def)
  with r consider "nadd (num 1) (ndiv g l) = NaN" | "nle (Fin 1) (nadd (num 1) (ndiv g l))" by blast
  then show ?thesis
  proof cases
    case 1
    then show ?thesis by (simp add: n nsub_def)
  next
    case 2
    from d [OF this] s show ?thesis by auto
  qed
qed

lemma rsi_range:
  assumes "relative_strength_index values period = Some r"
  shows "r = NaN \<or> (\<exists>v. r = Fin v \<and> 0 \<le> v \<and> v \<le> 100)"
proof -
  obtain g l where w: "rsi_loop (hd (last_n (period_nat period + 1) values)) (tl (last_n (period_nat period + 1) values))
    (Fin 0) (Fin 0) = (g, l)" by fastforce
  from rsi_loop_nonneg [OF _ _ w] have "nonneg_or_NaN g" "nonneg_or_NaN l" by simp_all
  then show ?thesis using rsi_formula_range [of g l] assms w
    by (auto simp: relative_strength_index_def Let_def number_simps split: if_splits)
qed

lemma simple_moving_average_window:
  assumes "last_n (period_nat p) xs = last_n (period_nat p) ys" "period_nat p \<le> length xs" "period_nat p \<le> length ys"
  shows "simple_moving_average xs p = simple_moving_average ys p"
  using assms by (simp add: simple_moving_average_def)

end
