(* ===== verification/Plugins.thy ===== *)
theory Plugins
  imports Indicators
begin

text \<open>
  The built-in strategies and the registry (\<^verbatim>\<open>modules/strategy/domain/plugins.ts\<close>). The
  artifact hash is \<^verbatim>\<open>sha256\<close> over the descriptor and the printed source of \<^verbatim>\<open>create\<close>; it
  enters as the parameter \<open>hash\<close> of a descriptor without hash (its hash field is empty).
\<close>

section \<open>Helpers\<close>

definition descriptor_of :: "string \<Rightarrow> string \<Rightarrow> string \<Rightarrow> strategy_category \<Rightarrow> nat \<Rightarrow> param_descriptor list \<Rightarrow> bool
    \<Rightarrow> plugin_descriptor" where
  "descriptor_of name display description category history parameters sentiment =
     \<lparr>d_name = name, d_display_name = display, d_description = description, d_category = category,
      d_implementation_version = ''1.0.0'', d_implementation_sha256 = [], d_minimum_history = history,
      d_parameters = parameters, d_requires_sentiment = sentiment\<rparr>"

definition with_artifact_hash :: "(plugin_descriptor \<Rightarrow> string) \<Rightarrow> strategy_factory \<Rightarrow> strategy_factory" where
  "with_artifact_hash hash f =
     f\<lparr>f_descriptor := (f_descriptor f)\<lparr>d_implementation_sha256 := hash (f_descriptor f)\<rparr>\<rparr>"

definition last_values :: "strategy_context \<Rightarrow> number list" where
  "last_values context = map sc_close (x_candles context)"

definition signal_from :: "bool \<Rightarrow> bool \<Rightarrow> signal" where
  "signal_from condition inverted = (if condition then (if inverted then SELL else BUY) else HOLD)"

definition latest :: "strategy_context \<Rightarrow> (string \<times> number list) option" where
  "latest context = (if x_candles context = [] then None
     else Some (sc_timestamp (last (x_candles context)), last_values context))"

definition line_points :: "strategy_context list \<Rightarrow> number \<Rightarrow> (string \<times> number) list" where
  "line_points contexts period = concat (map (\<lambda>context. case latest context of None \<Rightarrow> []
     | Some (time, closes) \<Rightarrow> (case simple_moving_average closes period of None \<Rightarrow> []
         | Some value \<Rightarrow> if is_finite value then [(time, value)] else [])) contexts)"

definition signal_point :: "strategy_context \<Rightarrow> number \<Rightarrow> signal \<Rightarrow> (string \<times> number \<times> signal) list" where
  "signal_point context value signal = (case latest context of None \<Rightarrow> []
     | Some (time, _) \<Rightarrow> if is_finite value then [(time, value, signal)] else [])"

fun point_count :: "overlay_points \<Rightarrow> nat" where
  "point_count (Line_Points ps) = length ps"
| "point_count (Zone_Points ps) = length ps"
| "point_count (Signal_Points ps) = length ps"

definition non_empty :: "overlay list \<Rightarrow> overlay list" where
  "non_empty overlays = filter (\<lambda>v. point_count (ov_points v) > 0) overlays"

definition draft :: "string \<Rightarrow> string \<Rightarrow> overlay_points \<Rightarrow> overlay" where
  "draft i label points = \<lparr>ov_id = i, ov_definition_id = None, ov_label = label, ov_points = points\<rparr>"

definition param_spec :: "string \<Rightarrow> string \<Rightarrow> param_type \<Rightarrow> number \<Rightarrow> number \<Rightarrow> number \<Rightarrow> param_descriptor" where
  "param_spec key label ty d lo hi = \<lparr>pd_key = key, pd_label = label, pd_type = ty, pd_required = True,
     pd_default = PNum d, pd_minimum = Some lo, pd_maximum = Some hi, pd_options = None\<rparr>"

definition parameters_error :: "bool \<Rightarrow> unit result" where
  "parameters_error b = reject_if b ''INVALID_STRATEGY_PARAMETERS''"

section \<open>Moving average crossover\<close>

definition ma_analyze :: "number \<Rightarrow> number \<Rightarrow> strategy_context \<Rightarrow> signal" where
  "ma_analyze fast_period slow_period context = (let values = last_values context in
     if nlt (num (int (length values))) (nadd slow_period (num 1)) then HOLD
     else let previous = butlast values in
       (case (simple_moving_average values fast_period, simple_moving_average values slow_period,
              simple_moving_average previous fast_period, simple_moving_average previous slow_period) of
          (Some fast, Some slow, Some previous_fast, Some previous_slow) \<Rightarrow>
            if nle previous_fast previous_slow \<and> nlt slow fast then BUY
            else if nle previous_slow previous_fast \<and> nlt fast slow then SELL else HOLD
        | _ \<Rightarrow> HOLD))"

definition ma_factory :: strategy_factory where
  "ma_factory = \<lparr>f_descriptor = descriptor_of ''MA'' ''Moving Average''
       ''Trend direction from a fast/slow moving-average crossover.'' TREND 51
       [param_spec ''fastPeriod'' ''Fast period'' INTEGER (num 20) (num 2) (num 500),
        param_spec ''slowPeriod'' ''Slow period'' INTEGER (num 50) (num 3) (num 1000)] False,
     f_create = (\<lambda>ps. let fast_period = param_or ps ''fastPeriod'' (num 20);
                           slow_period = param_or ps ''slowPeriod'' (num 50)
       in \<lparr>s_name = ''MA'', s_category = TREND, s_analyze = ma_analyze fast_period slow_period,
           s_visualize = Some (\<lambda>contexts. non_empty
             [draft ''fast'' (''MA ('' @ number_to_string fast_period @ '')'') (Line_Points (line_points contexts fast_period)),
              draft ''slow'' (''MA ('' @ number_to_string slow_period @ '')'') (Line_Points (line_points contexts slow_period))])\<rparr>),
     f_validate = (\<lambda>ps. parameters_error (nle (param_number ps ''slowPeriod'') (param_number ps ''fastPeriod'')))\<rparr>"

section \<open>Relative strength index\<close>

definition rsi_signal :: "number \<Rightarrow> number \<Rightarrow> number \<Rightarrow> signal" where
  "rsi_signal buy_threshold sell_threshold value =
     (if nlt value buy_threshold then BUY else if nlt sell_threshold value then SELL else HOLD)"

definition rsi_analyze :: "number \<Rightarrow> number \<Rightarrow> number \<Rightarrow> strategy_context \<Rightarrow> signal" where
  "rsi_analyze period buy_threshold sell_threshold context =
     (case relative_strength_index (last_values context) period of None \<Rightarrow> HOLD
      | Some value \<Rightarrow> rsi_signal buy_threshold sell_threshold value)"

definition rsi_factory :: strategy_factory where
  "rsi_factory = \<lparr>f_descriptor = descriptor_of ''RSI'' ''RSI''
       ''Momentum signal for overbought and oversold conditions.'' MOMENTUM 15
       [param_spec ''period'' ''Period'' INTEGER (num 14) (num 2) (num 200),
        param_spec ''buyThreshold'' ''Buy threshold'' NUMBER (num 30) (num 0) (num 50),
        param_spec ''sellThreshold'' ''Sell threshold'' NUMBER (num 70) (num 50) (num 100)] False,
     f_create = (\<lambda>ps. let period = param_or ps ''period'' (num 14);
                           buy = param_or ps ''buyThreshold'' (num 30); sell = param_or ps ''sellThreshold'' (num 70)
       in \<lparr>s_name = ''RSI'', s_category = MOMENTUM, s_analyze = rsi_analyze period buy sell,
           s_visualize = Some (\<lambda>contexts. non_empty
             [draft ''rsi'' (''RSI ('' @ number_to_string period @ '')'') (Signal_Points (concat (map (\<lambda>context.
                case relative_strength_index (last_values context) period of None \<Rightarrow> []
                | Some value \<Rightarrow> signal_point context value (rsi_signal buy sell value)) contexts)))])\<rparr>),
     f_validate = (\<lambda>ps. parameters_error (nle (param_number ps ''sellThreshold'') (param_number ps ''buyThreshold'')))\<rparr>"

section \<open>Bollinger bands\<close>

definition bollinger_analyze :: "number \<Rightarrow> number \<Rightarrow> strategy_context \<Rightarrow> signal" where
  "bollinger_analyze period deviations context =
     (case bollinger_bands (last_values context) period deviations of None \<Rightarrow> HOLD
      | Some bs \<Rightarrow> if signal_from (nlt (x_current_price context) (b_lower bs)) False = BUY then BUY
          else if nlt (b_upper bs) (x_current_price context) then SELL else HOLD)"

definition band_points :: "(bands \<Rightarrow> number) \<Rightarrow> number \<Rightarrow> number \<Rightarrow> strategy_context list \<Rightarrow> (string \<times> number) list" where
  "band_points pick period deviations contexts = concat (map (\<lambda>context. case latest context of None \<Rightarrow> []
     | Some (time, closes) \<Rightarrow> (case bollinger_bands closes period deviations of None \<Rightarrow> []
         | Some bs \<Rightarrow> if is_finite (pick bs) then [(time, pick bs)] else [])) contexts)"

definition bollinger_factory :: strategy_factory where
  "bollinger_factory = \<lparr>f_descriptor = descriptor_of ''BOLLINGER'' ''Bollinger Bands''
       ''Mean-reversion signal at the outer volatility bands.'' VOLATILITY 20
       [param_spec ''period'' ''Period'' INTEGER (num 20) (num 2) (num 500),
        param_spec ''deviations'' ''Standard deviations'' NUMBER (num 2) (lit 1 1) (num 5)] False,
     f_create = (\<lambda>ps. let period = param_or ps ''period'' (num 20); deviations = param_or ps ''deviations'' (num 2)
       in \<lparr>s_name = ''BOLLINGER'', s_category = VOLATILITY, s_analyze = bollinger_analyze period deviations,
           s_visualize = Some (\<lambda>contexts. non_empty
             [draft ''middle'' (''Bollinger middle ('' @ number_to_string period @ '')'')
                (Line_Points (band_points b_middle period deviations contexts)),
              draft ''upper'' (''Bollinger upper ('' @ number_to_string period @ '')'')
                (Line_Points (band_points b_upper period deviations contexts)),
              draft ''lower'' (''Bollinger lower ('' @ number_to_string period @ '')'')
                (Line_Points (band_points b_lower period deviations contexts))])\<rparr>),
     f_validate = (\<lambda>_. return ())\<rparr>"

section \<open>Support and resistance\<close>

definition support_resistance_analyze :: "number \<Rightarrow> number \<Rightarrow> strategy_context \<Rightarrow> signal" where
  "support_resistance_analyze lookback proximity context =
     (case support_resistance (x_candles context) lookback of None \<Rightarrow> HOLD
      | Some ls \<Rightarrow> if nle (x_current_price context) (nmul (l_support ls) (nadd (num 1) proximity)) then BUY
          else if nle (nmul (l_resistance ls) (nsub (num 1) proximity)) (x_current_price context) then SELL else HOLD)"

definition level_points :: "(levels \<Rightarrow> number) \<Rightarrow> number \<Rightarrow> strategy_context list \<Rightarrow> (string \<times> number \<times> number) list" where
  "level_points pick lookback contexts = concat (map (\<lambda>context. case latest context of None \<Rightarrow> []
     | Some (time, _) \<Rightarrow> (case support_resistance (x_candles context) lookback of None \<Rightarrow> []
         | Some ls \<Rightarrow> if is_finite (pick ls) then [(time, pick ls, pick ls)] else [])) contexts)"

definition support_resistance_factory :: strategy_factory where
  "support_resistance_factory = \<lparr>f_descriptor = descriptor_of ''SUPPORT_RESISTANCE'' ''Support / Resistance''
       ''Structure signal near recent support and resistance zones.'' STRUCTURE 20
       [param_spec ''lookback'' ''Lookback'' INTEGER (num 20) (num 2) (num 500),
        param_spec ''proximityPercent'' ''Proximity %'' NUMBER (num 1) (lit 1 2) (num 20)] False,
     f_create = (\<lambda>ps. let lookback = param_or ps ''lookback'' (num 20);
                           proximity = ndiv (param_or ps ''proximityPercent'' (num 1)) (num 100)
       in \<lparr>s_name = ''SUPPORT_RESISTANCE'', s_category = STRUCTURE,
           s_analyze = support_resistance_analyze lookback proximity,
           s_visualize = Some (\<lambda>contexts. non_empty
             [draft ''support'' ''Support'' (Zone_Points (level_points l_support lookback contexts)),
              draft ''resistance'' ''Resistance'' (Zone_Points (level_points l_resistance lookback contexts))])\<rparr>),
     f_validate = (\<lambda>_. return ())\<rparr>"

section \<open>News sentiment\<close>

definition sentiment_signal :: "number \<Rightarrow> number \<Rightarrow> number \<Rightarrow> signal" where
  "sentiment_signal buy_threshold sell_threshold score =
     (if nle buy_threshold score then BUY else if nle score sell_threshold then SELL else HOLD)"

definition sentiment_analyze :: "number \<Rightarrow> number \<Rightarrow> strategy_context \<Rightarrow> signal" where
  "sentiment_analyze buy_threshold sell_threshold context = (case x_sentiment context of None \<Rightarrow> HOLD
     | Some s \<Rightarrow> sentiment_signal buy_threshold sell_threshold (se_average_score s))"

definition sentiment_factory :: strategy_factory where
  "sentiment_factory = \<lparr>f_descriptor = descriptor_of ''SENTIMENT'' ''News sentiment''
       ''Reads the sealed sentiment context and emits a directional signal.'' INFORMATION 0
       [param_spec ''buyThreshold'' ''Buy threshold'' NUMBER (lit 2 1) (lit 1 2) (num 1),
        param_spec ''sellThreshold'' ''Sell threshold'' NUMBER (lit (-2) 1) (num (-1)) (lit (-1) 2)] True,
     f_create = (\<lambda>ps. let buy = param_or ps ''buyThreshold'' (lit 2 1); sell = param_or ps ''sellThreshold'' (lit (-2) 1)
       in \<lparr>s_name = ''SENTIMENT'', s_category = INFORMATION, s_analyze = sentiment_analyze buy sell,
           s_visualize = Some (\<lambda>contexts. non_empty
             [draft ''sentiment'' ''News sentiment'' (Signal_Points (concat (map (\<lambda>context.
                case x_sentiment context of None \<Rightarrow> []
                | Some s \<Rightarrow> signal_point context (se_average_score s) (sentiment_signal buy sell (se_average_score s))) contexts)))])\<rparr>),
     f_validate = (\<lambda>ps. parameters_error (nle (param_number ps ''buyThreshold'') (param_number ps ''sellThreshold'')))\<rparr>"

definition built_in_factories :: "(plugin_descriptor \<Rightarrow> string) \<Rightarrow> strategy_factory list" where
  "built_in_factories hash = map (with_artifact_hash hash)
     [ma_factory, rsi_factory, bollinger_factory, support_resistance_factory, sentiment_factory]"

section \<open>The registry\<close>

type_synonym registry = "(string, strategy_factory) jsmap"

definition artifact_key :: "string \<Rightarrow> string \<Rightarrow> string" where
  "artifact_key name sha = name @ '':'' @ sha"

definition register :: "strategy_factory \<Rightarrow> registry \<Rightarrow> registry" where
  "register f r = (let key = artifact_key (d_name (f_descriptor f)) (d_implementation_sha256 (f_descriptor f)) in
     if js_has r key then r else js_set key f r)"

definition create_strategy_registry :: "strategy_factory list \<Rightarrow> registry" where
  "create_strategy_registry factories = fold register factories []"

definition registry_get :: "registry \<Rightarrow> string \<Rightarrow> string \<Rightarrow> strategy_factory option" where
  "registry_get r name sha = js_get r (artifact_key name sha)"

definition registry_list :: "registry \<Rightarrow> plugin_descriptor list" where
  "registry_list r = sort_by (\<lambda>a b. locale_compare (d_name a) (d_name b)) (map f_descriptor (js_values r))"

section \<open>Facts\<close>

lemma param_or_Nil [simp]: "param_or [] k d = d"
  by (simp add: param_or_def)

lemma artifact_key_inj:
  "CHR '':'' \<notin> set n \<Longrightarrow> CHR '':'' \<notin> set n' \<Longrightarrow> artifact_key n s = artifact_key n' s' \<longleftrightarrow> n = n' \<and> s = s'"
proof
  assume n: "CHR '':'' \<notin> set n" "CHR '':'' \<notin> set n'" and e: "artifact_key n s = artifact_key n' s'"
  have "before_char (CHR '':'') (artifact_key n s) = n" "before_char (CHR '':'') (artifact_key n' s') = n'"
    using n by (simp_all add: artifact_key_def before_char_append)
  with e show "n = n' \<and> s = s'" by (simp add: artifact_key_def)
qed simp

definition factory_key :: "strategy_factory \<Rightarrow> string" where
  "factory_key f = artifact_key (d_name (f_descriptor f)) (d_implementation_sha256 (f_descriptor f))"

lemma register_get:
  "js_get (register f r) k = (if k = factory_key f \<and> js_get r k = None then Some f else js_get r k)"
  by (auto simp: register_def Let_def factory_key_def js_has_def store_simps)

lemma fold_register_get:
  "js_get (fold register fs r) k = (case js_get r k of Some f \<Rightarrow> Some f
     | None \<Rightarrow> find (\<lambda>f. factory_key f = k) fs)"
  by (induction fs arbitrary: r) (auto simp: register_get split: option.splits)

lemma register_wf: "js_wf r \<Longrightarrow> js_wf (register f r)"
  by (simp add: register_def Let_def store_simps)

lemma fold_register_wf: "js_wf r \<Longrightarrow> js_wf (fold register fs r)"
  by (induction fs arbitrary: r) (auto simp: register_wf)

lemma registry_rows:
  "f \<in> set (js_values (create_strategy_registry fs)) \<longleftrightarrow> (\<exists>k. find (\<lambda>f. factory_key f = k) fs = Some f)"
  using js_store.rows_lookup [of "create_strategy_registry fs" f] fold_register_wf [of "[]" fs]
  by (simp add: create_strategy_registry_def fold_register_get)

interpretation name_order: comparator_laws "\<lambda>a b. locale_compare (d_name a) (d_name b)" "\<lambda>_. True"
  by unfold_locales auto

lemma built_in_names:
  "map (\<lambda>f. d_name (f_descriptor f)) (built_in_factories hash) = [''MA'', ''RSI'', ''BOLLINGER'', ''SUPPORT_RESISTANCE'', ''SENTIMENT'']"
  by (simp add: built_in_factories_def with_artifact_hash_def descriptor_of_def ma_factory_def rsi_factory_def
      bollinger_factory_def support_resistance_factory_def sentiment_factory_def)

lemma find_key_distinct:
  "f \<in> set fs \<Longrightarrow> (\<And>g. g \<in> set fs \<Longrightarrow> factory_key g = factory_key f \<Longrightarrow> g = f) \<Longrightarrow>
    find (\<lambda>g. factory_key g = factory_key f) fs = Some f"
  by (induction fs) auto

lemma distinct_map_eq: "distinct (map g xs) \<Longrightarrow> x \<in> set xs \<Longrightarrow> y \<in> set xs \<Longrightarrow> g x = g y \<Longrightarrow> x = y"
  by (auto simp: distinct_map inj_on_def)

lemma built_in_found:
  assumes "f \<in> set (built_in_factories hash)"
  shows "find (\<lambda>g. factory_key g = factory_key f) (built_in_factories hash) = Some f"
proof (rule find_key_distinct [OF assms])
  fix g assume g: "g \<in> set (built_in_factories hash)" and k: "factory_key g = factory_key f"
  have "d_name (f_descriptor h) \<in> set (map (\<lambda>f. d_name (f_descriptor f)) (built_in_factories hash))"
    if "h \<in> set (built_in_factories hash)" for h
    unfolding set_map using that by (rule imageI)
  then have "CHR '':'' \<notin> set (d_name (f_descriptor h))" if "h \<in> set (built_in_factories hash)" for h
    using that unfolding built_in_names by fastforce
  with assms g k have "d_name (f_descriptor g) = d_name (f_descriptor f)"
    by (simp add: factory_key_def artifact_key_inj)
  moreover have "distinct (map (\<lambda>f. d_name (f_descriptor f)) (built_in_factories hash))"
    unfolding built_in_names by simp
  ultimately show "g = f" using assms g by (metis distinct_map_eq)
qed

text \<open>Below the declared history a built-in strategy with its default parameters holds.\<close>

lemma num_small: "n \<le> 1000 \<Longrightarrow> num (int n) = Fin (of_nat n)"
  using num_exact [of "int n"] by simp

lemma period_numeral [simp]: "period_nat (Fin (numeral k)) = numeral k"
  by simp

lemma short_history_holds:
  assumes "f \<in> set (built_in_factories hash)" "length (x_candles x) < d_minimum_history (f_descriptor f)"
  shows "s_analyze (f_create f []) x = HOLD"
  using assms
  by (auto simp: built_in_factories_def with_artifact_hash_def descriptor_of_def ma_factory_def rsi_factory_def
      bollinger_factory_def support_resistance_factory_def sentiment_factory_def ma_analyze_def rsi_analyze_def
      bollinger_analyze_def support_resistance_analyze_def last_values_def num_small number_simps
      relative_strength_index_def bollinger_bands_def simple_moving_average_def support_resistance_def Let_def)

section \<open>Properties\<close>

text \<open>The relative strength index is between 0 and 100 whenever it is a number at all (it is
  not one only when both sums leave the range of the doubles), for every list of closes and
  every period.\<close>

lemma rsi_between_0_and_100:
  assumes "relative_strength_index values period = Some r"
  shows "r = NaN \<or> (\<exists>v. r = Fin v \<and> 0 \<le> v \<and> v \<le> 100)"
  using rsi_range [OF assms] .

lemma rsi_between_0_and_100_witness:
  "relative_strength_index [Fin 1, Fin 2] (Fin 1) = Some (Fin 100) \<and> (\<exists>v. Fin 100 = Fin v \<and> 0 \<le> v \<and> v \<le> (100::rat))"
proof -
  have "relative_strength_index [Fin 1, Fin 2] (Fin 1) = Some (Fin 100)"
    by (simp add: relative_strength_index_def valid_period_def last_n_def nsub_def number_simps)
  with rsi_between_0_and_100 [OF this] show ?thesis by simp
qed

text \<open>A built-in strategy created with its default parameters answers HOLD on every context whose
  history is shorter than the minimum history its descriptor declares.\<close>

lemma built_in_holds_below_minimum_history:
  assumes "f \<in> set (built_in_factories hash)" "length (x_candles x) < d_minimum_history (f_descriptor f)"
  shows "s_analyze (f_create f []) x = HOLD"
  using short_history_holds [OF assms] .

lemma built_in_holds_below_minimum_history_witness:
  "s_analyze (f_create (with_artifact_hash (\<lambda>_. []) rsi_factory) [])
    \<lparr>x_pair = [], x_timeframe = M1, x_candles = [], x_current_price = Fin 1, x_sentiment = None\<rparr> = HOLD"
  by (rule built_in_holds_below_minimum_history [of _ "\<lambda>_. []"])
    (simp_all add: built_in_factories_def with_artifact_hash_def rsi_factory_def descriptor_of_def)

text \<open>The registry of the built-in strategies serves each of them under its own name and artifact
  hash, and lists the descriptors in the order of their names.\<close>

lemma registry_serves_built_ins:
  "(\<forall>f. f \<in> set (built_in_factories hash) \<longrightarrow>
      registry_get (create_strategy_registry (built_in_factories hash)) (d_name (f_descriptor f))
        (d_implementation_sha256 (f_descriptor f)) = Some f) \<and>
    sorted_wrt (\<lambda>a b. d_name a \<le> d_name b) (registry_list (create_strategy_registry (built_in_factories hash)))"
proof (intro conjI allI impI)
  fix f assume "f \<in> set (built_in_factories hash)"
  from built_in_found [OF this] show "registry_get (create_strategy_registry (built_in_factories hash))
      (d_name (f_descriptor f)) (d_implementation_sha256 (f_descriptor f)) = Some f"
    by (simp add: registry_get_def create_strategy_registry_def fold_register_get factory_key_def)
qed (use name_order.sort_by_sorted in \<open>simp add: registry_list_def list_all_iff\<close>)

lemma registry_serves_built_ins_witness:
  "registry_get (create_strategy_registry (built_in_factories (\<lambda>_. ''h''))) ''MA'' ''h'' =
    Some (with_artifact_hash (\<lambda>_. ''h'') ma_factory)"
  using registry_serves_built_ins [of "\<lambda>_. ''h''"]
  by (simp add: built_in_factories_def with_artifact_hash_def ma_factory_def descriptor_of_def)

end
