(* ===== verification/StrategyCore.thy ===== *)
theory StrategyCore
  imports Plugins
begin

text \<open>
  The pure part of \<^verbatim>\<open>modules/strategy/application/service.ts\<close>: combining the signals of a
  composite, validating the parameters of a strategy against its descriptor and cutting a
  visualization to its bounds.
\<close>

section \<open>Combining signals\<close>

definition signal_of :: "(string \<times> signal) list \<Rightarrow> string \<Rightarrow> signal" where
  "signal_of signals i = (case find (\<lambda>s. fst s = i) signals of None \<Rightarrow> HOLD | Some s \<Rightarrow> snd s)"

fun signal_score :: "signal \<Rightarrow> number" where
  "signal_score BUY = Fin 1"
| "signal_score SELL = Fin (-1)"
| "signal_score HOLD = Fin 0"

definition default_thresholds :: thresholds where
  "default_thresholds = \<lparr>th_buy = lit 3 1, th_sell = lit (-3) 1\<rparr>"

definition majority_vote :: "signal list \<Rightarrow> signal" where
  "majority_vote ss = (let b = count_list ss BUY; s = count_list ss SELL; h = count_list ss HOLD in
     if b > s \<and> b > h then BUY else if s > b \<and> s > h then SELL else HOLD)"

definition weighted_score :: "(component \<times> signal) list \<Rightarrow> number" where
  "weighted_score selected = foldl (\<lambda>sum (c, s). nadd sum (nmul (cp_weight c) (signal_score s))) (Fin 0) selected"

definition runtime_combine :: "composite_definition \<Rightarrow> (string \<times> signal) list \<Rightarrow> signal" where
  "runtime_combine definition signals =
     (let selected = map (\<lambda>c. (c, signal_of signals (cp_definition_id c))) (cd_components definition) in
      if selected = [] then HOLD
      else if cd_method definition = MAJORITY_VOTE then majority_vote (map snd selected)
      else let score = weighted_score selected;
               t = (case cd_thresholds definition of None \<Rightarrow> default_thresholds | Some t \<Rightarrow> t)
           in if nlt (th_buy t) score then BUY else if nlt score (th_sell t) then SELL else HOLD)"

section \<open>Parameters\<close>

fun param_of_json :: "json \<Rightarrow> param option" where
  "param_of_json (JStr s) = Some (PStr s)"
| "param_of_json (JNum n) = (if is_finite n then Some (PNum n) else None)"
| "param_of_json _ = None"

definition parameter_record :: "json \<Rightarrow> params option" where
  "parameter_record v = (case v of
     JObj fs \<Rightarrow> if list_all (\<lambda>(k, x). param_of_json x \<noteq> None) fs
                then Some (map (\<lambda>(k, x). (k, the (param_of_json x))) fs) else None
   | _ \<Rightarrow> None)"

definition below_minimum :: "number option \<Rightarrow> number \<Rightarrow> bool" where
  "below_minimum b n = (case b of None \<Rightarrow> False | Some m \<Rightarrow> nlt n m)"

definition above_maximum :: "number option \<Rightarrow> number \<Rightarrow> bool" where
  "above_maximum b n = (case b of None \<Rightarrow> False | Some m \<Rightarrow> nlt m n)"

fun param_ok :: "param_descriptor \<Rightarrow> param \<Rightarrow> bool" where
  "param_ok d (PStr s) = (pd_type d = ENUM \<and> (case pd_options d of None \<Rightarrow> False | Some os \<Rightarrow> s \<in> set os))"
| "param_ok d (PNum n) = (pd_type d \<noteq> ENUM \<and> is_finite n \<and> (pd_type d = INTEGER \<longrightarrow> is_integer n) \<and>
     \<not> below_minimum (pd_minimum d) n \<and> \<not> above_maximum (pd_maximum d) n)"

text \<open>The loop over the declared parameters; it fills the normalized record in their order.\<close>

fun normalize_params :: "param_descriptor list \<Rightarrow> params \<Rightarrow> params \<Rightarrow> params result" where
  "normalize_params [] values normalized = return normalized"
| "normalize_params (d # ds) values normalized =
     (let value = (case js_get values (pd_key d) of None \<Rightarrow> pd_default d | Some v \<Rightarrow> v) in
      if \<not> param_ok d value then throw ''INVALID_STRATEGY_PARAMETERS''
      else normalize_params ds values (js_set (pd_key d) value normalized))"

definition validate_params :: "strategy_factory \<Rightarrow> params \<Rightarrow> params result" where
  "validate_params f values =
     (if \<exists>k\<in>set (map fst values). k \<notin> set (map pd_key (d_parameters (f_descriptor f)))
      then throw ''INVALID_STRATEGY_PARAMETERS''
      else and_then (normalize_params (d_parameters (f_descriptor f)) values [])
        (\<lambda>normalized. case f_validate f normalized of Inl _ \<Rightarrow> throw ''INVALID_STRATEGY_PARAMETERS''
           | Inr _ \<Rightarrow> return normalized))"

definition validate_parameters :: "strategy_factory \<Rightarrow> json \<Rightarrow> params result" where
  "validate_parameters f parameters = (case parameter_record parameters of
     None \<Rightarrow> throw ''INVALID_STRATEGY_PARAMETERS'' | Some values \<Rightarrow> validate_params f values)"

section \<open>Visualization\<close>

definition max_visualization_points :: nat where
  "max_visualization_points = 5000"

definition max_visualization_overlays :: nat where
  "max_visualization_overlays = 32"

fun kind_text :: "overlay_points \<Rightarrow> string" where
  "kind_text (Line_Points _) = ''LINE''"
| "kind_text (Zone_Points _) = ''ZONE''"
| "kind_text (Signal_Points _) = ''SIGNAL''"

fun normalize_points :: "overlay_points \<Rightarrow> overlay_points" where
  "normalize_points (Line_Points ps) =
     Line_Points (filter (\<lambda>(t, v). is_finite v) (last_n max_visualization_points ps))"
| "normalize_points (Zone_Points ps) =
     Zone_Points (map (\<lambda>(t, lo, hi). (t, nmin lo hi, nmax lo hi))
       (filter (\<lambda>(t, lo, hi). is_finite lo \<and> is_finite hi) (last_n max_visualization_points ps)))"
| "normalize_points (Signal_Points ps) =
     Signal_Points (filter (\<lambda>(t, v, s). is_finite v) (last_n max_visualization_points ps))"

definition normalize_overlay :: "strategy_definition \<Rightarrow> nat \<Rightarrow> overlay \<Rightarrow> overlay list" where
  "normalize_overlay definition i ov =
     (let label = (if trim (ov_label ov) \<noteq> [] then ov_label ov else kind_text (ov_points ov) @ '' overlay'');
          local_id = (if trim (ov_id ov) \<noteq> [] then trim (ov_id ov) else ''overlay-'' @ show_nat (i + 1));
          points = normalize_points (ov_points ov)
      in if point_count points > 0
         then [\<lparr>ov_id = sd_id definition @ '':'' @ local_id, ov_definition_id = Some (sd_id definition),
                ov_label = label, ov_points = points\<rparr>] else [])"

definition normalize_visualization :: "strategy_definition \<Rightarrow> overlay list option \<Rightarrow> overlay list" where
  "normalize_visualization definition overlays = (case overlays of None \<Rightarrow> []
     | Some os \<Rightarrow> concat (map (\<lambda>(i, ov). normalize_overlay definition i ov)
         (enumerate 0 (take max_visualization_overlays os))))"

section \<open>Facts about the combination\<close>

fun mirror :: "signal \<Rightarrow> signal" where
  "mirror BUY = SELL"
| "mirror SELL = BUY"
| "mirror HOLD = HOLD"

lemma mirror_eq [simp]: "mirror s = BUY \<longleftrightarrow> s = SELL" "mirror s = SELL \<longleftrightarrow> s = BUY" "mirror s = HOLD \<longleftrightarrow> s = HOLD"
  by (cases s; simp)+

lemma count_mirror:
  "count_list (map mirror ss) BUY = count_list ss SELL"
  "count_list (map mirror ss) SELL = count_list ss BUY"
  "count_list (map mirror ss) HOLD = count_list ss HOLD"
  by (induction ss) auto

lemma majority_mirror: "majority_vote (map mirror ss) = mirror (majority_vote ss)"
  by (auto simp: majority_vote_def Let_def count_mirror)

lemma majority_vote_perm: "mset ss = mset ts \<Longrightarrow> majority_vote ss = majority_vote ts"
  by (simp add: majority_vote_def Let_def count_mset [symmetric])

lemma signal_of_mirror: "signal_of (map (apsnd mirror) signals) i = mirror (signal_of signals i)"
  by (induction signals) (auto simp: signal_of_def split: if_splits)

lemma nmul_mirror: "w \<noteq> PInf \<Longrightarrow> w \<noteq> NInf \<Longrightarrow> nmul w (signal_score (mirror s)) = nneg (nmul w (signal_score s))"
  by (cases w; cases s) (auto simp: rnd_minus)

lemma weighted_score_mirror:
  assumes "\<forall>(c, s)\<in>set sel. is_finite (cp_weight c)"
  shows "weighted_score (map (apsnd mirror) sel) = nneg (weighted_score sel)"
proof -
  have "foldl (\<lambda>sum (c, s). nadd sum (nmul (cp_weight c) (signal_score s))) (nneg a) (map (apsnd mirror) sel) =
      nneg (foldl (\<lambda>sum (c, s). nadd sum (nmul (cp_weight c) (signal_score s))) a sel)" for a
    using assms
  proof (induction sel arbitrary: a)
    case (Cons x xs)
    obtain c s where x: "x = (c, s)" by (cases x)
    have "nmul (cp_weight c) (signal_score (mirror s)) = nneg (nmul (cp_weight c) (signal_score s))"
      using Cons.prems by (intro nmul_mirror) (auto simp: x)
    with Cons show ?case by (simp add: x nadd_nneg)
  qed simp
  from this [of "Fin 0"] show ?thesis by (simp add: weighted_score_def)
qed

lemma nlt_nneg: "nlt (nneg a) b \<longleftrightarrow> nlt (nneg b) a" "nlt a (nneg b) \<longleftrightarrow> nlt b (nneg a)"
  by (cases a; cases b; auto)+

lemma combine_mirror:
  assumes "cd_method d = WEIGHTED_SCORE \<Longrightarrow> \<forall>c\<in>set (cd_components d). is_finite (cp_weight c)"
    and "cd_thresholds d = Some t" "th_sell t = nneg (th_buy t)" "nle (Fin 0) (th_buy t)"
  shows "runtime_combine d (map (apsnd mirror) signals) = mirror (runtime_combine d signals)"
proof -
  let ?sel = "map (\<lambda>c. (c, signal_of signals (cp_definition_id c))) (cd_components d)"
  have sel: "map (\<lambda>c. (c, signal_of (map (apsnd mirror) signals) (cp_definition_id c))) (cd_components d) =
      map (apsnd mirror) ?sel" by (simp add: signal_of_mirror)
  show ?thesis
  proof (cases "cd_method d")
    case MAJORITY_VOTE
    have "majority_vote (map snd (map (apsnd mirror) ?sel)) = mirror (majority_vote (map snd ?sel))"
      using majority_mirror [of "map snd ?sel"] by (simp add: comp_def)
    with MAJORITY_VOTE show ?thesis unfolding runtime_combine_def sel Let_def by simp
  next
    case WEIGHTED_SCORE
    then have w: "weighted_score (map (apsnd mirror) ?sel) = nneg (weighted_score ?sel)"
      using assms(1) by (intro weighted_score_mirror) auto
    have "\<not> (nlt (th_buy t) x \<and> nlt x (th_sell t))" for x
      using assms(3,4) by (cases "th_buy t"; cases x) auto
    then have "(if nlt (th_buy t) (nneg x) then BUY else if nlt (nneg x) (th_sell t) then SELL else HOLD)
        = mirror (if nlt (th_buy t) x then BUY else if nlt x (th_sell t) then SELL else HOLD)" for x
      using nlt_nneg(1) [of x "nneg (th_buy t)"] nlt_nneg(2) [of "th_buy t" x] assms(3) by (auto split: if_splits)
    note this [of "weighted_score ?sel"]
    with WEIGHTED_SCORE assms(2) show ?thesis
      unfolding runtime_combine_def sel Let_def w by (auto split: if_splits)
  qed
qed

text \<open>The decimal literals 0.3 and -0.3 of the default thresholds.\<close>

lemma rnd_quarter: "rnd (1 / 4) = Fin (1 / 4)"
proof -
  have "(1 / 4 :: rat) = of_int 1 * 2 powi (- 2)" by (simp add: power_int_def power2_eq_square)
  moreover have "ulp_exp (of_int 1 * 2 powi (- 2)) \<le> - 2"
    using powi2_less_iff [of "- 2" 51] by (intro ulp_exp_le) simp_all
  ultimately have "rnd_val (1 / 4) = 1 / 4" by (metis rnd_val_grid)
  moreover have "(1 / 4 :: rat) < 2 ^ 1024" "- (2 ^ 1024) < (1 / 4 :: rat)"
    using one_le_power [of "2::rat" 1024] by linarith+
  ultimately show ?thesis by (simp add: rnd_def of_val_def)
qed

lemma default_thresholds_order:
  "nlt (Fin 0) (lit 3 1)" "lit (-3) 1 = nneg (lit 3 1)" "\<not> nle (lit 3 1) (lit (-3) 1)"
proof -
  have a: "nle (Fin (1 / 4)) (lit 3 1)" unfolding lit_def by (rule double.lower [OF rnd_quarter]) simp
  then show p: "nlt (Fin 0) (lit 3 1)" by (cases "lit 3 1") auto
  show m: "lit (-3) 1 = nneg (lit 3 1)" by (simp add: lit_def rnd_minus)
  show "\<not> nle (lit 3 1) (lit (-3) 1)" using p unfolding m by (cases "lit 3 1") auto
qed

section \<open>Facts about the parameters\<close>

lemma normalize_params_sound:
  "normalize_params ds values acc = return r \<Longrightarrow> js_wf acc \<Longrightarrow> distinct (map pd_key ds) \<Longrightarrow>
    (\<forall>d\<in>set ds. \<exists>v. js_get r (pd_key d) = Some v \<and> param_ok d v) \<and>
    (\<forall>k. k \<notin> set (map pd_key ds) \<longrightarrow> js_get r k = js_get acc k) \<and> js_wf r"
proof (induction ds arbitrary: acc)
  case (Cons d ds)
  let ?v = "case js_get values (pd_key d) of None \<Rightarrow> pd_default d | Some v \<Rightarrow> v"
  have ok: "param_ok d ?v" and rest: "normalize_params ds values (js_set (pd_key d) ?v acc) = return r"
    using Cons.prems(1) by (auto simp: Let_def split: if_splits)
  have wf: "js_wf (js_set (pd_key d) ?v acc)" using Cons.prems(2) by (simp add: store_simps)
  have dist: "distinct (map pd_key ds)" "pd_key d \<notin> set (map pd_key ds)" using Cons.prems(3) by simp_all
  note ih = Cons.IH [OF rest wf dist(1)]
  then have "js_get r (pd_key d) = Some ?v" using dist(2) by (auto simp: store_simps)
  with ih ok show ?case by (auto simp: store_simps)
qed simp

lemma normalize_params_stable:
  "normalize_params ds values acc = return r \<Longrightarrow> distinct (map pd_key ds) \<Longrightarrow>
    (\<And>d. d \<in> set ds \<Longrightarrow> js_get values' (pd_key d) =
      Some (case js_get values (pd_key d) of None \<Rightarrow> pd_default d | Some v \<Rightarrow> v)) \<Longrightarrow>
    normalize_params ds values' acc = return r"
  by (induction ds arbitrary: acc) (auto simp: Let_def split: if_splits)

lemma normalize_params_values:
  "normalize_params ds values acc = return r \<Longrightarrow> distinct (map pd_key ds) \<Longrightarrow>
    (\<forall>d\<in>set ds. js_get r (pd_key d) = Some (case js_get values (pd_key d) of None \<Rightarrow> pd_default d | Some v \<Rightarrow> v)) \<and>
    (\<forall>k. k \<notin> set (map pd_key ds) \<longrightarrow> js_get r k = js_get acc k)"
proof (induction ds arbitrary: acc)
  case (Cons d ds)
  let ?v = "case js_get values (pd_key d) of None \<Rightarrow> pd_default d | Some v \<Rightarrow> v"
  have rest: "normalize_params ds values (js_set (pd_key d) ?v acc) = return r"
    using Cons.prems(1) by (auto simp: Let_def split: if_splits)
  from Cons.IH [OF rest] Cons.prems(2) show ?case by (auto simp: store_simps)
qed simp

lemma js_get_None_iff: "js_get m k = None \<longleftrightarrow> k \<notin> set (map fst m)"
  by (simp add: js_get_def map_of_eq_None_iff)

lemma validate_params_Inr:
  "validate_params f values = return r \<longleftrightarrow>
    set (map fst values) \<subseteq> set (map pd_key (d_parameters (f_descriptor f))) \<and>
    normalize_params (d_parameters (f_descriptor f)) values [] = return r \<and> f_validate f r = return ()"
proof (cases "normalize_params (d_parameters (f_descriptor f)) values []")
  case (Inr n)
  then show ?thesis by (cases "f_validate f n") (auto simp: validate_params_def)
qed (auto simp: validate_params_def)

lemma validate_params_keys:
  assumes "validate_params f values = return r" "distinct (map pd_key (d_parameters (f_descriptor f)))"
  shows "set (map fst r) = set (map pd_key (d_parameters (f_descriptor f)))"
proof -
  have n: "normalize_params (d_parameters (f_descriptor f)) values [] = return r"
    using assms(1) by (simp add: validate_params_Inr)
  have "k \<in> set (map fst r) \<longleftrightarrow> k \<in> set (map pd_key (d_parameters (f_descriptor f)))" for k
    using normalize_params_values [OF n assms(2)] js_get_None_iff [of r k] by fastforce
  then show ?thesis by blast
qed

lemma validate_params_idem:
  assumes "validate_params f values = return r" "distinct (map pd_key (d_parameters (f_descriptor f)))"
  shows "validate_params f r = return r"
proof -
  let ?ds = "d_parameters (f_descriptor f)"
  have n: "normalize_params ?ds values [] = return r" and v: "f_validate f r = Inr ()"
    using assms(1) by (simp_all add: validate_params_Inr)
  have "normalize_params ?ds r [] = return r"
    using normalize_params_stable [OF n assms(2)] normalize_params_values [OF n assms(2)] by blast
  with v validate_params_keys [OF assms] show ?thesis by (simp add: validate_params_Inr)
qed

section \<open>Facts about the visualization\<close>

fun points_good :: "overlay_points \<Rightarrow> bool" where
  "points_good (Line_Points ps) = (\<forall>(t, v)\<in>set ps. is_finite v)"
| "points_good (Zone_Points ps) = (\<forall>(t, lo, hi)\<in>set ps. is_finite lo \<and> is_finite hi \<and> nle lo hi)"
| "points_good (Signal_Points ps) = (\<forall>(t, v, s)\<in>set ps. is_finite v)"

lemma min_max_finite:
  "is_finite a \<Longrightarrow> is_finite b \<Longrightarrow> is_finite (nmin a b) \<and> is_finite (nmax a b) \<and> nle (nmin a b) (nmax a b)"
  by (cases a; cases b) (auto simp: nmin_def nmax_def)

lemma filter_last_n_le: "length (filter P (last_n n xs)) \<le> n"
  by (rule order_trans [OF length_filter_le]) simp

lemma normalize_points_good:
  "points_good (normalize_points ps) \<and> point_count (normalize_points ps) \<le> max_visualization_points"
  by (cases ps) (auto simp: min_max_finite filter_last_n_le)

lemma concat_at_most_one: "(\<And>x. x \<in> set xs \<Longrightarrow> length (f x) \<le> 1) \<Longrightarrow> length (concat (map f xs)) \<le> length xs"
  by (induction xs) (auto simp: add_mono, fastforce)

lemma normalize_visualization_length: "length (normalize_visualization d os) \<le> max_visualization_overlays"
proof (cases os)
  case (Some vs)
  have "length (normalize_visualization d os) \<le> length (enumerate 0 (take max_visualization_overlays vs))"
    unfolding normalize_visualization_def Some option.case
    by (rule concat_at_most_one) (auto simp: normalize_overlay_def Let_def)
  then show ?thesis by simp
qed (simp add: normalize_visualization_def)

lemma normalize_visualization_member:
  assumes "v \<in> set (normalize_visualization d os)"
  shows "ov_definition_id v = Some (sd_id d) \<and> point_count (ov_points v) > 0 \<and>
    point_count (ov_points v) \<le> max_visualization_points \<and> points_good (ov_points v)"
  using assms normalize_points_good
  by (auto simp: normalize_visualization_def normalize_overlay_def Let_def split: option.splits if_splits)

section \<open>Properties\<close>

text \<open>The combination of signals is fair: when every BUY becomes a SELL and every SELL a BUY, the
  combined signal is mirrored too, by majority vote and by weighted score with opposite
  thresholds, whatever the rounding of the weighted sum.\<close>

lemma combination_is_symmetric:
  assumes "cd_method d = WEIGHTED_SCORE \<Longrightarrow> \<forall>c\<in>set (cd_components d). is_finite (cp_weight c)"
    and "cd_thresholds d = Some t" "th_sell t = nneg (th_buy t)" "nle (Fin 0) (th_buy t)"
  shows "runtime_combine d (map (apsnd mirror) signals) = mirror (runtime_combine d signals)"
  using combine_mirror [OF assms] .

definition sample_composite :: composite_definition where
  "sample_composite = \<lparr>cd_id = ''c'', cd_user = ''u'', cd_family = ''f'', cd_version = 1, cd_method = WEIGHTED_SCORE,
     cd_components = [\<lparr>cp_definition_id = ''a'', cp_weight = Fin 1\<rparr>],
     cd_thresholds = Some \<lparr>th_buy = Fin 0, th_sell = Fin 0\<rparr>, cd_created_at = []\<rparr>"

lemma combination_is_symmetric_witness:
  "runtime_combine sample_composite [(''a'', BUY)] = BUY \<and> runtime_combine sample_composite [(''a'', SELL)] = SELL"
proof -
  have "runtime_combine sample_composite [(''a'', BUY)] = BUY"
    by (simp add: sample_composite_def runtime_combine_def signal_of_def weighted_score_def number_simps)
  moreover have "runtime_combine sample_composite (map (apsnd mirror) [(''a'', BUY)]) = mirror (runtime_combine sample_composite [(''a'', BUY)])"
    by (rule combination_is_symmetric [where t = "\<lparr>th_buy = Fin 0, th_sell = Fin 0\<rparr>"]) (simp_all add: sample_composite_def)
  ultimately show ?thesis by simp
qed

text \<open>C9. Parameters that pass the validation are complete and in range: exactly the declared keys, each
  value of its declared type, within its bounds or among its options, accepted by the
  strategy's own check, and validating them once more changes nothing.\<close>

theorem validated_parameters_sound:
  assumes "validate_params f values = return r" "distinct (map pd_key (d_parameters (f_descriptor f)))"
  shows "set (map fst r) = set (map pd_key (d_parameters (f_descriptor f))) \<and>
    (\<forall>d\<in>set (d_parameters (f_descriptor f)). \<exists>v. js_get r (pd_key d) = Some v \<and> param_ok d v) \<and>
    f_validate f r = return () \<and> validate_params f r = return r"
  using validate_params_keys [OF assms] validate_params_idem [OF assms] assms
    normalize_params_sound [of "d_parameters (f_descriptor f)" "values" "[]" r]
  by (simp add: validate_params_Inr)

lemma rsi_defaults_valid:
  "validate_params rsi_factory [] = return [(''period'', PNum (Fin 14)), (''buyThreshold'', PNum (Fin 30)), (''sellThreshold'', PNum (Fin 70))]"
  by (simp add: validate_params_def rsi_factory_def descriptor_of_def param_spec_def js_get_def js_set_def Let_def
      number_simps below_minimum_def above_maximum_def parameters_error_def param_number_def)

lemma validated_parameters_sound_witness:
  "validate_params rsi_factory [(''period'', PNum (Fin 14)), (''buyThreshold'', PNum (Fin 30)), (''sellThreshold'', PNum (Fin 70))] =
    return [(''period'', PNum (Fin 14)), (''buyThreshold'', PNum (Fin 30)), (''sellThreshold'', PNum (Fin 70))]"
  using validated_parameters_sound [OF rsi_defaults_valid] by (simp add: rsi_factory_def descriptor_of_def param_spec_def)

text \<open>A visualization handed to a client is bounded and drawable whatever the strategy drew: at most
  32 overlays, each with 1 to 5000 points, all of its numbers finite, each zone with its low
  end below its high end, each tagged with the definition.\<close>

lemma visualization_is_bounded:
  "length (normalize_visualization d os) \<le> 32 \<and>
    list_all (\<lambda>v. ov_definition_id v = Some (sd_id d) \<and> 0 < point_count (ov_points v) \<and>
      point_count (ov_points v) \<le> 5000 \<and> points_good (ov_points v)) (normalize_visualization d os)"
  using normalize_visualization_length [of d os] normalize_visualization_member [of _ d os]
  by (auto simp: list_all_iff max_visualization_overlays_def max_visualization_points_def)

end
