(* ===== verification/StrategyService.thy ===== *)
theory StrategyService
  imports StrategyCore
begin

text \<open>
  The stateful part of \<^verbatim>\<open>modules/strategy/application/service.ts\<close>: the in-memory
  repositories, defining and deleting strategies and composites, resolving retained
  artifacts and generating a strategy from a model's proposal. The \<^verbatim>\<open>sha256\<close> digests, the
  fresh identifiers, the clock, the URL parser, the source loader and the model are
  parameters; a failed operation leaves the store as it was.
\<close>

section \<open>The repositories\<close>

record generation_audit =
  ga_id :: string
  ga_owner :: string
  ga_from_text :: bool
  ga_source :: string
  ga_model_name :: string
  ga_model_version :: string
  ga_prompt_version :: string
  ga_definition :: "string option"
  ga_composite :: "string option"
  ga_created_at :: string

record strategy_store =
  st_definitions :: "(string, string \<times> strategy_definition) jsmap"
  st_composites :: "(string, string \<times> composite_definition) jsmap"
  st_generations :: "(string, generation_audit) jsmap"

definition empty_store :: strategy_store where
  "empty_store = \<lparr>st_definitions = [], st_composites = [], st_generations = []\<rparr>"

definition insert_definition :: "string \<Rightarrow> strategy_definition \<Rightarrow> strategy_store \<Rightarrow> strategy_store \<times> strategy_definition" where
  "insert_definition owner d st = (let v = d\<lparr>sd_user := owner\<rparr> in
     (st\<lparr>st_definitions := js_set (sd_id d) (owner, v) (st_definitions st)\<rparr>, v))"

definition owned_definitions :: "string \<Rightarrow> strategy_store \<Rightarrow> strategy_definition list" where
  "owned_definitions owner st = map snd (filter (\<lambda>i. fst i = owner) (js_values (st_definitions st)))"

definition list_definitions :: "string \<Rightarrow> strategy_store \<Rightarrow> strategy_definition list" where
  "list_definitions owner st = sort_by (\<lambda>a b. or_else (locale_compare (sd_created_at a) (sd_created_at b))
     (locale_compare (sd_id a) (sd_id b))) (owned_definitions owner st)"

definition definitions_by_ids :: "string \<Rightarrow> string list \<Rightarrow> strategy_store \<Rightarrow> strategy_definition list" where
  "definitions_by_ids owner ids st = concat (map (\<lambda>i. case js_get (st_definitions st) i of None \<Rightarrow> []
     | Some (u, d) \<Rightarrow> if u = owner then [d] else []) ids)"

definition definitions_by_family :: "string \<Rightarrow> string \<Rightarrow> strategy_store \<Rightarrow> strategy_definition list" where
  "definitions_by_family owner family st = filter (\<lambda>d. sd_family d = family) (owned_definitions owner st)"

definition delete_definition_row :: "string \<Rightarrow> string \<Rightarrow> strategy_store \<Rightarrow> strategy_store \<times> bool" where
  "delete_definition_row owner i st = (case js_get (st_definitions st) i of None \<Rightarrow> (st, False)
     | Some (u, d) \<Rightarrow> if u = owner then (st\<lparr>st_definitions := js_delete i (st_definitions st)\<rparr>, True) else (st, False))"

definition insert_composite :: "string \<Rightarrow> composite_definition \<Rightarrow> strategy_store \<Rightarrow> strategy_store \<times> composite_definition" where
  "insert_composite owner c st = (let v = c\<lparr>cd_user := owner\<rparr> in
     (st\<lparr>st_composites := js_set (cd_id c) (owner, v) (st_composites st)\<rparr>, v))"

definition owned_composites :: "string \<Rightarrow> strategy_store \<Rightarrow> composite_definition list" where
  "owned_composites owner st = map snd (filter (\<lambda>i. fst i = owner) (js_values (st_composites st)))"

definition list_composites :: "string \<Rightarrow> strategy_store \<Rightarrow> composite_definition list" where
  "list_composites owner st = sort_by (\<lambda>a b. or_else (locale_compare (cd_created_at a) (cd_created_at b))
     (locale_compare (cd_id a) (cd_id b))) (owned_composites owner st)"

definition read_composite :: "string \<Rightarrow> string \<Rightarrow> strategy_store \<Rightarrow> composite_definition result" where
  "read_composite owner i st = (case js_get (st_composites st) i of None \<Rightarrow> throw ''COMPOSITE_STRATEGY_NOT_FOUND''
     | Some (u, c) \<Rightarrow> if u = owner then return c else throw ''COMPOSITE_STRATEGY_NOT_FOUND'')"

definition composites_by_family :: "string \<Rightarrow> string \<Rightarrow> strategy_store \<Rightarrow> composite_definition list" where
  "composites_by_family owner family st = filter (\<lambda>c. cd_family c = family) (owned_composites owner st)"

definition delete_composite_row :: "string \<Rightarrow> string \<Rightarrow> strategy_store \<Rightarrow> strategy_store \<times> bool" where
  "delete_composite_row owner i st = (case js_get (st_composites st) i of None \<Rightarrow> (st, False)
     | Some (u, c) \<Rightarrow> if u = owner then (st\<lparr>st_composites := js_delete i (st_composites st)\<rparr>, True) else (st, False))"

definition commit_generation :: "string \<Rightarrow> strategy_definition list \<Rightarrow> composite_definition option \<Rightarrow> generation_audit
    \<Rightarrow> strategy_store \<Rightarrow> strategy_store" where
  "commit_generation owner ds c audit st =
     (let st1 = fold (\<lambda>d s. fst (insert_definition owner d s)) ds st;
          st2 = (case c of None \<Rightarrow> st1 | Some c \<Rightarrow> fst (insert_composite owner c st1))
      in st2\<lparr>st_generations := js_set (ga_id audit) audit (st_generations st2)\<rparr>)"

section \<open>Finding a factory\<close>

definition factories_by_name :: "registry \<Rightarrow> (string, strategy_factory) jsmap" where
  "factories_by_name r = fold (\<lambda>d m. case registry_get r (d_name d) (d_implementation_sha256 d) of
     None \<Rightarrow> m | Some f \<Rightarrow> js_set (d_name d) f m) (registry_list r) []"

definition clean_name :: "string \<Rightarrow> string" where
  "clean_name s = filter (\<lambda>c. \<not> is_space c \<and> c \<noteq> CHR ''_'' \<and> c \<noteq> CHR ''-'') (to_upper s)"

definition name_alias :: "string \<Rightarrow> string \<Rightarrow> bool" where
  "name_alias clean raw = (clean = raw \<or>
     (clean = ''BOLLINGER'' \<and> raw \<in> {''BOLLINGERBANDS'', ''BOLLINGERBAND''}) \<or>
     (clean = ''MA'' \<and> raw \<in> {''MOVINGAVERAGE'', ''MOVINGAVERAGECROSS'', ''MACROSS''}) \<or>
     (clean = ''SUPPORTRESISTANCE'' \<and> raw \<in> {''SUPPORTANDRESISTANCE'', ''SUPPRES''}))"

definition lookup_factory :: "(string, strategy_factory) jsmap \<Rightarrow> string \<Rightarrow> strategy_factory option" where
  "lookup_factory fs name = (let raw = clean_name (trim name) in
     case js_get fs name of Some f \<Rightarrow> Some f
     | None \<Rightarrow> (case js_get fs (to_upper name) of Some f \<Rightarrow> Some f
     | None \<Rightarrow> (case find (\<lambda>(k, f). name_alias (clean_name k) raw) fs of Some (k, f) \<Rightarrow> Some f
     | None \<Rightarrow> map_option snd (find (\<lambda>(k, f). to_lower k = to_lower name) fs))))"

section \<open>Defining a strategy\<close>

definition max_version :: "int list \<Rightarrow> int" where
  "max_version vs = foldl max 0 vs"

definition prepare_strategy :: "(string \<times> string \<times> params \<Rightarrow> string) \<Rightarrow> (string, strategy_factory) jsmap
    \<Rightarrow> string \<Rightarrow> string \<Rightarrow> string \<Rightarrow> string \<Rightarrow> json \<Rightarrow> strategy_store \<Rightarrow> (strategy_definition \<times> bool) result" where
  "prepare_strategy dg fs fresh now user name parameters st =
     (if trim user = [] then throw ''INVALID_USER''
      else case lookup_factory fs name of None \<Rightarrow> throw ''STRATEGY_NOT_REGISTERED''
      | Some f \<Rightarrow> and_then (validate_parameters f parameters) (\<lambda>normalized.
          let canonical = d_name (f_descriptor f); sha = d_implementation_sha256 (f_descriptor f);
              family = ''strategy:'' @ canonical;
              prior = definitions_by_family user family st
          in case find (\<lambda>d. dg (sd_strategy_name d, sd_sha256 d, sd_parameters d) = dg (canonical, sha, normalized)) prior of
               Some d \<Rightarrow> return (d, False)
             | None \<Rightarrow> return (\<lparr>sd_id = ''strategy-definition-'' @ fresh, sd_user = user, sd_family = family,
                 sd_family_name = d_display_name (f_descriptor f), sd_strategy_name = canonical,
                 sd_version_tag = d_implementation_version (f_descriptor f), sd_sha256 = sha,
                 sd_version = max_version (map sd_version prior) + 1, sd_parameters = normalized,
                 sd_created_at = now\<rparr>, True)))"

definition define_strategy :: "(string \<times> string \<times> params \<Rightarrow> string) \<Rightarrow> (string, strategy_factory) jsmap
    \<Rightarrow> string \<Rightarrow> string \<Rightarrow> string \<Rightarrow> string \<Rightarrow> json \<Rightarrow> strategy_store \<Rightarrow> (strategy_store \<times> strategy_definition) result" where
  "define_strategy dg fs fresh now user name parameters st =
     and_then (prepare_strategy dg fs fresh now user name parameters st) (\<lambda>(d, is_new).
       return (if is_new then insert_definition user d st else (st, d)))"

definition get_definition :: "string \<Rightarrow> string \<Rightarrow> strategy_store \<Rightarrow> strategy_definition result" where
  "get_definition user i st = (case definitions_by_ids user [i] st of
     [] \<Rightarrow> throw ''STRATEGY_DEFINITION_NOT_FOUND'' | d # _ \<Rightarrow> return d)"

definition read_definitions :: "string \<Rightarrow> string list \<Rightarrow> strategy_store \<Rightarrow> strategy_definition list result" where
  "read_definitions user ids st = map_results (\<lambda>i. get_definition user i st) ids"

definition delete_definition :: "string \<Rightarrow> string \<Rightarrow> strategy_store \<Rightarrow> (strategy_store \<times> bool) result" where
  "delete_definition user i st = (if trim user = [] \<or> trim i = [] then throw ''VALIDATION_ERROR''
     else return (delete_definition_row user (trim i) st))"

definition delete_composite :: "string \<Rightarrow> string \<Rightarrow> strategy_store \<Rightarrow> (strategy_store \<times> bool) result" where
  "delete_composite user i st = (if trim user = [] \<or> trim i = [] then throw ''VALIDATION_ERROR''
     else return (delete_composite_row user (trim i) st))"

section \<open>Defining a composite\<close>

definition require_owned_definition :: "string \<Rightarrow> string list \<Rightarrow> strategy_store \<Rightarrow> string \<Rightarrow> unit result" where
  "require_owned_definition user known st i =
     (if i \<in> set known then return ()
      else if definitions_by_ids user [i] st \<noteq> [] then return ()
      else if js_has (st_definitions st) i then throw ''OWNERSHIP_MISMATCH''
      else throw ''UNKNOWN_STRATEGY_DEFINITION'')"

fun method_text :: "combination_method \<Rightarrow> string" where
  "method_text MAJORITY_VOTE = ''MAJORITY_VOTE''"
| "method_text WEIGHTED_SCORE = ''WEIGHTED_SCORE''"

definition composite_family :: "combination_method \<Rightarrow> component list \<Rightarrow> string" where
  "composite_family m cs = ''composite:'' @ method_text m @ '':'' @
     join_with '','' (sort_by order_of (map cp_definition_id cs))"

definition out_of_unit :: "number \<Rightarrow> bool" where
  "out_of_unit x = (nlt x (num (-1)) \<or> nlt (num 1) x)"

definition thresholds_invalid :: "thresholds \<Rightarrow> bool" where
  "thresholds_invalid t = (\<not> is_finite (th_buy t) \<or> \<not> is_finite (th_sell t) \<or> nle (th_buy t) (th_sell t) \<or>
     out_of_unit (th_buy t) \<or> out_of_unit (th_sell t))"

definition weights_total :: "component list \<Rightarrow> number" where
  "weights_total cs = nsum (map cp_weight cs)"

definition weights_off :: "component list \<Rightarrow> bool" where
  "weights_off cs = nlt (lit 1 4) (nabs (nsub (weights_total cs) (num 1)))"

text \<open>The components and thresholds of a valid command, normalized for its method.\<close>

definition composite_content :: "combination_method \<Rightarrow> component list \<Rightarrow> thresholds option
    \<Rightarrow> (component list \<times> thresholds) result" where
  "composite_content m cs t = (case m of
     MAJORITY_VOTE \<Rightarrow> return (map (\<lambda>c. c\<lparr>cp_weight := Fin 0\<rparr>) cs, default_thresholds)
   | WEIGHTED_SCORE \<Rightarrow>
       (if (\<exists>c\<in>set cs. nlt (cp_weight c) (Fin 0)) \<or> weights_off cs then throw ''INVALID_COMPOSITE_STRATEGY''
        else let th = (case t of None \<Rightarrow> default_thresholds | Some t \<Rightarrow> t) in
          if thresholds_invalid th then throw ''INVALID_COMPOSITE_STRATEGY'' else return (cs, th)))"

definition prepare_composite :: "(combination_method \<times> component list \<times> thresholds option \<Rightarrow> string) \<Rightarrow> string
    \<Rightarrow> string \<Rightarrow> string \<Rightarrow> combination_method \<Rightarrow> component list \<Rightarrow> thresholds option \<Rightarrow> string list \<Rightarrow> strategy_store
    \<Rightarrow> (composite_definition \<times> bool) result" where
  "prepare_composite dg fresh now user m cs t known st =
     (if trim user = [] \<or> cs = [] \<or> (\<exists>c\<in>set cs. trim (cp_definition_id c) = [] \<or> \<not> is_finite (cp_weight c)) \<or>
         (\<exists>c\<in>set cs. nlt (cp_weight c) (Fin 0)) then throw ''INVALID_COMPOSITE_STRATEGY''
      else and_then (map_results (\<lambda>c. require_owned_definition user known st (cp_definition_id c)) cs) (\<lambda>_.
        and_then (composite_content m cs t) (\<lambda>(components, th).
          let family = composite_family m components; prior = composites_by_family user family st
          in case find (\<lambda>c. dg (cd_method c, cd_components c, cd_thresholds c) = dg (m, components, Some th)) prior of
               Some c \<Rightarrow> return (c, False)
             | None \<Rightarrow> return (\<lparr>cd_id = ''composite-strategy-'' @ fresh, cd_user = user, cd_family = family,
                 cd_version = max_version (map cd_version prior) + 1, cd_method = m, cd_components = components,
                 cd_thresholds = Some th, cd_created_at = now\<rparr>, True))))"

definition define_composite :: "(combination_method \<times> component list \<times> thresholds option \<Rightarrow> string) \<Rightarrow> string
    \<Rightarrow> string \<Rightarrow> string \<Rightarrow> combination_method \<Rightarrow> component list \<Rightarrow> thresholds option \<Rightarrow> strategy_store
    \<Rightarrow> (strategy_store \<times> composite_definition) result" where
  "define_composite dg fresh now user m cs t st =
     and_then (prepare_composite dg fresh now user m cs t [] st) (\<lambda>(c, is_new).
       return (if is_new then insert_composite user c st else (st, c)))"

section \<open>Resolving a retained artifact\<close>

definition exact_factory :: "strategy_definition \<Rightarrow> strategy_factory option \<Rightarrow> strategy_factory result" where
  "exact_factory d f = (case f of None \<Rightarrow> throw ''IMPLEMENTATION_ARTIFACT_UNAVAILABLE''
     | Some f \<Rightarrow> if d_name (f_descriptor f) \<noteq> sd_strategy_name d \<or> d_implementation_sha256 (f_descriptor f) \<noteq> sd_sha256 d
         then throw ''IMPLEMENTATION_ARTIFACT_UNAVAILABLE'' else return f)"

text \<open>The resolver is a lookup that may also fail; both failures read the same to the caller.\<close>

definition resolve_retained_factory :: "(string \<Rightarrow> string \<Rightarrow> strategy_factory option) \<Rightarrow> strategy_definition
    \<Rightarrow> (string, strategy_factory) jsmap \<Rightarrow> ((string, strategy_factory) jsmap \<times> strategy_factory) result" where
  "resolve_retained_factory resolver d cache = (let key = artifact_key (sd_strategy_name d) (sd_sha256 d) in
     case js_get cache key of Some f \<Rightarrow> return (cache, f)
     | None \<Rightarrow> and_then (exact_factory d (resolver (sd_strategy_name d) (sd_sha256 d))) (\<lambda>f.
         return (js_set key f cache, f)))"

definition build_visualization :: "strategy_definition \<Rightarrow> strategy_factory \<Rightarrow> strategy_context list \<Rightarrow> overlay list" where
  "build_visualization d f contexts = normalize_visualization d
     (case s_visualize (f_create f (sd_parameters d)) of None \<Rightarrow> None
      | Some v \<Rightarrow> Some (v (last_n max_visualization_points contexts)))"

section \<open>A model's proposal\<close>

datatype proposal = Single_Proposal string json
  | Composite_Proposal "(string \<times> json \<times> number) list" combination_method thresholds

definition schema_error :: string where
  "schema_error = ''STRATEGY_MODEL_SCHEMA_INVALID''"

fun method_of :: "json option \<Rightarrow> combination_method option" where
  "method_of (Some (JStr s)) = (if s = ''MAJORITY_VOTE'' then Some MAJORITY_VOTE
     else if s = ''WEIGHTED_SCORE'' then Some WEIGHTED_SCORE else None)"
| "method_of _ = None"

definition record_params :: "json option \<Rightarrow> json option" where
  "record_params v = (case v of None \<Rightarrow> None | Some j \<Rightarrow> if parameter_record j \<noteq> None then Some j else None)"

definition proposed_thresholds :: "json option \<Rightarrow> thresholds result" where
  "proposed_thresholds t =
     and_then (case t of Some (JObj fs) \<Rightarrow>
         (if \<not> keys_are (JObj fs) [''buy'', ''sell''] [] then throw schema_error
          else return (case finite_json (map_of fs ''buy'') of None \<Rightarrow> lit 3 1 | Some b \<Rightarrow> b,
                       case finite_json (map_of fs ''sell'') of None \<Rightarrow> lit (-3) 1 | Some s \<Rightarrow> s))
       | _ \<Rightarrow> return (lit 3 1, lit (-3) 1))
     (\<lambda>(buy, sell). return (if nle buy sell
        then (if nlt (Fin 0) buy \<and> nlt (Fin 0) sell then \<lparr>th_buy = buy, th_sell = nneg buy\<rparr> else default_thresholds)
        else \<lparr>th_buy = buy, th_sell = sell\<rparr>))"

definition proposed_component :: "json \<Rightarrow> (string \<times> json \<times> number) result" where
  "proposed_component c =
     (if \<not> is_record c \<or> \<not> keys_are c [''strategyName'', ''parameters'', ''weight''] [] then throw schema_error
      else case (string_json (json_field c ''strategyName''), record_params (json_field c ''parameters''),
                 finite_json (json_field c ''weight'')) of
        (Some name, Some ps, Some w) \<Rightarrow> return (name, ps, w)
      | _ \<Rightarrow> throw schema_error)"

definition rescale_weights :: "(string \<times> json \<times> number) list \<Rightarrow> (string \<times> json \<times> number) list" where
  "rescale_weights cs = (let sum = nsum (map (\<lambda>(n, ps, w). w) cs) in
     if nlt (Fin 0) sum \<and> nlt (lit 1 4) (nabs (nsub sum (num 1))) \<and> (\<forall>(n, ps, w)\<in>set cs. nle (Fin 0) w)
     then map (\<lambda>(n, ps, w). (n, ps, to_fixed_num 4 (ndiv w sum))) cs else cs)"

definition read_proposal :: "json \<Rightarrow> proposal result" where
  "read_proposal v = (let kind = json_field v ''kind'' in
     if \<not> is_record v then throw schema_error
     else if kind = Some (JStr ''SINGLE'') then
       (if \<not> keys_are v [''kind'', ''strategyName'', ''parameters''] [''thresholds'', ''components'', ''method'']
        then throw schema_error
        else case (record_params (json_field v ''parameters''), string_json (json_field v ''strategyName'')) of
          (Some ps, Some name) \<Rightarrow> return (Single_Proposal name ps) | _ \<Rightarrow> throw schema_error)
     else if kind = Some (JStr ''COMPOSITE'') then
       (if \<not> keys_are v [''kind'', ''components'', ''method''] [''thresholds'', ''strategyName'', ''parameters'']
        then throw schema_error
        else case (array_json (json_field v ''components''), method_of (json_field v ''method'')) of
          (Some (c # cs), Some m) \<Rightarrow>
            and_then (proposed_thresholds (json_field v ''thresholds'')) (\<lambda>t.
            and_then (map_results proposed_component (c # cs)) (\<lambda>raw.
              return (Composite_Proposal (if m = WEIGHTED_SCORE then rescale_weights raw else raw) m t)))
        | _ \<Rightarrow> throw schema_error)
     else throw schema_error)"

section \<open>Generating a strategy\<close>

record environment =
  e_digest :: "string \<times> string \<times> params \<Rightarrow> string"
  e_composite_digest :: "combination_method \<times> component list \<times> thresholds option \<Rightarrow> string"
  e_factories :: "(string, strategy_factory) jsmap"
  e_fresh :: "nat \<Rightarrow> string"
  e_model_name :: string
  e_model_version :: string
  e_prompt_version :: string
  e_now :: string
  e_protocol :: "string \<Rightarrow> string option"
  e_load :: "string \<Rightarrow> string result"
  e_generate :: "string \<Rightarrow> json result"

definition validate_http_url :: "(string \<Rightarrow> string option) \<Rightarrow> string \<Rightarrow> string result" where
  "validate_http_url protocol value = (let text = trim value in
     if text = [] then throw ''VALIDATION_ERROR''
     else case protocol text of None \<Rightarrow> throw ''VALIDATION_ERROR''
       | Some p \<Rightarrow> if p = ''http:'' \<or> p = ''https:'' then return text else throw ''VALIDATION_ERROR'')"

definition source_value :: "json \<Rightarrow> (bool \<times> string) result" where
  "source_value source = (let ty = json_field source ''sourceType''; is_text = (ty = Some (JStr ''TEXT'')) in
     if \<not> is_record source \<or> (\<not> is_text \<and> ty \<noteq> Some (JStr ''URL'')) then throw ''VALIDATION_ERROR''
     else if \<not> keys_are source [''sourceType'', if is_text then ''text'' else ''url''] [] then throw ''VALIDATION_ERROR''
     else case string_json (json_field source (if is_text then ''text'' else ''url'')) of
       None \<Rightarrow> throw ''VALIDATION_ERROR''
     | Some v \<Rightarrow> if trim v = [] \<or> length (trim v) > 100000 then throw ''VALIDATION_ERROR'' else return (is_text, v))"

definition load_source :: "environment \<Rightarrow> bool \<Rightarrow> string \<Rightarrow> string result" where
  "load_source env is_text value =
     (if is_text then return (trim value)
      else and_then (validate_http_url (e_protocol env) value) (\<lambda>url.
        case e_load env url of
          Inl e \<Rightarrow> if starts_with ''STRATEGY_SOURCE_'' e then throw e else throw ''STRATEGY_SOURCE_UNAVAILABLE''
        | Inr t \<Rightarrow> return (trim t)))"

definition passed_model_errors :: "string list" where
  "passed_model_errors = [''STRATEGY_MODEL_TIMEOUT'', ''STRATEGY_MODEL_UNAVAILABLE'', ''STRATEGY_MODEL_AUTHENTICATION_FAILED'',
     ''STRATEGY_MODEL_RATE_LIMITED'', ''STRATEGY_MODEL_SCHEMA_INVALID'', ''STRATEGY_MODEL_ERROR'']"

definition ask_model :: "environment \<Rightarrow> string \<Rightarrow> proposal result" where
  "ask_model env text = (case and_then (e_generate env text) read_proposal of
     Inl e \<Rightarrow> if e \<in> set passed_model_errors then throw e else throw ''STRATEGY_MODEL_UNAVAILABLE''
   | Inr p \<Rightarrow> return p)"

text \<open>The loop over the components of a proposal; \<open>new\<close> collects the definitions to insert.\<close>

fun prepare_components :: "environment \<Rightarrow> string \<Rightarrow> strategy_store \<Rightarrow> nat \<Rightarrow> (string \<times> json \<times> number) list
    \<Rightarrow> strategy_definition list \<Rightarrow> component list \<Rightarrow> (strategy_definition list \<times> component list) result" where
  "prepare_components env user st n [] new cs = return (new, cs)"
| "prepare_components env user st n ((name, ps, w) # rest) new cs =
     and_then (prepare_strategy (e_digest env) (e_factories env) (e_fresh env n) (e_now env) user name ps st) (\<lambda>(d, is_new).
       prepare_components env user st (n + 1) rest (if is_new then new @ [d] else new)
         (cs @ [\<lparr>cp_definition_id = sd_id d, cp_weight = w\<rparr>]))"

text \<open>The definitions to insert, the definition or the composite that is the answer.\<close>

record generated =
  gn_new :: "strategy_definition list"
  gn_definition :: "strategy_definition option"
  gn_composite :: "composite_definition option"

definition prepare_generated :: "environment \<Rightarrow> string \<Rightarrow> strategy_store \<Rightarrow> proposal \<Rightarrow> generated result" where
  "prepare_generated env user st p = (case p of
     Single_Proposal name ps \<Rightarrow>
       and_then (prepare_strategy (e_digest env) (e_factories env) (e_fresh env 0) (e_now env) user name ps st)
         (\<lambda>(d, is_new). return \<lparr>gn_new = (if is_new then [d] else []), gn_definition = Some d, gn_composite = None\<rparr>)
   | Composite_Proposal cs m t \<Rightarrow>
       and_then (prepare_components env user st 0 cs [] []) (\<lambda>(new, components).
         and_then (prepare_composite (e_composite_digest env) (e_fresh env (length cs)) (e_now env) user m components
             (Some t) (map sd_id new) st)
           (\<lambda>(c, is_new). return \<lparr>gn_new = new, gn_definition = None, gn_composite = Some c\<rparr>)))"

definition generation_audit_of :: "environment \<Rightarrow> string \<Rightarrow> bool \<Rightarrow> string \<Rightarrow> string \<Rightarrow> generated \<Rightarrow> generation_audit" where
  "generation_audit_of env user is_text value i g =
     \<lparr>ga_id = ''strategy-generation-'' @ i, ga_owner = user, ga_from_text = is_text, ga_source = trim value,
      ga_model_name = e_model_name env, ga_model_version = e_model_version env, ga_prompt_version = e_prompt_version env,
      ga_definition = map_option sd_id (gn_definition g),
      ga_composite = map_option cd_id (gn_composite g), ga_created_at = e_now env\<rparr>"

definition proposal_size :: "proposal \<Rightarrow> nat" where
  "proposal_size p = (case p of Single_Proposal _ _ \<Rightarrow> 1 | Composite_Proposal cs _ _ \<Rightarrow> length cs + 1)"

definition generate_strategy :: "environment \<Rightarrow> string \<Rightarrow> json \<Rightarrow> strategy_store \<Rightarrow> (strategy_store \<times> generated) result" where
  "generate_strategy env user source st =
     (if trim user = [] then throw ''VALIDATION_ERROR''
      else and_then (source_value source) (\<lambda>(is_text, value).
        and_then (load_source env is_text value) (\<lambda>text.
          if text = [] then throw ''STRATEGY_SOURCE_UNUSABLE''
          else and_then (ask_model env text) (\<lambda>p.
            and_then (prepare_generated env user st p) (\<lambda>g.
              return (commit_generation user (gn_new g) (gn_composite g)
                (generation_audit_of env user is_text value (e_fresh env (proposal_size p)) g) st, g))))))"

section \<open>Facts\<close>

lemma foldl_max: "x \<in> set vs \<Longrightarrow> x \<le> foldl max (a::int) vs" "a \<le> foldl max (a::int) vs"
proof (induction vs arbitrary: a)
  case (Cons v vs)
  {
    case 1
    with Cons.IH(1) [of "max a v"] Cons.IH(2) [of "max a v"] show ?case by auto
  next
    case 2
    with Cons.IH(2) [of "max a v"] show ?case by simp
  }
qed simp_all

lemma max_version_ge: "v \<in> set vs \<Longrightarrow> v \<le> max_version vs"
  by (simp add: max_version_def foldl_max)

lemma owned_insert_fresh:
  assumes "\<not> js_has (st_definitions st) (sd_id d)"
  shows "owned_definitions user (fst (insert_definition owner d st)) =
    owned_definitions user st @ (if user = owner then [d\<lparr>sd_user := owner\<rparr>] else [])"
  using assms by (simp add: owned_definitions_def insert_definition_def Let_def js_values_fresh)

lemma family_insert_fresh:
  assumes "\<not> js_has (st_definitions st) (sd_id d)"
  shows "definitions_by_family user fam (fst (insert_definition owner d st)) =
    definitions_by_family user fam st @ (if user = owner \<and> fam = sd_family d then [d\<lparr>sd_user := owner\<rparr>] else [])"
  using assms by (simp add: definitions_by_family_def owned_insert_fresh)

lemma prepare_strategy_new:
  assumes "prepare_strategy dg fs fresh now user name ps st = return (d, True)"
  shows "sd_id d = ''strategy-definition-'' @ fresh" "sd_user d = user"
    "sd_version d = max_version (map sd_version (definitions_by_family user (sd_family d) st)) + 1"
    "sd_family d = ''strategy:'' @ sd_strategy_name d"
  using assms by (auto simp: prepare_strategy_def result_simps Let_def split: if_splits option.splits)

lemma prepare_strategy_old:
  assumes "prepare_strategy dg fs fresh now user name ps st = return (d, False)"
  shows "prepare_strategy dg fs fresh' now' user name ps st = return (d, False)"
  using assms by (auto simp: prepare_strategy_def result_simps Let_def split: if_splits option.splits)

lemma prepare_strategy_again:
  assumes "prepare_strategy dg fs fresh now user name ps st = return (d, True)"
    and "\<not> js_has (st_definitions st) (sd_id d)"
  shows "prepare_strategy dg fs fresh' now' user name ps (fst (insert_definition user d st)) = return (d, False)"
proof -
  have u: "d\<lparr>sd_user := user\<rparr> = d" using prepare_strategy_new(2) [OF assms(1)] by (cases d) simp
  obtain f ns where f: "lookup_factory fs name = Some f" "validate_parameters f ps = return ns" "trim user \<noteq> []"
    and none: "find (\<lambda>e. dg (sd_strategy_name e, sd_sha256 e, sd_parameters e) =
        dg (d_name (f_descriptor f), d_implementation_sha256 (f_descriptor f), ns))
      (definitions_by_family user (''strategy:'' @ d_name (f_descriptor f)) st) = None"
    and d: "sd_strategy_name d = d_name (f_descriptor f)" "sd_sha256 d = d_implementation_sha256 (f_descriptor f)"
      "sd_parameters d = ns" "sd_family d = ''strategy:'' @ d_name (f_descriptor f)"
    using assms(1) by (auto simp: prepare_strategy_def result_simps Let_def split: if_splits option.splits)
  have "definitions_by_family user (''strategy:'' @ d_name (f_descriptor f)) (fst (insert_definition user d st)) =
      definitions_by_family user (''strategy:'' @ d_name (f_descriptor f)) st @ [d]"
    using family_insert_fresh [OF assms(2), of user "sd_family d" user] u d(4) by simp
  with f none d(1-3) show ?thesis
    by (simp add: prepare_strategy_def Let_def find_append del: append.simps)
qed

definition versions_distinct :: "strategy_store \<Rightarrow> bool" where
  "versions_distinct st = (\<forall>user fam. distinct (map sd_version (definitions_by_family user fam st)))"

lemma define_strategy_versions:
  assumes "versions_distinct st" "define_strategy dg fs fresh now user name ps st = return (st', d)"
    and "\<not> js_has (st_definitions st) (''strategy-definition-'' @ fresh)"
  shows "versions_distinct st'"
proof -
  obtain d0 new where p: "prepare_strategy dg fs fresh now user name ps st = return (d0, new)"
    and r: "(st', d) = (if new then insert_definition user d0 st else (st, d0))"
    using assms(2) by (auto simp: define_strategy_def result_simps)
  show ?thesis
  proof (cases new)
    case True
    with p have p: "prepare_strategy dg fs fresh now user name ps st = return (d0, True)" by simp
    note n = prepare_strategy_new [OF p]
    have f: "\<not> js_has (st_definitions st) (sd_id d0)" using assms(3) n(1) by simp
    have "st' = fst (insert_definition user d0 st)" using r True by (metis fst_conv)
    moreover have "sd_version d0 \<notin> set (map sd_version (definitions_by_family user (sd_family d0) st))"
      using max_version_ge [of "sd_version d0"] n(3) by fastforce
    ultimately show ?thesis
      using assms(1) f by (auto simp: versions_distinct_def family_insert_fresh)
  next
    case False
    with r assms(1) show ?thesis by simp
  qed
qed

lemma definitions_by_ids_owner:
  "d \<in> set (definitions_by_ids owner ids st) \<Longrightarrow> \<exists>i\<in>set ids. js_get (st_definitions st) i = Some (owner, d)"
  by (fastforce simp: definitions_by_ids_def split: option.splits if_splits)

lemma finite_nonneg: "is_finite a \<Longrightarrow> \<not> nlt a (Fin 0) \<Longrightarrow> nle (Fin 0) a"
  by (cases a) auto

lemma prepare_composite_sound:
  assumes "prepare_composite dg fresh now user m cs t known st = return (c, True)"
  shows "(\<forall>k\<in>set cs. cp_definition_id k \<in> set known \<or>
        (\<exists>d. js_get (st_definitions st) (cp_definition_id k) = Some (user, d)))"
    "cd_method c = m" "composite_content m cs t = return (cd_components c, the (cd_thresholds c))"
    "cd_thresholds c \<noteq> None" "\<forall>k\<in>set cs. is_finite (cp_weight k) \<and> nle (Fin 0) (cp_weight k)"
proof -
  have own: "cp_definition_id k \<in> set known \<or> (\<exists>d. js_get (st_definitions st) (cp_definition_id k) = Some (user, d))"
    if "require_owned_definition user known st (cp_definition_id k) = return x" for k x
    using that by (auto simp: require_owned_definition_def definitions_by_ids_def split: if_splits option.splits)
  have all: "\<exists>x. f k = return x" if "map_results f xs = return ys" "k \<in> set xs" for f k xs ys
    using that by (induction xs arbitrary: ys) (auto simp: result_simps)
  show "(\<forall>k\<in>set cs. cp_definition_id k \<in> set known \<or>
        (\<exists>d. js_get (st_definitions st) (cp_definition_id k) = Some (user, d)))"
    using assms own all by (fastforce simp: prepare_composite_def result_simps split: if_splits)
  show "cd_method c = m" "composite_content m cs t = return (cd_components c, the (cd_thresholds c))" "cd_thresholds c \<noteq> None"
    using assms by (auto simp: prepare_composite_def result_simps Let_def split: if_splits option.splits)
  show "\<forall>k\<in>set cs. is_finite (cp_weight k) \<and> nle (Fin 0) (cp_weight k)"
    using assms finite_nonneg by (auto simp: prepare_composite_def split: if_splits)
qed

section \<open>Properties\<close>

text \<open>A user, a request and a model answer with two settings of one strategy.\<close>

definition sample_source :: json where
  "sample_source = JObj [(''sourceType'', JStr ''TEXT''), (''text'', JStr ''two rsi'')]"

definition sample_answer :: json where
  "sample_answer = JObj [(''kind'', JStr ''COMPOSITE''), (''components'', JArr
     [JObj [(''strategyName'', JStr ''RSI''), (''parameters'', JObj [(''period'', JNum (Fin 10))]), (''weight'', JNum (Fin 0))],
      JObj [(''strategyName'', JStr ''RSI''), (''parameters'', JObj [(''period'', JNum (Fin 20))]), (''weight'', JNum (Fin 0))]]),
     (''method'', JStr ''MAJORITY_VOTE'')]"

definition sample_env :: environment where
  "sample_env = \<lparr>e_digest = (\<lambda>(n, s, p). n @ s), e_composite_digest = (\<lambda>_. []), e_factories = [(''RSI'', rsi_factory)],
     e_fresh = (\<lambda>n. if n = 0 then ''0'' else if n = 1 then ''1'' else ''2''), e_model_name = [], e_model_version = [], e_prompt_version = [],
     e_now = ''2024-01-01T00:00:00.000Z'', e_protocol = (\<lambda>_. None),
     e_load = (\<lambda>_. Inl []), e_generate = (\<lambda>_. return sample_answer)\<rparr>"


lemma sample_lookup: "lookup_factory (e_factories sample_env) ''RSI'' = Some rsi_factory"
  by (simp add: lookup_factory_def sample_env_def js_get_def)

lemma sample_validate:
  "p \<in> {10, 20} \<Longrightarrow> validate_parameters rsi_factory (JObj [(''period'', JNum (Fin p))]) =
    return [(''period'', PNum (Fin p)), (''buyThreshold'', PNum (Fin 30)), (''sellThreshold'', PNum (Fin 70))]"
  by (auto simp: validate_parameters_def parameter_record_def validate_params_def rsi_factory_def descriptor_of_def
      param_spec_def js_get_def js_set_def Let_def number_simps below_minimum_def above_maximum_def
      parameters_error_def param_number_def)

lemma sample_source_value: "source_value sample_source = return (True, ''two rsi'')"
  by (simp add: source_value_def sample_source_def Let_def keys_are_def trim_def is_space_def)

lemma sample_model: "ask_model sample_env t = return (Composite_Proposal
    [(''RSI'', JObj [(''period'', JNum (Fin 10))], Fin 0), (''RSI'', JObj [(''period'', JNum (Fin 20))], Fin 0)]
    MAJORITY_VOTE default_thresholds)"
  by (simp add: ask_model_def sample_env_def sample_answer_def read_proposal_def Let_def keys_are_def
      proposed_component_def record_params_def parameter_record_def proposed_thresholds_def default_thresholds_def
      default_thresholds_order(3) [unfolded One_nat_def])

definition sample_definition :: "rat \<Rightarrow> string \<Rightarrow> strategy_definition" where
  "sample_definition p i = \<lparr>sd_id = ''strategy-definition-'' @ i, sd_user = ''u'', sd_family = ''strategy:RSI'',
     sd_family_name = ''RSI'', sd_strategy_name = ''RSI'', sd_version_tag = ''1.0.0'', sd_sha256 = [], sd_version = 1,
     sd_parameters = [(''period'', PNum (Fin p)), (''buyThreshold'', PNum (Fin 30)), (''sellThreshold'', PNum (Fin 70))],
     sd_created_at = ''2024-01-01T00:00:00.000Z''\<rparr>"

lemma rsi_descriptor:
  "d_name (f_descriptor rsi_factory) = ''RSI''" "d_display_name (f_descriptor rsi_factory) = ''RSI''"
  "d_implementation_version (f_descriptor rsi_factory) = ''1.0.0''" "d_implementation_sha256 (f_descriptor rsi_factory) = []"
  by (simp_all add: rsi_factory_def descriptor_of_def)

lemma sample_prepare:
  assumes "p \<in> {10, 20}"
  shows "prepare_strategy (e_digest sample_env) (e_factories sample_env) i (e_now sample_env) ''u'' ''RSI''
    (JObj [(''period'', JNum (Fin p))]) empty_store = return (sample_definition p i, True)"
  using sample_validate [OF assms] sample_lookup
  by (simp add: prepare_strategy_def definitions_by_family_def owned_definitions_def empty_store_def js_values_def
      max_version_def sample_definition_def trim_def is_space_def rsi_descriptor Let_def)
    (simp add: sample_env_def)

lemma sample_define:
  "p \<in> {10, 20} \<Longrightarrow> define_strategy (e_digest sample_env) (e_factories sample_env) i (e_now sample_env) ''u'' ''RSI''
    (JObj [(''period'', JNum (Fin p))]) empty_store =
    return (fst (insert_definition ''u'' (sample_definition p i) empty_store), sample_definition p i)"
  by (simp add: define_strategy_def sample_prepare) (simp add: insert_definition_def Let_def sample_definition_def)

lemma empty_store_fresh: "\<not> js_has (st_definitions empty_store) i"
  by (simp add: js_has_def empty_store_def)

text \<open>Defining the same strategy with the same parameters a second time returns the stored definition
  and changes nothing, at any later time and with any fresh identifier.\<close>

lemma define_strategy_idempotent:
  assumes "define_strategy dg fs fresh now user name ps st = return (st', d)"
    and "\<not> js_has (st_definitions st) (''strategy-definition-'' @ fresh)"
  shows "define_strategy dg fs fresh' now' user name ps st' = return (st', d)"
proof -
  obtain d0 new where p: "prepare_strategy dg fs fresh now user name ps st = return (d0, new)"
    and r: "(st', d) = (if new then insert_definition user d0 st else (st, d0))"
    using assms(1) by (auto simp: define_strategy_def result_simps)
  show ?thesis
  proof (cases new)
    case True
    with p have p: "prepare_strategy dg fs fresh now user name ps st = return (d0, True)" by simp
    have "\<not> js_has (st_definitions st) (sd_id d0)" using assms(2) prepare_strategy_new(1) [OF p] by simp
    moreover have "d0\<lparr>sd_user := user\<rparr> = d0" using prepare_strategy_new(2) [OF p] by (cases d0) simp
    ultimately show ?thesis using prepare_strategy_again [OF p] r True
      by (auto simp: define_strategy_def insert_definition_def Let_def)
  next
    case False
    with p have p: "prepare_strategy dg fs fresh now user name ps st = return (d0, False)" by simp
    have "st' = st" "d = d0" using r False by simp_all
    then show ?thesis by (simp add: define_strategy_def prepare_strategy_old [OF p, of fresh' now'])
  qed
qed

lemma define_strategy_idempotent_witness:
  "define_strategy (e_digest sample_env) (e_factories sample_env) ''1'' ''later'' ''u'' ''RSI''
    (JObj [(''period'', JNum (Fin 10))]) (fst (insert_definition ''u'' (sample_definition 10 ''0'') empty_store)) =
    return (fst (insert_definition ''u'' (sample_definition 10 ''0'') empty_store), sample_definition 10 ''0'')"
  by (rule define_strategy_idempotent [where fresh = "''0''" and now = "e_now sample_env" and st = empty_store])
    (simp_all only: sample_define empty_store_fresh insertI1 not_False_eq_True)

text \<open>C7. Defining a strategy keeps the versions of every family of every user distinct.\<close>

theorem define_strategy_keeps_versions_distinct:
  assumes "versions_distinct st" "define_strategy dg fs fresh now user name ps st = return (st', d)"
    and "\<not> js_has (st_definitions st) (''strategy-definition-'' @ fresh)"
  shows "versions_distinct st'"
  using define_strategy_versions [OF assms] .

lemma versions_distinct_empty: "versions_distinct empty_store"
  by (simp add: versions_distinct_def definitions_by_family_def owned_definitions_def empty_store_def js_values_def)

lemma define_strategy_keeps_versions_distinct_witness:
  "versions_distinct (fst (insert_definition ''u'' (sample_definition 10 ''0'') empty_store))"
  by (rule define_strategy_keeps_versions_distinct [OF versions_distinct_empty,
        of "e_digest sample_env" "e_factories sample_env" "''0''" "e_now sample_env" "''u''" "''RSI''"
           "JObj [(''period'', JNum (Fin 10))]" _ "sample_definition 10 ''0''"])
    (simp_all only: sample_define empty_store_fresh insertI1 not_False_eq_True)

text \<open>Generating a composite does not keep the versions distinct: when the model proposes two new
  settings of one strategy, both definitions get the same version of the same family,
  which the data model forbids.\<close>

lemma generation_can_duplicate_versions:
  "\<exists>env user source st st' g. versions_distinct st \<and> generate_strategy env user source st = return (st', g) \<and>
    \<not> versions_distinct st'"
proof -
  let ?d0 = "sample_definition 10 ''0''" and ?d1 = "sample_definition 20 ''1''"
  have fresh: "e_fresh sample_env 0 = ''0''" "e_fresh sample_env 1 = ''1''"
    by (simp_all add: sample_env_def)
  have comps: "prepare_components sample_env ''u'' empty_store 0
      [(''RSI'', JObj [(''period'', JNum (Fin 10))], Fin 0), (''RSI'', JObj [(''period'', JNum (Fin 20))], Fin 0)] [] [] =
    return ([?d0, ?d1], [\<lparr>cp_definition_id = sd_id ?d0, cp_weight = Fin 0\<rparr>, \<lparr>cp_definition_id = sd_id ?d1, cp_weight = Fin 0\<rparr>])"
    using sample_prepare [of 10 "''0''"] sample_prepare [of 20 "''1''"] by (simp add: fresh [unfolded One_nat_def])
  have "\<exists>c b. prepare_composite dg i now ''u'' MAJORITY_VOTE
      [\<lparr>cp_definition_id = sd_id ?d0, cp_weight = Fin 0\<rparr>, \<lparr>cp_definition_id = sd_id ?d1, cp_weight = Fin 0\<rparr>]
      (Some default_thresholds) [sd_id ?d0, sd_id ?d1] empty_store = return (c, b)" for dg i now
    by (simp add: prepare_composite_def composite_content_def composites_by_family_def owned_composites_def
        empty_store_def js_values_def require_owned_definition_def trim_def is_space_def sample_definition_def Let_def) blast
  then obtain c b where comp: "prepare_composite (e_composite_digest sample_env) (e_fresh sample_env 2) (e_now sample_env)
      ''u'' MAJORITY_VOTE
      [\<lparr>cp_definition_id = sd_id ?d0, cp_weight = Fin 0\<rparr>, \<lparr>cp_definition_id = sd_id ?d1, cp_weight = Fin 0\<rparr>]
      (Some default_thresholds) [sd_id ?d0, sd_id ?d1] empty_store = return (c, b)" by blast
  have prep: "prepare_generated sample_env ''u'' empty_store (Composite_Proposal
      [(''RSI'', JObj [(''period'', JNum (Fin 10))], Fin 0), (''RSI'', JObj [(''period'', JNum (Fin 20))], Fin 0)]
      MAJORITY_VOTE default_thresholds) = return \<lparr>gn_new = [?d0, ?d1], gn_definition = None, gn_composite = Some c\<rparr>"
    using comp by (simp add: prepare_generated_def comps numeral_2_eq_2 [symmetric] del: prepare_components.simps)
  obtain st' g where gen: "generate_strategy sample_env ''u'' sample_source empty_store = return (st', g)"
    and st': "\<exists>a. st' = commit_generation ''u'' [?d0, ?d1] (Some c) a empty_store"
    using prep by (auto simp: generate_strategy_def sample_source_value sample_model load_source_def trim_def is_space_def)
  then obtain a where "st' = commit_generation ''u'' [?d0, ?d1] (Some c) a empty_store" by blast
  then have "definitions_by_family ''u'' ''strategy:RSI'' st' = [?d0, ?d1]"
    by (simp add: commit_generation_def insert_composite_def Let_def definitions_by_family_def owned_definitions_def
        insert_definition_def js_values_def js_set_def empty_store_def sample_definition_def)
  then have "map sd_version (definitions_by_family ''u'' ''strategy:RSI'' st') = [1, 1]"
    by (simp add: sample_definition_def)
  then have "\<not> versions_distinct st'" unfolding versions_distinct_def by (metis distinct_length_2_or_more)
  with gen versions_distinct_empty show ?thesis by blast
qed


definition sample_stored :: strategy_store where
  "sample_stored = fst (insert_definition ''u'' (sample_definition 10 ''0'') empty_store)"


end
