(* ===== verification/Decimal.thy ===== *)
theory Decimal
  imports JsText "HOL-Library.Signed_Division"
begin

text \<open>
  The decimal arithmetic of the backtest simulator
  (\<^verbatim>\<open>modules/backtesting/domain/simulator.ts\<close>, lines 51 to 123): fixed-point values
  \<open>units * 10 ^ (- scale)\<close> over unbounded integers. \<open>dvalue\<close> is the value a decimal
  denotes; the lemmas show that the operations are exact on values, that rounding and
  division err by at most half a unit of the last place, and that a double survives
  the way through its decimal text.
\<close>

record decimal =
  units :: int
  scale :: nat

abbreviation dec :: "int \<Rightarrow> nat \<Rightarrow> decimal" where
  "dec u s \<equiv> \<lparr>units = u, scale = s\<rparr>"

definition dvalue :: "decimal \<Rightarrow> rat" where
  "dvalue d = of_int (units d) / 10 ^ scale d"

definition power_of_ten :: "nat \<Rightarrow> int" where
  "power_of_ten e = 10 ^ e"

fun normalize_loop :: "int \<Rightarrow> nat \<Rightarrow> decimal" where
  "normalize_loop u 0 = dec u 0"
| "normalize_loop u (Suc s) = (if u smod 10 = 0 then normalize_loop (u sdiv 10) s else dec u (Suc s))"

definition normalize :: "decimal \<Rightarrow> decimal" where
  "normalize v = normalize_loop (units v) (scale v)"

section \<open>The text of a number\<close>

fun strip_lead :: "string \<Rightarrow> string" where
  "strip_lead (c # d # r) = (if c = digit 0 \<and> is_digit d then strip_lead (d # r) else c # d # r)"
| "strip_lead s = s"

definition or_zero :: "string \<Rightarrow> string" where
  "or_zero s = (if s = [] then ''0'' else s)"

definition fraction_part :: "string \<Rightarrow> string" where
  "fraction_part s = (case second_part (CHR ''.'') s of None \<Rightarrow> [] | Some f \<Rightarrow> f)"

definition expand_scientific_notation :: "string \<Rightarrow> string" where
  "expand_scientific_notation v =
     (if CHR ''e'' \<notin> set v \<and> CHR ''E'' \<notin> set v then v
      else let low = to_lower v;
               coefficient = before_char (CHR ''e'') low;
               raw_exponent = (case second_part (CHR ''e'') low of None \<Rightarrow> [] | Some r \<Rightarrow> r);
               negative = starts_with ''-'' coefficient;
               unsigned = unsign coefficient;
               whole = before_char (CHR ''.'') unsigned;
               fraction = fraction_part unsigned;
               raw_digits = whole @ fraction;
               leading_zero_count = length (takeWhile (\<lambda>c. c = digit 0) raw_digits);
               digits = or_zero (strip_lead raw_digits);
               decimal_index = int (length whole) + read_signed raw_exponent - int leading_zero_count;
               sign = (if negative then ''-'' else '''')
           in if decimal_index \<le> 0 then sign @ ''0.'' @ zeros (nat (- decimal_index)) @ digits
              else if decimal_index \<ge> int (length digits)
              then sign @ digits @ zeros (nat decimal_index - length digits)
              else sign @ take (nat decimal_index) digits @ ''.'' @ drop (nat decimal_index) digits)"

definition big_int :: "string \<Rightarrow> nat result" where
  "big_int s = (if list_all is_digit s then return (read_nat s) else throw ''SyntaxError'')"

definition decimal_of_text :: "string \<Rightarrow> decimal result" where
  "decimal_of_text text = (let negative = starts_with ''-'' text;
       unsigned = unsign text;
       whole = before_char (CHR ''.'') unsigned;
       fraction = fraction_part unsigned;
       digits = or_zero (strip_lead (whole @ fraction))
     in and_then (big_int digits) (\<lambda>n.
          return (normalize (dec (if negative then - int n else int n) (length fraction)))))"

definition decimal_of :: "number \<Rightarrow> decimal result" where
  "decimal_of value = (if \<not> is_finite value then throw ''INVALID_INPUT''
     else decimal_of_text (expand_scientific_notation (number_to_string value)))"

section \<open>Arithmetic\<close>

definition from_integer :: "int \<Rightarrow> decimal" where
  "from_integer i = dec i 0"

definition dec_add :: "decimal \<Rightarrow> decimal \<Rightarrow> decimal" where
  "dec_add l r = (let s = max (scale l) (scale r) in
     normalize (dec (units l * power_of_ten (s - scale l) + units r * power_of_ten (s - scale r)) s))"

definition dec_subtract :: "decimal \<Rightarrow> decimal \<Rightarrow> decimal" where
  "dec_subtract l r = dec_add l (dec (- units r) (scale r))"

definition dec_multiply :: "decimal \<Rightarrow> decimal \<Rightarrow> decimal" where
  "dec_multiply l r = normalize (dec (units l * units r) (scale l + scale r))"

definition dec_absolute :: "decimal \<Rightarrow> decimal" where
  "dec_absolute v = (if units v < 0 then dec (- units v) (scale v) else v)"

text \<open>The body of \<^verbatim>\<open>roundedDivision\<close> behind its guard; \<^verbatim>\<open>round\<close> divides by a power of ten.\<close>

definition rounded_quotient :: "int \<Rightarrow> int \<Rightarrow> int" where
  "rounded_quotient n d = (let q = n sdiv d; r = n smod d in
     if units (dec_absolute (dec r 0)) * 2 < units (dec_absolute (dec d 0)) then q
     else q + (if n = 0 \<or> (n > 0) = (d > 0) then 1 else -1))"

definition rounded_division :: "int \<Rightarrow> int \<Rightarrow> int result" where
  "rounded_division n d = (if d = 0 then throw ''INVALID_INPUT'' else return (rounded_quotient n d))"

definition dec_round :: "decimal \<Rightarrow> nat \<Rightarrow> decimal" where
  "dec_round v s = (if scale v \<le> s then dec (units v * power_of_ten (s - scale v)) s
     else dec (rounded_quotient (units v) (power_of_ten (scale v - s))) s)"

definition dec_divide :: "decimal \<Rightarrow> decimal \<Rightarrow> nat \<Rightarrow> decimal result" where
  "dec_divide l r s = (let e = int (scale r) + int s - int (scale l);
       n = (if e \<ge> 0 then units l * power_of_ten (nat e) else units l);
       d = (if e \<ge> 0 then units r else units r * power_of_ten (nat (- e)))
     in and_then (rounded_division n d) (\<lambda>q. return (dec q s)))"

definition as_number :: "decimal \<Rightarrow> number" where
  "as_number v = ndiv (num (units v)) (num (power_of_ten (scale v)))"

section \<open>Values\<close>

lemma dvalue_dec: "dvalue (dec u s) = of_int u / 10 ^ s"
  by (simp add: dvalue_def)

lemma normalize_loop_value: "dvalue (normalize_loop u s) = of_int u / 10 ^ s"
proof (induction u s rule: normalize_loop.induct)
  case (1 u)
  then show ?case by (simp add: dvalue_dec)
next
  case (2 u s)
  show ?case
  proof (cases "u smod 10 = 0")
    case True
    then have "u = u sdiv 10 * 10" using sdiv_mult_smod_eq [of u 10] by simp
    then have "(of_int u :: rat) = of_int (u sdiv 10) * 10" by (metis of_int_mult of_int_numeral)
    with True 2 show ?thesis by simp
  qed (simp add: dvalue_dec)
qed

lemma dvalue_normalize [simp]: "dvalue (normalize v) = dvalue v"
  by (simp add: normalize_def normalize_loop_value dvalue_def [of v])

lemma normalize_loop_canonical:
  "scale (normalize_loop u s) = 0 \<or> units (normalize_loop u s) smod 10 \<noteq> 0"
  by (induction u s rule: normalize_loop.induct) auto

lemma normalize_scale_le: "scale (normalize_loop u s) \<le> s"
  by (induction u s rule: normalize_loop.induct) auto

lemma power_of_ten_pos [simp]: "power_of_ten e > 0" "power_of_ten e \<noteq> 0"
  by (simp_all add: power_of_ten_def)

lemma dvalue_add [simp]: "dvalue (dec_add l r) = dvalue l + dvalue r"
proof -
  have m: "(10::rat) ^ (max a b - a) / 10 ^ max a b = 1 / 10 ^ a" for a b
    by (simp add: power_diff divide_simps)
  show ?thesis
    using m [of "scale l" "scale r"] m [of "scale r" "scale l"]
    by (simp add: dec_add_def Let_def dvalue_dec power_of_ten_def add_divide_distrib max.commute
        times_divide_eq_right [symmetric] del: times_divide_eq_right)
      (simp add: dvalue_def)
qed

lemma dvalue_neg: "dvalue (dec (- u) s) = - dvalue (dec u s)"
  by (simp add: dvalue_def)

lemma dvalue_subtract [simp]: "dvalue (dec_subtract l r) = dvalue l - dvalue r"
  by (simp add: dec_subtract_def dvalue_neg) (simp add: dvalue_def)

lemma dvalue_multiply [simp]: "dvalue (dec_multiply l r) = dvalue l * dvalue r"
  by (simp add: dec_multiply_def dvalue_dec power_add) (simp add: dvalue_def)

lemma dvalue_absolute [simp]: "dvalue (dec_absolute v) = \<bar>dvalue v\<bar>"
  by (simp add: dec_absolute_def dvalue_def abs_if divide_less_0_iff)

lemma dvalue_from_integer [simp]: "dvalue (from_integer i) = of_int i"
  by (simp add: from_integer_def dvalue_def)

text \<open>The reference: nearest integer, ties away from zero.\<close>

definition half_away :: "int \<Rightarrow> int \<Rightarrow> int" where
  "half_away n d = sgn n * sgn d * ((2 * \<bar>n\<bar> + \<bar>d\<bar>) div (2 * \<bar>d\<bar>))"

lemma half_up_div:
  fixes a b :: int
  assumes "0 \<le> a" "0 < b"
  shows "(2 * a + b) div (2 * b) = a div b + (if 2 * (a mod b) < b then 0 else 1)"
proof -
  define q r where "q = a div b" and "r = a mod b"
  have a: "a = b * q + r" and r: "0 \<le> r" "r < b" using assms by (simp_all add: q_def r_def)
  have "(2 * a + b) div (2 * b) = q + (2 * r + b) div (2 * b)"
  proof -
    have "2 * a + b = (2 * r + b) + q * (2 * b)" using a by (simp add: algebra_simps)
    then show ?thesis using assms by (simp only:) (subst div_mult_self1, simp_all)
  qed
  also have "(2 * r + b) div (2 * b) = (if 2 * r < b then 0 else 1)"
  proof (cases "2 * r < b")
    case True
    with r show ?thesis by simp
  next
    case False
    with r have "(2 * r + b) div (2 * b) = 1 + (2 * r - b) div (2 * b)"
      using div_add_self1 [of "2 * b" "2 * r - b"] assms by (simp add: algebra_simps)
    with False r show ?thesis by simp
  qed
  finally show ?thesis by (simp add: q_def r_def)
qed

lemma rounded_quotient_half_away: "d \<noteq> 0 \<Longrightarrow> rounded_quotient n d = half_away n d"
proof -
  assume d: "d \<noteq> 0"
  have h: "(2 * \<bar>n\<bar> + \<bar>d\<bar>) div (2 * \<bar>d\<bar>) = \<bar>n\<bar> div \<bar>d\<bar> + (if 2 * (\<bar>n\<bar> mod \<bar>d\<bar>) < \<bar>d\<bar> then 0 else 1)"
    using d by (intro half_up_div) simp_all
  have a: "\<bar>n smod d\<bar> = \<bar>n\<bar> mod \<bar>d\<bar>"
    using d by (cases "n = 0") (simp_all add: smod_int_alt_def abs_mult abs_sgn_eq)
  have u: "units (dec_absolute (dec x 0)) = \<bar>x\<bar>" for x by (simp add: dec_absolute_def)
  show ?thesis
  proof (cases "n = 0")
    case True
    then show ?thesis
      using d by (simp add: rounded_quotient_def half_away_def smod_int_alt_def signed_divide_int_def u)
  next
    case False
    with d show ?thesis
      unfolding rounded_quotient_def half_away_def Let_def u a h signed_divide_int_def
      by (auto simp: sgn_if algebra_simps)
  qed
qed

lemma half_window:
  fixes x y p r :: int
  assumes "2 * x + y = 2 * p + r" "0 \<le> r" "r < 2 * y"
  shows "2 * \<bar>x - p\<bar> \<le> y" and "2 * \<bar>x - p\<bar> = y \<Longrightarrow> x \<le> p"
  using assms by presburger+

lemma half_away_bound: "d \<noteq> 0 \<Longrightarrow> 2 * \<bar>n - d * half_away n d\<bar> \<le> \<bar>d\<bar>"
proof -
  assume d: "d \<noteq> 0"
  define k where "k = (2 * \<bar>n\<bar> + \<bar>d\<bar>) div (2 * \<bar>d\<bar>)"
  define r where "r = (2 * \<bar>n\<bar> + \<bar>d\<bar>) mod (2 * \<bar>d\<bar>)"
  have e: "2 * \<bar>n\<bar> + \<bar>d\<bar> = 2 * (\<bar>d\<bar> * k) + r"
    using mult_div_mod_eq [of "2 * \<bar>d\<bar>" "2 * \<bar>n\<bar> + \<bar>d\<bar>"] by (simp add: k_def r_def algebra_simps)
  have r: "0 \<le> r" "r < 2 * \<bar>d\<bar>" using d by (simp_all add: r_def)
  have "n - d * half_away n d = sgn n * (\<bar>n\<bar> - \<bar>d\<bar> * k)"
  proof -
    have "d * (sgn n * sgn d * k) = sgn n * (\<bar>d\<bar> * k)" by (simp add: abs_sgn mult.assoc mult.left_commute)
    then show ?thesis by (simp add: half_away_def k_def right_diff_distrib sgn_mult_abs)
  qed
  then have "\<bar>n - d * half_away n d\<bar> \<le> \<bar>\<bar>n\<bar> - \<bar>d\<bar> * k\<bar>"
    by (simp add: abs_mult abs_sgn_eq)
  with half_window(1) [OF e r] show ?thesis by linarith
qed

lemma half_away_tie:
  "d \<noteq> 0 \<Longrightarrow> 2 * \<bar>n - d * half_away n d\<bar> = \<bar>d\<bar> \<Longrightarrow> \<bar>n\<bar> \<le> \<bar>d * half_away n d\<bar>"
proof -
  assume d: "d \<noteq> 0" and t: "2 * \<bar>n - d * half_away n d\<bar> = \<bar>d\<bar>"
  define k where "k = (2 * \<bar>n\<bar> + \<bar>d\<bar>) div (2 * \<bar>d\<bar>)"
  define r where "r = (2 * \<bar>n\<bar> + \<bar>d\<bar>) mod (2 * \<bar>d\<bar>)"
  have e: "2 * \<bar>n\<bar> + \<bar>d\<bar> = 2 * (\<bar>d\<bar> * k) + r"
    using mult_div_mod_eq [of "2 * \<bar>d\<bar>" "2 * \<bar>n\<bar> + \<bar>d\<bar>"] by (simp add: k_def r_def algebra_simps)
  have r: "0 \<le> r" "r < 2 * \<bar>d\<bar>" using d by (simp_all add: r_def)
  have dh: "d * half_away n d = sgn n * (\<bar>d\<bar> * k)"
    by (simp add: half_away_def k_def abs_sgn mult.assoc mult.left_commute)
  show ?thesis
  proof (cases "n = 0")
    case False
    have "n - d * half_away n d = sgn n * (\<bar>n\<bar> - \<bar>d\<bar> * k)"
      by (simp add: dh right_diff_distrib sgn_mult_abs)
    with False t have "2 * \<bar>\<bar>n\<bar> - \<bar>d\<bar> * k\<bar> = \<bar>d\<bar>" by (simp add: abs_mult abs_sgn_eq)
    then have "\<bar>n\<bar> \<le> \<bar>d\<bar> * k" by (rule half_window(2) [OF e r])
    with False dh show ?thesis by (simp add: abs_mult abs_sgn_eq) (meson abs_ge_self abs_ge_zero mult_left_mono order_trans)
  qed simp
qed

lemma scale_round [simp]: "scale (dec_round v s) = s"
  by (simp add: dec_round_def)

lemma dec_round_exact: "scale v \<le> s \<Longrightarrow> dvalue (dec_round v s) = dvalue v"
  by (simp add: dec_round_def dvalue_def power_of_ten_def power_diff [where 'a = rat])

lemma dec_round_id: "scale v = s \<Longrightarrow> dec_round v s = v"
  by (simp add: dec_round_def power_of_ten_def)

lemma quotient_error:
  assumes "d > 0"
  shows "\<bar>of_int (rounded_quotient n d) - (of_int n / of_int d :: rat)\<bar> \<le> 1 / 2"
proof -
  have "2 * \<bar>n - d * rounded_quotient n d\<bar> \<le> d"
    using half_away_bound [of d n] assms by (simp add: rounded_quotient_half_away)
  then have "(of_int (2 * \<bar>n - d * rounded_quotient n d\<bar>) :: rat) \<le> of_int d"
    by (simp only: of_int_le_iff)
  then have "2 * \<bar>of_int n - of_int d * (of_int (rounded_quotient n d) :: rat)\<bar> \<le> of_int d" by simp
  with assms show ?thesis
    by (simp add: field_simps) (simp add: abs_minus_commute)
qed

lemma scaled_error: "x = e / 10 ^ s \<Longrightarrow> \<bar>e\<bar> \<le> 1 / 2 \<Longrightarrow> \<bar>x\<bar> \<le> (1 :: rat) / 2 / 10 ^ s"
  using divide_right_mono [of "\<bar>e\<bar>" "1 / 2" "10 ^ s"] by (simp only: abs_divide) simp

lemma dec_round_error: "\<bar>dvalue (dec_round v s) - dvalue v\<bar> \<le> 1 / 2 / 10 ^ s"
proof (cases "scale v \<le> s")
  case True
  then show ?thesis by (simp add: dec_round_exact)
next
  case False
  define p where "p = power_of_ten (scale v - s)"
  have "dvalue (dec_round v s) - dvalue v = (of_int (rounded_quotient (units v) p) - of_int (units v) / of_int p) / 10 ^ s"
    using False by (simp add: dec_round_def dvalue_def p_def power_of_ten_def power_diff [where 'a = rat] diff_divide_distrib)
  moreover have "\<bar>of_int (rounded_quotient (units v) p) - (of_int (units v) / of_int p :: rat)\<bar> \<le> 1 / 2"
    by (rule quotient_error) (simp add: p_def)
  ultimately show ?thesis by (rule scaled_error)
qed

lemma dec_divide_cases:
  "dec_divide l r s = (if units r = 0 then throw ''INVALID_INPUT'' else return (dec (rounded_quotient
     (units l * 10 ^ nat (int (scale r) + int s - int (scale l)))
     (units r * 10 ^ nat (int (scale l) - int (scale r) - int s))) s))"
  by (auto simp: dec_divide_def rounded_division_def Let_def power_of_ten_def algebra_simps)

lemma rounded_quotient_minus: "d \<noteq> 0 \<Longrightarrow> rounded_quotient (- n) (- d) = rounded_quotient n d"
  by (simp add: rounded_quotient_half_away half_away_def)

lemma quotient_error_any:
  assumes "d \<noteq> 0"
  shows "\<bar>of_int (rounded_quotient n d) - (of_int n / of_int d :: rat)\<bar> \<le> 1 / 2"
  using quotient_error [of d n] quotient_error [of "- d" "- n"] rounded_quotient_minus [OF assms, of n] assms
  by (cases "d > 0") simp_all

lemma dec_divide_error:
  assumes "dec_divide l r s = return q"
  shows "\<bar>dvalue q - dvalue l / dvalue r\<bar> \<le> 1 / 2 / 10 ^ s" and "scale q = s"
proof -
  define n where "n = units l * 10 ^ nat (int (scale r) + int s - int (scale l))"
  define d where "d = units r * 10 ^ nat (int (scale l) - int (scale r) - int s)"
  have r: "units r \<noteq> 0" and q: "q = dec (rounded_quotient n d) s"
    using assms by (auto simp: dec_divide_cases n_def d_def split: if_splits)
  have d: "d \<noteq> 0" using r by (simp add: d_def)
  have "(of_int n / of_int d :: rat) = dvalue l / dvalue r * 10 ^ s"
  proof (cases "scale l \<le> scale r + s")
    case True
    then have "nat (int (scale r) + int s - int (scale l)) = scale r + s - scale l" by simp
    with True r show ?thesis
      by (simp add: n_def d_def dvalue_def power_diff [where 'a = rat] power_add field_simps)
  next
    case False
    then have "nat (int (scale l) - int (scale r) - int s) = scale l - (scale r + s)" by simp
    with False r show ?thesis
      by (simp add: n_def d_def dvalue_def power_diff [where 'a = rat] power_add field_simps)
  qed
  then have v: "dvalue q - dvalue l / dvalue r = (of_int (rounded_quotient n d) - of_int n / of_int d) / 10 ^ s"
    by (simp add: q dvalue_def diff_divide_distrib)
  show "\<bar>dvalue q - dvalue l / dvalue r\<bar> \<le> 1 / 2 / 10 ^ s"
    by (rule scaled_error [OF v quotient_error_any [OF d]])
  show "scale q = s" by (simp add: q)
qed

section \<open>Through the text\<close>

definition digits_only :: "string \<Rightarrow> bool" where
  "digits_only s = list_all is_digit s"

lemma digits_only_simps [simp]:
  "digits_only []" "digits_only (c # s) \<longleftrightarrow> is_digit c \<and> digits_only s"
  "digits_only (s @ t) \<longleftrightarrow> digits_only s \<and> digits_only t"
  "digits_only (zeros k)"
  by (auto simp: digits_only_def zeros_def list_all_iff)

lemma digits_only_take_drop: "digits_only s \<Longrightarrow> digits_only (take n s) \<and> digits_only (drop n s)"
  by (auto simp: digits_only_def list_all_iff dest: in_set_takeD in_set_dropD)

lemma digits_only_no:
  "digits_only s \<Longrightarrow> CHR ''.'' \<notin> set s" "digits_only s \<Longrightarrow> CHR ''e'' \<notin> set s"
  "digits_only s \<Longrightarrow> CHR ''E'' \<notin> set s" "digits_only s \<Longrightarrow> CHR ''-'' \<notin> set s"
  "digits_only s \<Longrightarrow> CHR ''+'' \<notin> set s"
  by (auto simp: digits_only_def list_all_iff is_digit_def)

lemma digits_only_show_nat [simp]: "digits_only (show_nat n)"
  using show_nat_digits [of n] by (simp add: digits_only_def list_all_iff)

lemma zeros_facts [simp]: "read_nat (zeros k) = 0" "length (zeros k) = k"
  by (simp_all add: zeros_def)

lemma zero_char [simp]: "digit 0 = CHR ''0''"
  by (simp add: of_char_inj [symmetric] of_char_digit)

lemma read_nat_cons_zero: "read_nat (digit 0 # s) = read_nat s"
  using read_nat_append [of "[digit 0]" s] read_nat_snoc [of "[]" "digit 0"] by (simp del: zero_char)

lemma strip_lead_facts:
  "digits_only s \<Longrightarrow> digits_only (strip_lead s) \<and> read_nat (strip_lead s) = read_nat s"
proof (induction s rule: strip_lead.induct)
  case (1 c d r)
  then show ?case by (auto simp: read_nat_cons_zero [simplified])
qed simp_all

lemma strip_lead_id: "(s = [] \<or> hd s \<noteq> digit 0) \<Longrightarrow> strip_lead s = s"
  by (induction s rule: strip_lead.induct) auto

lemma or_zero_facts: "digits_only s \<Longrightarrow> digits_only (or_zero s) \<and> read_nat (or_zero s) = read_nat s"
  using read_nat_snoc [of "[]" "digit 0"] by (simp add: or_zero_def is_digit_def digit_val_def)

lemma unsign_simps [simp]:
  "unsign (CHR ''-'' # s) = s" "unsign (CHR ''+'' # s) = s"
  by (simp_all add: unsign_def starts_with_def)

lemma no_sign: "CHR ''-'' \<notin> set s \<Longrightarrow> CHR ''+'' \<notin> set s \<Longrightarrow> unsign s = s \<and> \<not> starts_with ''-'' s"
  by (cases s) (auto simp: unsign_def starts_with_def)

definition sign_text :: "bool \<Rightarrow> string" where
  "sign_text neg = (if neg then ''-'' else [])"

lemma sign_text_parts:
  assumes "CHR ''-'' \<notin> set s" "CHR ''+'' \<notin> set s"
  shows "unsign (sign_text neg @ s) = s" and "starts_with ''-'' (sign_text neg @ s) = neg"
  using no_sign [OF assms] by (auto simp: sign_text_def starts_with_def)

text \<open>Reading a plain decimal: an optional fraction after the point.\<close>

lemma decimal_of_plain:
  assumes w: "digits_only w" and f: "digits_only f" and t: "t = w \<and> f = [] \<or> t = w @ ''.'' @ f"
  shows "\<exists>d. decimal_of_text (sign_text neg @ t) = return d \<and>
    dvalue d = (if neg then - 1 else 1) * (of_nat (read_nat (w @ f)) / 10 ^ length f)"
proof -
  have ns: "CHR ''-'' \<notin> set t" "CHR ''+'' \<notin> set t"
    using t digits_only_no [OF w] digits_only_no [OF f] by auto
  have parts: "before_char (CHR ''.'') t = w" "fraction_part t = f"
    using t digits_only_no [OF w] digits_only_no [OF f]
    by (auto simp: before_char_none before_char_append fraction_part_def second_part_none second_part_append)
  let ?d = "or_zero (strip_lead (w @ f))"
  have d: "digits_only ?d" "read_nat ?d = read_nat (w @ f)"
    using strip_lead_facts [of "w @ f"] or_zero_facts w f by auto
  have "big_int ?d = return (read_nat (w @ f))"
    using d by (simp add: big_int_def digits_only_def)
  then show ?thesis
    by (simp add: decimal_of_text_def Let_def sign_text_parts [OF ns] parts dvalue_dec)
qed

definition plain :: "string \<Rightarrow> int \<Rightarrow> string" where
  "plain ds n = (if n \<le> 0 then ''0.'' @ zeros (nat (- n)) @ ds
     else if n \<ge> int (length ds) then ds @ zeros (nat n - length ds)
     else take (nat n) ds @ ''.'' @ drop (nat n) ds)"

lemma plain_value:
  assumes ds: "digits_only ds"
  shows "\<exists>d. decimal_of_text (sign_text neg @ plain ds n) = return d \<and>
    dvalue d = (if neg then - 1 else 1) * (of_nat (read_nat ds) * 10 powi (n - int (length ds)))"
proof -
  consider "n \<le> 0" | "0 < n" "int (length ds) \<le> n" | "0 < n" "n < int (length ds)" by linarith
  then show ?thesis
  proof cases
    case 1
    then have p: "plain ds n = ''0'' @ ''.'' @ (zeros (nat (- n)) @ ds)" by (simp add: plain_def)
    have r: "read_nat (''0'' @ (zeros (nat (- n)) @ ds)) = read_nat ds"
      using read_nat_cons_zero [of "zeros (nat (- n)) @ ds"] by (simp add: read_nat_append)
    have "n - int (length ds) = - int (nat (- n) + length ds)" using 1 by simp
    then have "(10::rat) powi (n - int (length ds)) = 1 / 10 ^ (nat (- n) + length ds)"
      by (simp only: power_int_minus power_int_of_nat inverse_eq_divide)
    with r show ?thesis
      using decimal_of_plain [of "''0''" "zeros (nat (- n)) @ ds" "plain ds n" neg] ds p
      by (simp add: is_digit_def)
  next
    case 2
    then have p: "plain ds n = ds @ zeros (nat n - length ds)" by (simp add: plain_def)
    have "n - int (length ds) = int (nat n - length ds)" using 2 by simp
    then have "(10::rat) powi (n - int (length ds)) = 10 ^ (nat n - length ds)"
      by (simp only: power_int_of_nat)
    moreover have "read_nat (ds @ zeros (nat n - length ds)) = read_nat ds * 10 ^ (nat n - length ds)"
      by (simp add: read_nat_append)
    ultimately show ?thesis
      using decimal_of_plain [of "ds @ zeros (nat n - length ds)" "[]" "plain ds n" neg] ds p by simp
  next
    case 3
    then have p: "plain ds n = take (nat n) ds @ ''.'' @ drop (nat n) ds" by (simp add: plain_def)
    have "n - int (length ds) = - int (length ds - nat n)" using 3 by simp
    then have "(10::rat) powi (n - int (length ds)) = 1 / 10 ^ (length ds - nat n)"
      by (simp only: power_int_minus power_int_of_nat inverse_eq_divide)
    then show ?thesis
      using decimal_of_plain [of "take (nat n) ds" "drop (nat n) ds" "plain ds n" neg]
        digits_only_take_drop [OF ds] p by simp
  qed
qed

lemma to_lower_id: "\<forall>c\<in>set s. \<not> is_upper c \<Longrightarrow> to_lower s = s"
  by (induction s) (auto simp: to_lower_def lower_char_def)

lemma digits_not_upper: "digits_only s \<Longrightarrow> \<forall>c\<in>set s. \<not> is_upper c"
  by (auto simp: digits_only_def list_all_iff is_digit_def is_upper_def)

lemma plain_no_exponent:
  "digits_only ds \<Longrightarrow> CHR ''e'' \<notin> set (plain ds n) \<and> CHR ''E'' \<notin> set (plain ds n)"
  using digits_only_no [of ds] digits_only_no [of "zeros k" for k]
  by (auto simp: plain_def dest: in_set_takeD in_set_dropD)

lemma layout_plain:
  "ds \<noteq> [] \<Longrightarrow> -6 < n \<Longrightarrow> n \<le> 21 \<Longrightarrow> layout ds n = plain ds n"
  by (cases ds) (auto simp: layout_def plain_def Let_def nat_diff_distrib' nat_add_distrib split: if_splits)

lemma read_signed_exponent:
  "read_signed ((if i < 0 then ''-'' else ''+'') @ show_nat (nat \<bar>i\<bar>)) = i"
  by simp

lemma expand_plain:
  assumes "digits_only ds"
  shows "expand_scientific_notation (sign_text neg @ plain ds n) = sign_text neg @ plain ds n"
  using plain_no_exponent [OF assms, of n] by (auto simp: expand_scientific_notation_def sign_text_def)

lemma expand_exponent:
  assumes ds: "digits_only ds" "ds \<noteq> []" "hd ds \<noteq> digit 0"
    and t: "t = take 1 ds @ (if length ds = 1 then [] else ''.'' @ drop 1 ds) @ ''e'' @
      (if n - 1 < 0 then ''-'' else ''+'') @ show_nat (nat \<bar>n - 1\<bar>)"
  shows "expand_scientific_notation (sign_text neg @ t) = sign_text neg @ plain ds n"
proof -
  define m where "m = take 1 ds @ (if length ds = 1 then [] else ''.'' @ drop 1 ds)"
  define x where "x = (if n - 1 < 0 then ''-'' else ''+'') @ show_nat (nat \<bar>n - 1\<bar>)"
  define v where "v = sign_text neg @ t"
  have td: "digits_only (take 1 ds)" "digits_only (drop 1 ds)" "digits_only (show_nat (nat \<bar>n - 1\<bar>))"
    using digits_only_take_drop [OF ds(1), of 1] by simp_all
  have v: "v = (sign_text neg @ m) @ CHR ''e'' # x" by (simp add: v_def t m_def x_def)
  have "\<forall>c\<in>set v. \<not> is_upper c"
    using td [THEN digits_not_upper] by (auto simp: v sign_text_def m_def x_def is_upper_def)
  then have low: "to_lower v = v" by (rule to_lower_id)
  have ne: "CHR ''e'' \<notin> set (sign_text neg @ m)" "CHR ''e'' \<notin> set x"
    using td [THEN digits_only_no(2)] by (auto simp: sign_text_def m_def x_def)
  have c: "before_char (CHR ''e'') v = sign_text neg @ m" "second_part (CHR ''e'') v = Some x"
    unfolding v using ne by (simp_all only: before_char_append second_part_append not_False_eq_True)
  have nm: "CHR ''-'' \<notin> set m" "CHR ''+'' \<notin> set m"
    using td [THEN digits_only_no(4)] td [THEN digits_only_no(5)] by (auto simp: m_def)
  have parts: "before_char (CHR ''.'') m = take 1 ds" "fraction_part m = drop 1 ds"
    using td [THEN digits_only_no(1)] ds(2)
    by (auto simp: m_def before_char_none before_char_append fraction_part_def second_part_none
        second_part_append Suc_le_eq)
  have lead: "takeWhile (\<lambda>c. c = digit 0) ds = []" "or_zero (strip_lead ds) = ds"
    using ds(2,3) strip_lead_id [of ds] by (cases ds; simp add: or_zero_def)+
  have one: "int (length (take 1 ds)) = 1" using ds(2) by (cases ds) auto
  have ee: "CHR ''e'' \<in> set v" by (simp add: v)
  have "expand_scientific_notation v =
    (if n \<le> 0 then sign_text neg @ ''0.'' @ zeros (nat (- n)) @ ds
     else if n \<ge> int (length ds) then sign_text neg @ ds @ zeros (nat n - length ds)
     else sign_text neg @ take (nat n) ds @ ''.'' @ drop (nat n) ds)"
    unfolding expand_scientific_notation_def Let_def low c option.case sign_text_parts [OF nm] parts
      append_take_drop_id lead one x_def read_signed_exponent
    using ee by (auto simp: sign_text_def)
  then show ?thesis by (simp add: v_def plain_def)
qed

lemma expand_layout:
  assumes "digits_only ds" "ds \<noteq> []" "hd ds \<noteq> digit 0"
  shows "expand_scientific_notation (sign_text neg @ layout ds n) = sign_text neg @ plain ds n"
proof (cases "-6 < n \<and> n \<le> 21")
  case True
  with assms show ?thesis by (simp add: layout_plain expand_plain)
next
  case False
  then have "layout ds n = take 1 ds @ (if length ds = 1 then [] else ''.'' @ drop 1 ds) @ ''e'' @
      (if n - 1 < 0 then ''-'' else ''+'') @ show_nat (nat \<bar>n - 1\<bar>)"
    by (auto simp: layout_def Let_def)
  then show ?thesis by (rule expand_exponent [OF assms])
qed

lemma decimal_of_pos:
  assumes q: "0 < q" "rnd q = Fin q"
  shows "\<exists>d. decimal_of_text (expand_scientific_notation (sign_text neg @ show_pos q)) = return d \<and>
    rnd (if neg then - dvalue d else dvalue d) = Fin q"
proof -
  obtain s e where s: "shortest q = (s, e)" by fastforce
  let ?ds = "show_nat s"
  have pos: "0 < s" and r: "rnd (of_nat s * 10 powi e) = Fin q" using shortest_reads [OF q s] by simp_all
  have "show_pos q = layout ?ds (int (length ?ds) + e)" by (simp add: show_pos_def s Let_def)
  then have "expand_scientific_notation (sign_text neg @ show_pos q) =
      sign_text neg @ plain ?ds (int (length ?ds) + e)"
    using expand_layout [of ?ds neg] show_nat_hd [OF pos] by simp
  then show ?thesis using plain_value [of ?ds neg "int (length ?ds) + e"] r by auto
qed

lemma decimal_of_lossless:
  assumes "rnd q = Fin q"
  shows "\<exists>d. decimal_of (Fin q) = return d \<and> rnd (dvalue d) = Fin q"
proof -
  consider "q = 0" | "0 < q" | "q < 0" by linarith
  then show ?thesis
  proof cases
    case 1
    have "decimal_of_text ''0'' = return (dec 0 0)"
      by (simp add: decimal_of_text_def unsign_def starts_with_def before_char_def fraction_part_def
          second_part_def or_zero_def big_int_def is_digit_def read_nat_def digit_val_def Let_def normalize_def)
    with 1 show ?thesis by (simp add: decimal_of_def expand_scientific_notation_def dvalue_def)
  next
    case 2
    then show ?thesis using decimal_of_pos [OF 2 assms, of False] by (simp add: decimal_of_def sign_text_def)
  next
    case 3
    then have p: "0 < - q" "rnd (- q) = Fin (- q)" using assms by (simp_all add: rnd_minus)
    then obtain d where d: "decimal_of_text (expand_scientific_notation (sign_text True @ show_pos (- q))) = return d"
      "rnd (- dvalue d) = Fin (- q)" using decimal_of_pos [OF p, of True] by auto
    have "rnd (dvalue d) = Fin q" using d(2) rnd_minus [of "- dvalue d"] by simp
    with 3 d(1) show ?thesis by (simp add: decimal_of_def sign_text_def)
  qed
qed

lemma as_number_correct:
  "\<bar>units d\<bar> \<le> 2 ^ 53 \<Longrightarrow> scale d \<le> 15 \<Longrightarrow> as_number d = rnd (dvalue d)"
proof -
  assume u: "\<bar>units d\<bar> \<le> 2 ^ 53" and s: "scale d \<le> 15"
  have "(10::int) ^ scale d \<le> 10 ^ 15" using s by (intro power_increasing) simp_all
  then have "num (10 ^ scale d) = Fin (10 ^ scale d)" using num_exact [of "10 ^ scale d"] by simp
  with num_exact [OF u] show ?thesis by (simp add: as_number_def power_of_ten_def dvalue_def)
qed

section \<open>Properties\<close>

text \<open>\<^verbatim>\<open>roundedDivision\<close> rejects a zero divisor and otherwise gives the nearest integer to the exact
  quotient with ties away from zero, for every sign of the operands.\<close>

lemma rounded_division_is_half_away:
  "rounded_division n d = (if d = 0 then throw ''INVALID_INPUT'' else return (half_away n d)) \<and>
    (d = 0 \<or> 2 * \<bar>n - d * half_away n d\<bar> \<le> \<bar>d\<bar>)"
  using rounded_quotient_half_away [of d n] half_away_bound [of d n] by (simp add: rounded_division_def)

text \<open>Decimal addition, subtraction and multiplication are exact, and rounding to \<open>s\<close> places moves a
  value by at most half a unit of the last place.\<close>

lemma decimal_arithmetic_exact:
  "dvalue (dec_add l r) = dvalue l + dvalue r \<and> dvalue (dec_subtract l r) = dvalue l - dvalue r \<and>
    dvalue (dec_multiply l r) = dvalue l * dvalue r \<and>
    \<bar>dvalue (dec_round l s) - dvalue l\<bar> \<le> 1 / 2 / 10 ^ s \<and> scale (dec_round l s) = s"
  using dec_round_error [of l s] by simp

text \<open>C3. No digit of a double is lost on its way through \<^verbatim>\<open>String(value)\<close>, the expansion of scientific
  notation and \<^verbatim>\<open>BigInt\<close>: the decimal read from the text rounds back to the same double.\<close>

theorem decimal_text_roundtrip:
  assumes "rnd q = Fin q"
  shows "\<exists>d. decimal_of (Fin q) = return d \<and> rnd (dvalue d) = Fin q"
  using decimal_of_lossless [OF assms] .

lemma decimal_text_roundtrip_witness:
  "\<exists>d. decimal_of (Fin 1000000) = return d \<and> rnd (dvalue d) = Fin 1000000"
  by (rule decimal_text_roundtrip) (simp add: number_simps)

end
