(* ===== verification/Simulator.thy ===== *)
theory Simulator
  imports Decimal StrategyTypes
begin

text \<open>
  The backtest simulator (\<^verbatim>\<open>modules/backtesting/domain/simulator.ts\<close>): one position at a
  time, signals filled at the next open, stop before target within a candle, everything
  in decimal arithmetic. The state of the run is the record \<open>sim\<close>; a thrown error is the
  left value.
\<close>

section \<open>Data\<close>

datatype trade_signal = LONG | SHORT

datatype action = Buy_Action | Sell_Action

datatype exit_reason = STOP_LOSS | TAKE_PROFIT | STRATEGY_CLOSE | RANGE_END

datatype trade_result = WIN | LOSS | BREAKEVEN

record trade =
  t_id :: string
  t_sequence :: nat
  t_pair :: string
  t_settlement_asset :: string
  t_attempt_id :: string
  t_signal :: trade_signal
  t_entry_time :: string
  t_market_entry_price :: number
  t_entry_price :: number
  t_stop_loss :: "number option"
  t_take_profit :: "number option"
  t_exit_time :: string
  t_market_exit_price :: number
  t_exit_price :: number
  t_exit_reason :: exit_reason
  t_quantity :: number
  t_notional_entry_value :: number
  t_equity_before :: number
  t_equity_after :: number
  t_gross_profit :: number
  t_fee_amount :: number
  t_slippage_bps :: number
  t_slippage_amount :: number
  t_profit :: number
  t_result_percent :: number
  t_result :: trade_result

record completed_backtest =
  cb_candidate_id :: string
  cb_attempt_id :: string
  cb_worker_version :: string
  cb_worker_sha256 :: string
  cb_started_at :: string
  cb_completed_at :: string
  cb_initial_capital :: number
  cb_trades :: "trade list"

text \<open>A strategy answers a signal or, as untyped code may, something else: \<open>None\<close>.\<close>

record simulation_input =
  si_candidate_id :: string
  si_attempt_id :: string
  si_pair :: string
  si_settlement_asset :: string
  si_timeframe :: timeframe
  si_candles :: "candle list"
  si_warmup :: "number option"
  si_analyze :: "strategy_context \<Rightarrow> signal option"
  si_sentiment_at :: "(string \<Rightarrow> sentiment_context option) option"
  si_initial_capital :: number
  si_fee_rate_percent :: number
  si_slippage_bps :: "number option"
  si_stop_loss_percent :: "number option"
  si_take_profit_percent :: "number option"
  si_worker_version :: string
  si_worker_sha256 :: string
  si_started_at :: string
  si_completed_at :: string

record position =
  p_signal :: trade_signal
  p_entry_index :: nat
  p_market_entry_price :: decimal
  p_entry_price :: decimal
  p_entry_time :: string
  p_quantity :: decimal
  p_equity_before :: decimal
  p_stop_loss :: "decimal option"
  p_take_profit :: "decimal option"

record sim =
  s_equity :: decimal
  s_position :: "position option"
  s_scheduled :: "action option"
  s_sequence :: nat
  s_trades :: "trade list"

section \<open>Helpers\<close>

fun side :: "action \<Rightarrow> trade_signal" where
  "side Buy_Action = LONG"
| "side Sell_Action = SHORT"

fun direction :: "trade_signal \<Rightarrow> decimal" where
  "direction LONG = from_integer 1"
| "direction SHORT = from_integer (-1)"

definition to_strategy_candle :: "candle \<Rightarrow> strategy_candle" where
  "to_strategy_candle c = \<lparr>sc_timestamp = c_timestamp c, sc_open = c_open c, sc_high = c_high c, sc_low = c_low c,
     sc_close = c_close c, sc_volume = c_volume c\<rparr>"

definition assert_positive_percent :: "number option \<Rightarrow> unit result" where
  "assert_positive_percent v = (case v of None \<Rightarrow> return ()
     | Some x \<Rightarrow> reject_if (\<not> is_finite x \<or> nle x (num 0) \<or> nle (num 100) x) ''INVALID_INPUT'')"

definition candle_close_time :: "string \<Rightarrow> timeframe \<Rightarrow> string result" where
  "candle_close_time timestamp tf = (case date_parse timestamp of None \<Rightarrow> throw ''INVALID_INPUT''
     | Some t \<Rightarrow> return (to_iso (t + timeframe_ms tf)))"

definition assert_positive_price :: "decimal option \<Rightarrow> unit result" where
  "assert_positive_price v = (case v of None \<Rightarrow> return () | Some d \<Rightarrow> reject_if (units d \<le> 0) ''INVALID_INPUT'')"

definition validate_candle :: "simulation_input \<Rightarrow> candle \<Rightarrow> unit result" where
  "validate_candle inp c =
     (if c_pair c \<noteq> si_pair inp \<or> c_timeframe c \<noteq> si_timeframe inp \<or> date_parse (c_timestamp c) = None
      then throw ''INVALID_INPUT''
      else if \<not> list_all (\<lambda>v. is_finite v \<and> nlt (num 0) v) [c_open c, c_high c, c_low c, c_close c] \<or>
          \<not> is_finite (c_volume c) \<or> nlt (c_volume c) (num 0) then throw ''INVALID_INPUT''
      else if nlt (c_high c) (nmax (c_open c) (c_close c)) \<or> nlt (nmin (c_open c) (c_close c)) (c_low c)
      then throw ''INVALID_INPUT'' else return ())"

fun validate_candles :: "simulation_input \<Rightarrow> string option \<Rightarrow> candle list \<Rightarrow> unit result" where
  "validate_candles inp prev [] = return ()"
| "validate_candles inp prev (c # cs) = and_then (validate_candle inp c) (\<lambda>_.
     if (case prev of None \<Rightarrow> False | Some t \<Rightarrow> t \<ge> c_timestamp c) then throw ''INVALID_INPUT''
     else validate_candles inp (Some (c_timestamp c)) cs)"

definition sort_candles :: "candle list \<Rightarrow> candle list" where
  "sort_candles cs = sort_by (\<lambda>l r. locale_compare (c_timestamp l) (c_timestamp r)) (filter c_is_closed cs)"

section \<open>Closing and opening a position\<close>

record settlement =
  z_exit_price :: decimal
  z_entry_notional :: decimal
  z_gross_profit :: decimal
  z_slippage_amount :: decimal
  z_fee_amount :: decimal
  z_profit :: decimal
  z_equity_after :: decimal

text \<open>The amounts of a trade, each rounded the way the code rounds it.\<close>

definition settle :: "decimal \<Rightarrow> decimal \<Rightarrow> position \<Rightarrow> decimal \<Rightarrow> settlement" where
  "settle fee_rate slippage_rate p market_exit_price =
     (let dir = direction (p_signal p);
          exit_price = dec_round (dec_multiply market_exit_price (dec_subtract (from_integer 1) (dec_multiply dir slippage_rate))) 8;
          entry_notional = dec_round (dec_multiply (p_entry_price p) (p_quantity p)) 2;
          exit_notional = dec_round (dec_multiply exit_price (p_quantity p)) 2;
          gross_profit = dec_round (dec_multiply dir
            (dec_multiply (dec_subtract market_exit_price (p_market_entry_price p)) (p_quantity p))) 2;
          entry_slippage = dec_round (dec_multiply
            (dec_absolute (dec_subtract (p_entry_price p) (p_market_entry_price p))) (p_quantity p)) 2;
          exit_slippage = dec_round (dec_multiply
            (dec_absolute (dec_subtract exit_price market_exit_price)) (p_quantity p)) 2;
          slippage_amount = dec_round (dec_add entry_slippage exit_slippage) 2;
          entry_fee = dec_round (dec_multiply fee_rate entry_notional) 2;
          exit_fee = dec_round (dec_multiply fee_rate exit_notional) 2;
          fee_amount = dec_round (dec_add entry_fee exit_fee) 2;
          profit = dec_round (dec_subtract (dec_subtract gross_profit slippage_amount) fee_amount) 2
      in \<lparr>z_exit_price = exit_price, z_entry_notional = entry_notional, z_gross_profit = gross_profit,
          z_slippage_amount = slippage_amount, z_fee_amount = fee_amount, z_profit = profit,
          z_equity_after = dec_round (dec_add (p_equity_before p) profit) 2\<rparr>)"

definition slippage_bps_of :: "simulation_input \<Rightarrow> number" where
  "slippage_bps_of inp = (case si_slippage_bps inp of None \<Rightarrow> num 5 | Some b \<Rightarrow> b)"

definition close_position :: "simulation_input \<Rightarrow> decimal \<Rightarrow> decimal \<Rightarrow> decimal \<Rightarrow> string \<Rightarrow> exit_reason
    \<Rightarrow> sim \<Rightarrow> sim result" where
  "close_position inp fee_rate slippage_rate market_exit_price exit_time reason st =
     (case s_position st of None \<Rightarrow> return st
      | Some p \<Rightarrow>
        (let z = settle fee_rate slippage_rate p market_exit_price; sequence = s_sequence st + 1 in
         and_then (dec_divide (dec_multiply (z_profit z) (from_integer 100)) (p_equity_before p) 8) (\<lambda>result_percent.
           return (st\<lparr>s_equity := z_equity_after z, s_sequence := sequence, s_position := None,
             s_trades := s_trades st @ [
               \<lparr>t_id = si_attempt_id inp @ ''-trade-'' @ show_nat sequence, t_sequence = sequence, t_pair = si_pair inp,
                t_settlement_asset = si_settlement_asset inp, t_attempt_id = si_attempt_id inp, t_signal = p_signal p,
                t_entry_time = p_entry_time p, t_market_entry_price = as_number (p_market_entry_price p),
                t_entry_price = as_number (p_entry_price p), t_stop_loss = map_option as_number (p_stop_loss p),
                t_take_profit = map_option as_number (p_take_profit p), t_exit_time = exit_time,
                t_market_exit_price = as_number market_exit_price, t_exit_price = as_number (z_exit_price z),
                t_exit_reason = reason, t_quantity = as_number (p_quantity p),
                t_notional_entry_value = as_number (z_entry_notional z),
                t_equity_before = as_number (p_equity_before p), t_equity_after = as_number (z_equity_after z),
                t_gross_profit = as_number (z_gross_profit z), t_fee_amount = as_number (z_fee_amount z),
                t_slippage_bps = slippage_bps_of inp, t_slippage_amount = as_number (z_slippage_amount z),
                t_profit = as_number (z_profit z), t_result_percent = as_number result_percent,
                t_result = (if units (z_profit z) > 0 then WIN else if units (z_profit z) < 0 then LOSS else BREAKEVEN)\<rparr>]\<rparr>))))"

definition protective_price :: "decimal \<Rightarrow> bool \<Rightarrow> trade_signal \<Rightarrow> number option \<Rightarrow> decimal option result" where
  "protective_price market_entry_price is_stop signal percent = (case percent of None \<Rightarrow> return None
     | Some x \<Rightarrow> and_then (decimal_of x) (\<lambda>d. and_then (dec_divide d (from_integer 100) 20) (\<lambda>rate.
         let move = dec_multiply (direction signal) rate;
             factor = (if is_stop then dec_subtract (from_integer 1) move else dec_add (from_integer 1) move)
         in return (Some (dec_round (dec_multiply market_entry_price factor) 8)))))"

definition open_position :: "simulation_input \<Rightarrow> decimal \<Rightarrow> decimal \<Rightarrow> action \<Rightarrow> candle \<Rightarrow> nat \<Rightarrow> sim \<Rightarrow> sim result" where
  "open_position inp fee_rate slippage_rate act candle index st =
     (let signal = side act; dir = direction signal in
      and_then (decimal_of (c_open candle)) (\<lambda>open_price.
      let market_entry_price = dec_round open_price 8;
          entry_price = dec_round (dec_multiply market_entry_price (dec_add (from_integer 1) (dec_multiply dir slippage_rate))) 8
      in and_then (dec_divide (s_equity st) (dec_multiply entry_price (dec_add (from_integer 1) fee_rate)) 8) (\<lambda>quantity.
      if units quantity \<le> 0 then return st
      else and_then (protective_price market_entry_price True signal (si_stop_loss_percent inp)) (\<lambda>stop_loss.
           and_then (protective_price market_entry_price False signal (si_take_profit_percent inp)) (\<lambda>take_profit.
           and_then (assert_positive_price stop_loss) (\<lambda>_.
           and_then (assert_positive_price take_profit) (\<lambda>_.
           return (st\<lparr>s_position := Some \<lparr>p_signal = signal, p_entry_index = index,
             p_market_entry_price = market_entry_price, p_entry_price = entry_price, p_entry_time = c_timestamp candle,
             p_quantity = quantity, p_equity_before = s_equity st, p_stop_loss = stop_loss,
             p_take_profit = take_profit\<rparr>\<rparr>))))))))"

section \<open>One candle\<close>

definition market_price :: "number \<Rightarrow> decimal result" where
  "market_price x = and_then (decimal_of x) (\<lambda>d. return (dec_round d 8))"

text \<open>First the signal scheduled by the previous candle is filled at the open.\<close>

definition fill_scheduled :: "simulation_input \<Rightarrow> decimal \<Rightarrow> decimal \<Rightarrow> nat \<Rightarrow> nat \<Rightarrow> nat \<Rightarrow> candle \<Rightarrow> sim \<Rightarrow> sim result" where
  "fill_scheduled inp fee_rate slippage_rate warmup n index candle st = (case s_scheduled st of None \<Rightarrow> return st
     | Some act \<Rightarrow> if index < warmup then return st
       else and_then
         (case s_position st of None \<Rightarrow> return st
          | Some p \<Rightarrow> if p_signal p \<noteq> side act
              then and_then (market_price (c_open candle)) (\<lambda>price.
                close_position inp fee_rate slippage_rate price (c_timestamp candle) STRATEGY_CLOSE st)
              else return st)
         (\<lambda>st1. and_then
           (if s_position st1 = None \<and> index < n - 1 then open_position inp fee_rate slippage_rate act candle index st1
            else return st1)
           (\<lambda>st2. return (st2\<lparr>s_scheduled := None\<rparr>))))"

text \<open>The level that closes the position within this candle, stop before target, at the open on a gap.\<close>

definition triggered_exit :: "position \<Rightarrow> decimal \<Rightarrow> decimal \<Rightarrow> decimal \<Rightarrow> (decimal \<times> exit_reason) option" where
  "triggered_exit p market_open market_high market_low =
     (let long = (p_signal p = LONG);
          stop_hit = (case p_stop_loss p of None \<Rightarrow> False
            | Some s \<Rightarrow> if long then units market_low \<le> units s else units market_high \<ge> units s);
          take_hit = (case p_take_profit p of None \<Rightarrow> False
            | Some t \<Rightarrow> if long then units market_high \<ge> units t else units market_low \<le> units t)
      in if stop_hit then (case p_stop_loss p of None \<Rightarrow> None
           | Some s \<Rightarrow> Some (if (if long then units market_open \<le> units s else units market_open \<ge> units s)
               then market_open else s, STOP_LOSS))
         else if take_hit then (case p_take_profit p of None \<Rightarrow> None
           | Some t \<Rightarrow> Some (if (if long then units market_open \<ge> units t else units market_open \<le> units t)
               then market_open else t, TAKE_PROFIT))
         else None)"

definition protect_position :: "simulation_input \<Rightarrow> decimal \<Rightarrow> decimal \<Rightarrow> nat \<Rightarrow> candle \<Rightarrow> sim \<Rightarrow> sim result" where
  "protect_position inp fee_rate slippage_rate index candle st = (case s_position st of None \<Rightarrow> return st
     | Some p \<Rightarrow> if p_entry_index p < index
       then and_then (market_price (c_open candle)) (\<lambda>market_open.
            and_then (market_price (c_high candle)) (\<lambda>market_high.
            and_then (market_price (c_low candle)) (\<lambda>market_low.
              case triggered_exit p market_open market_high market_low of None \<Rightarrow> return st
              | Some (price, reason) \<Rightarrow>
                  close_position inp fee_rate slippage_rate price (c_timestamp candle) reason st)))
       else return st)"

text \<open>The strategy sees the candles up to this one; its signal is scheduled for the next open.\<close>

definition strategy_context_at :: "simulation_input \<Rightarrow> candle list \<Rightarrow> nat \<Rightarrow> strategy_context result" where
  "strategy_context_at inp candles index = (let candle = candles ! index in
     and_then (case si_sentiment_at inp of None \<Rightarrow> return None
         | Some f \<Rightarrow> and_then (candle_close_time (c_timestamp candle) (si_timeframe inp)) (\<lambda>t. return (f t)))
       (\<lambda>sentiment. return \<lparr>x_pair = si_pair inp, x_timeframe = si_timeframe inp,
          x_candles = map to_strategy_candle (take (index + 1) candles), x_current_price = c_close candle,
          x_sentiment = sentiment\<rparr>))"

definition schedule_signal :: "simulation_input \<Rightarrow> nat \<Rightarrow> candle list \<Rightarrow> nat \<Rightarrow> sim \<Rightarrow> sim result" where
  "schedule_signal inp warmup candles index st =
     (if index < warmup \<or> index = length candles - 1 then return st
      else and_then (strategy_context_at inp candles index) (\<lambda>context.
        case si_analyze inp context of
          None \<Rightarrow> throw ''INVALID_SIGNAL''
        | Some HOLD \<Rightarrow> return st
        | Some s \<Rightarrow> (let act = (if s = BUY then Buy_Action else Sell_Action) in
            if (case s_position st of None \<Rightarrow> True | Some p \<Rightarrow> p_signal p \<noteq> side act)
            then return (st\<lparr>s_scheduled := Some act\<rparr>) else return st)))"

definition sim_step :: "simulation_input \<Rightarrow> decimal \<Rightarrow> decimal \<Rightarrow> nat \<Rightarrow> candle list \<Rightarrow> nat \<Rightarrow> sim \<Rightarrow> sim result" where
  "sim_step inp fee_rate slippage_rate warmup candles index st =
     and_then (fill_scheduled inp fee_rate slippage_rate warmup (length candles) index (candles ! index) st) (\<lambda>st1.
     and_then (protect_position inp fee_rate slippage_rate index (candles ! index) st1) (\<lambda>st2.
       schedule_signal inp warmup candles index st2))"

section \<open>The run\<close>

definition initial_sim :: "decimal \<Rightarrow> sim" where
  "initial_sim equity = \<lparr>s_equity = equity, s_position = None, s_scheduled = None, s_sequence = 0, s_trades = []\<rparr>"

definition finish :: "simulation_input \<Rightarrow> decimal \<Rightarrow> decimal \<Rightarrow> candle list \<Rightarrow> sim \<Rightarrow> sim result" where
  "finish inp fee_rate slippage_rate candles st =
     (if s_position st = None \<or> candles = [] then return st
      else and_then (market_price (c_close (last candles))) (\<lambda>price.
           and_then (candle_close_time (c_timestamp (last candles)) (si_timeframe inp)) (\<lambda>exit_time.
             close_position inp fee_rate slippage_rate price exit_time RANGE_END st)))"

definition input_invalid :: "simulation_input \<Rightarrow> bool" where
  "input_invalid inp = (trim (si_settlement_asset inp) = [] \<or> \<not> is_finite (si_initial_capital inp) \<or>
     nle (si_initial_capital inp) (num 0) \<or> \<not> is_finite (si_fee_rate_percent inp) \<or> nlt (si_fee_rate_percent inp) (num 0))"

definition warmup_of :: "simulation_input \<Rightarrow> number" where
  "warmup_of inp = (case si_warmup inp of None \<Rightarrow> num 0 | Some w \<Rightarrow> w)"

definition run_candles :: "simulation_input \<Rightarrow> candle list \<Rightarrow> nat \<Rightarrow> sim result" where
  "run_candles inp candles warmup =
     and_then (decimal_of (si_fee_rate_percent inp)) (\<lambda>fee_percent.
     and_then (dec_divide fee_percent (from_integer 100) 20) (\<lambda>fee_rate.
     and_then (decimal_of (slippage_bps_of inp)) (\<lambda>bps.
     and_then (dec_divide bps (from_integer 10000) 20) (\<lambda>slippage_rate.
     and_then (decimal_of (si_initial_capital inp)) (\<lambda>capital.
     and_then (fold_results (sim_step inp fee_rate slippage_rate warmup candles) [0..<length candles]
         (initial_sim (dec_round capital 2)))
       (finish inp fee_rate slippage_rate candles))))))"

definition simulate_backtest :: "simulation_input \<Rightarrow> completed_backtest result" where
  "simulate_backtest inp =
     and_then (reject_if (input_invalid inp) ''INVALID_INPUT'') (\<lambda>_.
     and_then (assert_positive_percent (si_stop_loss_percent inp)) (\<lambda>_.
     and_then (assert_positive_percent (si_take_profit_percent inp)) (\<lambda>_.
     and_then (reject_if (\<not> is_finite (slippage_bps_of inp) \<or> nlt (slippage_bps_of inp) (num 0)) ''INVALID_INPUT'') (\<lambda>_.
     and_then (reject_if (\<not> is_integer (warmup_of inp) \<or> nlt (warmup_of inp) (num 0)) ''INVALID_INPUT'') (\<lambda>_.
     let candles = sort_candles (si_candles inp); warmup = nat_of_number (warmup_of inp) in
     and_then (validate_candles inp None candles) (\<lambda>_.
     and_then (reject_if (warmup > length candles) ''SNAPSHOT_INCOMPLETE'') (\<lambda>_.
     and_then (run_candles inp candles warmup) (\<lambda>st.
       return \<lparr>cb_candidate_id = si_candidate_id inp, cb_attempt_id = si_attempt_id inp,
         cb_worker_version = si_worker_version inp, cb_worker_sha256 = si_worker_sha256 inp,
         cb_started_at = si_started_at inp, cb_completed_at = si_completed_at inp,
         cb_initial_capital = si_initial_capital inp, cb_trades = s_trades st\<rparr>))))))))"

section \<open>The accounts\<close>

lemma normalize_scale: "scale (normalize v) \<le> scale v"
  by (simp add: normalize_def normalize_scale_le)

lemma scale_add: "scale (dec_add l r) \<le> max (scale l) (scale r)"
  unfolding dec_add_def Let_def by (rule order_trans [OF normalize_scale]) simp

lemma scale_subtract: "scale (dec_subtract l r) \<le> max (scale l) (scale r)"
  unfolding dec_subtract_def by (rule order_trans [OF scale_add]) simp

lemma settle_exact:
  assumes "scale (p_equity_before p) \<le> 2" and "z = settle f s p price"
  shows "dvalue (z_profit z) = dvalue (z_gross_profit z) - dvalue (z_slippage_amount z) - dvalue (z_fee_amount z)"
    and "dvalue (z_equity_after z) = dvalue (p_equity_before p) + dvalue (z_profit z)"
    and "scale (z_equity_after z) = 2" and "scale (z_profit z) = 2"
proof -
  have sc: "scale (z_gross_profit z) = 2" "scale (z_slippage_amount z) = 2" "scale (z_fee_amount z) = 2"
    by (simp_all add: assms(2) settle_def Let_def)
  have p: "z_profit z = dec_round (dec_subtract (dec_subtract (z_gross_profit z) (z_slippage_amount z)) (z_fee_amount z)) 2"
    and e: "z_equity_after z = dec_round (dec_add (p_equity_before p) (z_profit z)) 2"
    by (simp_all add: assms(2) settle_def Let_def)
  have "scale (dec_subtract (dec_subtract (z_gross_profit z) (z_slippage_amount z)) (z_fee_amount z)) \<le> 2"
    using scale_subtract [of "z_gross_profit z" "z_slippage_amount z"]
      scale_subtract [of "dec_subtract (z_gross_profit z) (z_slippage_amount z)" "z_fee_amount z"] sc by linarith
  then show "dvalue (z_profit z) = dvalue (z_gross_profit z) - dvalue (z_slippage_amount z) - dvalue (z_fee_amount z)"
    unfolding p by (simp add: dec_round_exact)
  show psc: "scale (z_profit z) = 2" by (simp add: p)
  show "scale (z_equity_after z) = 2" by (simp add: e)
  have "scale (dec_add (p_equity_before p) (z_profit z)) \<le> 2"
    using scale_add [of "p_equity_before p" "z_profit z"] assms(1) psc by linarith
  then show "dvalue (z_equity_after z) = dvalue (p_equity_before p) + dvalue (z_profit z)"
    unfolding e by (simp add: dec_round_exact)
qed

fun equity_chain :: "number \<Rightarrow> trade list \<Rightarrow> number \<Rightarrow> bool" where
  "equity_chain a [] b = (a = b)"
| "equity_chain a (t # ts) b = (t_equity_before t = a \<and> equity_chain (t_equity_after t) ts b)"

lemma equity_chain_snoc:
  "equity_chain a (ts @ [t]) b \<longleftrightarrow> equity_chain a ts (t_equity_before t) \<and> t_equity_after t = b"
  by (induction ts arbitrary: a) auto

definition position_ok :: "decimal \<Rightarrow> position option \<Rightarrow> bool" where
  "position_ok e pos = (case pos of None \<Rightarrow> True
     | Some p \<Rightarrow> p_equity_before p = e \<and> units (p_quantity p) > 0 \<and> units e \<noteq> 0)"

definition accounts_ok :: "string \<Rightarrow> number \<Rightarrow> decimal \<Rightarrow> position option \<Rightarrow> nat \<Rightarrow> trade list \<Rightarrow> bool" where
  "accounts_ok attempt a e pos n ts = (map t_sequence ts = [1..<Suc n] \<and> n = length ts \<and>
     equity_chain a ts (as_number e) \<and> scale e = 2 \<and> position_ok e pos \<and>
     list_all (\<lambda>t. t_id t = attempt @ ''-trade-'' @ show_nat (t_sequence t)) ts)"

definition sim_inv :: "simulation_input \<Rightarrow> number \<Rightarrow> sim \<Rightarrow> bool" where
  "sim_inv inp a st = accounts_ok (si_attempt_id inp) a (s_equity st) (s_position st) (s_sequence st) (s_trades st)"

lemma quotient_zero [simp]: "d \<noteq> 0 \<Longrightarrow> rounded_quotient 0 d = 0"
  by (simp add: rounded_quotient_half_away half_away_def)

lemma dec_divide_nonzero: "dec_divide l r s = return q \<Longrightarrow> 0 < units q \<Longrightarrow> units l \<noteq> 0"
  by (auto simp: dec_divide_cases split: if_splits)

lemma accounts_ok_close:
  assumes "accounts_ok attempt a e (Some p) n ts" "scale e' = 2"
    and "t_sequence t = Suc n" "t_equity_before t = as_number e" "t_equity_after t = as_number e'"
    and "t_id t = attempt @ ''-trade-'' @ show_nat (Suc n)"
  shows "accounts_ok attempt a e' None (Suc n) (ts @ [t])"
  using assms by (simp add: accounts_ok_def equity_chain_snoc position_ok_def)

lemma close_position_inv:
  assumes "sim_inv inp a st" "close_position inp f s price time reason st = return st'"
  shows "sim_inv inp a st'" and "s_position st' = None"
proof -
  show "sim_inv inp a st'"
  proof (cases "s_position st")
    case None
    with assms show ?thesis by (simp add: close_position_def)
  next
    case (Some p)
    then have e: "p_equity_before p = s_equity st" "scale (p_equity_before p) \<le> 2"
      using assms(1) by (auto simp: sim_inv_def accounts_ok_def position_ok_def)
    have z: "scale (z_equity_after (settle f s p price)) = 2" by (rule settle_exact(3) [OF e(2) refl])
    from assms(1) Some have ok: "accounts_ok (si_attempt_id inp) a (s_equity st) (Some p) (s_sequence st) (s_trades st)"
      by (simp add: sim_inv_def)
    show ?thesis
      using assms(2) Some unfolding close_position_def Let_def sim_inv_def
      by (auto elim!: and_then_returnE intro!: accounts_ok_close [OF ok z] simp: e)
  qed
  show "s_position st' = None"
    using assms(2) by (auto simp: close_position_def Let_def elim!: and_then_returnE split: option.splits)
qed

lemma open_position_shape:
  assumes "open_position inp f s act candle i st = return st'"
  shows "st' = st \<or> (\<exists>p. st' = st\<lparr>s_position := Some p\<rparr> \<and> p_equity_before p = s_equity st \<and>
      units (p_quantity p) > 0 \<and> units (s_equity st) \<noteq> 0)"
proof -
  obtain d where d: "decimal_of (c_open candle) = return d"
    using assms by (auto simp: open_position_def Let_def elim!: and_then_returnE)
  obtain q where q: "dec_divide (s_equity st) (dec_multiply (dec_round (dec_multiply (dec_round d 8)
      (dec_add (from_integer 1) (dec_multiply (direction (side act)) s))) 8) (dec_add (from_integer 1) f)) 8 = return q"
    using assms d by (auto simp: open_position_def Let_def elim!: and_then_returnE)
  show ?thesis
  proof (cases "units q \<le> 0")
    case True
    with assms d q show ?thesis by (simp add: open_position_def Let_def)
  next
    case False
    then have "units (s_equity st) \<noteq> 0" using dec_divide_nonzero [OF q] by simp
    moreover obtain p where "st' = st\<lparr>s_position := Some p\<rparr>" "p_equity_before p = s_equity st" "p_quantity p = q"
      using assms d q False by (auto simp: open_position_def Let_def elim!: and_then_returnE)
    ultimately show ?thesis using False by auto
  qed
qed

lemma open_position_inv:
  assumes "sim_inv inp a st" "open_position inp f s act candle i st = return st'"
  shows "sim_inv inp a st'"
  using open_position_shape [OF assms(2)] assms(1) by (auto simp: sim_inv_def accounts_ok_def position_ok_def)

lemma scheduled_inv [simp]: "sim_inv inp a (st\<lparr>s_scheduled := x\<rparr>) = sim_inv inp a st"
  by (simp add: sim_inv_def)

lemma fill_scheduled_inv:
  assumes "sim_inv inp a st" "fill_scheduled inp f s w n i c st = return st'"
  shows "sim_inv inp a st'"
proof (cases "s_scheduled st = None \<or> i < w")
  case True
  with assms show ?thesis by (auto simp: fill_scheduled_def split: option.splits)
next
  case False
  then obtain act where act: "s_scheduled st = Some act" and i: "\<not> i < w" by auto
  from assms(2) obtain st1 st2 where c1: "(case s_position st of None \<Rightarrow> return st
          | Some p \<Rightarrow> if p_signal p \<noteq> side act
              then and_then (market_price (c_open c)) (\<lambda>price. close_position inp f s price (c_timestamp c) STRATEGY_CLOSE st)
              else return st) = return st1"
    and c2: "(if s_position st1 = None \<and> i < n - 1 then open_position inp f s act c i st1 else return st1) = return st2"
    and st': "st' = st2\<lparr>s_scheduled := None\<rparr>"
    unfolding fill_scheduled_def act using i by (auto elim!: and_then_returnE simp del: Zero_not_Suc)
  have "sim_inv inp a st1"
    using c1 assms(1) by (auto split: option.splits if_splits elim!: and_then_returnE intro: close_position_inv(1))
  with c2 have "sim_inv inp a st2" by (auto split: if_splits intro: open_position_inv)
  then show ?thesis by (simp add: st')
qed

lemma protect_position_inv:
  assumes "sim_inv inp a st" "protect_position inp f s i c st = return st'"
  shows "sim_inv inp a st'"
  using assms
  by (auto simp: protect_position_def split: option.splits if_splits prod.splits elim!: and_then_returnE
      intro: close_position_inv(1))

lemma schedule_signal_inv:
  assumes "sim_inv inp a st" "schedule_signal inp w cs i st = return st'"
  shows "sim_inv inp a st'"
proof -
  have "st' = st \<or> (\<exists>x. st' = st\<lparr>s_scheduled := x\<rparr>)"
    using assms(2) by (auto simp: schedule_signal_def Let_def split: option.splits if_splits signal.splits elim!: and_then_returnE)
  with assms(1) show ?thesis by auto
qed

lemma sim_step_inv:
  assumes "sim_inv inp a st" "sim_step inp f s w cs i st = return st'"
  shows "sim_inv inp a st'"
proof -
  from assms(2) obtain st1 st2 where
    "fill_scheduled inp f s w (length cs) i (cs ! i) st = return st1"
    "protect_position inp f s i (cs ! i) st1 = return st2" "schedule_signal inp w cs i st2 = return st'"
    by (auto simp: sim_step_def elim!: and_then_returnE)
  note this
  from schedule_signal_inv [OF protect_position_inv [OF fill_scheduled_inv [OF assms(1) this(1)] this(2)] this(3)]
  show ?thesis .
qed

lemma run_inv:
  assumes "run_candles inp cs w = return st" "decimal_of (si_initial_capital inp) = return d"
  shows "sim_inv inp (as_number (dec_round d 2)) st \<and> (cs \<noteq> [] \<longrightarrow> s_position st = None)"
proof -
  let ?a = "as_number (dec_round d 2)"
  have init: "sim_inv inp ?a (initial_sim (dec_round d 2))"
    by (simp add: sim_inv_def initial_sim_def position_ok_def accounts_ok_def)
  obtain f s st1 where l: "fold_results (sim_step inp f s w cs) [0..<length cs] (initial_sim (dec_round d 2)) = return st1"
    and fin: "finish inp f s cs st1 = return st"
    using assms by (auto simp: run_candles_def elim!: and_then_returnE)
  have i1: "sim_inv inp ?a st1"
    by (rule fold_results_invariant [OF l, where P = "sim_inv inp ?a", OF init]) (rule sim_step_inv)
  show ?thesis
  proof (cases "s_position st1 = None \<or> cs = []")
    case True
    with fin i1 show ?thesis by (auto simp: finish_def)
  next
    case False
    with fin obtain price time where "close_position inp f s price time RANGE_END st1 = return st"
      by (auto simp: finish_def elim!: and_then_returnE)
    with i1 show ?thesis using close_position_inv by blast
  qed
qed

section \<open>Fills\<close>

lemma triggered_exit_in_range:
  assumes "triggered_exit p market_open market_high market_low = Some (price, reason)"
    and "units market_low \<le> units market_open" "units market_open \<le> units market_high"
  shows "units market_low \<le> units price \<and> units price \<le> units market_high"
  using assms by (auto simp: triggered_exit_def Let_def split: option.splits if_splits)

lemma triggered_exit_stop_first:
  assumes "p_stop_loss p = Some s"
    and "if p_signal p = LONG then units market_low \<le> units s else units market_high \<ge> units s"
  shows "\<exists>price. triggered_exit p market_open market_high market_low = Some (price, STOP_LOSS) \<and>
    (if p_signal p = LONG then units price \<le> units s else units price \<ge> units s)"
  using assms by (auto simp: triggered_exit_def Let_def)

section \<open>No look-ahead\<close>

lemma sim_step_prefix:
  assumes "take k cs = take k ds" "i < k" "k < length cs" "k < length ds"
  shows "sim_step inp f s w cs i st = sim_step inp f s w ds i st"
proof -
  have c: "cs ! i = ds ! i" using assms by (metis nth_take)
  have "take (i + 1) (take k cs) = take (i + 1) (take k ds)" using assms(1) by simp
  then have t: "take (Suc i) cs = take (Suc i) ds" using assms(2) by (simp add: min_def split: if_splits)
  have fill: "fill_scheduled inp f s w (length cs) i x st = fill_scheduled inp f s w (length ds) i x st" for x
    using assms by (auto simp: fill_scheduled_def split: option.splits intro!: arg_cong2 [where f = and_then] ext)
  have ctx: "strategy_context_at inp cs i = strategy_context_at inp ds i"
    by (simp add: strategy_context_at_def c t)
  have sched: "schedule_signal inp w cs i = schedule_signal inp w ds i"
    using assms by (intro ext) (simp add: schedule_signal_def ctx)
  show ?thesis by (simp add: sim_step_def c fill sched)
qed

lemma fold_results_cong:
  "(\<And>x s. x \<in> set xs \<Longrightarrow> f x s = g x s) \<Longrightarrow> fold_results f xs s = fold_results g xs s"
proof (induction xs arbitrary: s)
  case (Cons x xs)
  have "f x s = g x s" by (rule Cons.prems) simp
  moreover have "fold_results f xs = fold_results g xs" by (rule ext) (rule Cons.IH, simp add: Cons.prems)
  ultimately show ?case by simp
qed simp

lemma run_prefix:
  assumes "take k cs = take k ds" "k < length cs" "k < length ds"
  shows "fold_results (sim_step inp f s w cs) [0..<k] st = fold_results (sim_step inp f s w ds) [0..<k] st"
  by (rule fold_results_cong) (rule sim_step_prefix [OF assms(1) _ assms(2,3)], simp)

section \<open>Errors\<close>

definition double_number :: "number \<Rightarrow> bool" where
  "double_number x = (case x of Fin q \<Rightarrow> rnd q = Fin q | _ \<Rightarrow> True)"

definition simulator_errors :: "string set" where
  "simulator_errors = {''INVALID_INPUT'', ''SNAPSHOT_INCOMPLETE'', ''INVALID_SIGNAL''}"

lemma decimal_of_error: "double_number x \<Longrightarrow> decimal_of x = Inl e \<Longrightarrow> e \<in> simulator_errors"
proof -
  assume d: "double_number x" and e: "decimal_of x = Inl e"
  show ?thesis
  proof (cases "is_finite x")
    case True
    with d obtain q where "x = Fin q" "rnd q = Fin q" by (auto simp: is_finite_iff double_number_def)
    with decimal_of_lossless [of q] e show ?thesis by auto
  next
    case False
    with e show ?thesis by (simp add: decimal_of_def simulator_errors_def)
  qed
qed

lemma dec_divide_error_code: "dec_divide l r s = Inl e \<Longrightarrow> e \<in> simulator_errors"
  by (auto simp: dec_divide_cases simulator_errors_def split: if_splits)

definition safe :: "'a result \<Rightarrow> bool" where
  "safe r = (\<forall>e. r = Inl e \<longrightarrow> e \<in> simulator_errors)"

lemma safe_return [simp, intro]: "safe (return x)"
  by (simp add: safe_def)

lemma safe_throw [simp]: "safe (throw e) = (e \<in> simulator_errors)"
  by (simp add: safe_def)

lemma safe_bind [intro]: "safe r \<Longrightarrow> (\<And>x. r = return x \<Longrightarrow> safe (f x)) \<Longrightarrow> safe (and_then r f)"
  by (cases r) simp_all

lemma safe_divide [intro]: "safe (dec_divide l r s)"
  using dec_divide_error_code by (auto simp: safe_def)

lemma safe_reject [simp, intro]: "e \<in> simulator_errors \<Longrightarrow> safe (reject_if b e)"
  by (simp add: safe_def)

lemma safe_decimal [intro]: "double_number x \<Longrightarrow> safe (decimal_of x)"
  using decimal_of_error by (auto simp: safe_def)

lemma simulator_codes [simp]:
  "''INVALID_INPUT'' \<in> simulator_errors" "''SNAPSHOT_INCOMPLETE'' \<in> simulator_errors" "''INVALID_SIGNAL'' \<in> simulator_errors"
  by (simp_all add: simulator_errors_def)

lemma safe_market_price [intro]: "double_number x \<Longrightarrow> safe (market_price x)"
  unfolding market_price_def by blast

lemma safe_close [intro]: "safe (close_position inp f s price time reason st)"
  unfolding close_position_def by (auto simp: Let_def split: option.splits)

lemma safe_protective [intro]: "(\<And>x. v = Some x \<Longrightarrow> double_number x) \<Longrightarrow> safe (protective_price m b sg v)"
  unfolding protective_price_def by (auto simp: Let_def split: option.splits)

lemma safe_positive [intro]: "safe (assert_positive_price v)"
  unfolding assert_positive_price_def by (auto split: option.splits)

definition double_candle :: "candle \<Rightarrow> bool" where
  "double_candle c = list_all double_number [c_open c, c_high c, c_low c, c_close c, c_volume c]"

definition double_input :: "simulation_input \<Rightarrow> bool" where
  "double_input inp = (list_all double_candle (si_candles inp) \<and> double_number (si_initial_capital inp) \<and>
     double_number (si_fee_rate_percent inp) \<and> double_number (slippage_bps_of inp) \<and>
     list_all double_number (case si_stop_loss_percent inp of None \<Rightarrow> [] | Some x \<Rightarrow> [x]) \<and>
     list_all double_number (case si_take_profit_percent inp of None \<Rightarrow> [] | Some x \<Rightarrow> [x]))"

lemma safe_open:
  assumes "double_input inp" "double_candle c"
  shows "safe (open_position inp f s act c i st)"
proof -
  have o: "double_number (c_open c)" using assms(2) by (simp add: double_candle_def)
  have p: "safe (protective_price m b sg (si_stop_loss_percent inp))"
    "safe (protective_price m b sg (si_take_profit_percent inp))" for m b sg
    using assms(1) by (auto simp: double_input_def)
  show ?thesis unfolding open_position_def Let_def
    by (intro safe_bind safe_decimal o safe_divide) (auto intro!: safe_bind p)
qed

lemma safe_context: "safe (strategy_context_at inp cs i)"
  unfolding strategy_context_at_def candle_close_time_def Let_def
  by (intro safe_bind) (auto split: option.splits)

lemma safe_schedule: "safe (schedule_signal inp w cs i st)"
  unfolding schedule_signal_def
  by (auto simp: Let_def split: option.splits signal.splits intro!: safe_bind safe_context)

lemma safe_fill:
  assumes "double_input inp" "double_candle c"
  shows "safe (fill_scheduled inp f s w n i c st)"
proof -
  have o: "double_number (c_open c)" using assms(2) by (simp add: double_candle_def)
  show ?thesis unfolding fill_scheduled_def
    by (auto split: option.splits intro!: safe_bind safe_open [OF assms] safe_market_price [OF o] safe_close)
qed

lemma safe_protect:
  assumes "double_candle c"
  shows "safe (protect_position inp f s i c st)"
proof -
  have o: "double_number (c_open c)" "double_number (c_high c)" "double_number (c_low c)"
    using assms by (simp_all add: double_candle_def)
  show ?thesis unfolding protect_position_def
    by (auto split: option.splits prod.splits intro!: safe_bind o)
qed

lemma safe_fold: "(\<And>x s. x \<in> set xs \<Longrightarrow> safe (f x s)) \<Longrightarrow> safe (fold_results f xs s)"
  by (induction xs arbitrary: s) (auto intro!: safe_bind)

lemma safe_validate: "safe (validate_candles inp prev cs)"
  by (induction cs arbitrary: prev) (auto simp: validate_candle_def intro!: safe_bind)

lemma safe_percent [intro]: "safe (assert_positive_percent v)"
  unfolding assert_positive_percent_def by (auto split: option.splits)

lemma safe_run:
  assumes "double_input inp" "list_all double_candle cs"
  shows "safe (run_candles inp cs w)"
proof -
  have step: "safe (sim_step inp f s w cs i st)" if "i \<in> set [0..<length cs]" for i f s st
  proof -
    have "double_candle (cs ! i)" using that assms(2) by (simp add: list_all_length)
    then show ?thesis unfolding sim_step_def
      by (intro safe_bind safe_fill assms(1) safe_protect safe_schedule)
  qed
  have fin: "safe (finish inp f s cs st)" for f s st
  proof (cases "cs = []")
    case False
    then have "double_number (c_close (last cs))" using assms(2) by (simp add: list_all_iff double_candle_def)
    then show ?thesis unfolding finish_def candle_close_time_def
      by (auto split: option.splits intro!: safe_bind)
  qed (simp add: finish_def)
  have d: "double_number (si_fee_rate_percent inp)" "double_number (slippage_bps_of inp)" "double_number (si_initial_capital inp)"
    using assms(1) by (simp_all add: double_input_def)
  show ?thesis unfolding run_candles_def
    by (intro safe_bind safe_decimal safe_divide d safe_fold step fin)
qed

lemma simulate_safe:
  assumes "double_input inp"
  shows "safe (simulate_backtest inp)"
proof -
  have "list_all double_candle (sort_candles (si_candles inp))"
    using assms by (auto simp: double_input_def list_all_iff sort_candles_def)
  then show ?thesis unfolding simulate_backtest_def Let_def
    by (intro safe_bind safe_reject safe_percent safe_validate safe_run assms) simp_all
qed

section \<open>A concrete run\<close>

lemmas decimal_eval = decimal_of_def decimal_of_text_def expand_scientific_notation_def show_pos_def shortest_def upt_rec
  pick_digits_def Let_def dec_len_def reads_as_def show_nat.simps number_simps strip_zeros.simps layout_def zeros_def
  unsign_def starts_with_def before_char_def fraction_part_def second_part_def or_zero_def big_int_def is_digit_def
  read_nat_def digit_val_def normalize_def power_int_def

lemma digit_eval: "digit 1 = CHR ''1''" "digit 2 = CHR ''2''" "digit 5 = CHR ''5''" "digit (Suc 0) = CHR ''1''"
  by (simp_all add: of_char_inj [symmetric] of_char_digit)

lemma sample_ten: "decimal_of (Fin 10) = return (dec 10 0)"
  by (simp add: decimal_eval digit_eval)
lemma sample_zero: "decimal_of (Fin 0) = return (dec 0 0)"
  by (simp add: decimal_eval digit_eval)

definition sample_candle :: "string \<Rightarrow> candle" where
  "sample_candle t = \<lparr>c_pair = ''P'', c_timeframe = M1, c_timestamp = t, c_open = Fin 10, c_high = Fin 10,
     c_low = Fin 10, c_close = Fin 10, c_volume = Fin 0, c_is_closed = True, c_source = None\<rparr>"

definition sample_simulation :: simulation_input where
  "sample_simulation = \<lparr>si_candidate_id = ''c'', si_attempt_id = ''a'', si_pair = ''P'', si_settlement_asset = ''U'',
     si_timeframe = M1, si_candles = [sample_candle ''2024-01-01'', sample_candle ''2024-01-02'', sample_candle ''2024-01-03''],
     si_warmup = None, si_analyze = (\<lambda>_. Some BUY), si_sentiment_at = None, si_initial_capital = Fin 10,
     si_fee_rate_percent = Fin 0, si_slippage_bps = Some (Fin 0), si_stop_loss_percent = None,
     si_take_profit_percent = None, si_worker_version = [], si_worker_sha256 = [], si_started_at = [], si_completed_at = []\<rparr>"


lemmas dec_eval = dec_add_def dec_subtract_def dec_multiply_def dec_absolute_def dec_round_def dec_divide_cases from_integer_def
  normalize_def rounded_quotient_half_away half_away_def power_of_ten_def smod_int_alt_def signed_divide_int_def

lemma normalize_numeral: "normalize_loop u (numeral k) = (if u smod 10 = 0 then normalize_loop (u sdiv 10) (pred_numeral k) else dec u (numeral k))"
  by (simp add: numeral_eq_Suc)

lemma sample_rates: "dec_divide (dec 0 0) (from_integer 100) 20 = return (dec 0 20)" "dec_divide (dec 0 0) (from_integer 10000) 20 = return (dec 0 20)"
  by (simp_all add: dec_eval)

lemma sample_rounded: "dec_round (dec 10 0) 2 = dec 1000 2" "dec_round (dec 10 0) 8 = dec 1000000000 8"
  by (simp_all add: dec_eval)

lemma sample_step0: "sim_step sample_simulation (dec 0 20) (dec 0 20) 0 [sample_candle ''2024-01-01'', sample_candle ''2024-01-02'', sample_candle ''2024-01-03''] 0 (initial_sim (dec 1000 2)) = return ((initial_sim (dec 1000 2))\<lparr>s_scheduled := Some Buy_Action\<rparr>)"
  by (simp add: sim_step_def fill_scheduled_def protect_position_def schedule_signal_def initial_sim_def strategy_context_at_def sample_simulation_def)


lemma sample_open: "\<exists>p. open_position sample_simulation (dec 0 20) (dec 0 20) Buy_Action (sample_candle x) i ((initial_sim (dec 1000 2))\<lparr>s_scheduled := Some Buy_Action\<rparr>) = return ((initial_sim (dec 1000 2))\<lparr>s_scheduled := Some Buy_Action, s_position := Some p\<rparr>) \<and> p_signal p = LONG \<and> p_equity_before p = dec 1000 2 \<and> p_entry_index p = i \<and> p_stop_loss p = None \<and> p_take_profit p = None"
  by (simp add: open_position_def sample_candle_def sample_simulation_def initial_sim_def protective_price_def assert_positive_price_def sample_ten sample_rounded dec_eval normalize_numeral Let_def)

lemma sample_valid: "and_then (validate_candles sample_simulation None (sort_candles (si_candles sample_simulation))) f = f ()"
  by (simp add: sort_candles_def sample_simulation_def sample_candle_def validate_candle_def nmax_def nmin_def date_parse_def num_at_def is_digit_def read_nat_def digit_val_def char_at_def parse_time_def day_of_ymd_def Let_def)


abbreviation sample_candles :: "candle list" where
  "sample_candles \<equiv> [sample_candle ''2024-01-01'', sample_candle ''2024-01-02'', sample_candle ''2024-01-03'']"

lemma sample_price: "market_price (Fin 10) = return (dec 1000000000 8)"
  by (simp add: market_price_def sample_ten sample_rounded)

lemma sample_close: "s_position st = Some p \<Longrightarrow> p_equity_before p = dec 1000 2 \<Longrightarrow>
  \<exists>st'. close_position inp f s pr tm rs st = return st' \<and> length (s_trades st') = Suc (length (s_trades st))"
  by (simp add: close_position_def dec_divide_cases Let_def)

lemma sample_run: "\<exists>st. run_candles sample_simulation sample_candles 0 = return st \<and> length (s_trades st) = 1"
proof -
  let ?i = "initial_sim (dec 1000 2)"
  obtain p where p: "open_position sample_simulation (dec 0 20) (dec 0 20) Buy_Action (sample_candle ''2024-01-02'') 1
      (?i\<lparr>s_scheduled := Some Buy_Action\<rparr>) = return (?i\<lparr>s_scheduled := Some Buy_Action, s_position := Some p\<rparr>)"
    "p_signal p = LONG" "p_equity_before p = dec 1000 2" "p_entry_index p = 1" "p_stop_loss p = None" "p_take_profit p = None"
    using sample_open [of "''2024-01-02''" 1] by blast
  have s1: "sim_step sample_simulation (dec 0 20) (dec 0 20) 0 sample_candles 1 (?i\<lparr>s_scheduled := Some Buy_Action\<rparr>) =
      return (?i\<lparr>s_position := Some p\<rparr>)"
    using p by (simp add: sim_step_def fill_scheduled_def protect_position_def schedule_signal_def initial_sim_def
        strategy_context_at_def sample_simulation_def Let_def)
  have s2: "sim_step sample_simulation (dec 0 20) (dec 0 20) 0 sample_candles 2 (?i\<lparr>s_position := Some p\<rparr>) = return (?i\<lparr>s_position := Some p\<rparr>)"
    using p by (simp add: sim_step_def fill_scheduled_def protect_position_def schedule_signal_def initial_sim_def
        triggered_exit_def sample_candle_def sample_price Let_def)
  have time: "\<exists>t. candle_close_time ''2024-01-03'' M1 = return t"
    by (simp add: candle_close_time_def date_parse_def num_at_def is_digit_def read_nat_def digit_val_def char_at_def parse_time_def)
  then obtain t where time: "candle_close_time ''2024-01-03'' M1 = return t" ..
  obtain st where st: "close_position sample_simulation (dec 0 20) (dec 0 20) (dec 1000000000 8) t RANGE_END
      (?i\<lparr>s_position := Some p\<rparr>) = return st" "length (s_trades st) = 1"
  proof -
    have "s_position (?i\<lparr>s_position := Some p\<rparr>) = Some p" "length (s_trades (?i\<lparr>s_position := Some p\<rparr>)) = 0"
      by (simp_all add: initial_sim_def)
    with sample_close [OF this(1) p(3), of sample_simulation "dec 0 20" "dec 0 20" "dec 1000000000 8" t RANGE_END] that
    show ?thesis by auto
  qed
  have fin: "finish sample_simulation (dec 0 20) (dec 0 20) sample_candles (?i\<lparr>s_position := Some p\<rparr>) = return st"
    using st(1) time by (simp add: finish_def sample_candle_def sample_price) (simp add: sample_simulation_def)
  have fields: "si_fee_rate_percent sample_simulation = Fin 0" "slippage_bps_of sample_simulation = Fin 0"
    "si_initial_capital sample_simulation = Fin 10"
    by (simp_all add: sample_simulation_def slippage_bps_of_def)
  have u: "[0..<length sample_candles] = [0, 1, 2]" by (simp add: upt_rec)
  have "run_candles sample_simulation sample_candles 0 = return st"
    unfolding run_candles_def fields u sample_zero sample_ten and_then.simps sample_rates sample_rounded
    using sample_step0 s1 s2 fin by (simp del: One_nat_def)
  with st(2) show ?thesis by blast
qed

lemma sample_runs: "\<exists>r. simulate_backtest sample_simulation = return r \<and> length (cb_trades r) = 1"
proof -
  have c: "sort_candles (si_candles sample_simulation) = sample_candles"
    by (simp add: sort_candles_def sample_simulation_def sample_candle_def)
  obtain st where st: "run_candles sample_simulation sample_candles 0 = return st" "length (s_trades st) = 1" using sample_run by blast
  have g: "\<not> input_invalid sample_simulation" "assert_positive_percent (si_stop_loss_percent sample_simulation) = return ()"
    "assert_positive_percent (si_take_profit_percent sample_simulation) = return ()"
    "slippage_bps_of sample_simulation = Fin 0" "warmup_of sample_simulation = Fin 0"
    by (simp_all add: sample_simulation_def input_invalid_def assert_positive_percent_def slippage_bps_of_def warmup_of_def
        trim_def is_space_def number_simps)
  show ?thesis
    unfolding simulate_backtest_def Let_def sample_valid unfolding c using st g by simp
qed

section \<open>Properties\<close>

text \<open>C1. The accounts of a finished simulation balance from trade to trade: the trades are numbered 1, 2, ...
  in order and named after the attempt, the first starts from the initial capital rounded to
  cents, and each later one starts from exactly the equity its predecessor ended with.\<close>

theorem simulation_accounts_chain:
  assumes "simulate_backtest inp = return r" "decimal_of (si_initial_capital inp) = return d"
  shows "map t_sequence (cb_trades r) = [1..<Suc (length (cb_trades r))] \<and>
    list_all (\<lambda>t. t_id t = si_attempt_id inp @ ''-trade-'' @ show_nat (t_sequence t)) (cb_trades r) \<and>
    (\<exists>e. scale e = 2 \<and> equity_chain (as_number (dec_round d 2)) (cb_trades r) (as_number e))"
proof -
  obtain st where "run_candles inp (sort_candles (si_candles inp)) (nat_of_number (warmup_of inp)) = return st"
    and r: "cb_trades r = s_trades st"
    using assms(1) by (auto simp: simulate_backtest_def Let_def elim!: and_then_returnE)
  from run_inv [OF this(1) assms(2)] r show ?thesis by (auto simp: sim_inv_def accounts_ok_def)
qed

lemma simulation_accounts_chain_witness:
  "\<exists>r. simulate_backtest sample_simulation = return r \<and> map t_sequence (cb_trades r) = [1] \<and>
    (\<exists>e. equity_chain (as_number (dec 1000 2)) (cb_trades r) (as_number e))"
proof -
  obtain r where r: "simulate_backtest sample_simulation = return r" "length (cb_trades r) = 1"
    using sample_runs by blast
  have d: "decimal_of (si_initial_capital sample_simulation) = return (dec 10 0)"
    by (simp add: sample_simulation_def sample_ten)
  from simulation_accounts_chain [OF r(1) d] r show ?thesis
    by (auto simp: sample_rounded)
qed

text \<open>C5. The amounts of one trade are exact: the profit is the gross profit less slippage and fees, and
  the equity after the trade is the equity before it plus the profit, with no rounding left over
  between the rounded parts.\<close>

theorem trade_amounts_balance:
  assumes "scale (p_equity_before p) \<le> 2" and "z = settle fee_rate slippage_rate p price"
  shows "dvalue (z_profit z) = dvalue (z_gross_profit z) - dvalue (z_slippage_amount z) - dvalue (z_fee_amount z) \<and>
    dvalue (z_equity_after z) = dvalue (p_equity_before p) + dvalue (z_profit z) \<and> scale (z_equity_after z) = 2"
  using settle_exact [OF assms] by simp

definition sample_position :: position where
  "sample_position = \<lparr>p_signal = LONG, p_entry_index = 0, p_market_entry_price = dec 1000000000 8,
     p_entry_price = dec 1000000000 8, p_entry_time = [], p_quantity = dec 100000000 8,
     p_equity_before = dec 1000 2, p_stop_loss = None, p_take_profit = None\<rparr>"

lemma trade_amounts_balance_witness:
  "dvalue (z_equity_after (settle (dec 0 20) (dec 0 20) sample_position (dec 1100000000 8))) =
    10 + dvalue (z_profit (settle (dec 0 20) (dec 0 20) sample_position (dec 1100000000 8)))"
  using trade_amounts_balance [of sample_position _ "dec 0 20" "dec 0 20" "dec 1100000000 8", OF _ refl]
  by (simp add: sample_position_def dvalue_dec)

text \<open>C2. There is no look-ahead: as long as two candle series agree on their first \<open>k\<close> candles and both go
  on, the simulation is in the same state after those candles, so no decision before candle
  \<open>k\<close> depends on it or on a later one.\<close>

theorem simulation_has_no_look_ahead:
  assumes "take k cs = take k ds" "k < length cs" "k < length ds"
  shows "fold_results (sim_step inp fee slip warmup cs) [0..<k] st = fold_results (sim_step inp fee slip warmup ds) [0..<k] st"
  using run_prefix [OF assms] .

lemma simulation_has_no_look_ahead_witness:
  "fold_results (sim_step sample_simulation (dec 0 20) (dec 0 20) 0 sample_candles) [0..<1] (initial_sim (dec 1000 2)) =
   fold_results (sim_step sample_simulation (dec 0 20) (dec 0 20) 0
     [sample_candle ''2024-01-01'', (sample_candle ''2024-01-09'')\<lparr>c_close := Fin 99\<rparr>]) [0..<1] (initial_sim (dec 1000 2))"
  by (rule simulation_has_no_look_ahead) simp_all

text \<open>C4. A protective exit is filled at a price the candle traded at, and a stop beats a target: when the
  candle reaches the stop the exit is a STOP_LOSS, never at a better price than the stop.\<close>

theorem protective_exit_is_achievable:
  assumes "units market_low \<le> units market_open" "units market_open \<le> units market_high"
  shows "(\<forall>price reason. triggered_exit p market_open market_high market_low = Some (price, reason) \<longrightarrow>
      units market_low \<le> units price \<and> units price \<le> units market_high) \<and>
    (\<forall>s. p_stop_loss p = Some s \<longrightarrow>
      (if p_signal p = LONG then units market_low \<le> units s else units s \<le> units market_high) \<longrightarrow>
      (\<exists>price. triggered_exit p market_open market_high market_low = Some (price, STOP_LOSS) \<and>
        (if p_signal p = LONG then units price \<le> units s else units s \<le> units price)))"
  using triggered_exit_in_range [OF _ assms] triggered_exit_stop_first by blast

lemma protective_exit_is_achievable_witness:
  "\<exists>price. triggered_exit (sample_position\<lparr>p_stop_loss := Some (dec 900000000 8), p_take_profit := Some (dec 1100000000 8)\<rparr>)
      (dec 1000000000 8) (dec 1200000000 8) (dec 800000000 8) = Some (price, STOP_LOSS) \<and> units price \<le> 900000000"
  using protective_exit_is_achievable [of "dec 800000000 8" "dec 1000000000 8" "dec 1200000000 8"
      "sample_position\<lparr>p_stop_loss := Some (dec 900000000 8), p_take_profit := Some (dec 1100000000 8)\<rparr>"]
  by (simp add: sample_position_def)



end
