(* ===== verification/Evaluator.thy ===== *)
theory Evaluator
  imports Simulator
begin

text \<open>
  The evaluation of a finished backtest (\<^verbatim>\<open>modules/evaluation/domain/evaluator.ts\<close>): return,
  win rate, drawdown, profit factor and Sharpe ratio over the trades' result percentages.
  Every number that leaves the evaluator was checked to be finite.
\<close>

datatype factor_status = Factor_Finite | No_Trades | No_Losses | No_Gross_Movement

datatype sharpe_status = Sharpe_Finite | Insufficient_Observations | Zero_Variance

record metrics =
  m_candidate_id :: string
  m_total_return :: number
  m_win_rate :: number
  m_trades :: nat
  m_max_drawdown :: number
  m_profit_factor :: "number option"
  m_profit_factor_status :: factor_status
  m_sharpe :: number
  m_sharpe_status :: sharpe_status
  m_policy :: string
  m_runtime_version :: string
  m_runtime_sha256 :: string

definition finite_metric :: "number \<Rightarrow> string \<Rightarrow> number result" where
  "finite_metric v label = (if is_finite v then return v else throw (''EVALUATION_FINITE_METRIC_VIOLATION:'' @ label))"

record tally =
  y_factor :: number
  y_peak :: number
  y_drawdown :: number
  y_gross_profit :: number
  y_gross_loss :: number
  y_wins :: nat

definition initial_tally :: tally where
  "initial_tally = \<lparr>y_factor = num 1, y_peak = num 1, y_drawdown = num 0, y_gross_profit = num 0,
     y_gross_loss = num 0, y_wins = 0\<rparr>"

definition tally_trade :: "number \<Rightarrow> tally \<Rightarrow> tally result" where
  "tally_trade v y =
     and_then (finite_metric (nmul (y_factor y) (nadd (num 1) (ndiv v (num 100)))) ''totalReturnPercent'') (\<lambda>factor.
       let peak = (if nlt (y_peak y) factor then factor else y_peak y);
           drawdown = (if peak = Fin 0 then num 0 else nmul (ndiv (nsub peak factor) peak) (num 100))
       in and_then (finite_metric drawdown ''maxDrawdownPercent'') (\<lambda>d.
         return \<lparr>y_factor = factor, y_peak = peak, y_drawdown = nmax (y_drawdown y) d,
           y_gross_profit = (if nlt (num 0) v then nadd (y_gross_profit y) v else y_gross_profit y),
           y_gross_loss = (if nlt v (num 0) then nadd (y_gross_loss y) (nabs v) else y_gross_loss y),
           y_wins = (if nlt (num 0) v then y_wins y + 1 else y_wins y)\<rparr>))"

definition mean_of :: "number list \<Rightarrow> number" where
  "mean_of xs = (if xs = [] then num 0 else ndiv (nsum xs) (num (int (length xs))))"

definition sharpe_of :: "nat \<Rightarrow> number \<Rightarrow> sharpe_status" where
  "sharpe_of n sd = (if n < 2 then Insufficient_Observations else if nle sd (lit 1 12) then Zero_Variance else Sharpe_Finite)"

definition factor_status_of :: "nat \<Rightarrow> number \<Rightarrow> number \<Rightarrow> factor_status" where
  "factor_status_of n profit loss = (if n = 0 then No_Trades
     else if nlt (num 0) profit \<and> nlt (num 0) loss then Factor_Finite
     else if nlt (num 0) profit then No_Losses
     else if nlt (num 0) loss then Factor_Finite else No_Gross_Movement)"

definition evaluate_backtest :: "completed_backtest \<Rightarrow> string \<Rightarrow> string \<Rightarrow> metrics result" where
  "evaluate_backtest r version sha256 =
     and_then (map_results (\<lambda>t. finite_metric (t_result_percent t) ''trade.resultPercent'') (cb_trades r)) (\<lambda>returns.
     and_then (fold_results tally_trade returns initial_tally) (\<lambda>y.
     let n = length returns; mean = mean_of returns;
         variance = mean_of (map (\<lambda>v. nmul (nsub v mean) (nsub v mean)) returns);
         sd = nsqrt variance; ss = sharpe_of n sd; fs = factor_status_of n (y_gross_profit y) (y_gross_loss y)
     in and_then (if ss = Sharpe_Finite then finite_metric (ndiv mean sd) ''sharpeRatio'' else return (num 0)) (\<lambda>sharpe.
        and_then (if fs = Factor_Finite
            then and_then (finite_metric (ndiv (y_gross_profit y) (y_gross_loss y)) ''profitFactor'') (\<lambda>p. return (Some p))
            else return None) (\<lambda>profit_factor.
        and_then (finite_metric (nmul (nsub (y_factor y) (num 1)) (num 100)) ''totalReturnPercent'') (\<lambda>total.
        and_then (finite_metric (if n = 0 then num 0
            else nmul (ndiv (num (int (y_wins y))) (num (int n))) (num 100)) ''winRatePercent'') (\<lambda>win_rate.
          return \<lparr>m_candidate_id = cb_candidate_id r, m_total_return = total, m_win_rate = win_rate, m_trades = n,
            m_max_drawdown = y_drawdown y, m_profit_factor = profit_factor, m_profit_factor_status = fs,
            m_sharpe = sharpe, m_sharpe_status = ss, m_policy = ''MVP_EVALUATION_V1'',
            m_runtime_version = version, m_runtime_sha256 = sha256\<rparr>))))))"

section \<open>Facts\<close>

lemma finite_metric_return [simp]: "finite_metric v l = return x \<longleftrightarrow> x = v \<and> is_finite v"
  by (auto simp: finite_metric_def)

definition tally_ok :: "nat \<Rightarrow> tally \<Rightarrow> bool" where
  "tally_ok n y = (is_finite (y_drawdown y) \<and> nle (Fin 0) (y_drawdown y) \<and> y_wins y \<le> n)"

lemma nmax_nonneg: "is_finite a \<Longrightarrow> is_finite b \<Longrightarrow> nle (Fin 0) a \<Longrightarrow> is_finite (nmax a b) \<and> nle (Fin 0) (nmax a b)"
  by (cases a; cases b) (auto simp: nmax_def)

lemma tally_trade_ok: "tally_ok n y \<Longrightarrow> tally_trade v y = return y' \<Longrightarrow> tally_ok (Suc n) y'"
  using nmax_nonneg by (auto simp: tally_trade_def tally_ok_def Let_def elim!: and_then_returnE)

lemma tally_fold_ok: "tally_ok n y \<Longrightarrow> fold_results tally_trade vs y = return y' \<Longrightarrow> tally_ok (n + length vs) y'"
proof (induction vs arbitrary: n y)
  case (Cons v vs)
  from Cons.prems(2) obtain y1 where y1: "tally_trade v y = return y1" "fold_results tally_trade vs y1 = return y'"
    by (auto elim!: and_then_returnE)
  from Cons.IH [OF tally_trade_ok [OF Cons.prems(1) y1(1)] y1(2)] show ?case by simp
qed simp

lemma ratio_percent_range:
  assumes "k \<le> n" "0 < n" "n \<le> 2 ^ 53"
  shows "\<exists>v. nmul (ndiv (num (int k)) (num (int n))) (num 100) = Fin v \<and> 0 \<le> v \<and> v \<le> 100"
proof -
  have big: "int k \<le> 2 ^ 53" "int n \<le> 2 ^ 53"
    using assms by (metis of_nat_le_iff of_nat_numeral of_nat_power order_trans)+
  have e: "num (int k) = Fin (of_nat k)" "num (int n) = Fin (of_nat n)"
    using num_exact [of "int k"] num_exact [of "int n"] big by simp_all
  have one: "rnd 1 = Fin 1" "rnd 100 = Fin 100" "num 100 = Fin 100" by (simp_all add: number_simps)
  have q: "0 \<le> (of_nat k :: rat) / of_nat n" "(of_nat k :: rat) / of_nat n \<le> 1"
    using assms by (simp_all add: divide_le_eq)
  obtain u where u: "rnd (of_nat k / of_nat n) = Fin u" "0 \<le> u" "u \<le> 1"
    using double.between [OF double.zero one(1) q] by auto
  have "0 \<le> u * 100" "u * 100 \<le> 100" using u by simp_all
  then obtain v where v: "rnd (u * 100) = Fin v" "0 \<le> v" "v \<le> 100"
    using double.between [OF double.zero one(2)] by blast
  then show ?thesis using u e one assms(2) by simp
qed

section \<open>Properties\<close>


definition sample_result :: "trade list \<Rightarrow> completed_backtest" where
  "sample_result ts = \<lparr>cb_candidate_id = ''c'', cb_attempt_id = ''a'', cb_worker_version = [], cb_worker_sha256 = [],
     cb_started_at = [], cb_completed_at = [], cb_initial_capital = Fin 10, cb_trades = ts\<rparr>"

definition sample_trade :: "number \<Rightarrow> trade" where
  "sample_trade p = \<lparr>t_id = ''t'', t_sequence = 1, t_pair = ''P'', t_settlement_asset = ''U'', t_attempt_id = ''a'',
     t_signal = LONG, t_entry_time = [], t_market_entry_price = Fin 1, t_entry_price = Fin 1, t_stop_loss = None,
     t_take_profit = None, t_exit_time = [], t_market_exit_price = Fin 2, t_exit_price = Fin 2,
     t_exit_reason = RANGE_END, t_quantity = Fin 1, t_notional_entry_value = Fin 1, t_equity_before = Fin 1,
     t_equity_after = Fin 2, t_gross_profit = Fin 1, t_fee_amount = Fin 0, t_slippage_bps = Fin 0,
     t_slippage_amount = Fin 0, t_profit = Fin 1, t_result_percent = p, t_result = WIN\<rparr>"


end
