(* ===== verification/Leaderboard.thy ===== *)
theory Leaderboard
  imports Evaluator
begin

text \<open>
  Scoring and ranking (\<^verbatim>\<open>modules/leaderboard/domain/ranking.ts\<close> and
  \<^verbatim>\<open>application/service.ts\<close>): the score of an evaluation, the board of the ten best results
  of a scope and the submission that keeps it. The state holds the in-memory repositories
  and the two caches of the module.
\<close>

section \<open>Scoring\<close>

record score_weights =
  w_return :: number
  w_win_rate :: number
  w_risk_score :: number

record score_formula =
  sf_id :: string
  sf_weights :: score_weights
  sf_method :: string

record scored =
  sc_scope :: string
  sc_formula :: string
  sc_overall :: number
  sc_eligible :: bool

definition clamp :: "number \<Rightarrow> number \<Rightarrow> number \<Rightarrow> number" where
  "clamp v lo hi = nmin hi (nmax lo v)"

definition score_evaluation :: "string \<Rightarrow> score_formula \<Rightarrow> metrics \<Rightarrow> scored result" where
  "score_evaluation scope formula m =
     (if m_trades m = 0 then return \<lparr>sc_scope = scope, sc_formula = sf_id formula, sc_overall = num 0, sc_eligible = False\<rparr>
      else if \<not> list_all is_finite [m_total_return m, m_win_rate m, m_max_drawdown m, m_sharpe m,
          w_return (sf_weights formula), w_win_rate (sf_weights formula), w_risk_score (sf_weights formula)]
      then throw ''INVALID_SCORE''
      else if sf_method formula \<noteq> ''MVP_SHARPE_DRAWDOWN_V1'' then throw ''UNSUPPORTED_SCORE_FORMULA''
      else let risk = clamp (nsub (nadd (num 50) (nmul (num 10) (m_sharpe m))) (m_max_drawdown m)) (num 0) (num 100);
               overall = nadd (nadd (nmul (w_return (sf_weights formula)) (m_total_return m))
                 (nmul (w_win_rate (sf_weights formula)) (m_win_rate m))) (nmul (w_risk_score (sf_weights formula)) risk)
           in if \<not> is_finite overall then throw ''INVALID_SCORE''
              else return \<lparr>sc_scope = scope, sc_formula = sf_id formula, sc_overall = overall, sc_eligible = True\<rparr>)"

definition default_score_formula :: score_formula where
  "default_score_formula = \<lparr>sf_id = ''MVP_MANUAL_V1'',
     sf_weights = \<lparr>w_return = lit 5 1, w_win_rate = lit 2 1, w_risk_score = lit 3 1\<rparr>,
     sf_method = ''MVP_SHARPE_DRAWDOWN_V1''\<rparr>"

section \<open>The board\<close>

record entry =
  en_id :: string
  en_rank :: nat
  en_experiment :: string
  en_scope :: string
  en_formula :: string
  en_score :: number
  en_added_at :: string

record scope =
  lb_id :: string
  lb_user :: string
  lb_name :: string
  lb_snapshot :: snapshot_ref
  lb_worker_version :: string
  lb_worker_sha256 :: string
  lb_evaluation_version :: string
  lb_evaluation_sha256 :: string
  lb_initial_capital :: number
  lb_fee_rate_percent :: number
  lb_slippage_bps :: number
  lb_formula :: string
  lb_created_at :: string

record leaderboard =
  b_scopes :: "(string, scope) jsmap"
  b_formulas :: "(string, score_formula) jsmap"
  b_entries :: "(string, entry \<times> bool) jsmap"
  b_sequence :: nat
  b_scope_cache :: "(string, scope) jsmap"
  b_formula_cache :: "(string, score_formula) jsmap"

definition top_k :: nat where
  "top_k = 10"

text \<open>A comparator result \<^verbatim>\<open>a - b\<close>; \<^verbatim>\<open>NaN\<close> is falsy, so the next key decides.\<close>

fun sign_number :: "number \<Rightarrow> int" where
  "sign_number NaN = 0"
| "sign_number PInf = 1"
| "sign_number NInf = -1"
| "sign_number (Fin q) = (if q > 0 then 1 else if q < 0 then -1 else 0)"

definition entry_cmp :: "entry \<Rightarrow> entry \<Rightarrow> int" where
  "entry_cmp l r = or_else (sign_number (nsub (en_score r) (en_score l)))
     (or_else (locale_compare (en_added_at l) (en_added_at r)) (locale_compare (en_id l) (en_id r)))"

definition number_ranks :: "entry list \<Rightarrow> entry list" where
  "number_ranks es = map (\<lambda>(i, e). e\<lparr>en_rank := i + 1\<rparr>) (enumerate 0 es)"

definition rank_entries :: "entry list \<Rightarrow> entry list" where
  "rank_entries es = number_ranks (sort_by entry_cmp es)"

definition active_entries :: "string \<Rightarrow> leaderboard \<Rightarrow> entry list" where
  "active_entries sid lb = map fst (filter (\<lambda>(e, active). active \<and> en_scope e = sid) (js_values (b_entries lb)))"

definition active_top_k :: "string \<Rightarrow> nat \<Rightarrow> leaderboard \<Rightarrow> entry list" where
  "active_top_k sid limit lb = take limit (rank_entries (active_entries sid lb))"

definition insert_entry :: "string \<Rightarrow> string \<Rightarrow> string \<Rightarrow> number \<Rightarrow> string \<Rightarrow> leaderboard \<Rightarrow> leaderboard \<times> entry" where
  "insert_entry experiment sid formula score now lb =
     (let k = b_sequence lb + 1;
          e = \<lparr>en_id = ''leaderboard-entry-'' @ show_nat k, en_rank = 0, en_experiment = experiment, en_scope = sid,
               en_formula = formula, en_score = score, en_added_at = now\<rparr>
      in (lb\<lparr>b_sequence := k, b_entries := js_set experiment (e, True) (b_entries lb)\<rparr>, e))"

definition deactivate_entry :: "string \<Rightarrow> leaderboard \<Rightarrow> leaderboard" where
  "deactivate_entry i lb = lb\<lparr>b_entries := map (\<lambda>(k, e, active). (k, e, active \<and> en_id e \<noteq> i)) (b_entries lb)\<rparr>"

definition owned_scope :: "string \<Rightarrow> string \<Rightarrow> leaderboard \<Rightarrow> scope option" where
  "owned_scope user i lb = (case js_get (b_scopes lb) i of None \<Rightarrow> None
     | Some s \<Rightarrow> if lb_user s = user then Some s else None)"

definition cache_scope_and_formula :: "scope \<Rightarrow> leaderboard \<Rightarrow> (leaderboard \<times> score_formula) result" where
  "cache_scope_and_formula s lb =
     (let lb1 = lb\<lparr>b_scope_cache := js_set (lb_id s) s (b_scope_cache lb)\<rparr> in
      case js_get (b_formula_cache lb1) (lb_formula s) of Some f \<Rightarrow> return (lb1, f)
      | None \<Rightarrow> (case js_get (b_formulas lb1) (lb_formula s) of None \<Rightarrow> throw ''SCORE_FORMULA_NOT_FOUND''
          | Some f \<Rightarrow> return (lb1\<lparr>b_formula_cache := js_set (sf_id f) f (b_formula_cache lb1)\<rparr>, f)))"

definition score :: "string \<Rightarrow> metrics \<Rightarrow> leaderboard \<Rightarrow> (leaderboard \<times> scored) result" where
  "score sid m lb = (case js_get (b_scope_cache lb) sid of
     None \<Rightarrow> and_then (score_evaluation sid
         (case js_get (b_formula_cache lb) (sf_id default_score_formula) of None \<Rightarrow> default_score_formula | Some f \<Rightarrow> f) m)
         (\<lambda>s. return (lb, s))
   | Some s \<Rightarrow> and_then (cache_scope_and_formula s lb) (\<lambda>(lb1, f).
       and_then (score_evaluation sid f m) (\<lambda>r. return (lb1, r))))"

definition assert_owner :: "string \<Rightarrow> unit result" where
  "assert_owner user = reject_if (trim user = []) ''INVALID_AUTH_CONTEXT''"

definition get_leaderboard_scope :: "string \<Rightarrow> string \<Rightarrow> leaderboard \<Rightarrow> (leaderboard \<times> scope) result" where
  "get_leaderboard_scope user i lb = and_then (assert_owner user) (\<lambda>_.
     case owned_scope user i lb of None \<Rightarrow> throw ''SCOPE_NOT_FOUND''
     | Some s \<Rightarrow> and_then (cache_scope_and_formula s lb) (\<lambda>(lb1, _). return (lb1, s)))"

definition board :: "string \<Rightarrow> string \<Rightarrow> leaderboard \<Rightarrow> (leaderboard \<times> entry list) result" where
  "board user sid lb = and_then (assert_owner user) (\<lambda>_.
     case owned_scope user sid lb of None \<Rightarrow> throw ''SCOPE_NOT_FOUND''
     | Some s \<Rightarrow> and_then (cache_scope_and_formula s lb) (\<lambda>(lb1, _).
         return (lb1, rank_entries (active_top_k sid top_k lb1))))"

section \<open>Submitting an experiment\<close>

record experiment_result =
  ex_id :: string
  ex_owner :: "string option"
  ex_candidate :: string
  ex_search_run :: "string option"
  ex_scope :: string
  ex_formula :: string
  ex_score :: number
  ex_eligible :: bool

record submission =
  su_admitted :: bool
  su_entry :: "entry option"
  su_evicted :: "string option"

definition not_admitted :: submission where
  "not_admitted = \<lparr>su_admitted = False, su_entry = None, su_evicted = None\<rparr>"

definition admit :: "experiment_result \<Rightarrow> string \<Rightarrow> leaderboard \<Rightarrow> leaderboard \<times> submission" where
  "admit x now lb =
     (let active = rank_entries (active_top_k (ex_scope x) top_k lb);
          lowest = (if active = [] then None else Some (last active));
          full = (length active = top_k)
      in if full \<and> (case lowest of None \<Rightarrow> False | Some e \<Rightarrow> nle (ex_score x) (en_score e)) then (lb, not_admitted)
         else let lb1 = (case lowest of None \<Rightarrow> lb | Some e \<Rightarrow> if full then deactivate_entry (en_id e) lb else lb);
                  (lb2, inserted) = insert_entry (ex_id x) (ex_scope x) (ex_formula x) (ex_score x) now lb1;
                  found = find (\<lambda>e. en_id e = en_id inserted) (rank_entries (active_top_k (ex_scope x) top_k lb2))
              in (lb2, \<lparr>su_admitted = True, su_entry = Some (case found of None \<Rightarrow> inserted | Some e \<Rightarrow> e),
                        su_evicted = map_option en_experiment lowest\<rparr>))"

definition submit :: "experiment_result \<Rightarrow> string \<Rightarrow> leaderboard \<Rightarrow> (leaderboard \<times> submission) result" where
  "submit x now lb =
     (if (case ex_search_run x of None \<Rightarrow> True | Some i \<Rightarrow> i = []) then return (lb, not_admitted)
      else if \<not> ex_eligible x then return (lb, not_admitted)
      else if \<not> is_finite (ex_score x) then throw ''INVALID_SCORE''
      else case ex_owner x of None \<Rightarrow> throw ''EXPERIMENT_OWNER_REQUIRED''
      | Some owner \<Rightarrow> if trim owner = [] then throw ''EXPERIMENT_OWNER_REQUIRED''
        else (case owned_scope owner (ex_scope x) lb of None \<Rightarrow> throw ''SCOPE_NOT_FOUND''
        | Some s \<Rightarrow> and_then (cache_scope_and_formula s lb) (\<lambda>(lb1, _).
            case js_get (b_entries lb1) (ex_id x) of
              Some (e, _) \<Rightarrow> return (lb1, \<lparr>su_admitted = (en_scope e = ex_scope x),
                su_entry = (if en_scope e = ex_scope x then Some e else None), su_evicted = None\<rparr>)
            | None \<Rightarrow> return (admit x now lb1))))"

section \<open>Scopes and the ranking of a search run\<close>

definition is_hex :: "char \<Rightarrow> bool" where
  "is_hex c = (is_digit c \<or> lower_char c \<in> set ''abcdef'')"

definition is_sha256 :: "string \<Rightarrow> bool" where
  "is_sha256 s = (length s = 64 \<and> list_all is_hex s)"

record scope_command =
  sm_name :: string
  sm_snapshot :: snapshot_ref
  sm_worker_version :: string
  sm_worker_sha256 :: string
  sm_evaluation_version :: string
  sm_evaluation_sha256 :: string
  sm_initial_capital :: number
  sm_fee_rate_percent :: number
  sm_slippage_bps :: number
  sm_formula :: string

definition scope_command_invalid :: "scope_command \<Rightarrow> bool" where
  "scope_command_invalid c =
     (trim (sm_name c) = [] \<or> sn_id (sm_snapshot c) = [] \<or> sn_pair (sm_snapshot c) = [] \<or> \<not> is_sha256 (sn_sha256 (sm_snapshot c)) \<or>
      \<not> list_all is_finite [sm_initial_capital c, sm_fee_rate_percent c, sm_slippage_bps c] \<or>
      nle (sm_initial_capital c) (num 0) \<or> nlt (sm_fee_rate_percent c) (num 0) \<or> nlt (sm_slippage_bps c) (num 0) \<or>
      trim (sm_worker_version c) = [] \<or> trim (sm_evaluation_version c) = [] \<or>
      \<not> is_sha256 (sm_worker_sha256 c) \<or> \<not> is_sha256 (sm_evaluation_sha256 c))"

definition create_leaderboard_scope :: "string \<Rightarrow> scope_command \<Rightarrow> string \<Rightarrow> leaderboard \<Rightarrow> (leaderboard \<times> scope) result" where
  "create_leaderboard_scope user c now lb = and_then (assert_owner user) (\<lambda>_.
     if scope_command_invalid c then throw ''INVALID_SCOPE''
     else case js_get (b_formulas lb) (sm_formula c) of None \<Rightarrow> throw ''SCORE_FORMULA_NOT_FOUND''
     | Some f \<Rightarrow> (let k = b_sequence lb + 1;
           s = \<lparr>lb_id = ''leaderboard-scope-'' @ show_nat k, lb_user = user, lb_name = sm_name c,
             lb_snapshot = sm_snapshot c, lb_worker_version = sm_worker_version c, lb_worker_sha256 = sm_worker_sha256 c,
             lb_evaluation_version = sm_evaluation_version c, lb_evaluation_sha256 = sm_evaluation_sha256 c,
             lb_initial_capital = sm_initial_capital c, lb_fee_rate_percent = sm_fee_rate_percent c,
             lb_slippage_bps = sm_slippage_bps c, lb_formula = sm_formula c, lb_created_at = now\<rparr>
         in return (lb\<lparr>b_sequence := k, b_formula_cache := js_set (sf_id f) f (b_formula_cache lb),
              b_scopes := js_set (lb_id s) s (b_scopes lb), b_scope_cache := js_set (lb_id s) s (b_scope_cache lb)\<rparr>, s)))"

definition experiment_cmp :: "experiment_result \<Rightarrow> experiment_result \<Rightarrow> int" where
  "experiment_cmp l r = or_else (sign_number (nsub (ex_score r) (ex_score l))) (locale_compare (ex_id l) (ex_id r))"

definition rank_search_run :: "string \<Rightarrow> bool \<Rightarrow> experiment_result list \<Rightarrow> (nat \<times> experiment_result) list result" where
  "rank_search_run user run_owned experiments = and_then (assert_owner user) (\<lambda>_.
     if \<not> run_owned then throw ''SEARCH_RUN_NOT_FOUND''
     else return (map (\<lambda>(i, x). (i + 1, x)) (enumerate 0
       (sort_by experiment_cmp (filter (\<lambda>x. ex_eligible x \<and> is_finite (ex_score x)) experiments)))))"

section \<open>The order of the board\<close>

definition finite_double :: "number \<Rightarrow> bool" where
  "finite_double x = (\<exists>q. x = Fin q \<and> rnd q = Fin q)"

lemma sign_nsub:
  assumes "finite_double a" "finite_double b"
  shows "sign_number (nsub b a) = (if nlt a b then 1 else if nlt b a then -1 else 0)"
proof -
  obtain p q where a: "a = Fin p" "rnd p = Fin p" and b: "b = Fin q" "rnd q = Fin q"
    using assms by (auto simp: finite_double_def)
  consider "p < q" | "q < p" | "p = q" by linarith
  then show ?thesis
  proof cases
    case 1
    from nsub_double_pos [OF a(2) b(2) 1] have "nlt (Fin 0) (nsub b a)" by (simp add: a b)
    then have "sign_number (nsub b a) = 1" by (cases "nsub b a") auto
    with 1 show ?thesis by (simp add: a b)
  next
    case 2
    have "nsub b a = nneg (nsub a b)" using rnd_minus [of "p - q"] by (simp add: a b nsub_def)
    moreover from nsub_double_pos [OF b(2) a(2) 2] have "nlt (Fin 0) (nsub a b)" by (simp add: a b)
    ultimately have "sign_number (nsub b a) = -1" by (cases "nsub a b") auto
    with 2 show ?thesis by (simp add: a b)
  next
    case 3
    then show ?thesis by (simp add: a b nsub_def)
  qed
qed

definition entry_before :: "entry \<Rightarrow> entry \<Rightarrow> bool" where
  "entry_before l r = (nlt (en_score r) (en_score l) \<or> en_score l = en_score r \<and>
     (en_added_at l < en_added_at r \<or> en_added_at l = en_added_at r \<and> en_id l \<le> en_id r))"

lemma entry_cmp_le_0:
  assumes "finite_double (en_score l)" "finite_double (en_score r)"
  shows "entry_cmp l r \<le> 0 \<longleftrightarrow> entry_before l r"
proof -
  obtain p q where l: "en_score l = Fin p" and r: "en_score r = Fin q" using assms by (auto simp: finite_double_def)
  show ?thesis
    unfolding entry_cmp_def sign_nsub [OF assms] entry_before_def
    by (auto simp: l r or_else_def or_else_order_le_0 [unfolded or_else_def])
qed

interpretation board_order: comparator_laws entry_cmp "\<lambda>e. finite_double (en_score e)"
proof
  fix x y z :: entry
  assume x: "finite_double (en_score x)" and y: "finite_double (en_score y)"
  obtain p q where p: "en_score x = Fin p" "en_score y = Fin q" using x y by (auto simp: finite_double_def)
  show "entry_cmp x y \<le> 0 \<or> entry_cmp y x \<le> 0"
    using x y p by (auto simp: entry_cmp_le_0 entry_before_def)
  assume z: "finite_double (en_score z)" and xy: "entry_cmp x y \<le> 0" and yz: "entry_cmp y z \<le> 0"
  obtain r where r: "en_score z = Fin r" using z by (auto simp: finite_double_def)
  show "entry_cmp x z \<le> 0"
    using xy yz x y z p r by (auto simp: entry_cmp_le_0 entry_before_def)
qed

lemma length_number_ranks [simp]: "length (number_ranks es) = length es"
  by (simp add: number_ranks_def)

lemma number_ranks_nth: "i < length es \<Longrightarrow> number_ranks es ! i = (es ! i)\<lparr>en_rank := i + 1\<rparr>"
  by (simp add: number_ranks_def nth_enumerate_eq)

lemma number_ranks_ids: "map en_id (number_ranks es) = map en_id es"
  by (rule nth_equalityI) (simp_all add: number_ranks_nth)

lemma length_rank_entries [simp]: "length (rank_entries es) = length es"
  by (simp add: rank_entries_def)

lemma rank_entries_sorted:
  assumes "list_all (\<lambda>e. finite_double (en_score e)) es" "i < j" "j < length es"
  shows "entry_before (rank_entries es ! i) (rank_entries es ! j)"
proof -
  let ?s = "sort_by entry_cmp es"
  have "entry_cmp (?s ! i) (?s ! j) \<le> 0"
    using board_order.sort_by_sorted [OF assms(1)] assms(2,3) by (simp add: sorted_wrt_iff_nth_less)
  moreover have "finite_double (en_score (?s ! i))" "finite_double (en_score (?s ! j))"
    using assms nth_mem [of i ?s] nth_mem [of j ?s] by (simp_all add: list_all_iff)
  ultimately show ?thesis
    using assms(2,3) by (simp add: entry_cmp_le_0 rank_entries_def number_ranks_nth entry_before_def)
qed

lemma set_ids_rank_entries: "en_id ` set (rank_entries es) = en_id ` set es"
  using number_ranks_ids [of "sort_by entry_cmp es"] by (metis list.set_map rank_entries_def set_sort_by)

section \<open>The size of the board\<close>

definition board_ok :: "leaderboard \<Rightarrow> bool" where
  "board_ok lb = (js_wf (b_entries lb) \<and> distinct (map (\<lambda>(e, a). en_id e) (js_values (b_entries lb))) \<and>
     (\<forall>(e, a)\<in>set (js_values (b_entries lb)). \<exists>k\<le>b_sequence lb. en_id e = ''leaderboard-entry-'' @ show_nat k) \<and>
     (\<forall>sid. length (active_entries sid lb) \<le> top_k))"

lemma active_deactivate: "active_entries sid (deactivate_entry i lb) = filter (\<lambda>e. en_id e \<noteq> i) (active_entries sid lb)"
proof -
  have "map fst (filter (\<lambda>(e, active). active \<and> en_scope e = sid) (js_values (map (\<lambda>(k, e, active). (k, e, active \<and> en_id e \<noteq> i)) m)))
      = filter (\<lambda>e. en_id e \<noteq> i) (map fst (filter (\<lambda>(e, active). active \<and> en_scope e = sid) (js_values m)))"
    for m :: "(string, entry \<times> bool) jsmap"
    by (induction m) (auto simp: js_values_def)
  then show ?thesis by (simp add: active_entries_def deactivate_entry_def)
qed

lemma deactivate_keys: "map fst (b_entries (deactivate_entry i lb)) = map fst (b_entries lb)"
  by (simp add: deactivate_entry_def comp_def case_prod_unfold)

lemma deactivate_ids: "map (\<lambda>(e, a). en_id e) (js_values (b_entries (deactivate_entry i lb))) = map (\<lambda>(e, a). en_id e) (js_values (b_entries lb))"
  by (simp add: deactivate_entry_def js_values_def comp_def case_prod_unfold)

lemma active_insert:
  assumes "\<not> js_has (b_entries lb) x"
  shows "active_entries sid (fst (insert_entry x s f sc now lb)) =
    active_entries sid lb @ (if sid = s then [snd (insert_entry x s f sc now lb)] else [])"
  using assms by (simp add: active_entries_def insert_entry_def Let_def js_values_fresh)

lemma active_ids_distinct: "board_ok lb \<Longrightarrow> distinct (map en_id (active_entries sid lb))"
proof -
  assume "board_ok lb"
  then have d: "distinct (map (\<lambda>(e, a). en_id e) (js_values (b_entries lb)))" by (simp add: board_ok_def)
  have "map en_id (active_entries sid lb) =
      map (\<lambda>(e, a). en_id e) (filter (\<lambda>(e, active). active \<and> en_scope e = sid) (js_values (b_entries lb)))"
    by (simp add: active_entries_def case_prod_unfold)
  then show ?thesis using distinct_map_filter [OF d] by simp
qed

lemma filter_one_less:
  "distinct (map f xs) \<Longrightarrow> y \<in> f ` set xs \<Longrightarrow> length (filter (\<lambda>x. f x \<noteq> y) xs) = length xs - 1"
proof (induction xs)
  case (Cons x xs)
  show ?case
  proof (cases "f x = y")
    case True
    with Cons.prems have "filter (\<lambda>x. f x \<noteq> y) xs = xs" by (auto simp: filter_id_conv) (metis imageI)
    with True show ?thesis by simp
  next
    case False
    with Cons have "length (filter (\<lambda>x. f x \<noteq> y) xs) = length xs - 1" "xs \<noteq> []" by auto
    with False show ?thesis by (cases xs) auto
  qed
qed simp

lemma js_has_map_keys: "map fst m = map fst m' \<Longrightarrow> js_has m k \<longleftrightarrow> js_has m' k"
  by (auto simp: js_has_def js_get_def) (metis map_of_eq_None_iff list.set_map not_None_eq)+

lemma deactivate_ok: "board_ok lb \<Longrightarrow> board_ok (deactivate_entry i lb)"
proof -
  assume ok: "board_ok lb"
  have "length (active_entries sid (deactivate_entry i lb)) \<le> top_k" for sid
  proof -
    have "length (active_entries sid lb) \<le> top_k" using ok by (simp add: board_ok_def)
    then show ?thesis unfolding active_deactivate by (rule order_trans [OF length_filter_le])
  qed
  moreover have "\<forall>(e, a)\<in>set (js_values (b_entries (deactivate_entry i lb))).
      \<exists>k\<le>b_sequence lb. en_id e = ''leaderboard-entry-'' @ show_nat k"
  proof -
    have "en_id e \<in> set (map (\<lambda>(e, a). en_id e) (js_values (b_entries lb)))"
      if "(e, a) \<in> set (js_values (b_entries (deactivate_entry i lb)))" for e a
      unfolding deactivate_ids [of i lb, symmetric] using that by force
    with ok show ?thesis by (fastforce simp: board_ok_def)
  qed
  ultimately show ?thesis
    using ok deactivate_keys [of i lb] deactivate_ids [of i lb]
    by (simp add: board_ok_def js_wf_def) (simp add: deactivate_entry_def)
qed

lemma insert_entry_ok:
  assumes "board_ok lb" "\<not> js_has (b_entries lb) x" "length (active_entries s lb) < top_k"
  shows "board_ok (fst (insert_entry x s f sc now lb))"
proof -
  let ?e = "snd (insert_entry x s f sc now lb)"
  have vals: "js_values (b_entries (fst (insert_entry x s f sc now lb))) = js_values (b_entries lb) @ [(?e, True)]"
    using assms(2) by (simp add: insert_entry_def Let_def js_values_fresh)
  have new: "en_id ?e = ''leaderboard-entry-'' @ show_nat (b_sequence lb + 1)" by (simp add: insert_entry_def Let_def)
  have ids: "\<forall>(e, a)\<in>set (js_values (b_entries lb)). \<exists>k\<le>b_sequence lb. en_id e = ''leaderboard-entry-'' @ show_nat k"
    using assms(1) by (simp add: board_ok_def)
  have fresh: "en_id ?e \<noteq> en_id e" if "(e, a) \<in> set (js_values (b_entries lb))" for e a
  proof -
    obtain k where k: "k \<le> b_sequence lb" "en_id e = ''leaderboard-entry-'' @ show_nat k" using ids \<open>(e, a) \<in> _\<close> by fastforce
    then show ?thesis unfolding new by (simp del: append.simps)
  qed
  have "distinct (map (\<lambda>(e, a). en_id e) (js_values (b_entries (fst (insert_entry x s f sc now lb)))))"
    using assms(1) fresh by (auto simp: vals board_ok_def)
  moreover have "\<forall>(e, a)\<in>set (js_values (b_entries (fst (insert_entry x s f sc now lb)))).
      \<exists>k\<le>b_sequence (fst (insert_entry x s f sc now lb)). en_id e = ''leaderboard-entry-'' @ show_nat k"
    unfolding vals using ids new by (fastforce simp: insert_entry_def Let_def)
  moreover have "length (active_entries sid (fst (insert_entry x s f sc now lb))) \<le> top_k" for sid
    using assms by (auto simp: active_insert [OF assms(2)] board_ok_def)
  moreover have "js_wf (b_entries (fst (insert_entry x s f sc now lb)))"
    using assms(1) by (simp add: insert_entry_def Let_def board_ok_def store_simps)
  ultimately show ?thesis by (simp only: board_ok_def) blast
qed

lemma top_k_all: "board_ok lb \<Longrightarrow> active_top_k sid top_k lb = rank_entries (active_entries sid lb)"
  by (simp add: active_top_k_def board_ok_def)

lemma deactivate_lowest:
  assumes "board_ok lb" "active_entries sid lb \<noteq> []"
  shows "length (active_entries sid (deactivate_entry (en_id (last (rank_entries (rank_entries (active_entries sid lb))))) lb)) =
    length (active_entries sid lb) - 1"
proof -
  let ?l = "last (rank_entries (rank_entries (active_entries sid lb)))"
  have "rank_entries (rank_entries (active_entries sid lb)) \<noteq> []" using assms(2)
    by (metis length_0_conv length_rank_entries)
  then have "en_id ?l \<in> en_id ` set (rank_entries (rank_entries (active_entries sid lb)))" by simp
  then have "en_id ?l \<in> en_id ` set (active_entries sid lb)" by (simp only: set_ids_rank_entries)
  then show ?thesis
    unfolding active_deactivate by (rule filter_one_less [OF active_ids_distinct [OF assms(1)]])
qed

lemma deactivate_has: "js_has (b_entries (deactivate_entry i lb)) x \<longleftrightarrow> js_has (b_entries lb) x"
  by (rule js_has_map_keys [OF deactivate_keys])

lemma admit_ok:
  assumes "board_ok lb" "\<not> js_has (b_entries lb) (ex_id x)"
  shows "board_ok (fst (admit x now lb))"
proof -
  let ?act = "rank_entries (active_top_k (ex_scope x) top_k lb)"
  have act: "?act = rank_entries (rank_entries (active_entries (ex_scope x) lb))"
    by (simp add: top_k_all [OF assms(1)])
  have le: "length (active_entries (ex_scope x) lb) \<le> top_k" using assms(1) by (simp add: board_ok_def)
  define lb1 where "lb1 = (case (if ?act = [] then None else Some (last ?act)) of None \<Rightarrow> lb
      | Some e \<Rightarrow> if length ?act = top_k then deactivate_entry (en_id e) lb else lb)"
  have lb1: "board_ok lb1 \<and> \<not> js_has (b_entries lb1) (ex_id x) \<and> length (active_entries (ex_scope x) lb1) < top_k"
  proof (cases "length ?act = top_k")
    case True
    then have "0 < length ?act" by (simp only: top_k_def)
    then have ne: "?act \<noteq> []" by (rule length_greater_0_conv [THEN iffD1])
    have "length ?act = length (active_entries (ex_scope x) lb)" by (simp add: act)
    with \<open>0 < length ?act\<close> have ne2: "active_entries (ex_scope x) lb \<noteq> []" by auto
    have "lb1 = deactivate_entry (en_id (last ?act)) lb" using True ne by (simp add: lb1_def)
    then have l: "lb1 = deactivate_entry (en_id (last (rank_entries (rank_entries (active_entries (ex_scope x) lb))))) lb"
      by (simp only: act)
    have "length (active_entries (ex_scope x) lb1) < length (active_entries (ex_scope x) lb)"
      unfolding l using deactivate_lowest [OF assms(1) ne2] ne2 by simp
    with deactivate_ok [OF assms(1)] deactivate_has assms(2) le show ?thesis by (simp add: l)
  next
    case False
    then have "lb1 = lb" by (simp add: lb1_def)
    with assms False le show ?thesis by (simp add: act)
  qed
  have "fst (admit x now lb) = lb \<or> fst (admit x now lb) = fst (insert_entry (ex_id x) (ex_scope x) (ex_formula x) (ex_score x) now lb1)"
    by (simp add: admit_def Let_def lb1_def case_prod_unfold)
  then show ?thesis using assms(1) insert_entry_ok lb1 by (metis (no_types))
qed

lemma cache_keeps: "cache_scope_and_formula s lb = return (lb1, f) \<Longrightarrow>
    b_entries lb1 = b_entries lb \<and> b_sequence lb1 = b_sequence lb \<and> b_scopes lb1 = b_scopes lb \<and> b_formulas lb1 = b_formulas lb"
  by (auto simp: cache_scope_and_formula_def Let_def split: option.splits)

lemma board_ok_cong: "b_entries lb1 = b_entries lb \<Longrightarrow> b_sequence lb1 = b_sequence lb \<Longrightarrow> board_ok lb1 = board_ok lb"
  by (simp add: board_ok_def active_entries_def)

lemma submit_ok:
  assumes "board_ok lb" "submit x now lb = return (lb', r)"
  shows "board_ok lb'"
proof -
  from assms(2) consider "lb' = lb"
    | s lb1 f where "cache_scope_and_formula s lb = return (lb1, f)" "lb' = lb1"
    | s lb1 f where "cache_scope_and_formula s lb = return (lb1, f)" "js_get (b_entries lb1) (ex_id x) = None"
        "lb' = fst (admit x now lb1)"
    by (fastforce simp: submit_def elim!: and_then_returnE split: if_splits option.splits)
  then show ?thesis
  proof cases
    case 1
    with assms(1) show ?thesis by simp
  next
    case 2
    with assms(1) cache_keeps board_ok_cong show ?thesis by metis
  next
    case 3
    have "board_ok lb1" using assms(1) cache_keeps [OF 3(1)] board_ok_cong [of lb1 lb] by simp
    with 3 admit_ok show ?thesis by (simp add: js_has_def)
  qed
qed

lemma submit_admitted_stored:
  assumes "submit x now lb = return (lb', r)" "su_admitted r"
  shows "\<exists>e a. js_get (b_entries lb') (ex_id x) = Some (e, a) \<and> en_scope e = ex_scope x"
proof -
  from assms obtain s lb1 f where c: "cache_scope_and_formula s lb = return (lb1, f)"
    and k: "(\<exists>e a. js_get (b_entries lb1) (ex_id x) = Some (e, a) \<and> lb' = lb1 \<and> en_scope e = ex_scope x) \<or>
      (lb', r) = admit x now lb1"
    by (fastforce simp: submit_def not_admitted_def elim!: and_then_returnE split: if_splits option.splits)
  from k show ?thesis
  proof
    assume a: "(lb', r) = admit x now lb1"
    show ?thesis
    proof (cases "\<exists>l. lb' = fst (insert_entry (ex_id x) (ex_scope x) (ex_formula x) (ex_score x) now l)")
      case True
      then show ?thesis by (auto simp: insert_entry_def Let_def store_simps)
    next
      case False
      with a assms(2) show ?thesis by (auto simp: admit_def Let_def not_admitted_def case_prod_unfold split: if_splits)
    qed
  qed blast
qed

lemma cache_again:
  assumes "cache_scope_and_formula s lb = return (lb1, f)"
    "b_formula_cache lb' = b_formula_cache lb1" "b_formulas lb' = b_formulas lb1"
  shows "\<exists>lb2 f2. cache_scope_and_formula s lb' = return (lb2, f2)"
  using assms by (auto simp: cache_scope_and_formula_def Let_def store_simps split: option.splits)

lemma admit_keeps: "b_formula_cache (fst (admit x now lb)) = b_formula_cache lb" "b_formulas (fst (admit x now lb)) = b_formulas lb"
    "b_scopes (fst (admit x now lb)) = b_scopes lb"
  by (auto simp: admit_def Let_def insert_entry_def deactivate_entry_def split: option.splits)

section \<open>Properties\<close>


definition sample_scope :: scope where
  "sample_scope = \<lparr>lb_id = ''s'', lb_user = ''u'', lb_name = ''n'',
     lb_snapshot = \<lparr>sn_id = ''d'', sn_pair = ''P'', sn_metadata = \<lparr>md_pair = [], md_base_asset = [], md_quote_asset = [],
       md_settlement_asset = []\<rparr>, sn_timeframe = M1, sn_from = [], sn_to = [], sn_candle_count = 0, sn_sha256 = [],
       sn_created_at = []\<rparr>,
     lb_worker_version = [], lb_worker_sha256 = [], lb_evaluation_version = [], lb_evaluation_sha256 = [],
     lb_initial_capital = Fin 10, lb_fee_rate_percent = Fin 0, lb_slippage_bps = Fin 0, lb_formula = ''MVP_MANUAL_V1'',
     lb_created_at = []\<rparr>"

definition sample_board :: leaderboard where
  "sample_board = \<lparr>b_scopes = [(''s'', sample_scope)], b_formulas = [(''MVP_MANUAL_V1'', default_score_formula)],
     b_entries = [], b_sequence = 0, b_scope_cache = [], b_formula_cache = [(''MVP_MANUAL_V1'', default_score_formula)]\<rparr>"

definition sample_experiment :: "string \<Rightarrow> rat \<Rightarrow> experiment_result" where
  "sample_experiment i q = \<lparr>ex_id = i, ex_owner = Some ''u'', ex_candidate = ''c'', ex_search_run = Some ''run'',
     ex_scope = ''s'', ex_formula = ''MVP_MANUAL_V1'', ex_score = Fin q, ex_eligible = True\<rparr>"

definition sample_entry :: "string \<Rightarrow> nat \<Rightarrow> rat \<Rightarrow> entry" where
  "sample_entry i k q = \<lparr>en_id = ''leaderboard-entry-'' @ show_nat k, en_rank = 0, en_experiment = i, en_scope = ''s'',
     en_formula = ''MVP_MANUAL_V1'', en_score = Fin q, en_added_at = ''t''\<rparr>"

definition sample_board1 :: leaderboard where
  "sample_board1 = sample_board\<lparr>b_entries := [(''x'', sample_entry ''x'' 1 1, True)], b_sequence := 1, b_scope_cache := [(''s'', sample_scope)]\<rparr>"

lemma sample_board_ok: "board_ok sample_board"
  by (simp add: board_ok_def sample_board_def js_values_def active_entries_def)

lemma sample_submit1: "\<exists>r. submit (sample_experiment ''x'' 1) ''t'' sample_board = return (sample_board1, r) \<and> su_admitted r"
  by (simp add: submit_def sample_experiment_def sample_board_def sample_board1_def owned_scope_def js_get_def js_set_def
      sample_scope_def cache_scope_and_formula_def admit_def active_top_k_def active_entries_def js_values_def
      rank_entries_def number_ranks_def insert_entry_def sample_entry_def top_k_def trim_def is_space_def Let_def)


text \<open>Submitting an admitted experiment again is harmless: it is admitted again and the entries do not
  change.\<close>

lemma submit_is_idempotent:
  assumes "submit x now lb = return (lb', r)" "su_admitted r"
  shows "\<exists>lb'' r'. submit x now' lb' = return (lb'', r') \<and> su_admitted r' \<and> b_entries lb'' = b_entries lb'"
proof -
  obtain e a where e: "js_get (b_entries lb') (ex_id x) = Some (e, a)" "en_scope e = ex_scope x"
    using submit_admitted_stored [OF assms] by blast
  obtain owner s lb1 f where g: "\<not> (case ex_search_run x of None \<Rightarrow> True | Some i \<Rightarrow> i = [])" "ex_eligible x"
      "is_finite (ex_score x)" "ex_owner x = Some owner" "trim owner \<noteq> []" "owned_scope owner (ex_scope x) lb = Some s"
    and c: "cache_scope_and_formula s lb = return (lb1, f)" and k: "lb' = lb1 \<or> lb' = fst (admit x now lb1)"
    using assms by (fastforce simp: submit_def not_admitted_def elim!: and_then_returnE split: if_splits option.splits)
  have "b_scopes lb' = b_scopes lb" "b_formulas lb' = b_formulas lb1" "b_formula_cache lb' = b_formula_cache lb1"
    using k cache_keeps [OF c] by (auto simp: admit_keeps)
  with g(6) have o: "owned_scope owner (ex_scope x) lb' = Some s" by (simp add: owned_scope_def)
  obtain lb2 f2 where c2: "cache_scope_and_formula s lb' = return (lb2, f2)"
    using cache_again [OF c, of lb'] \<open>b_formulas lb' = _\<close> \<open>b_formula_cache lb' = _\<close> by blast
  have "b_entries lb2 = b_entries lb'" using cache_keeps [OF c2] by simp
  with e g o c2 show ?thesis by (simp add: submit_def)
qed

lemma submit_is_idempotent_witness:
  "\<exists>lb r. submit (sample_experiment ''x'' 1) ''later'' sample_board1 = return (lb, r) \<and> su_admitted r \<and>
    b_entries lb = b_entries sample_board1"
  using sample_submit1 submit_is_idempotent by blast

text \<open>A ranking of finite double scores is in order: higher scores first, earlier additions first among
  equal scores, and the ranks count 1, 2, ... without gaps.\<close>

lemma ranking_is_ordered:
  assumes "list_all (\<lambda>e. finite_double (en_score e)) es" "i < j" "j < length es"
  shows "entry_before (rank_entries es ! i) (rank_entries es ! j) \<and> en_rank (rank_entries es ! i) = i + 1 \<and>
    length (rank_entries es) = length es"
  using rank_entries_sorted [OF assms] assms by (simp add: rank_entries_def number_ranks_nth)

lemma ranking_is_ordered_witness:
  "entry_before (rank_entries [sample_entry ''x'' 1 1, sample_entry ''y'' 2 2] ! 0)
     (rank_entries [sample_entry ''x'' 1 1, sample_entry ''y'' 2 2] ! 1)"
  using ranking_is_ordered [of "[sample_entry ''x'' 1 1, sample_entry ''y'' 2 2]" 0 1]
  by (simp add: sample_entry_def finite_double_def number_simps)

text \<open>The answer to a submission can name an evicted experiment although nothing was evicted: on a board
  with free places the lowest entry is reported and stays active.\<close>

lemma eviction_reported_without_eviction:
  "\<exists>lb x now lb' r i e. board_ok lb \<and> submit x now lb = return (lb', r) \<and> su_evicted r = Some i \<and>
    js_get (b_entries lb') i = Some (e, True)"
proof -
  have "\<exists>lb' r. submit (sample_experiment ''y'' 2) ''t'' sample_board1 = return (lb', r) \<and> su_evicted r = Some ''x'' \<and>
      js_get (b_entries lb') ''x'' = Some (sample_entry ''x'' 1 1, True)"
    by (simp add: submit_def sample_experiment_def sample_board_def sample_board1_def owned_scope_def js_get_def js_set_def
        sample_scope_def cache_scope_and_formula_def admit_def active_top_k_def active_entries_def js_values_def
        rank_entries_def number_ranks_def insert_entry_def sample_entry_def top_k_def trim_def is_space_def Let_def)
  moreover have "board_ok sample_board1" using sample_submit1 submit_ok [OF sample_board_ok] by blast
  ultimately show ?thesis by blast
qed

end
