(* ===== verification/BacktestTypes.thy ===== *)
theory BacktestTypes
  imports Leaderboard StrategyTypes
begin

text \<open>
  The data of the backtesting module (\<^verbatim>\<open>modules/backtesting/domain/contracts.ts\<close>,
  \<^verbatim>\<open>application/ports.ts\<close> and \<^verbatim>\<open>packages/contracts/queue/backtesting.ts\<close>):
  candidates with their status, worker attempts, dispatches, experiments, benchmark scopes
  and replay verifications, and the comparisons of ISO times the module's leases rest on.
\<close>

section \<open>Leases and retry times\<close>

text \<open>\<^verbatim>\<open>Date.parse(a) > Date.parse(b)\<close> and \<^verbatim>\<open><=\<close>: both are false on an unreadable time.\<close>

definition time_after :: "string \<Rightarrow> string \<Rightarrow> bool" where
  "time_after a b = (case (date_parse a, date_parse b) of (Some x, Some y) \<Rightarrow> x > y | _ \<Rightarrow> False)"

definition time_until :: "string \<Rightarrow> string \<Rightarrow> bool" where
  "time_until a b = (case (date_parse a, date_parse b) of (Some x, Some y) \<Rightarrow> x \<le> y | _ \<Rightarrow> False)"

definition in_future :: "string option \<Rightarrow> string \<Rightarrow> bool" where
  "in_future t now = (case present t of None \<Rightarrow> False | Some x \<Rightarrow> time_after x now)"

definition reached :: "string option \<Rightarrow> string \<Rightarrow> bool" where
  "reached t now = (case present t of None \<Rightarrow> True | Some x \<Rightarrow> time_until x now)"

definition lease_lost :: "string option \<Rightarrow> string \<Rightarrow> bool" where
  "lease_lost t now = (case present t of None \<Rightarrow> True | Some x \<Rightarrow> time_until x now)"

lemma time_after_trans: "time_after a b \<Longrightarrow> time_until c b \<Longrightarrow> time_after a c"
  by (auto simp: time_after_def time_until_def split: option.splits)

lemma after_not_until: "time_after a b \<Longrightarrow> \<not> time_until a b"
  by (auto simp: time_after_def time_until_def split: option.splits)

lemma in_future_not_lost: "in_future t now \<Longrightarrow> \<not> lease_lost t now"
  by (auto simp: in_future_def lease_lost_def after_not_until split: option.splits)

definition plus_seconds :: "string \<Rightarrow> int \<Rightarrow> string result" where
  "plus_seconds value seconds = (case date_parse value of None \<Rightarrow> throw ''Invalid time value''
     | Some t \<Rightarrow> return (to_iso (t + seconds * 1000)))"

section \<open>Statuses\<close>

datatype candidate_status = CREATED | QUEUED | BACKTESTING | RETRY_WAIT | PROCESSING_RESULT
  | TERMINAL_FAILURE_PENDING | COMPLETED | FAILED | CANCELLED

datatype attempt_status = Attempt_Queued | Attempt_Running | Attempt_Retry_Wait | Attempt_Completed
  | Attempt_Failed | Attempt_Cancelled

datatype failure_kind = RETRY_EXHAUSTED | INFRASTRUCTURE | COMPLETION_PROCESSING

datatype failure_category = Retryable | Infrastructure_Failure | Cancelled_Audit

datatype origin = MANUAL | SEARCH

datatype selection_mode = SINGLE | COMPOSITE

datatype generator_type = RANDOM | DOMAIN_GUIDED | GENETIC

datatype dispatch_state = PENDING | DISPATCHED | Dispatch_Cancelled

fun terminal :: "candidate_status \<Rightarrow> bool" where
  "terminal COMPLETED = True"
| "terminal FAILED = True"
| "terminal CANCELLED = True"
| "terminal _ = False"

section \<open>Records\<close>

record lineage =
  li_parents :: "string list"
  li_crossover_point :: int
  li_mutated_keys :: "string list"
  li_selection_mutation :: "(string option \<times> string option) option"

record execution_policy =
  xp_policy_id :: string
  xp_position_policy_id :: string
  xp_sizing_policy_id :: string
  xp_fill_policy_id :: string
  xp_opposite_signal_policy_id :: string
  xp_stop_loss_percent :: "number option"
  xp_take_profit_percent :: "number option"
  xp_warmup_candles :: number
  xp_sha256 :: string

record attempt_progress =
  at_id :: string
  at_number :: nat
  at_status :: attempt_status
  at_started_at :: string
  at_completed_at :: "string option"
  at_duration_ms :: "int option"
  at_delivery_count :: "nat option"
  at_failure_category :: "failure_category option"
  at_failure_code :: "string option"
  at_error_message :: "string option"

record attempt = attempt_progress +
  at_candidate :: string
  at_queue_job :: string
  at_worker_version :: string
  at_worker_sha256 :: string
  at_trade_count :: nat
  at_audit_only :: bool
  at_fence_token :: "string option"
  at_lease_expires_at :: "string option"

text \<open>A candidate as it is stored; \<open>candidate_progress\<close> is what its owner sees of it. The run-time
  projection keeps the execution policy, so it stands among the visible fields.\<close>

record candidate_progress =
  cn_id :: string
  cn_origin :: origin
  cn_selection_mode :: selection_mode
  cn_search_run :: "string option"
  cn_iteration :: "nat option"
  cn_generated_by :: "generator_type option"
  cn_fingerprint :: "string option"
  cn_lineage :: "lineage option"
  cn_scope :: string
  cn_status :: candidate_status
  cn_attempts :: "attempt_progress list"
  cn_max_attempts :: nat
  cn_active_attempt :: "nat option"
  cn_completion_attempts :: nat
  cn_completion_max :: nat
  cn_completion_retry_at :: "string option"
  cn_experiment :: "string option"
  cn_failure_kind :: "failure_kind option"
  cn_failure_code :: "string option"
  cn_last_error :: "string option"
  cn_warmup :: nat
  cn_definitions :: "strategy_definition list"
  cn_composite :: composite_definition
  cn_execution_policy :: "execution_policy option"
  cn_created_at :: string
  cn_updated_at :: string

record candidate = candidate_progress +
  cn_owner :: string
  cn_queue_job :: string
  cn_execution_generation :: nat
  cn_fence_token :: "string option"
  cn_lease_expires_at :: "string option"
  cn_completion_generation :: nat
  cn_claim_token :: "string option"
  cn_completion_lease :: "string option"

record queue_job =
  qj_id :: string
  qj_candidate :: string
  qj_scope :: string
  qj_max_attempts :: nat
  qj_worker_version :: string
  qj_worker_sha256 :: string
  qj_enqueued_at :: string

record dispatch =
  ds_job :: queue_job
  ds_state :: dispatch_state
  ds_attempts :: nat
  ds_last_error :: "string option"
  ds_dispatched_at :: "string option"
  ds_created_at :: string
  ds_updated_at :: string

record sentiment_ref =
  sr_id :: string
  sr_coin :: string
  sr_from :: string
  sr_to :: string
  sr_window_seconds :: number
  sr_model_name :: string
  sr_model_version :: string
  sr_model_sha256 :: string
  sr_point_count :: number
  sr_sha256 :: string
  sr_created_at :: string

record risk_policy =
  rp_stop_loss_percent :: "number option"
  rp_take_profit_percent :: "number option"

text \<open>The seven optional policy fields of a scope and of an experiment stand in one record.\<close>

record simulator_provenance =
  pv_simulator_version :: "string option"
  pv_simulator_sha256 :: "string option"
  pv_timezone :: "string option"
  pv_fill_policy_id :: "string option"
  pv_opposite_signal_policy_id :: "string option"
  pv_same_candle_policy_id :: "string option"
  pv_guarantee :: "string option"

record bench_scope =
  bs_id :: string
  bs_owner :: string
  bs_name :: string
  bs_snapshot :: snapshot_ref
  bs_sentiment :: "sentiment_ref option"
  bs_worker_version :: string
  bs_worker_sha256 :: string
  bs_evaluation_version :: string
  bs_evaluation_sha256 :: string
  bs_provenance :: simulator_provenance
  bs_pair :: string
  bs_timeframe :: timeframe
  bs_from :: string
  bs_to :: string
  bs_snapshot_id :: string
  bs_snapshot_sha256 :: string
  bs_warmup_capacity :: number
  bs_initial_capital :: number
  bs_fee_rate_percent :: number
  bs_slippage_bps :: number
  bs_risk_policy :: "risk_policy option"
  bs_score_formula :: string
  bs_created_at :: string

record amounts =
  am_initial_capital :: number
  am_total_profit :: number
  am_ending_equity :: number
  am_wins :: nat
  am_losses :: nat
  am_breakevens :: nat
  am_max_drawdown :: number

record experiment_summary = experiment_result +
  xs_attempt :: string
  xs_composite :: composite_definition
  xs_snapshot :: snapshot_ref
  xs_sentiment :: "sentiment_ref option"
  xs_definitions :: "strategy_definition list"
  xs_execution_policy :: "execution_policy option"
  xs_provenance :: simulator_provenance
  xs_worker_version :: string
  xs_worker_sha256 :: string
  xs_evaluation_version :: string
  xs_evaluation_sha256 :: string
  xs_fee_rate_percent :: number
  xs_slippage_bps :: number
  xs_amounts :: amounts
  xs_metrics :: metrics
  xs_trades :: "trade list"
  xs_created_at :: string

datatype replay_failure = MISSING_SNAPSHOT | IMPLEMENTATION_ARTIFACT_UNAVAILABLE | REPLAY_ARTIFACT_EXPIRED

record mismatch =
  mm_field :: string
  mm_expected :: "string option"
  mm_actual :: "string option"

datatype replay_status = Replay_Queued | Replay_Running
  | Replay_Match nat
  | Replay_Mismatch nat "mismatch list" nat bool
  | Non_Replayable replay_failure

record replay =
  re_id :: string
  re_experiment :: string
  re_source_attempt :: string
  re_owner :: string
  re_status :: replay_status
  re_sample_limit :: nat
  re_requested_at :: string
  re_started_at :: "string option"
  re_completed_at :: "string option"
  re_claim_token :: "string option"
  re_lease_expires_at :: "string option"

section \<open>Durations\<close>

definition attempt_duration_ms :: "string \<Rightarrow> string option \<Rightarrow> int option" where
  "attempt_duration_ms started completed = (case present completed of None \<Rightarrow> None
     | Some c \<Rightarrow> (case (date_parse c, date_parse started) of (Some y, Some x) \<Rightarrow> if y - x \<ge> 0 then Some (y - x) else None
         | _ \<Rightarrow> None))"

definition attempt_progress_of :: "attempt \<Rightarrow> attempt_progress" where
  "attempt_progress_of a = (attempt_progress.truncate a)
     \<lparr>at_duration_ms := attempt_duration_ms (at_started_at a) (at_completed_at a)\<rparr>"

definition average_duration_ms :: "attempt_progress list \<Rightarrow> number option" where
  "average_duration_ms as =
     (let ds = List.map_filter (\<lambda>a. attempt_duration_ms (at_started_at a) (at_completed_at a))
                 (filter (\<lambda>a. at_status a = Attempt_Completed) as)
      in if ds = [] then None
         else Some (ndiv (foldl (\<lambda>t d. nadd t (num d)) (num 0) ds) (num (int (length ds)))))"

end
