(* ===== verification/BacktestRepo.thy ===== *)
theory BacktestRepo
  imports BacktestTypes
begin

text \<open>
  The repository of the backtesting module (\<^verbatim>\<open>InMemoryBacktestingRepository\<close> in
  \<^verbatim>\<open>modules/backtesting/application/service.ts\<close>): queued submissions, worker attempts
  under a fence token, completion claims, replay verifications, and the recovery of
  abandoned ones. Every operation is a function on the store; an operation that throws
  leaves the store as it is.
\<close>

section \<open>The store\<close>

record backtests =
  bt_snapshots :: "(string, snapshot_ref \<times> candle list) jsmap"
  bt_scopes :: "(string, bench_scope) jsmap"
  bt_scope_keys :: "(string, string) jsmap"
  bt_candidates :: "(string, candidate) jsmap"
  bt_candidate_keys :: "(string, string) jsmap"
  bt_attempts :: "(string, attempt) jsmap"
  bt_trades :: "(string, trade list) jsmap"
  bt_experiments :: "(string, experiment_summary) jsmap"
  bt_replays :: "(string, replay) jsmap"
  bt_dispatches :: "(string, dispatch) jsmap"

definition empty_backtests :: backtests where
  "empty_backtests = \<lparr>bt_snapshots = [], bt_scopes = [], bt_scope_keys = [], bt_candidates = [], bt_candidate_keys = [],
     bt_attempts = [], bt_trades = [], bt_experiments = [], bt_replays = [], bt_dispatches = []\<rparr>"

definition owner_key :: "string \<Rightarrow> string \<Rightarrow> string" where
  "owner_key owner key = owner @ ''|'' @ key"

text \<open>An owner argument that is absent or empty does not filter.\<close>

definition visible_to :: "string option \<Rightarrow> string \<Rightarrow> bool" where
  "visible_to who owner = (case present who of None \<Rightarrow> True | Some u \<Rightarrow> owner = u)"

definition put_candidate :: "candidate \<Rightarrow> backtests \<Rightarrow> backtests" where
  "put_candidate c r = r\<lparr>bt_candidates := js_set (cn_id c) c (bt_candidates r)\<rparr>"

definition put_attempt :: "attempt \<Rightarrow> backtests \<Rightarrow> backtests" where
  "put_attempt a r = r\<lparr>bt_attempts := js_set (at_id a) a (bt_attempts r)\<rparr>"

section \<open>Snapshots and scopes\<close>

definition create_input_snapshot :: "snapshot_ref \<Rightarrow> candle list \<Rightarrow> backtests \<Rightarrow> backtests \<times> snapshot_ref" where
  "create_input_snapshot s cs r =
     (case find (\<lambda>(x, _). sn_id x = sn_id s \<or> sn_sha256 x = sn_sha256 s) (js_values (bt_snapshots r)) of
        Some (x, _) \<Rightarrow> (r, x)
      | None \<Rightarrow> (r\<lparr>bt_snapshots := js_set (sn_id s) (s, cs) (bt_snapshots r)\<rparr>, s))"

definition read_input_snapshot :: "string \<Rightarrow> backtests \<Rightarrow> (snapshot_ref \<times> candle list) option" where
  "read_input_snapshot i r = js_get (bt_snapshots r) i"

definition create_scope :: "bench_scope \<Rightarrow> string \<Rightarrow> backtests \<Rightarrow> backtests \<times> bench_scope" where
  "create_scope s key r = (r\<lparr>bt_scopes := js_set (bs_id s) s (bt_scopes r),
     bt_scope_keys := js_set (owner_key (bs_owner s) key) (bs_id s) (bt_scope_keys r)\<rparr>, s)"

definition find_scope_by_key :: "string \<Rightarrow> string \<Rightarrow> backtests \<Rightarrow> bench_scope option" where
  "find_scope_by_key owner key r = (case present (js_get (bt_scope_keys r) (owner_key owner key)) of
     None \<Rightarrow> None | Some i \<Rightarrow> js_get (bt_scopes r) i)"

definition read_scope :: "string \<Rightarrow> string option \<Rightarrow> backtests \<Rightarrow> bench_scope option" where
  "read_scope i who r = (case js_get (bt_scopes r) i of None \<Rightarrow> None
     | Some s \<Rightarrow> if visible_to who (bs_owner s) then Some s else None)"

definition list_scopes_by_owner :: "string \<Rightarrow> backtests \<Rightarrow> bench_scope list" where
  "list_scopes_by_owner owner r = sort_by (\<lambda>x y. or_else (locale_compare (bs_created_at x) (bs_created_at y))
     (locale_compare (bs_id x) (bs_id y))) (filter (\<lambda>s. bs_owner s = owner) (js_values (bt_scopes r)))"

definition delete_scope :: "string \<Rightarrow> string \<Rightarrow> backtests \<Rightarrow> backtests \<times> bool" where
  "delete_scope i owner r = (case js_get (bt_scopes r) i of None \<Rightarrow> (r, False)
     | Some s \<Rightarrow> if bs_owner s \<noteq> owner then (r, False)
       else (r\<lparr>bt_candidates := filter (\<lambda>(_, c). cn_scope c \<noteq> i) (bt_candidates r),
               bt_scopes := js_delete i (bt_scopes r),
               bt_scope_keys := filter (\<lambda>(_, j). j \<noteq> i) (bt_scope_keys r)\<rparr>, True))"

section \<open>Submissions and dispatches\<close>

definition create_candidate :: "candidate \<Rightarrow> string option \<Rightarrow> backtests \<Rightarrow> backtests" where
  "create_candidate c key r = (let r1 = put_candidate c r in
     case present key of None \<Rightarrow> r1
     | Some k \<Rightarrow> r1\<lparr>bt_candidate_keys := js_set (owner_key (cn_owner c) k) (cn_id c) (bt_candidate_keys r1)\<rparr>)"

definition find_candidate_by_submission :: "string \<Rightarrow> string \<Rightarrow> backtests \<Rightarrow> candidate option" where
  "find_candidate_by_submission owner key r = (case present (js_get (bt_candidate_keys r) (owner_key owner key)) of
     None \<Rightarrow> None | Some i \<Rightarrow> js_get (bt_candidates r) i)"

definition same_iteration :: "candidate \<Rightarrow> candidate \<Rightarrow> bool" where
  "same_iteration c x = (cn_search_run c \<noteq> None \<and> cn_iteration c \<noteq> None \<and>
     cn_search_run x = cn_search_run c \<and> cn_iteration x = cn_iteration c)"

definition existing_submission :: "candidate \<Rightarrow> string option \<Rightarrow> backtests \<Rightarrow> candidate option" where
  "existing_submission c key r = (case find (same_iteration c) (js_values (bt_candidates r)) of
     Some x \<Rightarrow> Some x
   | None \<Rightarrow> (case present key of None \<Rightarrow> None | Some k \<Rightarrow> find_candidate_by_submission (cn_owner c) k r))"

definition create_queued_submission :: "candidate \<Rightarrow> dispatch \<Rightarrow> string option \<Rightarrow> backtests \<Rightarrow> backtests \<times> candidate" where
  "create_queued_submission c d key r = (case existing_submission c key r of
     Some x \<Rightarrow> (r, x)
   | None \<Rightarrow> (let r1 = create_candidate c key r
              in (r1\<lparr>bt_dispatches := js_set (qj_id (ds_job d)) d (bt_dispatches r1)\<rparr>, c)))"

definition read_candidate :: "string \<Rightarrow> string option \<Rightarrow> backtests \<Rightarrow> candidate option" where
  "read_candidate i who r = (case js_get (bt_candidates r) i of None \<Rightarrow> None
     | Some c \<Rightarrow> if visible_to who (cn_owner c) then Some c else None)"

definition read_dispatch :: "string \<Rightarrow> backtests \<Rightarrow> dispatch option" where
  "read_dispatch i r = js_get (bt_dispatches r) i"

definition list_pending_dispatches :: "nat \<Rightarrow> backtests \<Rightarrow> dispatch list" where
  "list_pending_dispatches limit r = take limit (sort_by (\<lambda>x y. locale_compare (ds_created_at x) (ds_created_at y))
     (filter (\<lambda>d. ds_state d = PENDING) (js_values (bt_dispatches r))))"

definition list_queue_recovery :: "nat \<Rightarrow> backtests \<Rightarrow> string list" where
  "list_queue_recovery limit r = map cn_id (take limit (sort_by (\<lambda>x y. locale_compare (cn_updated_at x) (cn_updated_at y))
     (filter (\<lambda>c. cn_status c \<in> {QUEUED, BACKTESTING, RETRY_WAIT}) (js_values (bt_candidates r)))))"

definition mark_dispatched :: "string \<Rightarrow> string \<Rightarrow> backtests \<Rightarrow> backtests" where
  "mark_dispatched i now r = (case js_get (bt_dispatches r) i of None \<Rightarrow> r
     | Some d \<Rightarrow> if ds_state d = Dispatch_Cancelled then r
       else r\<lparr>bt_dispatches := js_set i (d\<lparr>ds_state := DISPATCHED, ds_attempts := ds_attempts d + 1,
              ds_dispatched_at := Some now, ds_last_error := None, ds_updated_at := now\<rparr>) (bt_dispatches r)\<rparr>)"

definition mark_dispatch_failed :: "string \<Rightarrow> string \<Rightarrow> string \<Rightarrow> backtests \<Rightarrow> backtests" where
  "mark_dispatch_failed i err now r = (case js_get (bt_dispatches r) i of None \<Rightarrow> r
     | Some d \<Rightarrow> if ds_state d = Dispatch_Cancelled then r
       else r\<lparr>bt_dispatches := js_set i (d\<lparr>ds_state := PENDING, ds_attempts := ds_attempts d + 1,
              ds_last_error := Some err, ds_updated_at := now\<rparr>) (bt_dispatches r)\<rparr>)"

definition mark_dispatch_cancelled :: "string \<Rightarrow> string \<Rightarrow> backtests \<Rightarrow> backtests" where
  "mark_dispatch_cancelled i now r = (case js_get (bt_dispatches r) i of None \<Rightarrow> r
     | Some d \<Rightarrow> r\<lparr>bt_dispatches := js_set i (d\<lparr>ds_state := Dispatch_Cancelled, ds_updated_at := now\<rparr>) (bt_dispatches r)\<rparr>)"

definition list_candidates_by_run :: "string \<Rightarrow> string option \<Rightarrow> backtests \<Rightarrow> candidate list" where
  "list_candidates_by_run run who r =
     filter (\<lambda>c. cn_search_run c = Some run \<and> visible_to who (cn_owner c)) (js_values (bt_candidates r))"

section \<open>Worker attempts\<close>

definition recovery_runtime_version :: string where
  "recovery_runtime_version = ''RECOVERY_SYNTHETIC_V1''"

definition attempts_of :: "string \<Rightarrow> backtests \<Rightarrow> attempt list" where
  "attempts_of i r = filter (\<lambda>a. at_candidate a = i) (js_values (bt_attempts r))"

text \<open>The failed attempt written for a running one, and the synthetic one where none was ever stored.\<close>

definition abandon_attempt :: "string \<Rightarrow> string \<Rightarrow> attempt \<Rightarrow> attempt" where
  "abandon_attempt now err a = a\<lparr>at_status := Attempt_Failed, at_completed_at := Some now, at_lease_expires_at := None,
     at_failure_category := Some Infrastructure_Failure, at_failure_code := Some err, at_error_message := Some err\<rparr>"

definition recovery_attempt :: "string \<Rightarrow> candidate \<Rightarrow> string \<Rightarrow> string \<Rightarrow> attempt" where
  "recovery_attempt recovery_sha256 c now err = \<lparr>at_id = cn_id c @ '':recovery:attempt:1'', at_number = 1, at_status = Attempt_Failed,
     at_started_at = now, at_completed_at = Some now, at_duration_ms = None, at_delivery_count = Some 0,
     at_failure_category = Some Infrastructure_Failure, at_failure_code = Some err, at_error_message = Some err,
     at_candidate = cn_id c, at_queue_job = cn_queue_job c, at_worker_version = recovery_runtime_version,
     at_worker_sha256 = recovery_sha256, at_trade_count = 0, at_audit_only = False, at_fence_token = None, at_lease_expires_at = None\<rparr>"

definition close_running :: "string \<Rightarrow> candidate \<Rightarrow> attempt option \<Rightarrow> attempt list \<Rightarrow> string \<Rightarrow> string \<Rightarrow> backtests \<Rightarrow> backtests" where
  "close_running recovery_sha256 c running as now err r = (case running of
     Some a \<Rightarrow> put_attempt (abandon_attempt now err a) r
   | None \<Rightarrow> if as = [] then put_attempt (recovery_attempt recovery_sha256 c now err) r else r)"

definition is_running :: "attempt \<Rightarrow> bool" where
  "is_running a = (at_status a = Attempt_Running)"

definition release_worker :: "candidate \<Rightarrow> candidate" where
  "release_worker c = c\<lparr>cn_active_attempt := None, cn_fence_token := None, cn_lease_expires_at := None\<rparr>"

definition abandoned :: "bool \<Rightarrow> string \<Rightarrow> string \<Rightarrow> candidate \<Rightarrow> candidate" where
  "abandoned retrying now err c = (release_worker c)\<lparr>cn_status := (if retrying then RETRY_WAIT else TERMINAL_FAILURE_PENDING),
     cn_failure_kind := (if retrying then None else Some INFRASTRUCTURE),
     cn_failure_code := (if retrying then None else Some err),
     cn_last_error := (if retrying then None else Some err), cn_updated_at := now\<rparr>"

definition recover_abandoned_attempt :: "string \<Rightarrow> string \<Rightarrow> string \<Rightarrow> string \<Rightarrow> backtests \<Rightarrow> backtests \<times> bool" where
  "recover_abandoned_attempt recovery_sha256 i now err r = (case js_get (bt_candidates r) i of None \<Rightarrow> (r, False)
     | Some c \<Rightarrow> if cn_status c \<noteq> BACKTESTING \<or> present (cn_lease_expires_at c) = None \<or> in_future (cn_lease_expires_at c) now
       then (r, False)
       else (let as = attempts_of (cn_id c) r;
                 running = (case find (\<lambda>a. is_running a \<and> Some (at_number a) = cn_active_attempt c) as of
                    Some a \<Rightarrow> Some a | None \<Rightarrow> find is_running as);
                 r1 = close_running recovery_sha256 c running as now err r;
                 number = (case cn_active_attempt c of Some n \<Rightarrow> n
                    | None \<Rightarrow> (case find is_running as of Some a \<Rightarrow> at_number a | None \<Rightarrow> cn_max_attempts c));
                 retrying = number < cn_max_attempts c;
                 r2 = put_candidate (abandoned retrying now err c) r1
             in (case js_get (bt_dispatches r2) (cn_queue_job c) of
                   Some d \<Rightarrow> if retrying \<and> ds_state d \<noteq> Dispatch_Cancelled
                     then (r2\<lparr>bt_dispatches := js_set (qj_id (ds_job d)) (d\<lparr>ds_state := PENDING, ds_last_error := Some err,
                             ds_updated_at := now\<rparr>) (bt_dispatches r2)\<rparr>, True)
                     else (r2, True)
                 | None \<Rightarrow> (r2, True))))"

definition read_stored_attempt :: "string \<Rightarrow> string option \<Rightarrow> backtests \<Rightarrow> attempt option" where
  "read_stored_attempt i who r = (case js_get (bt_attempts r) i of None \<Rightarrow> None
     | Some a \<Rightarrow> (case js_get (bt_candidates r) (at_candidate a) of None \<Rightarrow> None
        | Some c \<Rightarrow> if visible_to who (cn_owner c)
            then Some (a\<lparr>at_duration_ms := attempt_duration_ms (at_started_at a) (at_completed_at a)\<rparr>) else None))"

definition list_attempts :: "string \<Rightarrow> backtests \<Rightarrow> attempt_progress list" where
  "list_attempts i r = map attempt_progress_of (sort_by (\<lambda>x y. int (at_number x) - int (at_number y)) (attempts_of i r))"

record worker_request =
  wr_candidate :: string
  wr_queue_job :: string
  wr_delivery :: nat
  wr_attempt :: string
  wr_fence_token :: string
  wr_now :: string
  wr_lease :: string
  wr_worker_version :: string
  wr_worker_sha256 :: string

definition worker_lease_active :: "candidate \<Rightarrow> string \<Rightarrow> bool" where
  "worker_lease_active c now = (cn_status c = BACKTESTING \<and> in_future (cn_lease_expires_at c) now)"

definition worker_claimable :: "candidate \<Rightarrow> worker_request \<Rightarrow> bool" where
  "worker_claimable c q = (cn_queue_job c = wr_queue_job q \<and> \<not> terminal (cn_status c) \<and> cn_status c \<noteq> PROCESSING_RESULT \<and>
     cn_status c \<noteq> TERMINAL_FAILURE_PENDING \<and> \<not> worker_lease_active c (wr_now q) \<and>
     cn_status c \<in> {QUEUED, RETRY_WAIT, BACKTESTING})"

definition claimed_attempt :: "candidate \<Rightarrow> worker_request \<Rightarrow> backtests \<Rightarrow> attempt" where
  "claimed_attempt c q r = (let a = (case js_get (bt_attempts r) (wr_attempt q) of Some a \<Rightarrow> a
       | None \<Rightarrow> \<lparr>at_id = wr_attempt q, at_number = wr_delivery q, at_status = Attempt_Queued, at_started_at = wr_now q,
           at_completed_at = None, at_duration_ms = None, at_delivery_count = None, at_failure_category = None,
           at_failure_code = None, at_error_message = None, at_candidate = cn_id c, at_queue_job = wr_queue_job q,
           at_worker_version = wr_worker_version q, at_worker_sha256 = wr_worker_sha256 q, at_trade_count = 0,
           at_audit_only = False, at_fence_token = None, at_lease_expires_at = None\<rparr>)
     in a\<lparr>at_status := Attempt_Running, at_started_at := (if at_started_at a = [] then wr_now q else at_started_at a),
          at_completed_at := None, at_delivery_count := Some (wr_delivery q), at_fence_token := Some (wr_fence_token q),
          at_lease_expires_at := Some (wr_lease q), at_failure_category := None, at_failure_code := None,
          at_error_message := None\<rparr>)"

definition claimed_candidate :: "candidate \<Rightarrow> worker_request \<Rightarrow> candidate" where
  "claimed_candidate c q = c\<lparr>cn_status := BACKTESTING, cn_active_attempt := Some (wr_delivery q),
     cn_execution_generation := cn_execution_generation c + 1, cn_fence_token := Some (wr_fence_token q),
     cn_lease_expires_at := Some (wr_lease q), cn_updated_at := wr_now q\<rparr>"

definition claim_worker_attempt :: "worker_request \<Rightarrow> backtests \<Rightarrow> (backtests \<times> candidate \<times> attempt) option" where
  "claim_worker_attempt q r = (case js_get (bt_candidates r) (wr_candidate q) of None \<Rightarrow> None
     | Some c \<Rightarrow> if \<not> worker_claimable c q then None
       else (let a = claimed_attempt c q r; c1 = claimed_candidate c q
             in Some (put_candidate c1 (put_attempt a r), c1, a)))"

text \<open>The fence: a worker writes only while its token is both the candidate's and the attempt's.\<close>

definition fenced :: "string \<Rightarrow> string \<Rightarrow> string \<Rightarrow> backtests \<Rightarrow> (candidate \<times> attempt) result" where
  "fenced i j token r = (case (js_get (bt_candidates r) i, js_get (bt_attempts r) j) of
     (Some c, Some a) \<Rightarrow> if cn_fence_token c \<noteq> Some token \<or> at_fence_token a \<noteq> Some token
        then throw ''BACKTEST_FENCE_LOST'' else return (c, a)
   | _ \<Rightarrow> throw ''BACKTEST_FENCE_LOST'')"

definition worker_failed :: "bool \<Rightarrow> string \<Rightarrow> string \<Rightarrow> candidate \<Rightarrow> candidate" where
  "worker_failed retrying now err c =
     (if cn_status c = CANCELLED then (release_worker c)\<lparr>cn_updated_at := now\<rparr>
      else (release_worker c)\<lparr>cn_status := (if retrying then RETRY_WAIT else TERMINAL_FAILURE_PENDING),
        cn_failure_kind := (if retrying then None else Some RETRY_EXHAUSTED), cn_failure_code := Some err,
        cn_last_error := Some err, cn_updated_at := now\<rparr>)"

definition fail_worker_attempt :: "string \<Rightarrow> string \<Rightarrow> string \<Rightarrow> bool \<Rightarrow> string \<Rightarrow> string \<Rightarrow> backtests \<Rightarrow> backtests result" where
  "fail_worker_attempt i j token retrying now err r = and_then (fenced i j token r) (\<lambda>(c, a).
     let cancelled = (cn_status c = CANCELLED);
         a1 = a\<lparr>at_status := Attempt_Failed, at_completed_at := Some now,
           at_failure_category := Some (if cancelled then Cancelled_Audit else if retrying then Retryable else Infrastructure_Failure),
           at_failure_code := Some err, at_error_message := Some err, at_lease_expires_at := None\<rparr>
     in return (put_candidate (worker_failed retrying now err c) (put_attempt a1 r)))"

definition repaired :: "string \<Rightarrow> string \<Rightarrow> candidate \<Rightarrow> candidate" where
  "repaired err now c = (release_worker c)\<lparr>cn_status := TERMINAL_FAILURE_PENDING, cn_failure_kind := Some INFRASTRUCTURE,
     cn_failure_code := Some err, cn_last_error := Some err, cn_updated_at := now\<rparr>"

definition repair_terminal_queue_failure :: "string \<Rightarrow> string \<Rightarrow> string \<Rightarrow> string \<Rightarrow> backtests \<Rightarrow> backtests" where
  "repair_terminal_queue_failure recovery_sha256 i err now r = (case js_get (bt_candidates r) i of None \<Rightarrow> r
     | Some c \<Rightarrow> if terminal (cn_status c) \<or> cn_status c = TERMINAL_FAILURE_PENDING then r
       else (let as = attempts_of i r; r1 = close_running recovery_sha256 c (find is_running as) as now err r
             in put_candidate (repaired err now c) r1))"

definition worker_succeeded :: "string \<Rightarrow> candidate \<Rightarrow> candidate" where
  "worker_succeeded at_end c =
     (if cn_status c = CANCELLED then (release_worker c)\<lparr>cn_updated_at := at_end\<rparr>
      else (release_worker c)\<lparr>cn_status := PROCESSING_RESULT, cn_completion_retry_at := Some at_end, cn_updated_at := at_end\<rparr>)"

definition persist_worker_success :: "string \<Rightarrow> string \<Rightarrow> completed_backtest \<Rightarrow> string \<Rightarrow> backtests \<Rightarrow> backtests result" where
  "persist_worker_success i j result token r = and_then (fenced i j token r) (\<lambda>(c, a).
     let at_end = cb_completed_at result;
         a1 = a\<lparr>at_status := Attempt_Completed, at_completed_at := Some at_end, at_trade_count := length (cb_trades result),
           at_audit_only := (cn_status c = CANCELLED), at_lease_expires_at := None\<rparr>;
         r1 = put_attempt a1 r
     in return (put_candidate (worker_succeeded at_end c) (r1\<lparr>bt_trades := js_set (at_id a1) (cb_trades result) (bt_trades r1)\<rparr>)))"

section \<open>Completion claims\<close>

definition awaiting_completion :: "candidate \<Rightarrow> bool" where
  "awaiting_completion c = (cn_status c = PROCESSING_RESULT \<or> cn_status c = TERMINAL_FAILURE_PENDING)"

definition completion_claimable :: "candidate \<Rightarrow> string \<Rightarrow> bool" where
  "completion_claimable c now = (awaiting_completion c \<and> \<not> in_future (cn_completion_retry_at c) now \<and>
     \<not> in_future (cn_completion_lease c) now \<and> cn_completion_attempts c < cn_completion_max c)"

definition completion_claimed :: "string \<Rightarrow> string \<Rightarrow> string \<Rightarrow> candidate \<Rightarrow> candidate" where
  "completion_claimed token now lease c = c\<lparr>cn_completion_attempts := cn_completion_attempts c + 1,
     cn_completion_generation := cn_completion_generation c + 1, cn_claim_token := Some token,
     cn_completion_lease := Some lease, cn_completion_retry_at := None, cn_updated_at := now\<rparr>"

definition claim_completion :: "string \<Rightarrow> string \<Rightarrow> string \<Rightarrow> string \<Rightarrow> backtests \<Rightarrow> (backtests \<times> candidate) option" where
  "claim_completion i token now lease r = (case js_get (bt_candidates r) i of None \<Rightarrow> None
     | Some c \<Rightarrow> if \<not> completion_claimable c now then None
       else (let c1 = completion_claimed token now lease c in Some (put_candidate c1 r, c1)))"

definition completion_due :: "string \<Rightarrow> candidate \<Rightarrow> bool" where
  "completion_due now c = (awaiting_completion c \<and> reached (cn_completion_retry_at c) now \<and> reached (cn_completion_lease c) now)"

definition list_due_completions :: "string \<Rightarrow> nat \<Rightarrow> backtests \<Rightarrow> string list" where
  "list_due_completions now limit r = map cn_id (take limit (sort_by (\<lambda>x y. locale_compare (cn_updated_at x) (cn_updated_at y))
     (filter (completion_due now) (js_values (bt_candidates r)))))"

definition read_latest_completed_attempt :: "string \<Rightarrow> backtests \<Rightarrow> attempt option" where
  "read_latest_completed_attempt i r =
     (case sort_by (\<lambda>x y. int (at_number y) - int (at_number x)) (filter (\<lambda>a. at_status a = Attempt_Completed) (attempts_of i r)) of
        [] \<Rightarrow> None
      | a # _ \<Rightarrow> Some (a\<lparr>at_duration_ms := attempt_duration_ms (at_started_at a) (at_completed_at a)\<rparr>))"

definition stage_completion_experiment :: "experiment_summary \<Rightarrow> backtests \<Rightarrow> backtests \<times> experiment_summary" where
  "stage_completion_experiment x r =
     (case find (\<lambda>y. ex_candidate y = ex_candidate x) (js_values (bt_experiments r)) of
        Some y \<Rightarrow> (r, y)
      | None \<Rightarrow> (r\<lparr>bt_experiments := js_set (ex_id x) x (bt_experiments r)\<rparr>, x))"

text \<open>The completion fence: token, generation and an unexpired lease.\<close>

definition completion_fence :: "candidate \<Rightarrow> nat \<Rightarrow> string \<Rightarrow> string \<Rightarrow> bool" where
  "completion_fence c generation token now = (cn_claim_token c = Some token \<and> cn_completion_generation c = generation \<and>
     \<not> lease_lost (cn_completion_lease c) now)"

definition release_completion :: "candidate \<Rightarrow> candidate" where
  "release_completion c = c\<lparr>cn_claim_token := None, cn_completion_lease := None, cn_completion_retry_at := None\<rparr>"

definition completed :: "string \<Rightarrow> string \<Rightarrow> candidate \<Rightarrow> candidate" where
  "completed experiment now c = (release_completion c)\<lparr>cn_status := COMPLETED, cn_experiment := Some experiment,
     cn_updated_at := now\<rparr>"

definition terminally_failed :: "string \<Rightarrow> candidate \<Rightarrow> candidate" where
  "terminally_failed now c = (release_completion c)\<lparr>cn_status := FAILED, cn_updated_at := now\<rparr>"

definition finalize_completion :: "string \<Rightarrow> nat \<Rightarrow> string \<Rightarrow> string \<Rightarrow> string \<Rightarrow> backtests \<Rightarrow> backtests result" where
  "finalize_completion i generation experiment token now r = (case js_get (bt_candidates r) i of
     None \<Rightarrow> throw ''BACKTEST_COMPLETION_FENCE_LOST''
   | Some c \<Rightarrow> if cn_status c \<noteq> PROCESSING_RESULT \<or> \<not> completion_fence c generation token now
       then throw ''BACKTEST_COMPLETION_FENCE_LOST''
       else return (put_candidate (completed experiment now c) r))"

definition finalize_terminal_failure :: "string \<Rightarrow> nat \<Rightarrow> string \<Rightarrow> string \<Rightarrow> backtests \<Rightarrow> backtests result" where
  "finalize_terminal_failure i generation token now r = (case js_get (bt_candidates r) i of
     None \<Rightarrow> throw ''BACKTEST_COMPLETION_FENCE_LOST''
   | Some c \<Rightarrow> if cn_status c \<noteq> TERMINAL_FAILURE_PENDING \<or> \<not> completion_fence c generation token now
       then throw ''BACKTEST_COMPLETION_FENCE_LOST''
       else return (put_candidate (terminally_failed now c) r))"

definition failed_completion :: "string option \<Rightarrow> string \<Rightarrow> string \<Rightarrow> candidate \<Rightarrow> candidate" where
  "failed_completion retry_at now err c =
     (let exhausted = cn_completion_attempts c \<ge> cn_completion_max c
      in (release_completion c)\<lparr>cn_status := (if exhausted then FAILED else PROCESSING_RESULT),
           cn_completion_retry_at := (if exhausted then None else retry_at),
           cn_failure_kind := (if exhausted then Some COMPLETION_PROCESSING else cn_failure_kind c),
           cn_failure_code := (if exhausted then Some ''COMPLETION_PROCESSING_FAILED'' else cn_failure_code c),
           cn_last_error := Some err, cn_updated_at := now\<rparr>)"

definition fail_completion :: "string \<Rightarrow> nat \<Rightarrow> string \<Rightarrow> string option \<Rightarrow> string \<Rightarrow> string \<Rightarrow> backtests \<Rightarrow> backtests result" where
  "fail_completion i generation token retry_at now err r = (case js_get (bt_candidates r) i of
     None \<Rightarrow> throw ''BACKTEST_COMPLETION_FENCE_LOST''
   | Some c \<Rightarrow> if \<not> completion_fence c generation token now then throw ''BACKTEST_COMPLETION_FENCE_LOST''
       else return (put_candidate (failed_completion retry_at now err c) r))"

definition complete_attempt :: "candidate \<Rightarrow> attempt \<Rightarrow> completed_backtest \<Rightarrow> experiment_summary \<Rightarrow> string option \<Rightarrow> backtests \<Rightarrow> backtests result" where
  "complete_attempt c a result x token r =
     (let lost = (case present token of None \<Rightarrow> False
        | Some t \<Rightarrow> (case (js_get (bt_candidates r) (cn_id c), js_get (bt_attempts r) (at_id a)) of
             (Some c0, Some a0) \<Rightarrow> cn_fence_token c0 \<noteq> Some t \<or> at_fence_token a0 \<noteq> Some t
           | _ \<Rightarrow> True))
      in if lost then throw ''BACKTEST_FENCE_LOST''
         else return ((put_attempt a (put_candidate c r))\<lparr>bt_trades := js_set (at_id a) (cb_trades result) (bt_trades r),
                bt_experiments := js_set (ex_id x) x (bt_experiments r)\<rparr>))"

definition list_trades :: "string \<Rightarrow> backtests \<Rightarrow> trade list" where
  "list_trades i r = (case js_get (bt_trades r) i of None \<Rightarrow> [] | Some ts \<Rightarrow> ts)"

definition read_experiment :: "string \<Rightarrow> string option \<Rightarrow> backtests \<Rightarrow> experiment_summary option" where
  "read_experiment i who r = (case js_get (bt_experiments r) i of None \<Rightarrow> None
     | Some x \<Rightarrow> if (case present who of None \<Rightarrow> True | Some u \<Rightarrow> ex_owner x = Some u) then Some x else None)"

definition find_experiment_by_candidate :: "string \<Rightarrow> backtests \<Rightarrow> experiment_summary option" where
  "find_experiment_by_candidate i r = find (\<lambda>x. ex_candidate x = i) (js_values (bt_experiments r))"

definition list_experiments_by_run :: "string \<Rightarrow> string option \<Rightarrow> backtests \<Rightarrow> experiment_summary list" where
  "list_experiments_by_run run who r = filter (\<lambda>x. ex_search_run x = Some run \<and>
     (case present who of None \<Rightarrow> True | Some u \<Rightarrow> ex_owner x = Some u)) (js_values (bt_experiments r))"

definition update_experiment_score :: "string \<Rightarrow> number \<Rightarrow> bool \<Rightarrow> string option \<Rightarrow> backtests \<Rightarrow> (backtests \<times> experiment_summary) option" where
  "update_experiment_score i overall eligible who r = (case read_experiment i who r of None \<Rightarrow> None
     | Some x \<Rightarrow> (let x1 = x\<lparr>ex_score := overall, ex_eligible := eligible\<rparr>
          in Some (r\<lparr>bt_experiments := js_set i x1 (bt_experiments r)\<rparr>, x1)))"

section \<open>Replay verifications\<close>

definition create_replay :: "replay \<Rightarrow> backtests \<Rightarrow> backtests \<times> replay" where
  "create_replay v r = (case js_get (bt_replays r) (re_id v) of Some w \<Rightarrow> (r, w)
     | None \<Rightarrow> (r\<lparr>bt_replays := js_set (re_id v) v (bt_replays r)\<rparr>, v))"

definition read_replay :: "string \<Rightarrow> string option \<Rightarrow> backtests \<Rightarrow> replay option" where
  "read_replay i who r = (case js_get (bt_replays r) i of None \<Rightarrow> None
     | Some v \<Rightarrow> if visible_to who (re_owner v) then Some v else None)"

definition replay_claimable :: "replay \<Rightarrow> string \<Rightarrow> bool" where
  "replay_claimable v now = (re_status v = Replay_Queued \<or>
     re_status v = Replay_Running \<and> \<not> in_future (re_lease_expires_at v) now)"

definition claim_replay :: "string \<Rightarrow> string \<Rightarrow> string \<Rightarrow> string \<Rightarrow> backtests \<Rightarrow> (backtests \<times> replay) option" where
  "claim_replay i token now lease r = (case js_get (bt_replays r) i of None \<Rightarrow> None
     | Some v \<Rightarrow> if \<not> replay_claimable v now then None
       else (let v1 = v\<lparr>re_status := Replay_Running, re_claim_token := Some token, re_lease_expires_at := Some lease,
                  re_started_at := Some (case re_started_at v of Some t \<Rightarrow> t | None \<Rightarrow> now)\<rparr>
             in Some (r\<lparr>bt_replays := js_set i v1 (bt_replays r)\<rparr>, v1)))"

definition complete_replay :: "string \<Rightarrow> string \<Rightarrow> string \<Rightarrow> replay_status \<Rightarrow> backtests \<Rightarrow> backtests result" where
  "complete_replay i token now outcome r = (case js_get (bt_replays r) i of None \<Rightarrow> throw ''BACKTEST_REPLAY_FENCE_LOST''
     | Some v \<Rightarrow> if re_status v \<noteq> Replay_Running \<or> re_claim_token v \<noteq> Some token \<or> lease_lost (re_lease_expires_at v) now
       then throw ''BACKTEST_REPLAY_FENCE_LOST''
       else return (r\<lparr>bt_replays := js_set i (v\<lparr>re_status := outcome, re_claim_token := None, re_lease_expires_at := None,
              re_completed_at := Some now\<rparr>) (bt_replays r)\<rparr>))"

definition list_replay_recovery :: "string \<Rightarrow> nat \<Rightarrow> backtests \<Rightarrow> string list" where
  "list_replay_recovery now limit r = map re_id (take limit (sort_by (\<lambda>x y. locale_compare (re_requested_at x) (re_requested_at y))
     (filter (\<lambda>v. re_status v = Replay_Queued \<or> re_status v = Replay_Running \<and> lease_lost (re_lease_expires_at v) now)
        (js_values (bt_replays r)))))"

section \<open>Cancellation\<close>

text \<open>The record \<^verbatim>\<open>cancelSearchCandidates\<close> and \<^verbatim>\<open>cancelManualCandidate\<close> write: a running worker keeps
  its fence, so that its result is recorded for audit only.\<close>

definition cancelled :: "string \<Rightarrow> candidate \<Rightarrow> candidate" where
  "cancelled now c = c\<lparr>cn_fence_token := (if cn_status c = BACKTESTING then cn_fence_token c else None),
     cn_status := CANCELLED, cn_lease_expires_at := None, cn_updated_at := now\<rparr>"

datatype undo = Undo_Candidate string "candidate option" | Undo_Dispatch string "dispatch option"

fun undo_one :: "undo \<Rightarrow> backtests \<Rightarrow> backtests" where
  "undo_one (Undo_Candidate i (Some c)) r = r\<lparr>bt_candidates := js_set i c (bt_candidates r)\<rparr>"
| "undo_one (Undo_Candidate i None) r = r\<lparr>bt_candidates := js_delete i (bt_candidates r)\<rparr>"
| "undo_one (Undo_Dispatch i (Some d)) r = r\<lparr>bt_dispatches := js_set i d (bt_dispatches r)\<rparr>"
| "undo_one (Undo_Dispatch i None) r = r\<lparr>bt_dispatches := js_delete i (bt_dispatches r)\<rparr>"

definition update_candidate :: "candidate \<Rightarrow> backtests \<times> undo list \<Rightarrow> backtests \<times> undo list" where
  "update_candidate c = (\<lambda>(r, log). (put_candidate c r, log @ [Undo_Candidate (cn_id c) (js_get (bt_candidates r) (cn_id c))]))"

definition cancel_dispatch :: "string \<Rightarrow> string \<Rightarrow> backtests \<times> undo list \<Rightarrow> backtests \<times> undo list" where
  "cancel_dispatch i now = (\<lambda>(r, log). (mark_dispatch_cancelled i now r, log @ [Undo_Dispatch i (js_get (bt_dispatches r) i)]))"

end
