(* ===== verification/BacktestPolicy.thy ===== *)
theory BacktestPolicy
  imports BacktestRepo StrategyService
begin

text \<open>
  The pure parts of the backtesting service (\<^verbatim>\<open>modules/backtesting/application/service.ts\<close>):
  money amounts of a result, the execution policy snapshot, pages of trades behind a cursor,
  what the chosen strategies require of a scope, the checks of sentiment snapshots, and the
  markers and overlays of a visualization.
\<close>

section \<open>Money\<close>

definition round_money :: "number \<Rightarrow> number result" where
  "round_money v = (if \<not> is_finite v then throw ''BACKTEST_NON_FINITE_AMOUNT'' else return (to_fixed_num 2 v))"

record projection =
  pj_total :: number
  pj_peak :: number
  pj_drawdown :: number
  pj_wins :: nat
  pj_losses :: nat
  pj_breakevens :: nat

definition project_trade :: "trade \<Rightarrow> projection \<Rightarrow> projection result" where
  "project_trade t p =
     (if \<not> list_all is_finite [t_profit t, t_equity_after t] then throw ''BACKTEST_NON_FINITE_AMOUNT''
      else let peak = nmax (pj_peak p) (t_equity_after t)
           in return \<lparr>pj_total = nadd (pj_total p) (t_profit t), pj_peak = peak,
                pj_drawdown = nmax (pj_drawdown p) (nsub peak (t_equity_after t)),
                pj_wins = pj_wins p + (if t_result t = WIN then 1 else 0),
                pj_losses = pj_losses p + (if t_result t = LOSS then 1 else 0),
                pj_breakevens = pj_breakevens p + (if t_result t \<in> {WIN, LOSS} then 0 else 1)\<rparr>)"

definition amount_projection :: "number \<Rightarrow> trade list \<Rightarrow> amounts result" where
  "amount_projection initial ts =
     (if \<not> is_finite initial then throw ''BACKTEST_NON_FINITE_AMOUNT''
      else and_then (fold_results project_trade ts \<lparr>pj_total = num 0, pj_peak = initial, pj_drawdown = num 0,
                       pj_wins = 0, pj_losses = 0, pj_breakevens = 0\<rparr>) (\<lambda>p.
        and_then (round_money initial) (\<lambda>i. and_then (round_money (pj_total p)) (\<lambda>t.
        and_then (round_money (nadd initial (pj_total p))) (\<lambda>e. and_then (round_money (pj_drawdown p)) (\<lambda>d.
          return \<lparr>am_initial_capital = i, am_total_profit = t, am_ending_equity = e, am_wins = pj_wins p,
            am_losses = pj_losses p, am_breakevens = pj_breakevens p, am_max_drawdown = d\<rparr>))))))"

lemma amount_projection_counts:
  assumes "amount_projection initial ts = return a"
  shows "am_wins a + am_losses a + am_breakevens a = length ts"
proof -
  have step: "fold_results project_trade us p = return p' \<Longrightarrow>
      pj_wins p' + pj_losses p' + pj_breakevens p' = pj_wins p + pj_losses p + pj_breakevens p + length us" for us p p'
  proof (induction us arbitrary: p)
    case (Cons u us)
    then obtain p1 where p1: "project_trade u p = return p1" "fold_results project_trade us p1 = return p'"
      by (auto simp: result_simps)
    have "pj_wins p1 + pj_losses p1 + pj_breakevens p1 = pj_wins p + pj_losses p + pj_breakevens p + 1"
      using p1(1) by (cases "t_result u") (auto simp: project_trade_def Let_def split: if_splits)
    then show ?case using Cons.IH [OF p1(2)] by simp
  qed simp
  from assms show ?thesis
    by (auto simp: amount_projection_def result_simps split: if_splits dest!: step)
qed

section \<open>Execution policy\<close>

record policy_input =
  pi_policy_id :: "string option"
  pi_position_policy_id :: "string option"
  pi_sizing_policy_id :: "string option"
  pi_fill_policy_id :: "string option"
  pi_opposite_signal_policy_id :: "string option"
  pi_stop_loss_percent :: "number option"
  pi_take_profit_percent :: "number option"
  pi_warmup_candles :: "number option"
  pi_sha256 :: "string option"

definition policy_input_of :: "execution_policy \<Rightarrow> policy_input" where
  "policy_input_of p = \<lparr>pi_policy_id = Some (xp_policy_id p), pi_position_policy_id = Some (xp_position_policy_id p),
     pi_sizing_policy_id = Some (xp_sizing_policy_id p), pi_fill_policy_id = Some (xp_fill_policy_id p),
     pi_opposite_signal_policy_id = Some (xp_opposite_signal_policy_id p), pi_stop_loss_percent = xp_stop_loss_percent p,
     pi_take_profit_percent = xp_take_profit_percent p, pi_warmup_candles = Some (xp_warmup_candles p),
     pi_sha256 = Some (xp_sha256 p)\<rparr>"

definition fill_policy_id :: string where "fill_policy_id = ''NEXT_OPEN_OHLC_STOP_FIRST_V2''"
definition opposite_signal_policy_id :: string where "opposite_signal_policy_id = ''CLOSE_AND_REVERSE_NEXT_OPEN_V1''"
definition sizing_policy_id :: string where "sizing_policy_id = ''FULL_CURRENT_EQUITY_FEE_AWARE_V1''"
definition execution_policy_id :: string where "execution_policy_id = ''TWO_SIDED_ONE_X_V1''"

definition valid_risk_percent :: "number option \<Rightarrow> bool" where
  "valid_risk_percent v = (case v of None \<Rightarrow> True | Some x \<Rightarrow> is_finite x \<and> nlt (num 0) x \<and> nlt x (num 100))"

text \<open>\<^verbatim>\<open>JSON.stringify\<close> of a policy, whose texts need no escapes; an absent risk percent is left out.\<close>

definition json_member :: "string \<Rightarrow> string \<Rightarrow> string" where
  "json_member k v = CHR 0x22 # k @ [CHR 0x22, CHR '':''] @ v"

definition json_text_value :: "string \<Rightarrow> string" where
  "json_text_value s = CHR 0x22 # s @ [CHR 0x22]"

definition policy_payload :: "number option \<Rightarrow> number option \<Rightarrow> number \<Rightarrow> string" where
  "policy_payload stop take_profit warmup = CHR ''{'' # join_with '',''
     ([json_member ''policyId'' (json_text_value execution_policy_id),
       json_member ''positionPolicyId'' (json_text_value execution_policy_id),
       json_member ''sizingPolicyId'' (json_text_value sizing_policy_id),
       json_member ''fillPolicyId'' (json_text_value fill_policy_id),
       json_member ''oppositeSignalPolicyId'' (json_text_value opposite_signal_policy_id)]
      @ (case stop of None \<Rightarrow> [] | Some x \<Rightarrow> [json_member ''stopLossPercent'' (number_to_string x)])
      @ (case take_profit of None \<Rightarrow> [] | Some x \<Rightarrow> [json_member ''takeProfitPercent'' (number_to_string x)])
      @ [json_member ''warmupCandles'' (number_to_string warmup)]) @ ''}''"

definition normalize_execution_policy :: "(string \<Rightarrow> string) \<Rightarrow> policy_input option \<Rightarrow> number option \<Rightarrow> risk_policy option \<Rightarrow> execution_policy result" where
  "normalize_execution_policy sha256 input warmup fallback =
     (let stop = (case input of None \<Rightarrow> (case fallback of None \<Rightarrow> None | Some f \<Rightarrow> rp_stop_loss_percent f)
                  | Some i \<Rightarrow> pi_stop_loss_percent i);
          take_profit = (case input of None \<Rightarrow> (case fallback of None \<Rightarrow> None | Some f \<Rightarrow> rp_take_profit_percent f)
                  | Some i \<Rightarrow> pi_take_profit_percent i);
          warm = (case warmup of None \<Rightarrow> num 0 | Some w \<Rightarrow> w);
          sha = sha256 (policy_payload stop take_profit warm)
      in if \<not> valid_risk_percent stop \<or> \<not> valid_risk_percent take_profit \<or>
            (case input of None \<Rightarrow> False | Some i \<Rightarrow> pi_policy_id i \<noteq> None \<and> pi_policy_id i \<noteq> Some execution_policy_id)
         then throw ''INVALID_EXECUTION_POLICY''
         else if (case input of None \<Rightarrow> False | Some i \<Rightarrow> pi_sha256 i \<noteq> None \<and>
             (pi_warmup_candles i \<noteq> Some warm \<or> warm = NaN \<or> pi_position_policy_id i \<noteq> Some execution_policy_id \<or>
              pi_sizing_policy_id i \<noteq> Some sizing_policy_id \<or> pi_fill_policy_id i \<noteq> Some fill_policy_id \<or>
              pi_opposite_signal_policy_id i \<noteq> Some opposite_signal_policy_id \<or> pi_sha256 i \<noteq> Some sha))
         then throw ''INVALID_EXECUTION_POLICY''
         else return \<lparr>xp_policy_id = execution_policy_id, xp_position_policy_id = execution_policy_id,
           xp_sizing_policy_id = sizing_policy_id, xp_fill_policy_id = fill_policy_id,
           xp_opposite_signal_policy_id = opposite_signal_policy_id, xp_stop_loss_percent = stop,
           xp_take_profit_percent = take_profit, xp_warmup_candles = warm, xp_sha256 = sha\<rparr>)"

text \<open>A normalised execution policy is a fixed point: submitting the stored snapshot again with the same
  warm-up is accepted, whatever the scope's own risk policy, and gives the same snapshot; and the
  stored risk percents lie strictly between 0 and 100.\<close>

lemma policy_snapshot_is_stable:
  assumes "normalize_execution_policy sha256 input warmup fallback = return p" "warmup \<noteq> Some NaN"
  shows "normalize_execution_policy sha256 (Some (policy_input_of p)) warmup fallback' = return p \<and>
    valid_risk_percent (xp_stop_loss_percent p) \<and> valid_risk_percent (xp_take_profit_percent p)"
  using assms by (auto simp: normalize_execution_policy_def policy_input_of_def Let_def split: option.splits if_splits)

lemma policy_snapshot_is_stable_witness:
  "\<exists>p. normalize_execution_policy (\<lambda>s. ''h'') None None (Some \<lparr>rp_stop_loss_percent = Some (num 5), rp_take_profit_percent = None\<rparr>) = return p \<and>
     normalize_execution_policy (\<lambda>s. ''h'') (Some (policy_input_of p)) None None = return p"
proof -
  obtain p where "normalize_execution_policy (\<lambda>s. ''h'') None None (Some \<lparr>rp_stop_loss_percent = Some (num 5), rp_take_profit_percent = None\<rparr>) = return p"
    by (simp add: normalize_execution_policy_def valid_risk_percent_def Let_def number_simps)
  then show ?thesis using policy_snapshot_is_stable by blast
qed

section \<open>Pages of trades\<close>

record trade_key =
  tk_entry_time :: string
  tk_sequence :: nat
  tk_id :: string

record trade_cursor =
  tc_owner :: string
  tc_resource :: string
  tc_limit :: nat
  tc_last :: trade_key

record trade_page =
  tp_items :: "trade list"
  tp_total :: nat
  tp_next :: "string option"

definition trade_key_of :: "trade \<Rightarrow> trade_key" where
  "trade_key_of t = \<lparr>tk_entry_time = t_entry_time t, tk_sequence = t_sequence t, tk_id = t_id t\<rparr>"

definition compare_trade_key :: "trade \<Rightarrow> trade \<Rightarrow> int" where
  "compare_trade_key l r = or_else (locale_compare (t_entry_time l) (t_entry_time r))
     (or_else (int (t_sequence l) - int (t_sequence r)) (locale_compare (t_id l) (t_id r)))"

definition cursor_for :: "string \<Rightarrow> string \<Rightarrow> nat \<Rightarrow> trade \<Rightarrow> trade_cursor" where
  "cursor_for owner resource limit t = \<lparr>tc_owner = owner, tc_resource = resource, tc_limit = limit, tc_last = trade_key_of t\<rparr>"

definition trade_page_default :: nat where "trade_page_default = 10"
definition trade_page_max :: nat where "trade_page_max = 100"

text \<open>The position after the trade a cursor names. The token itself is \<^verbatim>\<open>base64url\<close> of the JSON of a
  \<open>trade_cursor\<close>; \<open>encode\<close> and \<open>decode\<close> stand for that pair, \<open>None\<close> for an undecodable token.\<close>

definition page_start :: "(string \<Rightarrow> trade_cursor option) \<Rightarrow> nat \<Rightarrow> string option \<Rightarrow> trade list \<Rightarrow> string \<Rightarrow> string \<Rightarrow> nat result" where
  "page_start decode limit cursor ordered owner resource = (case present cursor of None \<Rightarrow> return 0
     | Some tok \<Rightarrow> (case decode tok of None \<Rightarrow> throw ''INVALID_CURSOR''
        | Some c \<Rightarrow> if tc_owner c \<noteq> owner \<or> tc_resource c \<noteq> resource \<or> tc_limit c \<noteq> limit \<or> tc_limit c < 1 \<or> tc_limit c > trade_page_max
            then throw ''INVALID_CURSOR''
            else (case find_index (\<lambda>t. trade_key_of t = tc_last c) ordered of None \<Rightarrow> throw ''INVALID_CURSOR''
              | Some i \<Rightarrow> return (i + 1))))"

definition page_trades :: "(trade_cursor \<Rightarrow> string) \<Rightarrow> (string \<Rightarrow> trade_cursor option) \<Rightarrow> trade list \<Rightarrow> nat option \<Rightarrow> string option \<Rightarrow>
    string \<Rightarrow> string \<Rightarrow> trade_page result" where
  "page_trades encode decode ts limit_arg cursor owner resource =
     (let limit = (case limit_arg of None \<Rightarrow> trade_page_default | Some n \<Rightarrow> n); ordered = sort_by compare_trade_key ts
      in if limit < 1 \<or> limit > trade_page_max then throw ''INVALID_PAGE''
         else and_then (page_start decode limit cursor ordered owner resource) (\<lambda>start.
           let items = slice start (start + limit) ordered
           in return \<lparr>tp_items = items, tp_total = length ordered,
                tp_next = (if start + length items < length ordered \<and> items \<noteq> []
                  then Some (encode (cursor_for owner resource limit (last items))) else None)\<rparr>))"

text \<open>A client that follows the cursors, at most \<open>n\<close> pages.\<close>

fun collect_pages :: "nat \<Rightarrow> (string option \<Rightarrow> trade_page result) \<Rightarrow> string option \<Rightarrow> trade list result" where
  "collect_pages 0 fetch cursor = throw ''TOO_MANY_PAGES''"
| "collect_pages (Suc n) fetch cursor = and_then (fetch cursor) (\<lambda>p.
     case tp_next p of None \<Rightarrow> return (tp_items p)
     | Some c \<Rightarrow> and_then (collect_pages n fetch (Some c)) (\<lambda>rest. return (tp_items p @ rest)))"

lemma find_index_nth:
  assumes "distinct (map f xs)" "i < length xs"
  shows "find_index (\<lambda>x. f x = f (xs ! i)) xs = Some i"
proof (cases "find_index (\<lambda>x. f x = f (xs ! i)) xs")
  case None
  then show ?thesis using assms(2) by (auto simp: find_index_None)
next
  case (Some j)
  then have "j < length xs" "f (xs ! j) = f (xs ! i)" using find_index_Some by fastforce+
  then show ?thesis using assms Some by (simp add: distinct_conv_nth) (metis length_map nth_map)
qed

definition pages_walk :: "(trade_cursor \<Rightarrow> string) \<Rightarrow> (string \<Rightarrow> trade_cursor option) \<Rightarrow> trade list \<Rightarrow> nat \<Rightarrow> string \<Rightarrow> string \<Rightarrow> bool" where
  "pages_walk encode decode ts limit owner resource = (1 \<le> limit \<and> limit \<le> trade_page_max \<and> distinct (map trade_key_of ts) \<and>
     list_all (\<lambda>t. encode (cursor_for owner resource limit t) \<noteq> [] \<and>
       decode (encode (cursor_for owner resource limit t)) = Some (cursor_for owner resource limit t)) ts)"

lemma distinct_map_sort: "distinct (map f (sort_by cmp xs)) = distinct (map f xs)"
proof -
  have "mset (map f (sort_by cmp xs)) = mset (map f xs)" by simp
  then show ?thesis by (metis mset_eq_imp_distinct_iff)
qed

lemma page_from:
  assumes w: "pages_walk encode decode ts limit owner resource"
    and i: "start \<le> length ts" "cursor = (if start = 0 then None
      else Some (encode (cursor_for owner resource limit (sort_by compare_trade_key ts ! (start - 1)))))"
  shows "page_trades encode decode ts (Some limit) cursor owner resource =
    return \<lparr>tp_items = take limit (drop start (sort_by compare_trade_key ts)), tp_total = length ts,
      tp_next = (if start + limit < length ts
        then Some (encode (cursor_for owner resource limit (sort_by compare_trade_key ts ! (start + limit - 1)))) else None)\<rparr>"
proof -
  let ?o = "sort_by compare_trade_key ts"
  have lim: "1 \<le> limit" "limit \<le> trade_page_max" using w by (simp_all add: pages_walk_def)
  have st: "page_start decode limit cursor ?o owner resource = return start"
  proof (cases "start = 0")
    case False
    then have j: "start - 1 < length ?o" using i(1) by simp
    let ?c = "cursor_for owner resource limit (?o ! (start - 1))"
    have m: "?o ! (start - 1) \<in> set ts" using nth_mem [OF j] by simp
    then have d: "decode (encode ?c) = Some ?c" "encode ?c \<noteq> []" using w by (auto simp: pages_walk_def list_all_iff)
    have "find_index (\<lambda>t. trade_key_of t = trade_key_of (?o ! (start - 1))) ?o = Some (start - 1)"
      by (rule find_index_nth) (use w j in \<open>simp_all add: pages_walk_def distinct_map_sort\<close>)
    moreover have "present cursor = Some (encode ?c)" using d(2) i(2) False by (simp add: present_Some_iff)
    ultimately show ?thesis using d(1) False lim by (simp add: page_start_def) (simp add: cursor_for_def)
  qed (simp add: i(2) page_start_def)
  have sl: "slice start (start + limit) ?o = take limit (drop start ?o)" by (simp add: slice_def)
  have "last (take limit (drop start ?o)) = ?o ! (start + limit - 1)" if "start + limit < length ts"
    using that lim(1) by (subst last_conv_nth) (auto simp: nth_drop)
  moreover have "start + length (take limit (drop start ?o)) < length ?o \<and> take limit (drop start ?o) \<noteq> [] \<longleftrightarrow> start + limit < length ts"
    using lim(1) i(1) by auto
  ultimately show ?thesis unfolding page_trades_def Let_def using lim st sl
    by (cases "start + limit < length ts") (simp_all del: length_take take_eq_Nil)
qed

lemma collect_from:
  assumes w: "pages_walk encode decode ts limit owner resource"
  shows "length ts - start < n \<Longrightarrow> start \<le> length ts \<Longrightarrow> cursor = (if start = 0 then None
      else Some (encode (cursor_for owner resource limit (sort_by compare_trade_key ts ! (start - 1))))) \<Longrightarrow>
    collect_pages n (\<lambda>c. page_trades encode decode ts (Some limit) c owner resource) cursor =
      return (drop start (sort_by compare_trade_key ts))"
proof (induction n arbitrary: start cursor)
  case (Suc n)
  let ?o = "sort_by compare_trade_key ts"
  have lim: "1 \<le> limit" using w by (simp add: pages_walk_def)
  note page = page_from [OF w Suc.prems(2,3)]
  show ?case
  proof (cases "start + limit < length ts")
    case True
    have "collect_pages n (\<lambda>c. page_trades encode decode ts (Some limit) c owner resource)
        (Some (encode (cursor_for owner resource limit (?o ! (start + limit - 1))))) = return (drop (start + limit) ?o)"
      using Suc.IH [of "start + limit"] Suc.prems lim True by simp
    moreover have "take limit (drop start ?o) @ drop (start + limit) ?o = drop start ?o"
      by (metis add.commute append_take_drop_id drop_drop)
    ultimately show ?thesis using True by (simp add: page)
  next
    case False
    then show ?thesis by (simp add: page)
  qed
qed simp

text \<open>C21. Paging terminates and loses nothing: a client that asks for the first page and follows every cursor
  gets, after finitely many pages, exactly the trades of the resource in the order of entry time,
  sequence and identifier, each once, for every page size from 1 to 100.\<close>

theorem pages_cover_all_trades:
  assumes "pages_walk encode decode ts limit owner resource"
  shows "collect_pages (length ts + 1) (\<lambda>c. page_trades encode decode ts (Some limit) c owner resource) None =
    return (sort_by compare_trade_key ts)"
  using collect_from [OF assms, of 0 "length ts + 1" None] by simp

definition sample_key_trade :: "nat \<Rightarrow> trade" where
  "sample_key_trade n = (sample_trade (num 1))\<lparr>t_entry_time := ''t'', t_sequence := n, t_id := ''i''\<rparr>"

lemma pages_cover_all_trades_witness:
  "collect_pages (length (map sample_key_trade [3, 1, 2]) + 1) (\<lambda>c. page_trades (\<lambda>c. show_nat (tk_sequence (tc_last c)))
     (\<lambda>s. Some (cursor_for ''u'' ''r'' 2 (sample_key_trade (read_nat s)))) (map sample_key_trade [3, 1, 2]) (Some 2) c ''u'' ''r'') None =
   return (sort_by compare_trade_key (map sample_key_trade [3, 1, 2]))"
proof -
  have k: "trade_key_of (sample_key_trade n) = \<lparr>tk_entry_time = ''t'', tk_sequence = n, tk_id = ''i''\<rparr>" for n
    by (simp add: trade_key_of_def sample_key_trade_def)
  have "pages_walk (\<lambda>c. show_nat (tk_sequence (tc_last c))) (\<lambda>s. Some (cursor_for ''u'' ''r'' 2 (sample_key_trade (read_nat s))))
      (map sample_key_trade [3, 1, 2]) 2 ''u'' ''r''"
    by (simp add: pages_walk_def cursor_for_def k trade_page_max_def)
  from pages_cover_all_trades [OF this] show ?thesis .
qed

end
