(* ===== verification/BacktestScope.thy ===== *)
theory BacktestScope
  imports BacktestPolicy
begin

text \<open>
  Benchmark scopes and submissions (\<^verbatim>\<open>modules/backtesting/application/service.ts\<close>): the
  strategies a submission refers to and what they need, the sealed sentiment snapshot of a
  scope, the creation of scopes, and the candidate and dispatch records a submission stores.
  The strategy module is the model of \<open>StrategyService\<close>; the sentiment module, the clock and
  the identifiers are arguments.
\<close>

section \<open>What strategies require\<close>

record bench_descriptor =
  bd_name :: string
  bd_category :: "string option"
  bd_sha256 :: string
  bd_version :: "string option"
  bd_minimum_history :: "number option"
  bd_requires_sentiment :: "bool option"

definition max_warmup_candles :: nat where "max_warmup_candles = 10000"
definition default_warmup_capacity :: number where "default_warmup_capacity = num 500"

definition descriptor_matches :: "strategy_definition \<Rightarrow> bench_descriptor \<Rightarrow> bool" where
  "descriptor_matches d b = (bd_name b = sd_strategy_name d \<and> bd_sha256 b = sd_sha256 d \<and>
     (case present (bd_version b) of None \<Rightarrow> True | Some v \<Rightarrow> v = sd_version_tag d))"

definition require_strategy :: "bench_descriptor list \<Rightarrow> strategy_definition \<Rightarrow> number \<times> bool \<Rightarrow> (number \<times> bool) result" where
  "require_strategy ds d = (\<lambda>(required, sentiment). case find (descriptor_matches d) ds of
     None \<Rightarrow> throw ''IMPLEMENTATION_ARTIFACT_UNAVAILABLE''
   | Some b \<Rightarrow> (let minimum = (case bd_minimum_history b of None \<Rightarrow> num 0 | Some m \<Rightarrow> m)
        in if \<not> is_integer minimum \<or> nlt minimum (num 0) \<or> nlt (num (int max_warmup_candles)) minimum
           then throw ''INVALID_STRATEGY_DESCRIPTOR''
           else return (nmax required minimum,
             sentiment \<or> bd_requires_sentiment b = Some True \<or> bd_category b = Some ''INFORMATION'')))"

definition strategy_requirements :: "bench_descriptor list \<Rightarrow> strategy_definition list \<Rightarrow> (number \<times> bool) result" where
  "strategy_requirements ds defs = (if ds = [] then return (num 0, False)
     else fold_results (require_strategy ds) defs (num 0, False))"

section \<open>Commands\<close>

record search_part =
  sp_run :: string
  sp_iteration :: nat
  sp_generated_by :: generator_type
  sp_fingerprint :: "string option"
  sp_lineage :: "lineage option"

text \<open>A manual command has no search part.\<close>

record backtest_command =
  bc_scope :: string
  bc_definition_ids :: "string list option"
  bc_definitions :: "strategy_definition list option"
  bc_composite_id :: "string option"
  bc_composite :: "composite_definition option"
  bc_policy :: "policy_input option"
  bc_max_attempts :: number
  bc_search :: "search_part option"

record strategy_references =
  rf_definitions :: "strategy_definition list"
  rf_composite :: composite_definition
  rf_warmup :: number
  rf_sentiment :: bool

definition requested_ids :: "backtest_command \<Rightarrow> string list" where
  "requested_ids c = (case bc_definition_ids c of Some is \<Rightarrow> is
     | None \<Rightarrow> (case bc_definitions c of Some ds \<Rightarrow> map sd_id ds | None \<Rightarrow> []))"

definition requested_composite :: "backtest_command \<Rightarrow> string option" where
  "requested_composite c = present (case bc_composite_id c of Some i \<Rightarrow> Some i
     | None \<Rightarrow> map_option cd_id (bc_composite c))"

definition validate_strategy_references :: "bench_descriptor list \<Rightarrow> strategy_store \<Rightarrow> string \<Rightarrow> backtest_command \<Rightarrow> strategy_references result" where
  "validate_strategy_references ds store owner c =
     (let ids = requested_ids c in
      if ids = [] \<or> length (uniq ids) \<noteq> length ids then throw ''STRATEGY_DEFINITION_NOT_FOUND''
      else and_then (read_definitions owner ids store) (\<lambda>defs.
        if length defs \<noteq> length ids then throw ''STRATEGY_DEFINITION_NOT_FOUND''
        else case requested_composite c of None \<Rightarrow> throw ''COMPOSITE_STRATEGY_NOT_FOUND''
        | Some ci \<Rightarrow> (case read_composite owner ci store of Inl _ \<Rightarrow> throw ''COMPOSITE_STRATEGY_NOT_FOUND''
          | Inr k \<Rightarrow> (let cids = map cp_definition_id (cd_components k) in
              if length cids \<noteq> length ids \<or> length (uniq cids) \<noteq> length cids \<or> list_ex (\<lambda>i. i \<notin> set ids) cids
              then throw ''STRATEGY_DEFINITION_MISMATCH''
              else let sel = List.map_filter (\<lambda>i. find (\<lambda>d. sd_id d = i) (rev defs)) cids
                   in and_then (strategy_requirements ds sel) (\<lambda>(w, s).
                        return \<lparr>rf_definitions = sel, rf_composite = k, rf_warmup = w, rf_sentiment = s\<rparr>)))))"

section \<open>Sealed sentiment\<close>

record sentiment_command =
  sq_coin :: string
  sq_from :: string
  sq_to :: string
  sq_window_seconds :: number
  sq_model_name :: string
  sq_model_version :: string
  sq_model_sha256 :: string

record sentiment_api =
  sa_get_ref :: "string \<Rightarrow> sentiment_ref result"
  sa_read :: "string \<Rightarrow> (string \<Rightarrow> string \<Rightarrow> sentiment_context option) result"
  sa_create :: "sentiment_command \<Rightarrow> sentiment_ref result"

definition closed_candles :: "candle list \<Rightarrow> candle list" where
  "closed_candles cs = sort_by (\<lambda>x y. locale_compare (c_timestamp x) (c_timestamp y)) (filter c_is_closed cs)"

definition close_ms :: "timeframe \<Rightarrow> candle \<Rightarrow> int option" where
  "close_ms tf c = map_option (\<lambda>t. t + timeframe_ms tf) (date_parse (c_timestamp c))"

text \<open>\<^verbatim>\<open>a > b\<close> on epoch milliseconds that may be \<^verbatim>\<open>NaN\<close>.\<close>

definition ms_greater :: "int option \<Rightarrow> int option \<Rightarrow> bool" where
  "ms_greater a b = (case (a, b) of (Some x, Some y) \<Rightarrow> x > y | _ \<Rightarrow> False)"

definition first_close :: "timeframe \<Rightarrow> candle list \<Rightarrow> int option" where
  "first_close tf cs = (case closed_candles cs of [] \<Rightarrow> None | c # _ \<Rightarrow> close_ms tf c)"

definition last_close :: "timeframe \<Rightarrow> candle list \<Rightarrow> int option" where
  "last_close tf cs = (case closed_candles cs of [] \<Rightarrow> None | c # r \<Rightarrow> close_ms tf (last (c # r)))"

definition sentiment_reference_bad :: "sentiment_ref \<Rightarrow> sentiment_ref \<Rightarrow> string \<Rightarrow> timeframe \<Rightarrow> candle list \<Rightarrow> bool" where
  "sentiment_reference_bad actual reference base tf cs =
     (actual \<noteq> reference \<or> sr_coin actual \<noteq> base \<or> \<not> is_sha256 (sr_model_sha256 actual) \<or> \<not> is_sha256 (sr_sha256 actual) \<or>
      \<not> is_integer (sr_point_count actual) \<or> nlt (sr_point_count actual) (num 1) \<or>
      \<not> is_integer (sr_window_seconds actual) \<or> nlt (sr_window_seconds actual) (num 1) \<or>
      date_parse (sr_from actual) = None \<or> date_parse (sr_to actual) = None \<or>
      ms_greater (date_parse (sr_from actual)) (first_close tf cs) \<or> ms_greater (last_close tf cs) (date_parse (sr_to actual)))"

definition read_point :: "(string \<Rightarrow> string \<Rightarrow> sentiment_context option) \<Rightarrow> string \<Rightarrow> string \<Rightarrow> sentiment_context option result" where
  "read_point reader i at_close = (case reader i at_close of None \<Rightarrow> return None
     | Some p \<Rightarrow> if \<not> is_finite (se_average_score p) \<or> nlt (se_average_score p) (num (-1)) \<or> nlt (num 1) (se_average_score p)
        then throw ''SNAPSHOT_INCOMPLETE'' else return (Some p))"

definition close_text :: "timeframe \<Rightarrow> candle \<Rightarrow> string result" where
  "close_text tf c = (case close_ms tf c of None \<Rightarrow> throw ''Invalid time value'' | Some t \<Rightarrow> return (to_iso t))"

definition load_sentiment :: "sentiment_api option \<Rightarrow> bench_scope \<Rightarrow> candle list \<Rightarrow> bool \<Rightarrow>
    (string \<Rightarrow> sentiment_context option result) option result" where
  "load_sentiment api s cs required =
     (if \<not> required then return None
      else case (bs_sentiment s, api) of (Some reference, Some a) \<Rightarrow>
        (case sa_get_ref a (sr_id reference) of Inl _ \<Rightarrow> throw ''SNAPSHOT_INCOMPLETE''
         | Inr actual \<Rightarrow>
           if sentiment_reference_bad actual reference (md_base_asset (sn_metadata (bs_snapshot s))) (bs_timeframe s) cs
           then throw ''SNAPSHOT_INCOMPLETE''
           else (case sa_read a (sr_id actual) of Inl _ \<Rightarrow> throw ''SNAPSHOT_INCOMPLETE''
             | Inr reader \<Rightarrow> and_then (map_results (\<lambda>c. and_then (close_text (bs_timeframe s) c) (read_point reader (sr_id actual))) (closed_candles cs)) (\<lambda>ps.
                 if nlt (num (int (length (filter (\<lambda>p. p \<noteq> None) ps)))) (sr_point_count actual) then throw ''SNAPSHOT_INCOMPLETE''
                 else return (Some (read_point reader (sr_id actual))))))
      | _ \<Rightarrow> throw ''SNAPSHOT_INCOMPLETE'')"

definition verify_sentiment_reference :: "sentiment_api option \<Rightarrow> sentiment_ref \<Rightarrow> snapshot_ref \<Rightarrow> candle list \<Rightarrow> sentiment_ref result" where
  "verify_sentiment_reference api reference snap cs = (case api of None \<Rightarrow> throw ''SENTIMENT_NOT_CONFIGURED''
     | Some a \<Rightarrow> (case sa_get_ref a (sr_id reference) of Inl _ \<Rightarrow> throw ''SNAPSHOT_INCOMPLETE''
       | Inr actual \<Rightarrow>
         if sentiment_reference_bad actual reference (md_base_asset (sn_metadata snap)) (sn_timeframe snap) cs
         then throw ''SNAPSHOT_INCOMPLETE''
         else (case sa_read a (sr_id actual) of Inl _ \<Rightarrow> throw ''SNAPSHOT_INCOMPLETE'' | Inr _ \<Rightarrow> return actual)))"

section \<open>Creating a scope\<close>

record scope_request =
  sx_name :: string
  sx_snapshot_id :: string
  sx_sentiment :: "sentiment_ref option"
  sx_sentiment_create :: "sentiment_command option"
  sx_initial_capital :: number
  sx_fee_rate_percent :: number
  sx_slippage_bps :: number
  sx_warmup_capacity :: "number option"
  sx_score_formula :: string
  sx_risk_policy :: "risk_policy option"
  sx_worker_version :: string
  sx_worker_sha256 :: string
  sx_evaluation_version :: string
  sx_evaluation_sha256 :: string

definition warmup_capacity_of :: "scope_request \<Rightarrow> number" where
  "warmup_capacity_of c = (case sx_warmup_capacity c of None \<Rightarrow> default_warmup_capacity | Some w \<Rightarrow> w)"

definition validate_scope_request :: "scope_request \<Rightarrow> unit result" where
  "validate_scope_request c =
     (if trim (sx_name c) = [] \<or> trim (sx_score_formula c) = [] \<or>
         \<not> is_finite (sx_initial_capital c) \<or> nle (sx_initial_capital c) (num 0) \<or>
         \<not> is_finite (sx_fee_rate_percent c) \<or> nlt (sx_fee_rate_percent c) (num 0) \<or>
         \<not> is_integer (sx_slippage_bps c) \<or> nlt (sx_slippage_bps c) (num 0) \<or>
         \<not> is_integer (warmup_capacity_of c) \<or> nlt (warmup_capacity_of c) (num 0) \<or>
         nlt (num (int max_warmup_candles)) (warmup_capacity_of c)
      then throw ''INVALID_BENCHMARK_SCOPE''
      else if \<not> is_sha256 (sx_worker_sha256 c) \<or> \<not> is_sha256 (sx_evaluation_sha256 c) then throw ''INVALID_BENCHMARK_SCOPE''
      else reject_if (sx_sentiment c \<noteq> None \<and> sx_sentiment_create c \<noteq> None) ''INVALID_SENTIMENT_SELECTION'')"

text \<open>The pages of the market module's snapshot are read until one has no cursor; \<open>None\<close> when \<open>fuel\<close> pages were not enough.\<close>

type_synonym snapshot_pages = "string \<Rightarrow> string option \<Rightarrow> (snapshot_ref \<times> candle list \<times> string option) result"

fun read_rest :: "snapshot_pages \<Rightarrow> nat \<Rightarrow> string \<Rightarrow> string option \<Rightarrow> candle list \<Rightarrow> candle list result option" where
  "read_rest pages n i cursor acc = (case present cursor of None \<Rightarrow> Some (return acc)
     | Some c \<Rightarrow> (case n of 0 \<Rightarrow> None
        | Suc m \<Rightarrow> (case pages i (Some c) of Inl e \<Rightarrow> Some (throw e)
            | Inr (_, cs, next_cursor) \<Rightarrow> read_rest pages m i next_cursor (acc @ cs))))"

definition capture_snapshot :: "snapshot_pages \<Rightarrow> nat \<Rightarrow> string \<Rightarrow> backtests \<Rightarrow> (backtests \<times> snapshot_ref \<times> candle list) result option" where
  "capture_snapshot pages fuel i r = (case pages i None of Inl e \<Rightarrow> Some (throw e)
     | Inr (snap, cs, cursor) \<Rightarrow> map_option (\<lambda>res. and_then res (\<lambda>all.
         let (r1, stored) = create_input_snapshot snap all r in return (r1, stored, all))) (read_rest pages fuel i cursor cs))"

definition resolve_sentiment :: "sentiment_api option \<Rightarrow> scope_request \<Rightarrow> snapshot_ref \<Rightarrow> candle list \<Rightarrow> sentiment_ref option result" where
  "resolve_sentiment api c snap cs = (case sx_sentiment c of
     Some reference \<Rightarrow> and_then (verify_sentiment_reference api reference snap cs) (\<lambda>a. return (Some a))
   | None \<Rightarrow> (case sx_sentiment_create c of None \<Rightarrow> return None
      | Some k \<Rightarrow> (case api of None \<Rightarrow> throw ''SENTIMENT_NOT_CONFIGURED''
          | Some a \<Rightarrow> (case sa_create a k of Inl _ \<Rightarrow> throw ''SNAPSHOT_INCOMPLETE''
             | Inr created \<Rightarrow> and_then (verify_sentiment_reference api created snap cs) (\<lambda>x. return (Some x))))))"

record bench_env =
  be_descriptors :: "bench_descriptor list"
  be_sentiment :: "sentiment_api option"
  be_pages :: snapshot_pages
  be_fuel :: nat
  be_sha256 :: "string \<Rightarrow> string"
  be_simulator_version :: string
  be_simulator_sha256 :: string

definition default_provenance :: "bench_env \<Rightarrow> simulator_provenance" where
  "default_provenance env = \<lparr>pv_simulator_version = Some (be_simulator_version env), pv_simulator_sha256 = Some (be_simulator_sha256 env),
     pv_timezone = Some ''UTC'', pv_fill_policy_id = Some fill_policy_id, pv_opposite_signal_policy_id = Some opposite_signal_policy_id,
     pv_same_candle_policy_id = Some ''ENTRY_THEN_PROTECTIVE_EXIT_THEN_CLOSE_V1'', pv_guarantee = Some ''SEALED_INPUTS_AND_RETAINED_ARTIFACTS''\<rparr>"

definition assert_auth :: "string \<Rightarrow> unit result" where
  "assert_auth user = reject_if (trim user = []) ''INVALID_AUTH_CONTEXT''"

definition scope_of_request :: "bench_env \<Rightarrow> string \<Rightarrow> scope_request \<Rightarrow> snapshot_ref \<Rightarrow> sentiment_ref option \<Rightarrow> string \<Rightarrow> string \<Rightarrow> bench_scope" where
  "scope_of_request env user c snap sentiment new_id now = \<lparr>bs_id = new_id, bs_owner = user, bs_name = sx_name c, bs_snapshot = snap,
     bs_sentiment = sentiment, bs_worker_version = sx_worker_version c, bs_worker_sha256 = sx_worker_sha256 c,
     bs_evaluation_version = sx_evaluation_version c, bs_evaluation_sha256 = sx_evaluation_sha256 c,
     bs_provenance = default_provenance env, bs_pair = sn_pair snap, bs_timeframe = sn_timeframe snap, bs_from = sn_from snap,
     bs_to = sn_to snap, bs_snapshot_id = sn_id snap, bs_snapshot_sha256 = sn_sha256 snap, bs_warmup_capacity = warmup_capacity_of c,
     bs_initial_capital = sx_initial_capital c, bs_fee_rate_percent = sx_fee_rate_percent c, bs_slippage_bps = sx_slippage_bps c,
     bs_risk_policy = sx_risk_policy c, bs_score_formula = sx_score_formula c, bs_created_at = now\<rparr>"

text \<open>\<open>None\<close>: the market module's pages did not end within the fuel.\<close>

definition create_benchmark_scope :: "bench_env \<Rightarrow> string \<Rightarrow> scope_request \<Rightarrow> string \<Rightarrow> string \<Rightarrow> string \<Rightarrow> backtests \<Rightarrow>
    (backtests \<times> bench_scope) result option" where
  "create_benchmark_scope env user c key new_id now r =
     (case and_then (assert_auth user) (\<lambda>_. reject_if (trim key = []) ''INVALID_BENCHMARK_SCOPE'') of Inl e \<Rightarrow> Some (throw e)
      | Inr _ \<Rightarrow> (case find_scope_by_key user key r of Some s \<Rightarrow> Some (return (r, s))
        | None \<Rightarrow> (case validate_scope_request c of Inl e \<Rightarrow> Some (throw e)
          | Inr _ \<Rightarrow> map_option (\<lambda>res. and_then res (\<lambda>(r1, snap, cs).
              and_then (resolve_sentiment (be_sentiment env) c snap cs) (\<lambda>sentiment.
                return (create_scope (scope_of_request env user c snap sentiment new_id now) key r1))))
              (capture_snapshot (be_pages env) (be_fuel env) (sx_snapshot_id c) r))))"

definition owned_bench_scope :: "string \<Rightarrow> string \<Rightarrow> backtests \<Rightarrow> bench_scope result" where
  "owned_bench_scope user i r = and_then (assert_auth user) (\<lambda>_. case read_scope i (Some user) r of
     None \<Rightarrow> throw ''BACKTEST_SCOPE_NOT_FOUND'' | Some s \<Rightarrow> return s)"

definition list_benchmark_scopes :: "string \<Rightarrow> backtests \<Rightarrow> bench_scope list result" where
  "list_benchmark_scopes user r = and_then (assert_auth user) (\<lambda>_. return (list_scopes_by_owner user r))"

definition delete_benchmark_scope :: "string \<Rightarrow> string \<Rightarrow> backtests \<Rightarrow> (backtests \<times> bool) result" where
  "delete_benchmark_scope user i r = and_then (owned_bench_scope user i r) (\<lambda>s.
     let (r1, deleted) = delete_scope (bs_id s) user r
     in if deleted then return (r1, True) else throw ''BACKTEST_SCOPE_NOT_FOUND'')"

end
