(* ===== verification/BacktestProtocol.thy ===== *)
theory BacktestProtocol
  imports BacktestRepo
begin

text \<open>
  The protocol of the backtesting repository: the life cycle of a candidate as an abstract
  status machine that every operation of the store refines, the fences and leases that keep
  workers and completion processors apart, and the places where the protocol is weaker than
  it means to be.
\<close>

section \<open>Operations on one row\<close>

lemma js_get_member: "list_all P m \<Longrightarrow> js_get m k = Some v \<Longrightarrow> P (k, v)"
  by (auto simp: js_get_def list_all_iff dest: map_of_SomeD)

lemma js_set_all: "list_all P m \<Longrightarrow> P (k, v) \<Longrightarrow> list_all P (js_set k v m)"
  by (induction m) (auto simp: js_set_def)

lemma filter_all: "list_all P m \<Longrightarrow> list_all P (filter Q m)"
  by (auto simp: list_all_iff)

lemma put_candidate_simps [simp]:
  "bt_candidates (put_candidate c r) = js_set (cn_id c) c (bt_candidates r)"
  "bt_attempts (put_candidate c r) = bt_attempts r"
  "bt_dispatches (put_candidate c r) = bt_dispatches r"
  "bt_candidates (put_attempt a r) = bt_candidates r"
  "bt_attempts (put_attempt a r) = js_set (at_id a) a (bt_attempts r)"
  "bt_dispatches (put_attempt a r) = bt_dispatches r"
  by (simp_all add: put_candidate_def put_attempt_def)

lemma close_running_candidates [simp]: "bt_candidates (close_running sha c a as now err r) = bt_candidates r"
  by (simp add: close_running_def split: option.split)

lemma release_worker_simps [simp]:
  "cn_id (release_worker c) = cn_id c" "cn_status (release_worker c) = cn_status c"
  "cn_fence_token (release_worker c) = None" "cn_lease_expires_at (release_worker c) = None"
  "cn_claim_token (release_worker c) = cn_claim_token c"
  "cn_completion_attempts (release_worker c) = cn_completion_attempts c"
  "cn_completion_max (release_worker c) = cn_completion_max c"
  by (simp_all add: release_worker_def)

lemma release_completion_simps [simp]:
  "cn_id (release_completion c) = cn_id c" "cn_status (release_completion c) = cn_status c"
  "cn_fence_token (release_completion c) = cn_fence_token c" "cn_claim_token (release_completion c) = None"
  "cn_completion_attempts (release_completion c) = cn_completion_attempts c"
  "cn_completion_max (release_completion c) = cn_completion_max c"
  by (simp_all add: release_completion_def)

section \<open>The candidate's life cycle\<close>

text \<open>The status machine the repository implements. The last two rules are what \<^verbatim>\<open>failCompletion\<close> allows.\<close>

inductive lifecycle :: "candidate_status \<Rightarrow> candidate_status \<Rightarrow> bool" where
  stays: "lifecycle s s"
| start: "s \<in> {QUEUED, RETRY_WAIT, BACKTESTING} \<Longrightarrow> lifecycle s BACKTESTING"
| retry: "lifecycle BACKTESTING RETRY_WAIT"
| give_up: "\<not> terminal s \<Longrightarrow> lifecycle s TERMINAL_FAILURE_PENDING"
| worked: "lifecycle BACKTESTING PROCESSING_RESULT"
| succeed: "lifecycle PROCESSING_RESULT COMPLETED"
| fail: "s \<in> {PROCESSING_RESULT, TERMINAL_FAILURE_PENDING} \<Longrightarrow> lifecycle s FAILED"
| cancel: "\<not> terminal s \<Longrightarrow> lifecycle s CANCELLED"
| reprocess: "lifecycle TERMINAL_FAILURE_PENDING PROCESSING_RESULT"
| revive: "s \<in> {PROCESSING_RESULT, FAILED} \<Longrightarrow> lifecycle CANCELLED s"

inductive_cases completed_step: "lifecycle COMPLETED s"
inductive_cases failed_step: "lifecycle FAILED s"
inductive_simps cancelled_step: "lifecycle CANCELLED s"

text \<open>Which claims a candidate may hold in which status.\<close>

definition candidate_ok :: "candidate \<Rightarrow> bool" where
  "candidate_ok c = (cn_completion_attempts c \<le> cn_completion_max c \<and>
     (cn_fence_token c \<noteq> None \<longrightarrow> cn_status c \<in> {BACKTESTING, CANCELLED} \<and> cn_claim_token c = None) \<and>
     (cn_claim_token c \<noteq> None \<longrightarrow> cn_status c \<in> {PROCESSING_RESULT, TERMINAL_FAILURE_PENDING, CANCELLED}))"

definition repo_ok :: "backtests \<Rightarrow> bool" where
  "repo_ok r = (js_wf (bt_candidates r) \<and> list_all (\<lambda>(i, c). cn_id c = i \<and> candidate_ok c) (bt_candidates r))"

definition new_candidate :: "candidate \<Rightarrow> bool" where
  "new_candidate c = (cn_status c = QUEUED \<and> cn_fence_token c = None \<and> cn_claim_token c = None \<and>
     cn_completion_attempts c = 0)"

text \<open>One candidate under one operation.\<close>

definition evolves :: "candidate \<Rightarrow> candidate \<Rightarrow> bool" where
  "evolves c c' = (cn_id c' = cn_id c \<and> candidate_ok c' \<and> lifecycle (cn_status c) (cn_status c') \<and>
     (cn_status c \<in> {COMPLETED, FAILED} \<longrightarrow> c' = c))"

text \<open>An operation of the store as every candidate sees it: it stays or evolves, is deleted, or is new.\<close>

definition candidates_evolve :: "backtests \<Rightarrow> backtests \<Rightarrow> bool" where
  "candidates_evolve r r' = (\<forall>i. case js_get (bt_candidates r') i of
     None \<Rightarrow> True
   | Some c' \<Rightarrow> (case js_get (bt_candidates r) i of None \<Rightarrow> new_candidate c'
        | Some c \<Rightarrow> c' = c \<or> evolves c c'))"

lemma repo_ok_get: "repo_ok r \<Longrightarrow> js_get (bt_candidates r) i = Some c \<Longrightarrow> cn_id c = i \<and> candidate_ok c"
  using js_get_member [of _ "bt_candidates r" i c] unfolding repo_ok_def by fastforce

lemma repo_ok_same: "repo_ok r \<Longrightarrow> bt_candidates r' = bt_candidates r \<Longrightarrow> repo_ok r' \<and> candidates_evolve r r'"
  by (auto simp: repo_ok_def candidates_evolve_def split: option.split)

lemma repo_ok_put:
  assumes "repo_ok r" "js_get (bt_candidates r) i = Some c" "evolves c c'"
    "bt_candidates r' = js_set (cn_id c') c' (bt_candidates r)"
  shows "repo_ok r' \<and> candidates_evolve r r'"
proof -
  have i: "cn_id c' = i" "candidate_ok c'" using repo_ok_get [OF assms(1,2)] assms(3) by (simp_all add: evolves_def)
  then have "repo_ok r'" using assms(1) by (auto simp: repo_ok_def assms(4) store_simps intro!: js_set_all)
  moreover have "candidates_evolve r r'"
    using assms(2,3) i by (auto simp: candidates_evolve_def assms(4) store_simps split: option.split)
  ultimately show ?thesis ..
qed

section \<open>Every operation refines the life cycle\<close>

lemma evolvesI:
  "cn_id c' = cn_id c \<Longrightarrow> candidate_ok c' \<Longrightarrow> lifecycle (cn_status c) (cn_status c') \<Longrightarrow>
    cn_status c \<noteq> COMPLETED \<Longrightarrow> cn_status c \<noteq> FAILED \<Longrightarrow> evolves c c'"
  by (simp add: evolves_def)

lemma cn_simps [simp]:
  "cn_id (claimed_candidate c q) = cn_id c" "cn_id (abandoned b now err c) = cn_id c"
  "cn_id (worker_failed b now err c) = cn_id c" "cn_id (repaired err now c) = cn_id c"
  "cn_id (worker_succeeded now c) = cn_id c" "cn_id (completion_claimed token now lease c) = cn_id c"
  "cn_id (completed x now c) = cn_id c" "cn_id (terminally_failed now c) = cn_id c"
  "cn_id (failed_completion t now err c) = cn_id c" "cn_id (cancelled now c) = cn_id c"
  by (simp_all add: claimed_candidate_def abandoned_def worker_failed_def repaired_def worker_succeeded_def
      completion_claimed_def completed_def terminally_failed_def failed_completion_def cancelled_def Let_def)

lemma claimed_candidate_evolves:
  assumes "candidate_ok c" "worker_claimable c q"
  shows "evolves c (claimed_candidate c q)"
proof (rule evolvesI)
  show "candidate_ok (claimed_candidate c q)" using assms
    by (auto simp: candidate_ok_def worker_claimable_def claimed_candidate_def)
  show "lifecycle (cn_status c) (cn_status (claimed_candidate c q))" using assms(2)
    by (simp add: worker_claimable_def claimed_candidate_def lifecycle.start)
qed (use assms(2) in \<open>auto simp: worker_claimable_def\<close>)

lemma abandoned_evolves:
  assumes "candidate_ok c" "cn_status c = BACKTESTING"
  shows "evolves c (abandoned b now err c)"
proof (rule evolvesI)
  show "candidate_ok (abandoned b now err c)" using assms by (simp add: candidate_ok_def abandoned_def)
  show "lifecycle (cn_status c) (cn_status (abandoned b now err c))" using assms(2)
    by (simp add: abandoned_def lifecycle.retry lifecycle.give_up)
qed (use assms(2) in simp_all)

lemma worker_failed_evolves:
  assumes "candidate_ok c" "cn_fence_token c \<noteq> None"
  shows "evolves c (worker_failed b now err c)"
proof (rule evolvesI)
  have s: "cn_status c = BACKTESTING \<or> cn_status c = CANCELLED" and t: "cn_claim_token c = None"
    using assms by (auto simp: candidate_ok_def)
  show "candidate_ok (worker_failed b now err c)" using assms(1) t by (auto simp: candidate_ok_def worker_failed_def)
  show "lifecycle (cn_status c) (cn_status (worker_failed b now err c))" using s
    by (auto simp: worker_failed_def lifecycle.retry lifecycle.give_up lifecycle.stays)
  show "cn_status c \<noteq> COMPLETED" "cn_status c \<noteq> FAILED" using s by auto
qed simp

lemma worker_succeeded_evolves:
  assumes "candidate_ok c" "cn_fence_token c \<noteq> None"
  shows "evolves c (worker_succeeded now c)"
proof (rule evolvesI)
  have s: "cn_status c = BACKTESTING \<or> cn_status c = CANCELLED" and t: "cn_claim_token c = None"
    using assms by (auto simp: candidate_ok_def)
  show "candidate_ok (worker_succeeded now c)" using assms(1) t by (auto simp: candidate_ok_def worker_succeeded_def)
  show "lifecycle (cn_status c) (cn_status (worker_succeeded now c))" using s
    by (auto simp: worker_succeeded_def lifecycle.worked lifecycle.stays)
  show "cn_status c \<noteq> COMPLETED" "cn_status c \<noteq> FAILED" using s by auto
qed simp

lemma repaired_evolves:
  assumes "candidate_ok c" "\<not> terminal (cn_status c)"
  shows "evolves c (repaired err now c)"
proof (rule evolvesI)
  show "candidate_ok (repaired err now c)" using assms(1) by (auto simp: candidate_ok_def repaired_def)
  show "lifecycle (cn_status c) (cn_status (repaired err now c))" using assms(2)
    by (simp add: repaired_def lifecycle.give_up)
qed (use assms(2) in auto)

lemma completion_claimed_evolves:
  assumes "candidate_ok c" "completion_claimable c now"
  shows "evolves c (completion_claimed token now lease c)"
proof (rule evolvesI)
  show "candidate_ok (completion_claimed token now lease c)" using assms
    by (auto simp: candidate_ok_def completion_claimable_def awaiting_completion_def completion_claimed_def)
qed (use assms(2) in \<open>auto simp: completion_claimable_def awaiting_completion_def completion_claimed_def lifecycle.stays\<close>)

lemma completed_evolves:
  assumes "candidate_ok c" "cn_status c = PROCESSING_RESULT"
  shows "evolves c (completed x now c)"
proof (rule evolvesI)
  show "candidate_ok (completed x now c)" using assms by (simp add: candidate_ok_def completed_def)
qed (use assms(2) in \<open>simp_all add: completed_def lifecycle.succeed\<close>)

lemma terminally_failed_evolves:
  assumes "candidate_ok c" "cn_status c = TERMINAL_FAILURE_PENDING"
  shows "evolves c (terminally_failed now c)"
proof (rule evolvesI)
  show "candidate_ok (terminally_failed now c)" using assms by (simp add: candidate_ok_def terminally_failed_def)
qed (use assms(2) in \<open>simp_all add: terminally_failed_def lifecycle.fail\<close>)

lemma failed_completion_evolves:
  assumes "candidate_ok c" "cn_claim_token c \<noteq> None"
  shows "evolves c (failed_completion t now err c)"
proof (rule evolvesI)
  have s: "cn_status c \<in> {PROCESSING_RESULT, TERMINAL_FAILURE_PENDING, CANCELLED}" and f: "cn_fence_token c = None"
    using assms by (auto simp: candidate_ok_def)
  show "candidate_ok (failed_completion t now err c)" using assms(1) f
    by (auto simp: candidate_ok_def failed_completion_def Let_def)
  show "lifecycle (cn_status c) (cn_status (failed_completion t now err c))" using s
    by (auto simp: failed_completion_def Let_def lifecycle.fail lifecycle.stays lifecycle.reprocess lifecycle.revive)
  show "cn_status c \<noteq> COMPLETED" "cn_status c \<noteq> FAILED" using s by auto
qed simp

lemma cancelled_evolves:
  assumes "candidate_ok c" "\<not> terminal (cn_status c)"
  shows "evolves c (cancelled now c)"
proof (rule evolvesI)
  show "candidate_ok (cancelled now c)" using assms by (auto simp: candidate_ok_def cancelled_def)
  show "lifecycle (cn_status c) (cn_status (cancelled now c))" using assms(2)
    by (simp add: cancelled_def lifecycle.cancel)
qed (use assms(2) in auto)

section \<open>Steps of the store\<close>

text \<open>The operations on candidates, one rule each; \<open>other\<close> is every operation on the other maps.\<close>

inductive repo_step :: "backtests \<Rightarrow> backtests \<Rightarrow> bool" where
  submission: "new_candidate c \<Longrightarrow> js_get (bt_candidates r) (cn_id c) = None \<Longrightarrow>
    repo_step r (fst (create_queued_submission c d key r))"
| recovery: "repo_step r (fst (recover_abandoned_attempt sha i now err r))"
| worker_claim: "claim_worker_attempt q r = Some (r', c, a) \<Longrightarrow> repo_step r r'"
| worker_failure: "fail_worker_attempt i j token retrying now err r = return r' \<Longrightarrow> repo_step r r'"
| repair: "repo_step r (repair_terminal_queue_failure sha i err now r)"
| worker_success: "persist_worker_success i j result token r = return r' \<Longrightarrow> repo_step r r'"
| completion_claim: "claim_completion i token now lease r = Some (r', c) \<Longrightarrow> repo_step r r'"
| completion: "finalize_completion i generation x token now r = return r' \<Longrightarrow> repo_step r r'"
| terminal_failure: "finalize_terminal_failure i generation token now r = return r' \<Longrightarrow> repo_step r r'"
| completion_failure: "fail_completion i generation token t now err r = return r' \<Longrightarrow> repo_step r r'"
| cancellation: "js_get (bt_candidates r) i = Some c \<Longrightarrow> \<not> terminal (cn_status c) \<Longrightarrow>
    repo_step r (put_candidate (cancelled now c) r)"
| deletion: "repo_step r (fst (delete_scope i owner r))"
| other: "bt_candidates r' = bt_candidates r \<Longrightarrow> repo_step r r'"

inductive reachable_repo :: "backtests \<Rightarrow> bool" where
  init: "reachable_repo empty_backtests"
| step: "reachable_repo r \<Longrightarrow> repo_step r r' \<Longrightarrow> reachable_repo r'"

lemma repo_ok_evolve:
  assumes "repo_ok r" "js_get (bt_candidates r) i = Some c" "candidate_ok c \<Longrightarrow> evolves c c'"
    "bt_candidates r' = js_set (cn_id c) c' (bt_candidates r)"
  shows "repo_ok r' \<and> candidates_evolve r r'"
proof -
  have e: "evolves c c'" using assms(3) repo_ok_get [OF assms(1,2)] by simp
  show ?thesis by (rule repo_ok_put [OF assms(1,2) e]) (use e assms(4) in \<open>simp add: evolves_def\<close>)
qed

lemma fencedE:
  assumes "fenced i j token r = return (c, a)"
  shows "js_get (bt_candidates r) i = Some c" "js_get (bt_attempts r) j = Some a"
    "cn_fence_token c = Some token" "at_fence_token a = Some token"
  using assms by (auto simp: fenced_def split: option.splits if_splits)

lemma submission_ok:
  assumes "repo_ok r" "new_candidate c" "js_get (bt_candidates r) (cn_id c) = None"
  shows "repo_ok (fst (create_queued_submission c d key r)) \<and> candidates_evolve r (fst (create_queued_submission c d key r))"
proof (cases "existing_submission c key r")
  case None
  have b: "bt_candidates (fst (create_queued_submission c d key r)) = js_set (cn_id c) c (bt_candidates r)"
    using None by (simp add: create_queued_submission_def create_candidate_def Let_def split: option.split)
  have "repo_ok (fst (create_queued_submission c d key r))"
    using assms(1,2) unfolding repo_ok_def b by (auto intro!: js_set_all simp: candidate_ok_def new_candidate_def store_simps)
  then show ?thesis using assms(2,3)
    by (auto simp: candidates_evolve_def b store_simps split: option.split)
next
  case (Some x)
  then show ?thesis using repo_ok_same [OF assms(1) refl] by (simp add: create_queued_submission_def)
qed

lemma get_filter:
  assumes "js_wf m" "js_get (filter P m) i = Some c"
  shows "js_get m i = Some c"
proof -
  have "(i, c) \<in> set m" using assms(2) by (auto simp: js_get_def dest: map_of_SomeD)
  then show ?thesis using assms(1) by (simp add: js_get_def js_wf_def)
qed

lemma js_wf_filter: "js_wf m \<Longrightarrow> js_wf (filter P m)"
  by (simp add: js_wf_def distinct_map_filter)

lemma deletion_ok:
  assumes "repo_ok r"
  shows "repo_ok (fst (delete_scope i owner r)) \<and> candidates_evolve r (fst (delete_scope i owner r))"
proof (cases "bt_candidates (fst (delete_scope i owner r)) = bt_candidates r")
  case True
  then show ?thesis by (rule repo_ok_same [OF assms])
next
  case False
  let ?m = "filter (\<lambda>(_, c). cn_scope c \<noteq> i) (bt_candidates r)"
  have b: "bt_candidates (fst (delete_scope i owner r)) = ?m"
    using False by (auto simp: delete_scope_def split: option.splits if_splits)
  have w: "js_wf (bt_candidates r)" using assms by (simp add: repo_ok_def)
  have "repo_ok (fst (delete_scope i owner r))"
    using assms w unfolding repo_ok_def b by (auto intro: filter_all js_wf_filter)
  moreover have "candidates_evolve r (fst (delete_scope i owner r))"
    unfolding candidates_evolve_def b using get_filter [OF w] by (auto split: option.split) 
  ultimately show ?thesis ..
qed

lemma recover_candidates:
  assumes "js_get (bt_candidates r) i = Some c"
  shows "bt_candidates (fst (recover_abandoned_attempt sha i now err r)) = bt_candidates r \<or>
    (\<exists>b. bt_candidates (fst (recover_abandoned_attempt sha i now err r)) =
       js_set (cn_id c) (abandoned b now err c) (bt_candidates r) \<and> cn_status c = BACKTESTING)"
proof (cases "cn_status c \<noteq> BACKTESTING \<or> present (cn_lease_expires_at c) = None \<or> in_future (cn_lease_expires_at c) now")
  case True
  then show ?thesis using assms by (simp add: recover_abandoned_attempt_def)
next
  case False
  then show ?thesis using assms
    by (cases "js_get (bt_dispatches r) (cn_queue_job c)")
      (auto simp: recover_abandoned_attempt_def Let_def close_running_def split: option.split)
qed

lemma repair_candidates:
  assumes "js_get (bt_candidates r) i = Some c"
  shows "bt_candidates (repair_terminal_queue_failure sha i err now r) = bt_candidates r \<or>
    bt_candidates (repair_terminal_queue_failure sha i err now r) =
      js_set (cn_id c) (repaired err now c) (bt_candidates r) \<and> \<not> terminal (cn_status c)"
  using assms by (cases "terminal (cn_status c) \<or> cn_status c = TERMINAL_FAILURE_PENDING")
    (auto simp: repair_terminal_queue_failure_def Let_def)

lemma repo_step_ok:
  assumes "repo_step r r'" "repo_ok r"
  shows "repo_ok r' \<and> candidates_evolve r r'"
  using assms
proof (cases rule: repo_step.cases)
  case (submission c d key)
  then show ?thesis using submission_ok assms(2) by blast
next
  case (recovery sha i now err)
  show ?thesis
  proof (cases "js_get (bt_candidates r) i")
    case (Some c)
    then consider "bt_candidates r' = bt_candidates r"
      | b where "bt_candidates r' = js_set (cn_id c) (abandoned b now err c) (bt_candidates r)" "cn_status c = BACKTESTING"
      using recover_candidates [OF Some, of sha now err] recovery by blast
    then show ?thesis
    proof cases
      case 1
      then show ?thesis by (rule repo_ok_same [OF assms(2)])
    next
      case 2
      then show ?thesis using repo_ok_evolve [OF assms(2) Some] abandoned_evolves by blast
    qed
  qed (use repo_ok_same [OF assms(2) refl] in \<open>simp add: recovery recover_abandoned_attempt_def\<close>)
next
  case (worker_claim q c' a)
  then obtain c where c: "js_get (bt_candidates r) (wr_candidate q) = Some c" "worker_claimable c q"
    and r': "bt_candidates r' = js_set (cn_id c) (claimed_candidate c q) (bt_candidates r)"
    by (auto simp: claim_worker_attempt_def Let_def split: option.splits if_splits)
  then show ?thesis using repo_ok_evolve [OF assms(2) c(1) _ r'] claimed_candidate_evolves by blast
next
  case (worker_failure i j token retrying now err)
  then obtain c a where f: "fenced i j token r = return (c, a)"
    and r': "bt_candidates r' = js_set (cn_id c) (worker_failed retrying now err c) (bt_candidates r)"
    by (auto simp: fail_worker_attempt_def Let_def elim!: and_then_returnE split: prod.splits)
  then show ?thesis using repo_ok_evolve [OF assms(2) fencedE(1) [OF f] _ r'] worker_failed_evolves fencedE(3) [OF f] by simp
next
  case (repair sha i err now)
  show ?thesis
  proof (cases "js_get (bt_candidates r) i")
    case (Some c)
    then consider "bt_candidates r' = bt_candidates r"
      | "bt_candidates r' = js_set (cn_id c) (repaired err now c) (bt_candidates r)" "\<not> terminal (cn_status c)"
      using repair_candidates [OF Some, of sha err now] repair by blast
    then show ?thesis
    proof cases
      case 1
      then show ?thesis by (rule repo_ok_same [OF assms(2)])
    next
      case 2
      then show ?thesis using repo_ok_evolve [OF assms(2) Some] repaired_evolves by blast
    qed
  qed (use repo_ok_same [OF assms(2) refl] in \<open>simp add: repair repair_terminal_queue_failure_def\<close>)
next
  case (worker_success i j result token)
  then obtain c a where f: "fenced i j token r = return (c, a)"
    and r': "bt_candidates r' = js_set (cn_id c) (worker_succeeded (cb_completed_at result) c) (bt_candidates r)"
    by (auto simp: persist_worker_success_def Let_def put_attempt_def elim!: and_then_returnE split: prod.splits)
  then show ?thesis using repo_ok_evolve [OF assms(2) fencedE(1) [OF f] _ r'] worker_succeeded_evolves fencedE(3) [OF f] by simp
next
  case (completion_claim i token now lease c')
  then obtain c where c: "js_get (bt_candidates r) i = Some c" "completion_claimable c now"
    and r': "bt_candidates r' = js_set (cn_id c) (completion_claimed token now lease c) (bt_candidates r)"
    by (auto simp: claim_completion_def Let_def split: option.splits if_splits)
  then show ?thesis using repo_ok_evolve [OF assms(2) c(1) _ r'] completion_claimed_evolves by blast
next
  case (completion i generation x token now)
  then obtain c where c: "js_get (bt_candidates r) i = Some c" "cn_status c = PROCESSING_RESULT"
    and r': "bt_candidates r' = js_set (cn_id c) (completed x now c) (bt_candidates r)"
    by (auto simp: finalize_completion_def split: option.splits if_splits)
  then show ?thesis using repo_ok_evolve [OF assms(2) c(1) _ r'] completed_evolves by blast
next
  case (terminal_failure i generation token now)
  then obtain c where c: "js_get (bt_candidates r) i = Some c" "cn_status c = TERMINAL_FAILURE_PENDING"
    and r': "bt_candidates r' = js_set (cn_id c) (terminally_failed now c) (bt_candidates r)"
    by (auto simp: finalize_terminal_failure_def split: option.splits if_splits)
  then show ?thesis using repo_ok_evolve [OF assms(2) c(1) _ r'] terminally_failed_evolves by blast
next
  case (completion_failure i generation token t now err)
  then obtain c where c: "js_get (bt_candidates r) i = Some c" "cn_claim_token c = Some token"
    and r': "bt_candidates r' = js_set (cn_id c) (failed_completion t now err c) (bt_candidates r)"
    by (auto simp: fail_completion_def completion_fence_def split: option.splits if_splits)
  then show ?thesis using repo_ok_evolve [OF assms(2) c(1) _ r'] failed_completion_evolves by simp
next
  case (cancellation i c now)
  then show ?thesis using repo_ok_evolve [OF assms(2), of i c "cancelled now c" r'] cancelled_evolves by simp
next
  case (deletion i owner)
  then show ?thesis using deletion_ok [OF assms(2)] by simp
next
  case other
  then show ?thesis by (rule repo_ok_same [OF assms(2)])
qed

lemma reachable_repo_ok: "reachable_repo r \<Longrightarrow> repo_ok r"
  by (induction rule: reachable_repo.induct) (auto simp: repo_ok_def empty_backtests_def dest: repo_step_ok)

section \<open>Properties of the life cycle\<close>




section \<open>Leases\<close>

text \<open>A request that is refused leaves the store as it is.\<close>

fun attempt_all :: "('q \<Rightarrow> 's \<Rightarrow> 's option) \<Rightarrow> 'q list \<Rightarrow> 's \<Rightarrow> 's" where
  "attempt_all claim [] s = s"
| "attempt_all claim (q # qs) s = attempt_all claim qs (case claim q s of None \<Rightarrow> s | Some s' \<Rightarrow> s')"

lemma date_parse_Nil: "date_parse [] = None"
  by (simp add: date_parse_def num_at_def)

lemma in_future_Some: "in_future (Some t) now \<longleftrightarrow> time_after t now"
  by (cases t) (auto simp: in_future_def time_after_def date_parse_Nil)

text \<open>The contract of a leased claim: a granted claim holds the key, a claim on a key whose lease lies in the
  future is refused, and claims on other keys do not interfere.\<close>

locale lease_protocol =
  fixes ok :: "'s \<Rightarrow> bool"
    and holder :: "'s \<Rightarrow> string \<Rightarrow> string option"
    and lease :: "'s \<Rightarrow> string \<Rightarrow> string option"
    and key :: "'q \<Rightarrow> string" and token :: "'q \<Rightarrow> string" and time :: "'q \<Rightarrow> string" and expiry :: "'q \<Rightarrow> string"
    and claim :: "'q \<Rightarrow> 's \<Rightarrow> 's option"
  assumes keeps_ok: "ok s \<Longrightarrow> claim q s = Some s' \<Longrightarrow> ok s'"
    and granted: "ok s \<Longrightarrow> claim q s = Some s' \<Longrightarrow> holder s' (key q) = Some (token q) \<and> lease s' (key q) = Some (expiry q)"
    and refused: "ok s \<Longrightarrow> in_future (lease s (key q)) (time q) \<Longrightarrow> claim q s = None"
    and others: "ok s \<Longrightarrow> claim q s = Some s' \<Longrightarrow> k \<noteq> key q \<Longrightarrow> holder s' k = holder s k \<and> lease s' k = lease s k"
begin

lemma one_claim:
  assumes "ok s" "key q = k \<Longrightarrow> in_future (lease s k) (time q)"
  shows "ok (attempt_all claim [q] s) \<and> holder (attempt_all claim [q] s) k = holder s k \<and>
    lease (attempt_all claim [q] s) k = lease s k"
proof (cases "claim q s")
  case (Some s')
  then have k: "key q \<noteq> k" using assms(2) refused [OF assms(1), of q] by auto
  show ?thesis using keeps_ok [OF assms(1) Some] others [OF assms(1) Some, of k] k Some by simp
qed (use assms(1) in simp)

lemma held_until_expiry:
  "ok s \<Longrightarrow> list_all (\<lambda>q. key q = k \<longrightarrow> in_future (lease s k) (time q)) qs \<Longrightarrow>
    holder (attempt_all claim qs s) k = holder s k \<and> lease (attempt_all claim qs s) k = lease s k"
proof (induction qs arbitrary: s)
  case (Cons q qs)
  let ?s = "attempt_all claim [q] s"
  have one: "ok ?s" "holder ?s k = holder s k" "lease ?s k = lease s k"
    using one_claim [of s q k] Cons.prems by auto
  have "holder (attempt_all claim qs ?s) k = holder ?s k \<and> lease (attempt_all claim qs ?s) k = lease ?s k"
    by (rule Cons.IH) (use one Cons.prems in auto)
  then show ?case using one by simp
qed simp

lemma claim_is_exclusive:
  assumes "ok s" "claim q s = Some s'" "list_all (\<lambda>p. key p = key q \<longrightarrow> time_after (expiry q) (time p)) qs"
  shows "holder (attempt_all claim qs s') (key q) = Some (token q)"
  using held_until_expiry [of s' "key q" qs] assms keeps_ok granted in_future_Some by (auto simp: list_all_iff)

end

definition worker_holder :: "backtests \<Rightarrow> string \<Rightarrow> string option" where
  "worker_holder r i = (case js_get (bt_candidates r) i of None \<Rightarrow> None
     | Some c \<Rightarrow> if cn_status c = BACKTESTING then cn_fence_token c else None)"

definition worker_lease :: "backtests \<Rightarrow> string \<Rightarrow> string option" where
  "worker_lease r i = (case js_get (bt_candidates r) i of None \<Rightarrow> None
     | Some c \<Rightarrow> if cn_status c = BACKTESTING then cn_lease_expires_at c else None)"

definition claim_worker :: "worker_request \<Rightarrow> backtests \<Rightarrow> backtests option" where
  "claim_worker q r = map_option fst (claim_worker_attempt q r)"

lemma claim_worker_Some:
  assumes "repo_ok r" "claim_worker q r = Some r'"
  obtains c where "js_get (bt_candidates r) (wr_candidate q) = Some c" "worker_claimable c q"
    "bt_candidates r' = js_set (wr_candidate q) (claimed_candidate c q) (bt_candidates r)"
proof -
  obtain c where c: "js_get (bt_candidates r) (wr_candidate q) = Some c" "worker_claimable c q"
      "bt_candidates r' = js_set (cn_id c) (claimed_candidate c q) (bt_candidates r)"
    using assms(2) by (auto simp: claim_worker_def claim_worker_attempt_def Let_def split: option.splits if_splits)
  then show thesis using that repo_ok_get [OF assms(1) c(1)] by simp
qed

interpretation worker_claims: lease_protocol repo_ok worker_holder worker_lease wr_candidate wr_fence_token wr_now wr_lease claim_worker
proof
  fix r r' q k
  assume r: "repo_ok r"
  show "claim_worker q r = Some r' \<Longrightarrow> repo_ok r'"
    using repo_step_ok [OF repo_step.worker_claim r] by (auto simp: claim_worker_def)
  show "claim_worker q r = Some r' \<Longrightarrow> worker_holder r' (wr_candidate q) = Some (wr_fence_token q) \<and>
      worker_lease r' (wr_candidate q) = Some (wr_lease q)"
    by (erule claim_worker_Some [OF r])
      (simp add: worker_holder_def worker_lease_def store_simps claimed_candidate_def)
  show "in_future (worker_lease r (wr_candidate q)) (wr_now q) \<Longrightarrow> claim_worker q r = None"
    by (auto simp: worker_lease_def claim_worker_def claim_worker_attempt_def worker_claimable_def worker_lease_active_def
        in_future_def split: option.splits if_splits)
  show "claim_worker q r = Some r' \<Longrightarrow> k \<noteq> wr_candidate q \<Longrightarrow>
      worker_holder r' k = worker_holder r k \<and> worker_lease r' k = worker_lease r k"
    by (erule claim_worker_Some [OF r]) (simp add: worker_holder_def worker_lease_def store_simps)
qed

record claim_request =
  cq_key :: string
  cq_token :: string
  cq_now :: string
  cq_lease :: string

definition completion_holder :: "backtests \<Rightarrow> string \<Rightarrow> string option" where
  "completion_holder r i = (case js_get (bt_candidates r) i of None \<Rightarrow> None
     | Some c \<Rightarrow> if awaiting_completion c then cn_claim_token c else None)"

definition completion_lease :: "backtests \<Rightarrow> string \<Rightarrow> string option" where
  "completion_lease r i = (case js_get (bt_candidates r) i of None \<Rightarrow> None
     | Some c \<Rightarrow> if awaiting_completion c then cn_completion_lease c else None)"

definition request_completion :: "claim_request \<Rightarrow> backtests \<Rightarrow> backtests option" where
  "request_completion q r = map_option fst (claim_completion (cq_key q) (cq_token q) (cq_now q) (cq_lease q) r)"

lemma request_completion_Some:
  assumes "repo_ok r" "request_completion q r = Some r'"
  obtains c where "js_get (bt_candidates r) (cq_key q) = Some c" "completion_claimable c (cq_now q)"
    "bt_candidates r' = js_set (cq_key q) (completion_claimed (cq_token q) (cq_now q) (cq_lease q) c) (bt_candidates r)"
proof -
  obtain c where c: "js_get (bt_candidates r) (cq_key q) = Some c" "completion_claimable c (cq_now q)"
      "bt_candidates r' = js_set (cn_id c) (completion_claimed (cq_token q) (cq_now q) (cq_lease q) c) (bt_candidates r)"
    using assms(2) by (auto simp: request_completion_def claim_completion_def Let_def split: option.splits if_splits)
  then show thesis using that repo_ok_get [OF assms(1) c(1)] by simp
qed

lemma awaiting_claimed [simp]: "awaiting_completion (completion_claimed token now lease c) = awaiting_completion c"
  by (simp add: awaiting_completion_def completion_claimed_def)

interpretation completion_claims: lease_protocol repo_ok completion_holder completion_lease cq_key cq_token cq_now cq_lease request_completion
proof
  fix r r' q k
  assume r: "repo_ok r"
  show "request_completion q r = Some r' \<Longrightarrow> repo_ok r'"
    using repo_step_ok [OF repo_step.completion_claim r] by (auto simp: request_completion_def)
  show "request_completion q r = Some r' \<Longrightarrow> completion_holder r' (cq_key q) = Some (cq_token q) \<and>
      completion_lease r' (cq_key q) = Some (cq_lease q)"
    by (erule request_completion_Some [OF r]) (simp add: completion_holder_def completion_lease_def store_simps
        completion_claimable_def, simp add: completion_claimed_def)
  show "in_future (completion_lease r (cq_key q)) (cq_now q) \<Longrightarrow> request_completion q r = None"
    by (auto simp: completion_lease_def request_completion_def claim_completion_def completion_claimable_def
        in_future_def split: option.splits if_splits)
  show "request_completion q r = Some r' \<Longrightarrow> k \<noteq> cq_key q \<Longrightarrow>
      completion_holder r' k = completion_holder r k \<and> completion_lease r' k = completion_lease r k"
    by (erule request_completion_Some [OF r]) (simp add: completion_holder_def completion_lease_def store_simps)
qed

definition replay_holder :: "backtests \<Rightarrow> string \<Rightarrow> string option" where
  "replay_holder r i = (case js_get (bt_replays r) i of None \<Rightarrow> None
     | Some v \<Rightarrow> if re_status v = Replay_Running then re_claim_token v else None)"

definition replay_lease :: "backtests \<Rightarrow> string \<Rightarrow> string option" where
  "replay_lease r i = (case js_get (bt_replays r) i of None \<Rightarrow> None
     | Some v \<Rightarrow> if re_status v = Replay_Running then re_lease_expires_at v else None)"

definition request_replay :: "claim_request \<Rightarrow> backtests \<Rightarrow> backtests option" where
  "request_replay q r = map_option fst (claim_replay (cq_key q) (cq_token q) (cq_now q) (cq_lease q) r)"

interpretation replay_claims: lease_protocol "\<lambda>_. True" replay_holder replay_lease cq_key cq_token cq_now cq_lease request_replay
  by unfold_locales
    (auto simp: replay_holder_def replay_lease_def request_replay_def claim_replay_def replay_claimable_def in_future_def
      store_simps Let_def split: option.splits if_splits)

text \<open>C15. A worker's claim is exclusive until its lease expires: whatever sequence of worker claims follows,
  by whichever workers and on whichever candidates, the candidate stays with the worker that
  claimed it as long as the claims on it are made before the lease ends.\<close>

theorem worker_claim_is_exclusive:
  assumes "reachable_repo r" "claim_worker q r = Some r'"
    "list_all (\<lambda>p. wr_candidate p = wr_candidate q \<longrightarrow> time_after (wr_lease q) (wr_now p)) ps"
  shows "worker_holder (attempt_all claim_worker ps r') (wr_candidate q) = Some (wr_fence_token q)"
  using worker_claims.claim_is_exclusive [OF reachable_repo_ok [OF assms(1)] assms(2,3)] .

text \<open>A completion claim is exclusive in the same way: no second completion processor takes a candidate
  over while the first one's lease runs.\<close>

lemma completion_claim_is_exclusive:
  assumes "reachable_repo r" "request_completion q r = Some r'"
    "list_all (\<lambda>p. cq_key p = cq_key q \<longrightarrow> time_after (cq_lease q) (cq_now p)) ps"
  shows "completion_holder (attempt_all request_completion ps r') (cq_key q) = Some (cq_token q)"
  using completion_claims.claim_is_exclusive [OF reachable_repo_ok [OF assms(1)] assms(2,3)] .

lemma replay_claim_is_exclusive:
  assumes "request_replay q r = Some r'"
    "list_all (\<lambda>p. cq_key p = cq_key q \<longrightarrow> time_after (cq_lease q) (cq_now p)) ps"
  shows "replay_holder (attempt_all request_replay ps r') (cq_key q) = Some (cq_token q)"
  using replay_claims.claim_is_exclusive [OF TrueI assms] .

text \<open>C16. A worker that lost its candidate writes nothing: once another worker has claimed the candidate with
  another token, neither the first worker's success nor its failure is stored; both throw
  BACKTEST_FENCE_LOST.\<close>

theorem superseded_worker_cannot_write:
  assumes "reachable_repo r" "claim_worker_attempt q r = Some (r', c, a)" "wr_fence_token q \<noteq> token"
  shows "persist_worker_success (wr_candidate q) j result token r' = throw ''BACKTEST_FENCE_LOST'' \<and>
    fail_worker_attempt (wr_candidate q) j token retrying now err r' = throw ''BACKTEST_FENCE_LOST''"
proof -
  have "claim_worker q r = Some r'" using assms(2) by (simp add: claim_worker_def)
  then obtain c0 where "js_get (bt_candidates r') (wr_candidate q) = Some (claimed_candidate c0 q)"
    by (rule claim_worker_Some [OF reachable_repo_ok [OF assms(1)]]) (simp add: store_simps)
  then have "fenced (wr_candidate q) j token r' = throw ''BACKTEST_FENCE_LOST''"
    using assms(3) by (auto simp: fenced_def claimed_candidate_def split: option.split)
  then show ?thesis by (simp add: persist_worker_success_def fail_worker_attempt_def)
qed

section \<open>A concrete history\<close>

definition t0 :: string where "t0 = ''2025-01-01T00:00:00.000Z''"
definition t1 :: string where "t1 = ''2025-01-01T00:01:00.000Z''"

lemma parse_t0: "date_parse t0 = Some 1735689600000" and parse_t1: "date_parse t1 = Some 1735689660000"
  by (simp_all add: t0_def t1_def date_parse_def num_at_def char_at_def read_nat_def is_digit_def digit_val_def
      parse_time_def parse_seconds_def parse_fraction_def parse_zone_def day_of_ymd_def day_from_year_def month_start_def
      is_leap_def ms_per_day_def Let_def)

lemma sample_times [simp]:
  "time_after t1 t0" "\<not> time_after t0 t0" "\<not> time_after t0 t1" "time_until t0 t0" "time_until t0 t1" "time_until t1 t1"
  "\<not> time_after t1 t1" "\<not> time_until t1 t0"
  by (simp_all add: time_after_def time_until_def parse_t0 parse_t1)

lemma time_ne [simp]: "t0 \<noteq> []" "t1 \<noteq> []"
  by (simp_all add: t0_def t1_def)

definition sample_candidate :: candidate where
  "sample_candidate = \<lparr>cn_id = ''c'', cn_origin = SEARCH, cn_selection_mode = SINGLE, cn_search_run = Some ''r'', cn_iteration = Some 1,
     cn_generated_by = Some RANDOM, cn_fingerprint = None, cn_lineage = None, cn_scope = ''s'', cn_status = QUEUED, cn_attempts = [],
     cn_max_attempts = 3, cn_active_attempt = None, cn_completion_attempts = 0, cn_completion_max = 1, cn_completion_retry_at = None,
     cn_experiment = None, cn_failure_kind = None, cn_failure_code = None, cn_last_error = None, cn_warmup = 0, cn_definitions = [],
     cn_composite = \<lparr>cd_id = ''k'', cd_user = ''u'', cd_family = ''f'', cd_version = 1, cd_method = MAJORITY_VOTE, cd_components = [],
       cd_thresholds = None, cd_created_at = t0\<rparr>, cn_execution_policy = None, cn_created_at = t0, cn_updated_at = t0,
     cn_owner = ''u'', cn_queue_job = ''c'', cn_execution_generation = 0, cn_fence_token = None, cn_lease_expires_at = None,
     cn_completion_generation = 0, cn_claim_token = None, cn_completion_lease = None\<rparr>"

definition sample_dispatch :: dispatch where
  "sample_dispatch = \<lparr>ds_job = \<lparr>qj_id = ''c'', qj_candidate = ''c'', qj_scope = ''s'', qj_max_attempts = 3, qj_worker_version = [],
     qj_worker_sha256 = [], qj_enqueued_at = t0\<rparr>, ds_state = PENDING, ds_attempts = 0, ds_last_error = None,
     ds_dispatched_at = None, ds_created_at = t0, ds_updated_at = t0\<rparr>"

definition queued_store :: backtests where
  "queued_store = fst (create_queued_submission sample_candidate sample_dispatch None empty_backtests)"

definition failing_store :: backtests where
  "failing_store = repair_terminal_queue_failure ''h'' ''c'' ''E'' t0 queued_store"

definition sample_request :: worker_request where
  "sample_request = \<lparr>wr_candidate = ''c'', wr_queue_job = ''c'', wr_delivery = 1, wr_attempt = ''a'', wr_fence_token = ''w1'',
     wr_now = t0, wr_lease = t1, wr_worker_version = [], wr_worker_sha256 = []\<rparr>"

lemma sample_id [simp]: "cn_id sample_candidate = ''c''"
  by (simp add: sample_candidate_def)

lemma queued_candidates: "bt_candidates queued_store = [(''c'', sample_candidate)]"
  by (simp add: queued_store_def create_queued_submission_def existing_submission_def empty_backtests_def js_values_def
      create_candidate_def Let_def sample_candidate_def js_set_def)

lemma queued_reachable: "reachable_repo queued_store"
  unfolding queued_store_def
  by (intro reachable_repo.step [OF reachable_repo.init] repo_step.submission)
    (simp_all add: new_candidate_def sample_candidate_def empty_backtests_def)

lemma failing_reachable: "reachable_repo failing_store"
  unfolding failing_store_def by (rule reachable_repo.step [OF queued_reachable repo_step.repair])

lemma failing_candidates: "bt_candidates failing_store = [(''c'', repaired ''E'' t0 sample_candidate)]"
  using queued_candidates
  by (auto simp: failing_store_def repair_terminal_queue_failure_def Let_def js_get_def js_set_def sample_candidate_def)

definition claimed_store :: backtests where
  "claimed_store = put_candidate (completion_claimed ''t'' t0 t1 (repaired ''E'' t0 sample_candidate)) failing_store"

lemma sample_status:
  "cn_status (repaired e n sample_candidate) = TERMINAL_FAILURE_PENDING"
  "cn_completion_retry_at (repaired e n sample_candidate) = None" "cn_completion_lease (repaired e n sample_candidate) = None"
  "cn_completion_attempts (repaired e n sample_candidate) = 0" "cn_completion_max (repaired e n sample_candidate) = 1"
  "cn_completion_generation (repaired e n sample_candidate) = 0" "cn_id (repaired e n sample_candidate) = ''c''"
  by (simp_all add: repaired_def release_worker_def sample_candidate_def)

lemma sample_claim: "claim_completion ''c'' ''t'' t0 t1 failing_store =
    Some (claimed_store, completion_claimed ''t'' t0 t1 (repaired ''E'' t0 sample_candidate))"
  by (simp add: claim_completion_def failing_candidates js_get_def completion_claimable_def awaiting_completion_def
      sample_status in_future_def claimed_store_def Let_def)

lemma claimed_reachable: "reachable_repo claimed_store"
  by (rule reachable_repo.step [OF failing_reachable repo_step.completion_claim [OF sample_claim]])

lemma claimed_candidates: "bt_candidates claimed_store = [(''c'', completion_claimed ''t'' t0 t1 (repaired ''E'' t0 sample_candidate))]"
  by (simp add: claimed_store_def failing_candidates js_set_def sample_status)

text \<open>A cancelled candidate can come back: cancelling a candidate whose completion is being processed
  keeps the processor's claim, and when the processor then reports its failure the candidate is
  put back to PROCESSING_RESULT or FAILED, although a cancelled candidate is meant to stay so.\<close>

lemma cancelled_candidate_revived:
  "\<exists>r r' c c'. reachable_repo r \<and> js_get (bt_candidates r) ''c'' = Some c \<and> cn_status c = CANCELLED \<and>
     fail_completion ''c'' 1 ''t'' None t0 ''E'' r = return r' \<and> js_get (bt_candidates r') ''c'' = Some c' \<and>
     cn_status c' \<noteq> CANCELLED"
proof -
  let ?c = "completion_claimed ''t'' t0 t1 (repaired ''E'' t0 sample_candidate)"
  let ?r = "put_candidate (cancelled t0 ?c) claimed_store"
  have g: "js_get (bt_candidates claimed_store) ''c'' = Some ?c" by (simp add: claimed_candidates js_get_def)
  have nt: "\<not> terminal (cn_status ?c)" by (simp add: completion_claimed_def sample_status)
  have "reachable_repo ?r" by (rule reachable_repo.step [OF claimed_reachable repo_step.cancellation [OF g nt]])
  moreover have c: "js_get (bt_candidates ?r) ''c'' = Some (cancelled t0 ?c)" by (simp add: store_simps sample_status)
  moreover have s: "cn_status (cancelled t0 ?c) = CANCELLED" by (simp add: cancelled_def)
  moreover have f: "completion_fence (cancelled t0 ?c) 1 ''t'' t0"
    using in_future_not_lost [of "Some t1" t0]
    by (simp add: completion_fence_def cancelled_def completion_claimed_def sample_status in_future_Some)
  let ?f = "failed_completion None t0 ''E'' (cancelled t0 ?c)"
  have "fail_completion ''c'' 1 ''t'' None t0 ''E'' ?r = return (put_candidate ?f ?r)"
    by (simp add: fail_completion_def store_simps sample_status f [simplified])
  moreover have "js_get (bt_candidates (put_candidate ?f ?r)) ''c'' = Some ?f"
    by (simp add: store_simps sample_status)
  moreover have "cn_status ?f \<noteq> CANCELLED" by (simp add: failed_completion_def Let_def)
  ultimately show ?thesis by blast
qed

lemma mem_take_all: "x \<in> set xs \<Longrightarrow> length xs \<le> n \<Longrightarrow> x \<in> set (take n xs)"
  by simp





definition finished_store :: backtests where
  "finished_store = put_candidate (terminally_failed t0 (completion_claimed ''t'' t0 t1 (repaired ''E'' t0 sample_candidate))) claimed_store"


lemma sample_worker_claim:
  "claim_worker_attempt sample_request queued_store =
    Some (put_candidate (claimed_candidate sample_candidate sample_request)
       (put_attempt (claimed_attempt sample_candidate sample_request queued_store) queued_store),
     claimed_candidate sample_candidate sample_request, claimed_attempt sample_candidate sample_request queued_store)"
  by (simp add: claim_worker_attempt_def queued_candidates js_get_def worker_claimable_def worker_lease_active_def
      sample_request_def sample_candidate_def Let_def)

lemma worker_claim_is_exclusive_witness:
  "worker_holder (attempt_all claim_worker [sample_request\<lparr>wr_fence_token := ''w2''\<rparr>]
     (put_candidate (claimed_candidate sample_candidate sample_request)
       (put_attempt (claimed_attempt sample_candidate sample_request queued_store) queued_store))) ''c'' = Some ''w1''"
  using worker_claim_is_exclusive [OF queued_reachable, of sample_request _ "[sample_request\<lparr>wr_fence_token := ''w2''\<rparr>]"]
  by (simp add: claim_worker_def sample_worker_claim del: attempt_all.simps) (simp add: sample_request_def del: attempt_all.simps)

lemma superseded_worker_cannot_write_witness:
  "fail_worker_attempt ''c'' ''a'' ''w0'' True t0 ''E'' (put_candidate (claimed_candidate sample_candidate sample_request)
       (put_attempt (claimed_attempt sample_candidate sample_request queued_store) queued_store)) = throw ''BACKTEST_FENCE_LOST''"
  using superseded_worker_cannot_write [OF queued_reachable sample_worker_claim, of "''w0''"] by (simp add: sample_request_def)

lemma completion_claim_is_exclusive_witness:
  "completion_holder (attempt_all request_completion [\<lparr>cq_key = ''c'', cq_token = ''u'', cq_now = t0, cq_lease = t1\<rparr>] claimed_store) ''c'' = Some ''t''"
  using completion_claim_is_exclusive [OF failing_reachable, of "\<lparr>cq_key = ''c'', cq_token = ''t'', cq_now = t0, cq_lease = t1\<rparr>" claimed_store
    "[\<lparr>cq_key = ''c'', cq_token = ''u'', cq_now = t0, cq_lease = t1\<rparr>]"]
  by (simp add: request_completion_def sample_claim del: attempt_all.simps)

end
