(* ===== verification/BacktestSubmit.thy ===== *)
theory BacktestSubmit
  imports BacktestScope BacktestProtocol
begin

text \<open>
  Submissions, dispatch and cancellation (\<^verbatim>\<open>BacktestingService\<close> in
  \<^verbatim>\<open>modules/backtesting/application/service.ts\<close>, \<^verbatim>\<open>InMemoryBacktestQueue\<close> included): a
  submission stores the candidate with its dispatch before anything is put on the queue, and
  the recovery sweep puts there what was lost.
\<close>

section \<open>The queue\<close>

datatype queue_payload = Backtest_Job queue_job | Replay_Job string string nat string

record backtesting =
  bk_repo :: backtests
  bk_queue :: "(string, queue_payload) jsmap"

fun payload_id :: "queue_payload \<Rightarrow> string" where
  "payload_id (Backtest_Job j) = qj_id j"
| "payload_id (Replay_Job i _ _ _) = i"

text \<open>\<open>refuse\<close> names the error with which the queue rejects a payload, if it does.\<close>

definition enqueue :: "(queue_payload \<Rightarrow> string option) \<Rightarrow> queue_payload \<Rightarrow> (string, queue_payload) jsmap \<Rightarrow> (string, queue_payload) jsmap result" where
  "enqueue refuse p q = (case refuse p of Some e \<Rightarrow> throw e
     | None \<Rightarrow> return (if js_has q (payload_id p) then q else js_set (payload_id p) p q))"

definition remove_job :: "string \<Rightarrow> (string, queue_payload) jsmap \<Rightarrow> (string, queue_payload) jsmap" where
  "remove_job i q = js_delete i q"

section \<open>Dispatch\<close>

definition dispatch_record :: "candidate \<Rightarrow> bench_scope \<Rightarrow> string \<Rightarrow> dispatch" where
  "dispatch_record c s now = \<lparr>ds_job = \<lparr>qj_id = cn_id c, qj_candidate = cn_id c, qj_scope = bs_id s,
       qj_max_attempts = cn_max_attempts c, qj_worker_version = bs_worker_version s, qj_worker_sha256 = bs_worker_sha256 s,
       qj_enqueued_at = now\<rparr>,
     ds_state = PENDING, ds_attempts = 0, ds_last_error = None, ds_dispatched_at = None, ds_created_at = now, ds_updated_at = now\<rparr>"

definition dispatch_one :: "(queue_payload \<Rightarrow> string option) \<Rightarrow> string \<Rightarrow> dispatch \<Rightarrow> backtesting \<Rightarrow> backtesting \<times> bool" where
  "dispatch_one refuse now d b =
     (if ds_state d \<noteq> PENDING then (b, False)
      else case enqueue refuse (Backtest_Job (ds_job d)) (bk_queue b) of
        Inr q \<Rightarrow> (b\<lparr>bk_queue := q, bk_repo := mark_dispatched (qj_id (ds_job d)) now (bk_repo b)\<rparr>, True)
      | Inl e \<Rightarrow> (b\<lparr>bk_repo := mark_dispatch_failed (qj_id (ds_job d)) e now (bk_repo b)\<rparr>, False))"

fun dispatch_all :: "(queue_payload \<Rightarrow> string option) \<Rightarrow> string \<Rightarrow> dispatch list \<Rightarrow> backtesting \<times> nat \<Rightarrow> backtesting \<times> nat" where
  "dispatch_all refuse now [] = (\<lambda>s. s)"
| "dispatch_all refuse now (d # ds) = (\<lambda>(b, n). let (b1, sent) = dispatch_one refuse now d b
     in dispatch_all refuse now ds (b1, if sent then n + 1 else n))"

section \<open>Submission\<close>

definition single_strategy :: "strategy_definition list \<Rightarrow> composite_definition \<Rightarrow> bool" where
  "single_strategy ds k = (length ds = 1 \<and>
     (cd_method k = WEIGHTED_SCORE \<and> length (cd_components k) = 1 \<and>
        cp_definition_id (hd (cd_components k)) = sd_id (hd ds) \<and> cp_weight (hd (cd_components k)) = num 1 \<or>
      cd_method k = MAJORITY_VOTE \<and> length (cd_components k) = 1))"

definition candidate_record :: "string \<Rightarrow> bench_scope \<Rightarrow> backtest_command \<Rightarrow> strategy_references \<Rightarrow> execution_policy \<Rightarrow> string \<Rightarrow>
    nat \<Rightarrow> string \<Rightarrow> candidate result" where
  "candidate_record owner s c rf policy new_id warmup now =
     (if \<not> is_integer (bc_max_attempts c) \<or> nlt (bc_max_attempts c) (num 1) then throw ''INVALID_BACKTEST_SUBMISSION''
      else return \<lparr>cn_id = new_id, cn_origin = (if bc_search c = None then MANUAL else SEARCH),
        cn_selection_mode = (if single_strategy (rf_definitions rf) (rf_composite rf) then SINGLE else COMPOSITE),
        cn_search_run = map_option sp_run (bc_search c), cn_iteration = map_option sp_iteration (bc_search c),
        cn_generated_by = map_option sp_generated_by (bc_search c),
        cn_fingerprint = Option.bind (bc_search c) sp_fingerprint, cn_lineage = Option.bind (bc_search c) sp_lineage,
        cn_scope = bs_id s, cn_status = QUEUED, cn_attempts = [], cn_max_attempts = nat_of_number (bc_max_attempts c),
        cn_active_attempt = None, cn_completion_attempts = 0, cn_completion_max = 5, cn_completion_retry_at = None,
        cn_experiment = None, cn_failure_kind = None, cn_failure_code = None, cn_last_error = None, cn_warmup = warmup,
        cn_definitions = rf_definitions rf, cn_composite = rf_composite rf, cn_execution_policy = Some policy,
        cn_created_at = now, cn_updated_at = now, cn_owner = owner, cn_queue_job = new_id, cn_execution_generation = 0,
        cn_fence_token = None, cn_lease_expires_at = None, cn_completion_generation = 0, cn_claim_token = None,
        cn_completion_lease = None\<rparr>)"

record accepted =
  ac_candidate :: string
  ac_job :: string
  ac_status :: candidate_status

definition accepted_of :: "candidate \<Rightarrow> accepted" where
  "accepted_of c = \<lparr>ac_candidate = cn_id c, ac_job = cn_queue_job c, ac_status = cn_status c\<rparr>"

definition scope_snapshot :: "string \<Rightarrow> backtests \<Rightarrow> (snapshot_ref \<times> candle list) result" where
  "scope_snapshot i r = (case read_input_snapshot i r of None \<Rightarrow> throw ''BACKTEST_DATASET_NOT_FOUND'' | Some x \<Rightarrow> return x)"

text \<open>The checks of \<^verbatim>\<open>submit\<close> up to the candidate record.\<close>

definition prepare_submission :: "bench_env \<Rightarrow> strategy_store \<Rightarrow> string \<Rightarrow> backtest_command \<Rightarrow> string \<Rightarrow> string \<Rightarrow> backtests \<Rightarrow>
    (bench_scope \<times> candidate) result" where
  "prepare_submission env store owner c new_id now r =
     (case read_scope (bc_scope c) (Some owner) r of None \<Rightarrow> throw ''BACKTEST_SCOPE_NOT_FOUND''
      | Some s \<Rightarrow> and_then (validate_strategy_references (be_descriptors env) store owner c) (\<lambda>rf.
          and_then (reject_if (nlt (bs_warmup_capacity s) (rf_warmup rf)) ''SNAPSHOT_INCOMPLETE'') (\<lambda>_.
          and_then (scope_snapshot (bs_snapshot_id s) r) (\<lambda>(_, cs).
          and_then (reject_if (nlt (num (int (length (filter c_is_closed cs)))) (rf_warmup rf)) ''SNAPSHOT_INCOMPLETE'') (\<lambda>_.
          and_then (load_sentiment (be_sentiment env) s cs (rf_sentiment rf)) (\<lambda>_.
          and_then (normalize_execution_policy (be_sha256 env) (bc_policy c) (Some (rf_warmup rf)) (bs_risk_policy s)) (\<lambda>policy.
          and_then (candidate_record owner s c rf policy new_id (nat_of_number (rf_warmup rf)) now) (\<lambda>k.
            return (s, k)))))))))"

definition submit_candidate :: "bench_env \<Rightarrow> (queue_payload \<Rightarrow> string option) \<Rightarrow> strategy_store \<Rightarrow> string \<Rightarrow> backtest_command \<Rightarrow>
    string option \<Rightarrow> string \<Rightarrow> string \<Rightarrow> backtesting \<Rightarrow> (backtesting \<times> accepted) result" where
  "submit_candidate env refuse store owner c key new_id now b =
     (case (case present key of None \<Rightarrow> None | Some k \<Rightarrow> find_candidate_by_submission owner k (bk_repo b)) of
        Some x \<Rightarrow> return (b, accepted_of x)
      | None \<Rightarrow> and_then (prepare_submission env store owner c new_id now (bk_repo b)) (\<lambda>(s, k).
          let d = dispatch_record k s now;
              (r1, saved) = create_queued_submission k d key (bk_repo b);
              pending = (if cn_id saved = cn_id k then Some d else read_dispatch (cn_queue_job saved) r1);
              b1 = b\<lparr>bk_repo := r1\<rparr>
          in return (case pending of None \<Rightarrow> b1 | Some p \<Rightarrow> fst (dispatch_one refuse now p b1), accepted_of saved)))"

definition start_manual :: "bench_env \<Rightarrow> (queue_payload \<Rightarrow> string option) \<Rightarrow> strategy_store \<Rightarrow> string \<Rightarrow> backtest_command \<Rightarrow>
    string option \<Rightarrow> string \<Rightarrow> string \<Rightarrow> backtesting \<Rightarrow> (backtesting \<times> accepted) result" where
  "start_manual env refuse store user c key new_id now b = and_then (assert_auth user) (\<lambda>_.
     submit_candidate env refuse store user (c\<lparr>bc_search := None\<rparr>) key new_id now b)"

definition submit_search_candidate :: "bench_env \<Rightarrow> (queue_payload \<Rightarrow> string option) \<Rightarrow> strategy_store \<Rightarrow> string \<Rightarrow> backtest_command \<Rightarrow>
    string \<Rightarrow> string \<Rightarrow> backtesting \<Rightarrow> (backtesting \<times> accepted) result" where
  "submit_search_candidate env refuse store user c new_id now b = and_then (assert_auth user) (\<lambda>_.
     submit_candidate env refuse store user c None new_id now b)"

section \<open>Recovery of the queue\<close>

definition recover_if_abandoned :: "string \<Rightarrow> string \<Rightarrow> string \<Rightarrow> backtests \<Rightarrow> backtests" where
  "recover_if_abandoned recovery_sha256 now i r = (case read_candidate i None r of None \<Rightarrow> r
     | Some c \<Rightarrow> if cn_status c = BACKTESTING \<and>
         (case present (cn_lease_expires_at c) of None \<Rightarrow> False | Some t \<Rightarrow> time_until t now)
       then fst (recover_abandoned_attempt recovery_sha256 i now ''BACKTEST_WORKER_LEASE_EXPIRED'' r) else r)"

fun requeue_replays :: "(queue_payload \<Rightarrow> string option) \<Rightarrow> string list \<Rightarrow> backtesting \<times> nat \<Rightarrow> backtesting \<times> nat" where
  "requeue_replays refuse [] = (\<lambda>s. s)"
| "requeue_replays refuse (i # is) = (\<lambda>(b, n). case read_replay i None (bk_repo b) of
     None \<Rightarrow> requeue_replays refuse is (b, n)
   | Some v \<Rightarrow> (case enqueue refuse (Replay_Job (re_id v) (re_experiment v) (re_sample_limit v) (re_requested_at v)) (bk_queue b) of
        Inl _ \<Rightarrow> requeue_replays refuse is (b, n)
      | Inr q \<Rightarrow> requeue_replays refuse is (b\<lparr>bk_queue := q\<rparr>, n + 1)))"

definition reconcile_queue :: "(queue_payload \<Rightarrow> string option) \<Rightarrow> string \<Rightarrow> nat \<Rightarrow> string \<Rightarrow> backtesting \<Rightarrow> (backtesting \<times> nat \<times> int) result" where
  "reconcile_queue refuse recovery_sha256 limit now b =
     (if limit < 1 then throw ''INVALID_QUEUE_RECOVERY_LIMIT''
      else let r1 = fold (recover_if_abandoned recovery_sha256 now) (list_queue_recovery limit (bk_repo b)) (bk_repo b);
               pending = list_pending_dispatches limit r1;
               (b2, sent) = dispatch_all refuse now pending (b\<lparr>bk_repo := r1\<rparr>, 0);
               (b3, total) = requeue_replays refuse (list_replay_recovery now limit (bk_repo b2)) (b2, sent)
           in return (b3, total, int (length pending) - int total))"

section \<open>Cancellation\<close>

definition owned_search_candidates :: "string \<Rightarrow> string \<Rightarrow> backtests \<Rightarrow> candidate list result" where
  "owned_search_candidates user run r = and_then (assert_auth user) (\<lambda>_.
     let mine = list_candidates_by_run run (Some user) r
     in if mine \<noteq> [] then return mine
        else if list_candidates_by_run run None r \<noteq> [] then throw ''BACKTEST_SEARCH_RUN_NOT_FOUND''
        else return [])"

fun cancel_all :: "string \<Rightarrow> candidate list \<Rightarrow> backtests \<times> undo list \<Rightarrow> (backtests \<times> undo list) \<times> string list" where
  "cancel_all now [] s = (s, [])"
| "cancel_all now (c # cs) s =
     (if terminal (cn_status c) then cancel_all now cs s
      else let s1 = cancel_dispatch (cn_queue_job c) now (update_candidate (cancelled now c) s);
               (s2, ids) = cancel_all now cs s1
           in (s2, cn_id c # ids))"

definition cancel_search_candidates :: "string \<Rightarrow> string \<Rightarrow> string \<Rightarrow> backtests \<times> undo list \<Rightarrow>
    ((backtests \<times> undo list) \<times> string list) result" where
  "cancel_search_candidates user run now s = and_then (owned_search_candidates user run (fst s)) (\<lambda>cs.
     return (cancel_all now cs s))"

definition roll_back :: "backtests \<times> undo list \<Rightarrow> backtests" where
  "roll_back s = fold undo_one (rev (snd s)) (fst s)"

definition owned_candidate :: "string \<Rightarrow> string \<Rightarrow> backtests \<Rightarrow> candidate result" where
  "owned_candidate user i r = and_then (assert_auth user) (\<lambda>_. case read_candidate i (Some user) r of
     None \<Rightarrow> throw ''BACKTEST_CANDIDATE_NOT_FOUND'' | Some c \<Rightarrow> return c)"

definition cancel_manual_candidate :: "string \<Rightarrow> string \<Rightarrow> string \<Rightarrow> backtests \<Rightarrow> backtests result" where
  "cancel_manual_candidate user i now r = and_then (owned_candidate user i r) (\<lambda>c.
     if cn_origin c \<noteq> MANUAL then throw ''BACKTEST_CANDIDATE_NOT_MANUAL''
     else return (if terminal (cn_status c) then r
       else mark_dispatch_cancelled (cn_queue_job c) now (put_candidate (cancelled now c) r)))"

text \<open>The dispatch is cancelled even when the queue fails to remove the job; then the loop ends with its error.\<close>

fun remove_pending_jobs :: "(string \<Rightarrow> string option) \<Rightarrow> string \<Rightarrow> string list \<Rightarrow> backtesting \<Rightarrow> backtesting \<times> unit result" where
  "remove_pending_jobs refuse now [] b = (b, return ())"
| "remove_pending_jobs refuse now (i # is) b = (case read_candidate i None (bk_repo b) of
     None \<Rightarrow> remove_pending_jobs refuse now is b
   | Some c \<Rightarrow> (let b1 = b\<lparr>bk_repo := mark_dispatch_cancelled (cn_queue_job c) now (bk_repo b)\<rparr>
       in case refuse (cn_queue_job c) of Some e \<Rightarrow> (b1, throw e)
          | None \<Rightarrow> remove_pending_jobs refuse now is (b1\<lparr>bk_queue := remove_job (cn_queue_job c) (bk_queue b1)\<rparr>)))"

section \<open>Submissions keep the protocol\<close>

lemma dispatch_marks_candidates [simp]:
  "bt_candidates (mark_dispatched i now r) = bt_candidates r"
  "bt_candidates (mark_dispatch_failed i e now r) = bt_candidates r"
  "bt_candidates (mark_dispatch_cancelled i now r) = bt_candidates r"
  "bt_candidate_keys (mark_dispatched i now r) = bt_candidate_keys r"
  "bt_candidate_keys (mark_dispatch_failed i e now r) = bt_candidate_keys r"
  by (simp_all add: mark_dispatched_def mark_dispatch_failed_def mark_dispatch_cancelled_def split: option.split)

lemma dispatch_one_candidates [simp]:
  "bt_candidates (bk_repo (fst (dispatch_one refuse now d b))) = bt_candidates (bk_repo b)"
  "bt_candidate_keys (bk_repo (fst (dispatch_one refuse now d b))) = bt_candidate_keys (bk_repo b)"
  by (auto simp: dispatch_one_def split: sum.split)

lemma prepare_submission_new:
  assumes "prepare_submission env store owner c i now r = return (s, k)"
  shows "new_candidate k" "cn_id k = i" "cn_owner k = owner" "cn_search_run k = map_option sp_run (bc_search c)"
  using assms by (auto simp: prepare_submission_def candidate_record_def new_candidate_def result_simps
      split: option.splits if_splits prod.splits)

lemma submit_reachable:
  assumes "reachable_repo (bk_repo b)" "js_get (bt_candidates (bk_repo b)) i = None"
    "submit_candidate env refuse store owner c key i now b = return (b', acc)"
  shows "reachable_repo (bk_repo b')"
proof (cases "case present key of None \<Rightarrow> None | Some k \<Rightarrow> find_candidate_by_submission owner k (bk_repo b)")
  case (Some x)
  then show ?thesis using assms(1,3) by (simp add: submit_candidate_def)
next
  case None
  then obtain s k where p: "prepare_submission env store owner c i now (bk_repo b) = return (s, k)"
    using assms(3) by (auto simp: submit_candidate_def result_simps split: prod.splits)
  let ?r1 = "fst (create_queued_submission k (dispatch_record k s now) key (bk_repo b))"
  have c: "bt_candidates (bk_repo b') = bt_candidates ?r1"
    using assms(3) None p by (auto simp: submit_candidate_def Let_def split: prod.splits option.splits)
  have "repo_step (bk_repo b) ?r1"
    by (rule repo_step.submission) (use prepare_submission_new [OF p] assms(2) in simp_all)
  then have "reachable_repo ?r1" by (rule reachable_repo.step [OF assms(1)])
  then show ?thesis by (rule reachable_repo.step [OF _ repo_step.other [OF c]])
qed

text \<open>C19. A submission with an idempotency key is answered once: submitting again with the same key, whatever
  the second command asks for and even after its scope or strategies are gone, changes neither the
  store nor the queue and returns the first candidate and job.\<close>

theorem manual_submission_is_idempotent:
  assumes "submit_candidate env refuse store owner c (Some key) i now b = return (b1, acc)" "key \<noteq> []" "i \<noteq> []"
    "bc_search c = None"
  shows "submit_candidate env' refuse' store' owner c' (Some key) i' now' b1 = return (b1, acc)"
proof (cases "find_candidate_by_submission owner key (bk_repo b)")
  case (Some x)
  moreover have "present (Some key) = Some key" using assms(2) by (simp add: present_Some_iff)
  ultimately show ?thesis using assms(1) by (auto simp: submit_candidate_def)
next
  case None
  have pk: "present (Some key) = Some key" using assms(2) by (simp add: present_Some_iff)
  obtain s k where p: "prepare_submission env store owner c i now (bk_repo b) = return (s, k)"
    using assms(1) None pk by (auto simp: submit_candidate_def result_simps split: prod.splits)
  note k = prepare_submission_new [OF p]
  have "same_iteration k x = False" for x using k(4) assms(4) by (simp add: same_iteration_def)
  then have "find (same_iteration k) xs = None" for xs by (simp add: find_None_iff)
  then have e: "existing_submission k (Some key) (bk_repo b) = None"
    using None k(3) pk by (simp add: existing_submission_def)
  let ?r1 = "fst (create_queued_submission k (dispatch_record k s now) (Some key) (bk_repo b))"
  have r1: "bt_candidates ?r1 = js_set i k (bt_candidates (bk_repo b))"
    "bt_candidate_keys ?r1 = js_set (owner_key owner key) i (bt_candidate_keys (bk_repo b))"
    "snd (create_queued_submission k (dispatch_record k s now) (Some key) (bk_repo b)) = k"
    using e k pk by (simp_all add: create_queued_submission_def create_candidate_def Let_def put_candidate_def)
  have b1: "bt_candidates (bk_repo b1) = bt_candidates ?r1" "bt_candidate_keys (bk_repo b1) = bt_candidate_keys ?r1"
    "acc = accepted_of k"
    using assms(1) None p pk r1(3) by (auto simp: submit_candidate_def Let_def split: prod.splits option.splits if_splits)
  have "find_candidate_by_submission owner key (bk_repo b1) = Some k"
    using assms(3) present_Some_iff [of "Some i" i] by (simp add: find_candidate_by_submission_def b1 r1 store_simps)
  then show ?thesis using pk b1(3) by (simp add: submit_candidate_def)
qed

section \<open>Rolling a cancellation back\<close>

definition same_rows :: "backtests \<Rightarrow> backtests \<Rightarrow> bool" where
  "same_rows r r' = (js_get (bt_candidates r) = js_get (bt_candidates r') \<and> js_get (bt_dispatches r) = js_get (bt_dispatches r'))"

lemma undo_same_rows: "same_rows r r' \<Longrightarrow> same_rows (undo_one u r) (undo_one u r')"
  by (cases "(u, r)" rule: undo_one.cases) (auto simp: same_rows_def js_get_set js_get_delete fun_eq_iff)

lemma undo_all_same_rows: "same_rows r r' \<Longrightarrow> same_rows (fold undo_one us r) (fold undo_one us r')"
  by (induction us arbitrary: r r') (auto dest: undo_same_rows)

lemma undo_candidate: "same_rows (undo_one (Undo_Candidate i (js_get (bt_candidates r) i))
    (r\<lparr>bt_candidates := js_set i c (bt_candidates r)\<rparr>)) r"
  by (cases "js_get (bt_candidates r) i") (auto simp: same_rows_def js_get_set js_get_delete fun_eq_iff)

lemma undo_dispatch: "same_rows (undo_one (Undo_Dispatch i (js_get (bt_dispatches r) i)) (mark_dispatch_cancelled i now r)) r"
  by (cases "js_get (bt_dispatches r) i")
    (auto simp: same_rows_def js_get_set js_get_delete fun_eq_iff mark_dispatch_cancelled_def)

lemma same_rows_trans: "same_rows a b \<Longrightarrow> same_rows b c \<Longrightarrow> same_rows a c"
  by (simp add: same_rows_def)

lemma cancel_one_rolls_back:
  "same_rows (roll_back (cancel_dispatch j now (update_candidate c s))) (roll_back s)"
proof -
  let ?r = "put_candidate c (fst s)"
  have "same_rows (undo_one (Undo_Candidate (cn_id c) (js_get (bt_candidates (fst s)) (cn_id c))) ?r) (fst s)"
    unfolding put_candidate_def by (rule undo_candidate)
  moreover have "same_rows (undo_one (Undo_Dispatch j (js_get (bt_dispatches ?r) j)) (mark_dispatch_cancelled j now ?r)) ?r"
    by (rule undo_dispatch)
  ultimately show ?thesis
    by (auto simp: roll_back_def cancel_dispatch_def update_candidate_def split: prod.splits
        intro!: undo_all_same_rows elim!: same_rows_trans [OF undo_same_rows])
qed

lemma cancel_all_rolls_back: "same_rows (roll_back (fst (cancel_all now cs s))) (roll_back s)"
proof (induction cs arbitrary: s)
  case (Cons c cs)
  show ?case
  proof (cases "terminal (cn_status c)")
    case False
    then show ?thesis
      using same_rows_trans [OF Cons.IH cancel_one_rolls_back, of "cn_queue_job c" now "cancelled now c" s]
      by (simp add: Let_def case_prod_beta)
  qed (simp add: Cons.IH)
qed (simp add: same_rows_def)

text \<open>C20. Rolling back a cancellation restores the store: after the candidates of a search run were cancelled
  in a unit of work, its rollback puts every candidate and every dispatch back as it was before.\<close>

theorem cancellation_rolls_back:
  assumes "cancel_search_candidates user run now (r, []) = return (s, ids)"
  shows "js_get (bt_candidates (roll_back s)) = js_get (bt_candidates r) \<and>
    js_get (bt_dispatches (roll_back s)) = js_get (bt_dispatches r)"
proof -
  obtain cs where "s = fst (cancel_all now cs (r, []))"
    using assms by (auto simp: cancel_search_candidates_def result_simps) (metis fst_conv)
  then show ?thesis using cancel_all_rolls_back [of now cs "(r, [])"] by (simp add: same_rows_def roll_back_def)
qed

lemma cancellation_rolls_back_witness:
  "\<exists>s. cancel_search_candidates ''u'' ''r'' t1 (queued_store, []) = return (s, [''c'']) \<and>
     js_get (bt_candidates (roll_back s)) ''c'' = Some sample_candidate"
proof -
  let ?s = "cancel_dispatch ''c'' t1 (update_candidate (cancelled t1 sample_candidate) (queued_store, []))"
  have f: "cn_status sample_candidate = QUEUED" "cn_queue_job sample_candidate = ''c''" "cn_search_run sample_candidate = Some ''r''"
    "cn_owner sample_candidate = ''u''" by (simp_all add: sample_candidate_def)
  have "cancel_search_candidates ''u'' ''r'' t1 (queued_store, []) = return (?s, [''c''])"
    by (simp add: cancel_search_candidates_def owned_search_candidates_def assert_auth_def trim_def is_space_def
        list_candidates_by_run_def queued_candidates js_values_def f visible_to_def Let_def)
  from cancellation_rolls_back [OF this] this show ?thesis
    by (simp add: queued_candidates) (simp add: js_get_def)
qed

section \<open>A concrete submission\<close>

definition sample_bench_scope :: bench_scope where
  "sample_bench_scope = \<lparr>bs_id = ''s'', bs_owner = ''u'', bs_name = ''n'', bs_snapshot = lb_snapshot sample_scope, bs_sentiment = None,
     bs_worker_version = [], bs_worker_sha256 = [], bs_evaluation_version = [], bs_evaluation_sha256 = [],
     bs_provenance = \<lparr>pv_simulator_version = None, pv_simulator_sha256 = None, pv_timezone = None, pv_fill_policy_id = None,
       pv_opposite_signal_policy_id = None, pv_same_candle_policy_id = None, pv_guarantee = None\<rparr>,
     bs_pair = ''P'', bs_timeframe = M1, bs_from = [], bs_to = [], bs_snapshot_id = ''d'', bs_snapshot_sha256 = [],
     bs_warmup_capacity = num 500, bs_initial_capital = num 100, bs_fee_rate_percent = num 0, bs_slippage_bps = num 0,
     bs_risk_policy = None, bs_score_formula = ''f'', bs_created_at = t0\<rparr>"

definition sample_bench :: backtesting where
  "sample_bench = \<lparr>bk_repo = empty_backtests\<lparr>bt_scopes := [(''s'', sample_bench_scope)],
     bt_snapshots := [(''d'', lb_snapshot sample_scope, [])]\<rparr>, bk_queue = []\<rparr>"

definition sample_bench_env :: bench_env where
  "sample_bench_env = \<lparr>be_descriptors = [], be_sentiment = None, be_pages = (\<lambda>_ _. throw ''X''), be_fuel = 0, be_sha256 = (\<lambda>_. ''h''),
     be_simulator_version = ''1'', be_simulator_sha256 = ''h''\<rparr>"

definition sample_single :: composite_definition where
  "sample_single = \<lparr>cd_id = ''k'', cd_user = ''u'', cd_family = ''f'', cd_version = 1, cd_method = MAJORITY_VOTE,
     cd_components = [\<lparr>cp_definition_id = ''strategy-definition-0'', cp_weight = Fin 0\<rparr>], cd_thresholds = None, cd_created_at = []\<rparr>"

definition sample_strategies :: strategy_store where
  "sample_strategies = \<lparr>st_definitions = [(''strategy-definition-0'', ''u'', sample_definition 10 ''0'')],
     st_composites = [(''k'', ''u'', sample_single)], st_generations = []\<rparr>"

definition sample_command :: backtest_command where
  "sample_command = \<lparr>bc_scope = ''s'', bc_definition_ids = Some [''strategy-definition-0''], bc_definitions = None,
     bc_composite_id = Some ''k'', bc_composite = None, bc_policy = None, bc_max_attempts = num 3, bc_search = None\<rparr>"

lemma sample_references:
  "validate_strategy_references [] sample_strategies ''u'' sample_command =
    return \<lparr>rf_definitions = [sample_definition 10 ''0''], rf_composite = sample_single, rf_warmup = Fin 0, rf_sentiment = False\<rparr>"
  by (simp add: validate_strategy_references_def requested_ids_def sample_command_def uniq_def read_definitions_def get_definition_def
      definitions_by_ids_def sample_strategies_def sample_definition_def requested_composite_def read_composite_def js_get_def
      sample_single_def strategy_requirements_def Let_def List.map_filter_simps owned_definitions_def)

lemma sample_prepared:
  "\<exists>k. prepare_submission sample_bench_env sample_strategies ''u'' sample_command ''c1'' t0 (bk_repo sample_bench) = return (sample_bench_scope, k)"
proof -
  have r: "read_scope ''s'' (Some ''u'') (bk_repo sample_bench) = Some sample_bench_scope"
    by (simp add: read_scope_def sample_bench_def empty_backtests_def js_get_def visible_to_def sample_bench_scope_def)
  have n: "scope_snapshot ''d'' (bk_repo sample_bench) = return (lb_snapshot sample_scope, [])"
    by (simp add: scope_snapshot_def read_input_snapshot_def sample_bench_def empty_backtests_def js_get_def)
  have f: "bc_scope sample_command = ''s''" "bs_warmup_capacity sample_bench_scope = num 500" "bs_snapshot_id sample_bench_scope = ''d''"
    "be_descriptors sample_bench_env = []" "bs_risk_policy sample_bench_scope = None" "bc_policy sample_command = None"
    "bc_max_attempts sample_command = num 3" by (simp_all add: sample_command_def sample_bench_scope_def sample_bench_env_def)
  show ?thesis
    by (simp add: prepare_submission_def f r n sample_references load_sentiment_def normalize_execution_policy_def
        valid_risk_percent_def candidate_record_def Let_def number_simps)
qed

lemma manual_submission_is_idempotent_witness:
  "\<exists>b1 acc. submit_candidate sample_bench_env (\<lambda>_. None) sample_strategies ''u'' sample_command (Some ''key'') ''c1'' t0 sample_bench = return (b1, acc) \<and>
     submit_candidate sample_bench_env (\<lambda>_. None) empty_store ''u'' sample_command (Some ''key'') ''c2'' t1 b1 = return (b1, acc)"
proof -
  have "find_candidate_by_submission ''u'' ''key'' (bk_repo sample_bench) = None"
    by (simp add: find_candidate_by_submission_def sample_bench_def empty_backtests_def)
  then have "\<exists>b1 acc. submit_candidate sample_bench_env (\<lambda>_. None) sample_strategies ''u'' sample_command (Some ''key'') ''c1'' t0 sample_bench = return (b1, acc)"
    using sample_prepared by (auto simp: submit_candidate_def Let_def case_prod_beta)
  then obtain b1 acc where s: "submit_candidate sample_bench_env (\<lambda>_. None) sample_strategies ''u'' sample_command (Some ''key'') ''c1'' t0 sample_bench = return (b1, acc)"
    by blast
  have "bc_search sample_command = None" by (simp add: sample_command_def)
  then show ?thesis using manual_submission_is_idempotent [OF s] s by blast
qed

end
