(* ===== verification/JsonText.thy ===== *)
theory JsonText
  imports JsJson
begin

text \<open>
  The text of a JSON value: \<^verbatim>\<open>JSON.stringify\<close> without indentation, and the variant with sorted
  keys that the modules hash (\<^verbatim>\<open>stable\<close> in \<^verbatim>\<open>modules/search/domain\<close>). Characters are code
  units below 256, as everywhere in this development.
\<close>

definition hex_digit :: "nat \<Rightarrow> char" where
  "hex_digit n = (if n < 10 then char_of (48 + n) else char_of (87 + n))"

definition escape_char :: "char \<Rightarrow> string" where
  "escape_char c = (let n = of_char c :: nat in
     if n = 34 then [CHR 0x5C, CHR 0x22] else if n = 92 then [CHR 0x5C, CHR 0x5C]
     else if n = 8 then [CHR 0x5C, CHR ''b''] else if n = 9 then [CHR 0x5C, CHR ''t'']
     else if n = 10 then [CHR 0x5C, CHR ''n''] else if n = 12 then [CHR 0x5C, CHR ''f'']
     else if n = 13 then [CHR 0x5C, CHR ''r'']
     else if n < 32 then [CHR 0x5C, CHR ''u'', CHR ''0'', CHR ''0'', hex_digit (n div 16), hex_digit (n mod 16)]
     else [c])"

definition json_quote :: "string \<Rightarrow> string" where
  "json_quote s = CHR 0x22 # concat (map escape_char s) @ [CHR 0x22]"

fun json_stringify :: "json \<Rightarrow> string" where
  "json_stringify JNull = ''null''"
| "json_stringify (JBool b) = (if b then ''true'' else ''false'')"
| "json_stringify (JNum n) = (if is_finite n then number_to_string n else ''null'')"
| "json_stringify (JStr s) = json_quote s"
| "json_stringify (JArr xs) = ''['' @ join_with '','' (map json_stringify xs) @ '']''"
| "json_stringify (JObj fs) = ''{'' @ join_with '','' (map (\<lambda>(k, v). json_quote k @ '':'' @ json_stringify v) fs) @ ''}''"

fun json_stable :: "json \<Rightarrow> string" where
  "json_stable (JArr xs) = ''['' @ join_with '','' (map json_stable xs) @ '']''"
| "json_stable (JObj fs) = ''{'' @ join_with '','' (map snd (sort_by (\<lambda>x y. locale_compare (fst x) (fst y))
     (map (\<lambda>(k, v). (k, json_quote k @ '':'' @ json_stable v)) fs))) @ ''}''"
| "json_stable v = json_stringify v"

lemma json_quote_not_Nil [simp]: "json_quote s \<noteq> []"
  by (simp add: json_quote_def)

end
