(* ===== verification/BacktestRun.thy ===== *)
theory BacktestRun
  imports BacktestSubmit JsonText
begin

text \<open>
  Running and completing candidates (\<^verbatim>\<open>BacktestingService\<close> in
  \<^verbatim>\<open>modules/backtesting/application/service.ts\<close>): a queue job claims an attempt, simulates
  and persists the result under its fence; a completion processor evaluates and scores it,
  stages the experiment, submits it to the leaderboard and finalises the candidate; a replay
  runs the simulation again and compares. The strategy module's resolution, the evaluation
  provenance and the completion services are arguments, the clock is the sequence of its readings.
\<close>

record 'b run_env = bench_env +
  rv_resolve :: "strategy_definition \<Rightarrow> strategy result"
  rv_evaluation_version :: string
  rv_evaluation_sha256 :: string
  rv_score :: "string \<Rightarrow> metrics \<Rightarrow> 'b \<Rightarrow> ('b \<times> scored) result"
  rv_submit :: "experiment_summary \<Rightarrow> 'b \<Rightarrow> 'b result"
  rv_rollback :: "backtests \<times> 'b \<Rightarrow> backtests \<times> 'b \<Rightarrow> backtests \<times> 'b"

section \<open>The simulation of a candidate\<close>

definition composite_strategy :: "(strategy_definition \<Rightarrow> strategy result) \<Rightarrow> strategy_definition list \<Rightarrow> composite_definition \<Rightarrow>
    (strategy_context \<Rightarrow> signal) result" where
  "composite_strategy resolve ds k =
     (if cd_components k = [] \<or> list_ex (\<lambda>c. cp_definition_id c \<notin> set (map sd_id ds)) (cd_components k)
      then throw ''INVALID_COMPOSITE_STRATEGY''
      else and_then (map_results (\<lambda>d. and_then (resolve d) (\<lambda>s. return (sd_id d, s))) ds) (\<lambda>resolved.
        return (\<lambda>x. runtime_combine k (map (\<lambda>c. (cp_definition_id c,
          (case map_of (rev resolved) (cp_definition_id c) of Some s \<Rightarrow> s_analyze s x | None \<Rightarrow> HOLD))) (cd_components k)))))"

definition settlement_asset_of :: "pair_metadata \<Rightarrow> string" where
  "settlement_asset_of m = (if md_settlement_asset m \<noteq> [] then md_settlement_asset m
     else if md_quote_asset m \<noteq> [] then md_quote_asset m else ''USDT'')"

definition stop_loss_of :: "candidate \<Rightarrow> bench_scope \<Rightarrow> number option" where
  "stop_loss_of c s = (case Option.bind (cn_execution_policy c) xp_stop_loss_percent of Some x \<Rightarrow> Some x
     | None \<Rightarrow> Option.bind (bs_risk_policy s) rp_stop_loss_percent)"

definition take_profit_of :: "candidate \<Rightarrow> bench_scope \<Rightarrow> number option" where
  "take_profit_of c s = (case Option.bind (cn_execution_policy c) xp_take_profit_percent of Some x \<Rightarrow> Some x
     | None \<Rightarrow> Option.bind (bs_risk_policy s) rp_take_profit_percent)"

text \<open>A sentiment point out of range makes the reader throw; every close the simulator asks for was
  already read by \<open>load_sentiment\<close>, so the error case is never taken here.\<close>

definition sentiment_reader :: "(string \<Rightarrow> sentiment_context option result) option \<Rightarrow> (string \<Rightarrow> sentiment_context option) option" where
  "sentiment_reader r = map_option (\<lambda>f t. case f t of Inr p \<Rightarrow> p | Inl _ \<Rightarrow> None) r"

definition simulation_of :: "candidate \<Rightarrow> bench_scope \<Rightarrow> candle list \<Rightarrow> (strategy_context \<Rightarrow> signal) \<Rightarrow>
    (string \<Rightarrow> sentiment_context option result) option \<Rightarrow> string \<Rightarrow> string \<Rightarrow> string \<Rightarrow> string \<Rightarrow> string \<Rightarrow> simulation_input" where
  "simulation_of c s cs analyze sentiment attempt_id version sha256 started ended =
     \<lparr>si_candidate_id = cn_id c, si_attempt_id = attempt_id, si_pair = bs_pair s,
      si_settlement_asset = settlement_asset_of (sn_metadata (bs_snapshot s)), si_timeframe = bs_timeframe s, si_candles = cs,
      si_warmup = Some (num (int (cn_warmup c))), si_analyze = (\<lambda>x. Some (analyze x)), si_sentiment_at = sentiment_reader sentiment,
      si_initial_capital = bs_initial_capital s, si_fee_rate_percent = bs_fee_rate_percent s,
      si_slippage_bps = Some (bs_slippage_bps s), si_stop_loss_percent = stop_loss_of c s,
      si_take_profit_percent = take_profit_of c s, si_worker_version = version, si_worker_sha256 = sha256,
      si_started_at = started, si_completed_at = ended\<rparr>"

definition stored_scope :: "string \<Rightarrow> backtests \<Rightarrow> bench_scope result" where
  "stored_scope i r = (case read_scope i None r of None \<Rightarrow> throw ''BACKTEST_SCOPE_NOT_FOUND'' | Some s \<Rightarrow> return s)"

text \<open>What a worker and a replay both prepare from the stored scope: candles, strategy and sentiment.\<close>

definition prepare_run :: "('b, 'm) run_env_scheme \<Rightarrow> candidate \<Rightarrow> bench_scope \<Rightarrow> backtests \<Rightarrow>
    (candle list \<times> (strategy_context \<Rightarrow> signal) \<times> (string \<Rightarrow> sentiment_context option result) option) result" where
  "prepare_run env c s r = and_then (scope_snapshot (bs_snapshot_id s) r) (\<lambda>(_, cs).
     and_then (composite_strategy (rv_resolve env) (cn_definitions c) (cn_composite c)) (\<lambda>analyze.
     and_then (strategy_requirements (be_descriptors env) (cn_definitions c)) (\<lambda>(_, needs).
     and_then (load_sentiment (be_sentiment env) s cs needs) (\<lambda>sentiment. return (cs, analyze, sentiment)))))"

section \<open>Queue jobs\<close>

datatype ignore_reason = Ignored_Cancelled | Ignored_Terminal | Ignored_Superseded

datatype queue_return = Queue_Completed string string string | Queue_Ignored string ignore_reason

definition execute_attempt :: "('b, 'm) run_env_scheme \<Rightarrow> candidate \<Rightarrow> attempt \<Rightarrow> queue_job \<Rightarrow> string \<Rightarrow> string \<Rightarrow> backtests \<Rightarrow>
    (backtests \<times> queue_return) result" where
  "execute_attempt env c a job token ended r =
     and_then (stored_scope (cn_scope c) r) (\<lambda>s.
     and_then (prepare_run env c s r) (\<lambda>(cs, analyze, sentiment).
     and_then (simulate_backtest (simulation_of c s cs analyze sentiment (at_id a) (qj_worker_version job) (qj_worker_sha256 job)
         (at_started_at a) (at_started_at a))) (\<lambda>result.
     and_then (persist_worker_success (cn_id c) (at_id a) (result\<lparr>cb_completed_at := ended\<rparr>) token r) (\<lambda>r1.
       return (r1, Queue_Completed (cn_id c) (at_id a) ended)))))"

text \<open>The answer of a job: the store and either its return value or the error it throws after the failure was recorded.\<close>

definition run_claimed_attempt :: "('b, 'm) run_env_scheme \<Rightarrow> candidate \<Rightarrow> attempt \<Rightarrow> queue_job \<Rightarrow> string \<Rightarrow> string \<Rightarrow> backtests \<Rightarrow>
    backtests \<times> queue_return result" where
  "run_claimed_attempt env c a job token ended r = (case execute_attempt env c a job token ended r of
     Inr (r1, v) \<Rightarrow> (r1, return v)
   | Inl e \<Rightarrow> (case fail_worker_attempt (cn_id c) (at_id a) token (at_number a < qj_max_attempts job) ended e r of
       Inr r1 \<Rightarrow> (r1, throw e) | Inl e' \<Rightarrow> (r, throw e')))"

definition attempt_id_of :: "string \<Rightarrow> nat \<Rightarrow> string" where
  "attempt_id_of candidate n = candidate @ '':attempt:'' @ show_nat n"

definition ignored_job :: "string \<Rightarrow> backtests \<Rightarrow> queue_return" where
  "ignored_job i r = Queue_Ignored i (case read_candidate i None r of None \<Rightarrow> Ignored_Terminal
     | Some c \<Rightarrow> if cn_status c = CANCELLED then Ignored_Cancelled
         else if terminal (cn_status c) then Ignored_Terminal else Ignored_Superseded)"

definition process_queue_job :: "('b, 'm) run_env_scheme \<Rightarrow> queue_job \<Rightarrow> nat \<Rightarrow> string \<Rightarrow> string \<Rightarrow> string \<Rightarrow> backtests \<Rightarrow>
    backtests \<times> queue_return result" where
  "process_queue_job env job number token started ended r =
     (if qj_id job \<noteq> qj_candidate job \<or> number < 1 \<or> number > qj_max_attempts job then (r, throw ''INVALID_BACKTEST_QUEUE_JOB'')
      else case plus_seconds started 60 of Inl e \<Rightarrow> (r, throw e)
      | Inr lease \<Rightarrow> (case claim_worker_attempt \<lparr>wr_candidate = qj_candidate job, wr_queue_job = qj_id job, wr_delivery = number,
            wr_attempt = attempt_id_of (qj_candidate job) number, wr_fence_token = token, wr_now = started, wr_lease = lease,
            wr_worker_version = qj_worker_version job, wr_worker_sha256 = qj_worker_sha256 job\<rparr> r of
          None \<Rightarrow> (r, return (ignored_job (qj_candidate job) r))
        | Some (r1, c, a) \<Rightarrow> run_claimed_attempt env c a job token ended r1))"

section \<open>Completion\<close>

datatype completion_status = Done_Completed | Done_Failed | Done_Ignored

definition or_default :: "'a option \<Rightarrow> 'a option \<Rightarrow> 'a option" where
  "or_default a b = (case a of Some x \<Rightarrow> Some x | None \<Rightarrow> b)"

definition provenance_of :: "('b, 'm) run_env_scheme \<Rightarrow> bench_scope \<Rightarrow> simulator_provenance" where
  "provenance_of env s = (let p = bs_provenance s; d = default_provenance (bench_env.truncate env) in
     \<lparr>pv_simulator_version = or_default (pv_simulator_version p) (pv_simulator_version d),
      pv_simulator_sha256 = or_default (pv_simulator_sha256 p) (pv_simulator_sha256 d),
      pv_timezone = or_default (pv_timezone p) (pv_timezone d),
      pv_fill_policy_id = or_default (pv_fill_policy_id p) (pv_fill_policy_id d),
      pv_opposite_signal_policy_id = or_default (pv_opposite_signal_policy_id p) (pv_opposite_signal_policy_id d),
      pv_same_candle_policy_id = or_default (pv_same_candle_policy_id p) (pv_same_candle_policy_id d),
      pv_guarantee = or_default (pv_guarantee p) (pv_guarantee d)\<rparr>)"

definition experiment_of :: "('b, 'm) run_env_scheme \<Rightarrow> candidate \<Rightarrow> attempt \<Rightarrow> bench_scope \<Rightarrow> trade list \<Rightarrow> metrics \<Rightarrow> amounts \<Rightarrow>
    scored \<Rightarrow> string \<Rightarrow> string \<Rightarrow> experiment_summary" where
  "experiment_of env c a s ts m am sc new_id now = \<lparr>ex_id = new_id, ex_owner = Some (cn_owner c), ex_candidate = cn_id c,
     ex_search_run = cn_search_run c, ex_scope = bs_id s, ex_formula = sc_formula sc, ex_score = sc_overall sc,
     ex_eligible = sc_eligible sc, xs_attempt = at_id a, xs_composite = cn_composite c, xs_snapshot = bs_snapshot s,
     xs_sentiment = bs_sentiment s, xs_definitions = cn_definitions c, xs_execution_policy = cn_execution_policy c,
     xs_provenance = provenance_of env s, xs_worker_version = at_worker_version a, xs_worker_sha256 = at_worker_sha256 a,
     xs_evaluation_version = m_runtime_version m, xs_evaluation_sha256 = m_runtime_sha256 m,
     xs_fee_rate_percent = bs_fee_rate_percent s, xs_slippage_bps = bs_slippage_bps s, xs_amounts = am, xs_metrics = m,
     xs_trades = ts, xs_created_at = now\<rparr>"

definition completed_result :: "candidate \<Rightarrow> attempt \<Rightarrow> bench_scope \<Rightarrow> trade list \<Rightarrow> string \<Rightarrow> completed_backtest" where
  "completed_result c a s ts now = \<lparr>cb_candidate_id = cn_id c, cb_attempt_id = at_id a, cb_worker_version = at_worker_version a,
     cb_worker_sha256 = at_worker_sha256 a, cb_started_at = at_started_at a,
     cb_completed_at = (case at_completed_at a of Some t \<Rightarrow> t | None \<Rightarrow> now),
     cb_initial_capital = bs_initial_capital s, cb_trades = ts\<rparr>"

text \<open>Evaluation and scoring, before the unit of work begins.\<close>

definition assess_candidate :: "('b, 'm) run_env_scheme \<Rightarrow> candidate \<Rightarrow> string \<Rightarrow> string \<Rightarrow> backtests \<times> 'b \<Rightarrow>
    ('b \<times> experiment_summary) result" where
  "assess_candidate env c new_id now = (\<lambda>(r, b).
     case read_latest_completed_attempt (cn_id c) r of None \<Rightarrow> throw ''BACKTEST_COMPLETION_ATTEMPT_NOT_FOUND''
     | Some a \<Rightarrow> and_then (stored_scope (cn_scope c) r) (\<lambda>s.
         let ts = list_trades (at_id a) r in
         and_then (evaluate_backtest (completed_result c a s ts now) (rv_evaluation_version env) (rv_evaluation_sha256 env)) (\<lambda>m.
         and_then (amount_projection (bs_initial_capital s) ts) (\<lambda>am.
         and_then (rv_score env (bs_id s) m b) (\<lambda>(b1, sc).
           return (b1, experiment_of env c a s ts m am sc new_id now))))))"

definition publish_experiment :: "('b, 'm) run_env_scheme \<Rightarrow> candidate \<Rightarrow> string \<Rightarrow> string \<Rightarrow> experiment_summary \<Rightarrow> backtests \<times> 'b \<Rightarrow>
    (backtests \<times> 'b) \<times> unit result" where
  "publish_experiment env c token now x = (\<lambda>(r, b).
     let (r1, y) = (case find_experiment_by_candidate (cn_id c) r of Some y \<Rightarrow> (r, y) | None \<Rightarrow> stage_completion_experiment x r);
         submitted = (if cn_origin c = SEARCH \<and> present (cn_search_run c) \<noteq> None then rv_submit env y b else return b)
     in case submitted of Inl e \<Rightarrow> ((r1, b), throw e)
        | Inr b1 \<Rightarrow> (case finalize_completion (cn_id c) (cn_completion_generation c) (ex_id y) token now r1 of
             Inl e \<Rightarrow> ((r1, b1), throw e) | Inr r2 \<Rightarrow> ((r2, b1), return ())))"

text \<open>The body of \<^verbatim>\<open>processCompletion\<close>'s try block; a failure after the unit of work began is rolled back.\<close>

definition complete_candidate :: "('b, 'm) run_env_scheme \<Rightarrow> candidate \<Rightarrow> string \<Rightarrow> string \<Rightarrow> string \<Rightarrow> backtests \<times> 'b \<Rightarrow>
    (backtests \<times> 'b) \<times> completion_status result" where
  "complete_candidate env c token new_id now = (\<lambda>(r, b).
     if cn_status c = TERMINAL_FAILURE_PENDING
     then (case finalize_terminal_failure (cn_id c) (cn_completion_generation c) token now r of
            Inl e \<Rightarrow> ((r, b), throw e) | Inr r1 \<Rightarrow> ((r1, b), return Done_Failed))
     else (case assess_candidate env c new_id now (r, b) of Inl e \<Rightarrow> ((r, b), throw e)
       | Inr (b1, x) \<Rightarrow> (case publish_experiment env c token now x (r, b1) of
           (s2, Inl e) \<Rightarrow> (rv_rollback env (r, b1) s2, throw e)
         | (s2, Inr _) \<Rightarrow> (s2, return Done_Completed))))"

definition completion_answer :: "string \<Rightarrow> backtests \<Rightarrow> completion_status" where
  "completion_answer i r = (case read_candidate i None r of None \<Rightarrow> Done_Ignored
     | Some c \<Rightarrow> if cn_status c = COMPLETED then Done_Completed else if cn_status c = FAILED then Done_Failed else Done_Ignored)"

definition process_completion :: "('b, 'm) run_env_scheme \<Rightarrow> string \<Rightarrow> string \<Rightarrow> string \<Rightarrow> string \<Rightarrow> backtests \<times> 'b \<Rightarrow>
    (backtests \<times> 'b) \<times> completion_status result" where
  "process_completion env i token new_id now = (\<lambda>(r, b).
     case plus_seconds now 60 of Inl e \<Rightarrow> ((r, b), throw e)
     | Inr lease \<Rightarrow> (case claim_completion i token now lease r of None \<Rightarrow> ((r, b), return (completion_answer i r))
       | Some (r1, c) \<Rightarrow> (case complete_candidate env c token new_id now (r1, b) of
           (s2, Inr v) \<Rightarrow> (s2, return v)
         | ((r2, b2), Inl e) \<Rightarrow> (case plus_seconds now 1 of Inl e' \<Rightarrow> ((r2, b2), throw e')
             | Inr retry_at \<Rightarrow> (case fail_completion (cn_id c) (cn_completion_generation c) token (Some retry_at) now e r2 of
                 Inl e' \<Rightarrow> ((r2, b2), throw e') | Inr r3 \<Rightarrow> ((r3, b2), throw e))))))"

datatype terminal_signal = Signal_Completed string | Signal_Exhausted string | Signal_Failed string string

fun signal_job :: "terminal_signal \<Rightarrow> string" where
  "signal_job (Signal_Completed i) = i"
| "signal_job (Signal_Exhausted i) = i"
| "signal_job (Signal_Failed i _) = i"

definition process_terminal_signal :: "('b, 'm) run_env_scheme \<Rightarrow> string \<Rightarrow> terminal_signal \<Rightarrow> string \<Rightarrow> string \<Rightarrow> string \<Rightarrow>
    backtests \<times> 'b \<Rightarrow> (backtests \<times> 'b) \<times> completion_status result" where
  "process_terminal_signal env recovery_sha256 sig token new_id now = (\<lambda>(r, b).
     if signal_job sig = [] then ((r, b), throw ''INVALID_BACKTEST_QUEUE_SIGNAL'')
     else let r1 = (case sig of Signal_Completed _ \<Rightarrow> r
            | Signal_Exhausted i \<Rightarrow> repair_terminal_queue_failure recovery_sha256 i ''BACKTEST_RETRIES_EXHAUSTED'' now r
            | Signal_Failed i reason \<Rightarrow> repair_terminal_queue_failure recovery_sha256 i reason now r)
          in process_completion env (signal_job sig) token new_id now (r1, b))"

text \<open>The sweep: a completion that throws is left to its durable retry state. \<open>fresh n\<close> names the n-th claim token and identifier.\<close>

fun complete_each :: "('b, 'm) run_env_scheme \<Rightarrow> (nat \<Rightarrow> string \<times> string) \<Rightarrow> string \<Rightarrow> string list \<Rightarrow> nat \<Rightarrow> (backtests \<times> 'b) \<times> nat \<Rightarrow>
    (backtests \<times> 'b) \<times> nat" where
  "complete_each env fresh now [] k s = s"
| "complete_each env fresh now (i # is) k (s, n) =
     (case process_completion env i (fst (fresh k)) (snd (fresh k)) now s of
        (s1, Inr _) \<Rightarrow> complete_each env fresh now is (k + 1) (s1, n + 1)
      | (s1, Inl _) \<Rightarrow> complete_each env fresh now is (k + 1) (s1, n))"

definition reconcile_completions :: "('b, 'm) run_env_scheme \<Rightarrow> (nat \<Rightarrow> string \<times> string) \<Rightarrow> nat \<Rightarrow> string \<Rightarrow> backtests \<times> 'b \<Rightarrow>
    ((backtests \<times> 'b) \<times> nat \<times> nat) result" where
  "reconcile_completions env fresh limit now s =
     (if limit < 1 then throw ''INVALID_COMPLETION_RECOVERY_LIMIT''
      else let ids = list_due_completions now limit (fst s); (s1, n) = complete_each env fresh now ids 0 (s, 0)
           in return (s1, n, length ids - n))"

section \<open>Workers and processors follow the protocol\<close>

lemma execute_attempt_step:
  assumes "execute_attempt env c a job token ended r = return (r1, v)"
  shows "repo_step r r1"
  using assms unfolding execute_attempt_def
  by (auto simp: result_simps split: prod.splits intro: repo_step.worker_success)

lemma run_claimed_attempt_reachable:
  assumes "reachable_repo r"
  shows "reachable_repo (fst (run_claimed_attempt env c a job token ended r))"
proof (cases "execute_attempt env c a job token ended r")
  case (Inl e)
  then show ?thesis
    using assms reachable_repo.step [OF assms repo_step.worker_failure]
    by (simp add: run_claimed_attempt_def split: sum.split)
next
  case (Inr p)
  then show ?thesis
    using reachable_repo.step [OF assms execute_attempt_step] by (cases p) (simp add: run_claimed_attempt_def)
qed

lemma process_queue_job_reachable:
  assumes "reachable_repo r"
  shows "reachable_repo (fst (process_queue_job env job number token started ended r))"
  using assms run_claimed_attempt_reachable [OF reachable_repo.step [OF assms repo_step.worker_claim]]
  by (auto simp: process_queue_job_def split: sum.split option.split)

lemma stage_candidates [simp]: "bt_candidates (fst (stage_completion_experiment x r)) = bt_candidates r"
  by (simp add: stage_completion_experiment_def split: option.split)

definition staged :: "string \<Rightarrow> experiment_summary \<Rightarrow> backtests \<Rightarrow> backtests \<times> experiment_summary" where
  "staged i x r = (case find_experiment_by_candidate i r of Some y \<Rightarrow> (r, y) | None \<Rightarrow> stage_completion_experiment x r)"

lemma staged_candidates [simp]: "bt_candidates (fst (staged i x r)) = bt_candidates r"
  by (simp add: staged_def split: option.split)

lemma publish_cases:
  assumes "publish_experiment env c token now x (r, b) = ((r', b'), res)"
  obtains "res \<noteq> return ()" "r' = fst (staged (cn_id c) x r)"
  | "res = return ()" "finalize_completion (cn_id c) (cn_completion_generation c) (ex_id (snd (staged (cn_id c) x r))) token now
      (fst (staged (cn_id c) x r)) = return r'"
  using assms unfolding publish_experiment_def staged_def [symmetric]
  by (auto simp: Let_def case_prod_beta split: sum.splits)

lemma publish_reachable:
  assumes "reachable_repo r" "publish_experiment env c token now x (r, b) = ((r', b'), res)"
  shows "reachable_repo r'"
proof -
  have s: "reachable_repo (fst (staged (cn_id c) x r))"
    by (rule reachable_repo.step [OF assms(1) repo_step.other]) simp
  from assms(2) show ?thesis
    by (rule publish_cases) (use s reachable_repo.step [OF s repo_step.completion] in auto)
qed

text \<open>A rollback either keeps what was written or restores the state at the begin of the unit of work.\<close>

definition honest_rollback :: "('b, 'm) run_env_scheme \<Rightarrow> bool" where
  "honest_rollback env = (\<forall>old new. rv_rollback env old new = old \<or> rv_rollback env old new = new)"

lemma complete_candidate_reachable:
  assumes "reachable_repo r" "honest_rollback env"
  shows "reachable_repo (fst (fst (complete_candidate env c token new_id now (r, b))))"
proof (cases "cn_status c = TERMINAL_FAILURE_PENDING")
  case True
  then show ?thesis
    using assms(1) reachable_repo.step [OF assms(1) repo_step.terminal_failure]
    by (auto simp: complete_candidate_def split: sum.split)
next
  case False
  show ?thesis
  proof (cases "assess_candidate env c new_id now (r, b)")
    case (Inl e)
    then show ?thesis using False assms(1) by (simp add: complete_candidate_def)
  next
    case (Inr p)
    obtain b1 x where p: "p = (b1, x)" by (cases p)
    obtain r2 b2 res where q: "publish_experiment env c token now x (r, b1) = ((r2, b2), res)"
      by (metis prod.collapse)
    have "reachable_repo r2" by (rule publish_reachable [OF assms(1) q])
    moreover have "rv_rollback env (r, b1) (r2, b2) = (r, b1) \<or> rv_rollback env (r, b1) (r2, b2) = (r2, b2)"
      using assms(2) by (simp add: honest_rollback_def)
    ultimately show ?thesis using False Inr p q assms(1) by (auto simp: complete_candidate_def split: sum.split)
  qed
qed

lemma process_completion_reachable:
  assumes "reachable_repo r" "honest_rollback env"
  shows "reachable_repo (fst (fst (process_completion env i token new_id now (r, b))))"
proof (cases "plus_seconds now 60")
  case (Inr lease)
  show ?thesis
  proof (cases "claim_completion i token now lease r")
    case (Some p)
    obtain r1 c where p: "p = (r1, c)" by (cases p)
    have r1: "reachable_repo r1" by (rule reachable_repo.step [OF assms(1) repo_step.completion_claim]) (use Some p in simp)
    obtain r2 b2 res where q: "complete_candidate env c token new_id now (r1, b) = ((r2, b2), res)" by (metis prod.collapse)
    have r2: "reachable_repo r2" using complete_candidate_reachable [OF r1 assms(2), of c token new_id now b] q by simp
    show ?thesis
      using Inr Some p q r2 reachable_repo.step [OF r2 repo_step.completion_failure]
      by (auto simp: process_completion_def split: sum.split)
  qed (simp add: process_completion_def Inr assms(1))
qed (simp add: process_completion_def assms(1))

section \<open>What a completion publishes\<close>

definition experiments_ok :: "backtests \<Rightarrow> bool" where
  "experiments_ok r = (js_wf (bt_experiments r) \<and> list_all (\<lambda>(k, x). ex_id x = k) (bt_experiments r))"

lemma put_candidate_experiments [simp]: "bt_experiments (put_candidate c r) = bt_experiments r"
  by (simp add: put_candidate_def)

lemma find_experimentD:
  assumes "experiments_ok r" "find_experiment_by_candidate i r = Some x"
  shows "ex_candidate x = i \<and> js_get (bt_experiments r) (ex_id x) = Some x"
proof -
  have x: "x \<in> set (js_values (bt_experiments r))" "ex_candidate x = i"
    using assms(2) by (auto simp: find_experiment_by_candidate_def find_Some_iff)
  then obtain k where k: "js_get (bt_experiments r) k = Some x"
    using assms(1) by (auto simp: experiments_ok_def js_values_iff)
  then have "ex_id x = k" using assms(1) js_get_member [of _ "bt_experiments r" k x] by (fastforce simp: experiments_ok_def)
  then show ?thesis using k x(2) by simp
qed

lemma staged_experiment:
  assumes "experiments_ok r" "ex_candidate x = i"
  shows "ex_candidate (snd (staged i x r)) = i \<and>
    js_get (bt_experiments (fst (staged i x r))) (ex_id (snd (staged i x r))) = Some (snd (staged i x r)) \<and>
    experiments_ok (fst (staged i x r))"
proof (cases "find_experiment_by_candidate i r")
  case None
  then have n: "find (\<lambda>y. ex_candidate y = ex_candidate x) (js_values (bt_experiments r)) = None"
    using assms(2) by (simp add: find_experiment_by_candidate_def)
  have "experiments_ok (r\<lparr>bt_experiments := js_set (ex_id x) x (bt_experiments r)\<rparr>)"
    using assms(1) by (auto simp: experiments_ok_def store_simps intro!: js_set_all)
  then show ?thesis using None n assms(2) by (simp add: staged_def stage_completion_experiment_def store_simps)
next
  case (Some y)
  then show ?thesis using find_experimentD [OF assms(1) Some] assms(1) by (simp add: staged_def)
qed

lemma assess_candidate_of: "assess_candidate env c new_id now s = return (b1, x) \<Longrightarrow> ex_candidate x = cn_id c"
  by (cases s) (auto simp: assess_candidate_def Let_def result_simps experiment_of_def split: option.splits)

lemma process_completion_done:
  assumes "process_completion env i token new_id now (r, b) = ((r', b'), return Done_Completed)"
    "js_get (bt_candidates r) i = Some c0" "cn_status c0 \<noteq> COMPLETED"
  obtains lease r1 c b1 x where "claim_completion i token now lease r = Some (r1, c)"
    "cn_status c \<noteq> TERMINAL_FAILURE_PENDING" "assess_candidate env c new_id now (r1, b) = return (b1, x)"
    "publish_experiment env c token now x (r1, b1) = ((r', b'), return ())"
proof -
  obtain lease where l: "plus_seconds now 60 = return lease"
    using assms(1) by (cases "plus_seconds now 60") (auto simp: process_completion_def)
  have "completion_answer i r \<noteq> Done_Completed"
    using assms(2,3) by (auto simp: completion_answer_def read_candidate_def visible_to_def)
  then have "claim_completion i token now lease r \<noteq> None"
    using assms(1) l by (cases "claim_completion i token now lease r") (auto simp: process_completion_def)
  then obtain r1 c where c: "claim_completion i token now lease r = Some (r1, c)" by auto
  obtain r2 b2 res where q: "complete_candidate env c token new_id now (r1, b) = ((r2, b2), res)" by (metis prod.collapse)
  have q': "complete_candidate env c token new_id now (r1, b) = ((r', b'), return Done_Completed)"
    using assms(1) l c q by (auto simp: process_completion_def split: sum.splits)
  then have t: "cn_status c \<noteq> TERMINAL_FAILURE_PENDING" by (auto simp: complete_candidate_def split: sum.splits if_splits)
  then obtain b1 x where a: "assess_candidate env c new_id now (r1, b) = return (b1, x)"
    using q' by (auto simp: complete_candidate_def split: sum.splits)
  obtain s2 v where "publish_experiment env c token now x (r1, b1) = (s2, v)" by (metis prod.collapse)
  then have "publish_experiment env c token now x (r1, b1) = ((r', b'), return ())"
    using q' t a by (auto simp: complete_candidate_def split: sum.splits)
  then show thesis using that c t a by blast
qed

text \<open>C17. When a completion processor reports COMPLETED for a candidate that was not completed before, the
  candidate is COMPLETED, holds no claim, and names an experiment of its own that is in the store:
  the one staged for it before, if a former attempt got that far, never a second one.\<close>

theorem completion_publishes_experiment:
  assumes "reachable_repo r" "experiments_ok r"
    "process_completion env i token new_id now (r, b) = ((r', b'), return Done_Completed)"
    "js_get (bt_candidates r) i = Some c0" "cn_status c0 \<noteq> COMPLETED"
  shows "\<exists>c x. js_get (bt_candidates r') i = Some c \<and> cn_status c = COMPLETED \<and> cn_claim_token c = None \<and>
    cn_experiment c = Some (ex_id x) \<and> js_get (bt_experiments r') (ex_id x) = Some x \<and> ex_candidate x = i \<and>
    (\<forall>y. find_experiment_by_candidate i r = Some y \<longrightarrow> x = y)"
proof -
  obtain lease r1 c b1 x where c: "claim_completion i token now lease r = Some (r1, c)"
    and a: "assess_candidate env c new_id now (r1, b) = return (b1, x)"
    and p: "publish_experiment env c token now x (r1, b1) = ((r', b'), return ())"
    using process_completion_done [OF assms(3,4,5)] by metis
  have id: "cn_id c = i" and ex: "bt_experiments r1 = bt_experiments r"
    using c repo_ok_get [OF reachable_repo_ok [OF assms(1)] assms(4)] assms(4)
    by (auto simp: claim_completion_def Let_def split: if_splits)
  have ok1: "experiments_ok r1" using assms(2) by (simp add: experiments_ok_def ex)
  let ?s = "staged i x r1"
  have st: "ex_candidate (snd ?s) = i" "js_get (bt_experiments (fst ?s)) (ex_id (snd ?s)) = Some (snd ?s)"
    using staged_experiment [OF ok1, of x i] assess_candidate_of [OF a] id by simp_all
  have same: "\<forall>y. find_experiment_by_candidate i r = Some y \<longrightarrow> snd ?s = y"
    using ex by (simp add: staged_def find_experiment_by_candidate_def)
  have f: "finalize_completion i (cn_completion_generation c) (ex_id (snd ?s)) token now (fst ?s) = return r'"
    using p by (rule publish_cases) (use id in simp_all)
  then obtain c1 where c1: "js_get (bt_candidates (fst ?s)) i = Some c1" "r' = put_candidate (completed (ex_id (snd ?s)) now c1) (fst ?s)"
    by (auto simp: finalize_completion_def split: option.splits if_splits)
  have "repo_ok (fst ?s)" using reachable_repo_ok [OF reachable_repo.step [OF assms(1) repo_step.completion_claim [OF c]]]
      by (simp add: repo_ok_def)
  then have "cn_id c1 = i" using repo_ok_get c1(1) by blast
  then show ?thesis using c1 st same
    by (intro exI [of _ "completed (ex_id (snd ?s)) now c1"] exI [of _ "snd ?s"])
      (simp add: store_simps, simp add: completed_def release_completion_def)
qed

section \<open>A concrete completion\<close>

definition lease0 :: string where
  "lease0 = to_iso 1735689660000"

lemma parse_lease0: "date_parse lease0 = Some 1735689660000"
  unfolding lease0_def by (rule date_parse_to_iso) (simp add: iso_range_def year_from_day_def day_from_year_def ms_per_day_def)

lemma plus_minute: "plus_seconds t0 60 = return lease0"
  by (simp add: plus_seconds_def parse_t0 lease0_def)

lemma lease0_after [simp]: "time_after lease0 t0" "\<not> time_until lease0 t0"
  by (simp_all add: time_after_def time_until_def parse_t0 parse_lease0)

definition sample_run_env :: "unit run_env" where
  "sample_run_env = bench_env.extend sample_bench_env \<lparr>rv_resolve = (\<lambda>_. throw ''X''), rv_evaluation_version = ''1'',
     rv_evaluation_sha256 = ''h'', rv_score = (\<lambda>i m b. return (b, \<lparr>sc_scope = i, sc_formula = ''f'', sc_overall = num 0, sc_eligible = False\<rparr>)),
     rv_submit = (\<lambda>_ b. return b), rv_rollback = (\<lambda>_ s. s)\<rparr>"

definition worked_candidate :: candidate where
  "worked_candidate = worker_succeeded t0 (claimed_candidate sample_candidate sample_request)"

definition worked_attempt :: attempt where
  "worked_attempt = (claimed_attempt sample_candidate sample_request queued_store)\<lparr>at_status := Attempt_Completed,
     at_completed_at := Some t0, at_trade_count := 0, at_audit_only := False, at_lease_expires_at := None\<rparr>"

definition work_store :: backtests where
  "work_store = put_candidate (claimed_candidate sample_candidate sample_request)
     (put_attempt (claimed_attempt sample_candidate sample_request queued_store) queued_store)"

definition worked_store :: backtests where
  "worked_store = \<lparr>bt_snapshots = [], bt_scopes = [(''s'', sample_bench_scope)], bt_scope_keys = [], bt_candidates = [(''c'', worked_candidate)],
     bt_candidate_keys = [], bt_attempts = [(''a'', worked_attempt)], bt_trades = [], bt_experiments = [], bt_replays = [], bt_dispatches = []\<rparr>"

lemma claimed_fields:
  "cn_fence_token (claimed_candidate sample_candidate sample_request) = Some ''w1''"
  "cn_status (claimed_candidate sample_candidate sample_request) = BACKTESTING"
  "at_fence_token (claimed_attempt sample_candidate sample_request queued_store) = Some ''w1''"
  "at_id (claimed_attempt sample_candidate sample_request queued_store) = ''a''"
  "at_number (claimed_attempt sample_candidate sample_request queued_store) = 1"
  "at_candidate (claimed_attempt sample_candidate sample_request queued_store) = ''c''"
  "bt_attempts queued_store = []"
  by (simp_all add: claimed_candidate_def claimed_attempt_def sample_request_def Let_def queued_store_def create_queued_submission_def
      existing_submission_def empty_backtests_def js_values_def create_candidate_def put_candidate_def)

lemma worked_reachable: "reachable_repo worked_store"
proof -
  have w: "reachable_repo work_store"
    unfolding work_store_def by (rule reachable_repo.step [OF queued_reachable repo_step.worker_claim [OF sample_worker_claim]])
  let ?result = "(sample_result [])\<lparr>cb_completed_at := t0\<rparr>"
  have c: "js_get (bt_candidates work_store) ''c'' = Some (claimed_candidate sample_candidate sample_request)"
    "js_get (bt_attempts work_store) ''a'' = Some (claimed_attempt sample_candidate sample_request queued_store)"
    by (simp_all add: work_store_def store_simps claimed_fields)
  have "fenced ''c'' ''a'' ''w1'' work_store = return (claimed_candidate sample_candidate sample_request,
      claimed_attempt sample_candidate sample_request queued_store)"
    by (simp add: fenced_def c claimed_fields)
  then obtain r where p: "persist_worker_success ''c'' ''a'' ?result ''w1'' work_store = return r"
    and b: "bt_candidates r = js_set ''c'' worked_candidate (bt_candidates work_store)"
    by (auto simp: persist_worker_success_def Let_def put_attempt_def worked_candidate_def)
  have "bt_candidates worked_store = bt_candidates r"
    by (simp add: b worked_store_def work_store_def queued_candidates js_set_def)
  then show ?thesis
    by (rule reachable_repo.step [OF reachable_repo.step [OF w repo_step.worker_success [OF p]] repo_step.other])
qed

lemma worked_fields:
  "cn_status worked_candidate = PROCESSING_RESULT" "cn_id worked_candidate = ''c''" "cn_completion_retry_at worked_candidate = Some t0"
  "cn_completion_lease worked_candidate = None" "cn_completion_attempts worked_candidate = 0" "cn_completion_max worked_candidate = 1"
  "cn_scope worked_candidate = ''s''" "cn_origin worked_candidate = SEARCH" "cn_completion_generation worked_candidate = 0"
  "cn_search_run worked_candidate = Some ''r''"
  by (simp_all add: worked_candidate_def worker_succeeded_def release_worker_def claimed_candidate_def sample_candidate_def)

lemma worked_attempt_fields:
  "at_id worked_attempt = ''a''" "at_candidate worked_attempt = ''c''" "at_status worked_attempt = Attempt_Completed"
  by (simp_all add: worked_attempt_def claimed_fields)

definition claimed_worked :: candidate where
  "claimed_worked = completion_claimed ''t'' t0 lease0 worked_candidate"

definition claimed_worked_store :: backtests where
  "claimed_worked_store = put_candidate claimed_worked worked_store"

lemma claimed_worked_fields:
  "cn_status claimed_worked = PROCESSING_RESULT" "cn_id claimed_worked = ''c''" "cn_scope claimed_worked = ''s''"
  "cn_origin claimed_worked = SEARCH" "cn_search_run claimed_worked = Some ''r''" "cn_completion_generation claimed_worked = 1"
  "cn_claim_token claimed_worked = Some ''t''" "cn_completion_lease claimed_worked = Some lease0"
  by (simp_all add: claimed_worked_def completion_claimed_def worked_fields)

lemma worked_claim: "claim_completion ''c'' ''t'' t0 lease0 worked_store = Some (claimed_worked_store, claimed_worked)"
proof -
  have g: "js_get (bt_candidates worked_store) ''c'' = Some worked_candidate" by (simp add: worked_store_def js_get_def)
  have "completion_claimable worked_candidate t0"
    unfolding completion_claimable_def awaiting_completion_def worked_fields in_future_Some by (simp add: in_future_def)
  then show ?thesis by (simp add: claim_completion_def g Let_def claimed_worked_store_def claimed_worked_def)
qed

lemma worked_assessed: "\<exists>x. assess_candidate sample_run_env claimed_worked ''e'' t0 (claimed_worked_store, ()) = return ((), x)"
proof -
  have a: "read_latest_completed_attempt ''c'' claimed_worked_store = Some (worked_attempt\<lparr>at_duration_ms := attempt_duration_ms (at_started_at worked_attempt) (at_completed_at worked_attempt)\<rparr>)"
    by (simp add: read_latest_completed_attempt_def attempts_of_def claimed_worked_store_def worked_store_def js_values_def worked_attempt_fields)
  have s: "stored_scope ''s'' claimed_worked_store = return sample_bench_scope"
    by (simp add: stored_scope_def read_scope_def claimed_worked_store_def put_candidate_def worked_store_def js_get_def visible_to_def)
  have t: "list_trades ''a'' claimed_worked_store = []"
    by (simp add: list_trades_def claimed_worked_store_def put_candidate_def worked_store_def)
  have m: "\<exists>m. evaluate_backtest (completed_result claimed_worked a sample_bench_scope [] t0) v h = return m" for a v h
    by (simp add: evaluate_backtest_def completed_result_def finite_metric_def initial_tally_def number_simps nsub_def nmax_def
        mean_of_def nsum_def sharpe_of_def factor_status_of_def Let_def)
  have am: "\<exists>am. amount_projection (bs_initial_capital sample_bench_scope) [] = return am"
    by (simp add: amount_projection_def round_money_def sample_bench_scope_def number_simps)
  show ?thesis
    using m [of "worked_attempt\<lparr>at_duration_ms := attempt_duration_ms (at_started_at worked_attempt) (at_completed_at worked_attempt)\<rparr>"] am
    by (auto simp: assess_candidate_def claimed_worked_fields a s t worked_attempt_fields Let_def sample_run_env_def bench_env.defs
        result_simps)
qed

lemma worked_completed:
  "\<exists>r'. process_completion sample_run_env ''c'' ''t'' ''e'' t0 (worked_store, ()) = ((r', ()), return Done_Completed)"
proof -
  obtain x where x: "assess_candidate sample_run_env claimed_worked ''e'' t0 (claimed_worked_store, ()) = return ((), x)"
    using worked_assessed by blast
  have e: "bt_experiments claimed_worked_store = []" by (simp add: claimed_worked_store_def worked_store_def)
  let ?r1 = "claimed_worked_store\<lparr>bt_experiments := js_set (ex_id x) x []\<rparr>"
  have st: "staged ''c'' x claimed_worked_store = (?r1, x)"
    by (simp add: staged_def find_experiment_by_candidate_def stage_completion_experiment_def e js_values_def)
  have c: "js_get (bt_candidates ?r1) ''c'' = Some claimed_worked"
    by (simp add: claimed_worked_store_def store_simps claimed_worked_fields)
  have "completion_fence claimed_worked 1 ''t'' t0"
    using in_future_not_lost [of "Some lease0" t0] by (simp add: completion_fence_def claimed_worked_fields in_future_Some)
  then have "finalize_completion ''c'' 1 (ex_id x) ''t'' t0 ?r1 = return (put_candidate (completed (ex_id x) t0 claimed_worked) ?r1)"
    using c by (simp add: finalize_completion_def claimed_worked_fields)
  then have "\<exists>r'. publish_experiment sample_run_env claimed_worked ''t'' t0 x (claimed_worked_store, ()) = ((r', ()), return ())"
    unfolding publish_experiment_def staged_def [symmetric] claimed_worked_fields st
    by (simp add: Let_def st staged_def [symmetric] claimed_worked_fields sample_run_env_def bench_env.defs)
  then obtain r' where "publish_experiment sample_run_env claimed_worked ''t'' t0 x (claimed_worked_store, ()) = ((r', ()), return ())" ..
  then have "complete_candidate sample_run_env claimed_worked ''t'' ''e'' t0 (claimed_worked_store, ()) = ((r', ()), return Done_Completed)"
    by (simp add: complete_candidate_def claimed_worked_fields x)
  then show ?thesis by (simp add: process_completion_def plus_minute worked_claim)
qed

lemma completion_publishes_experiment_witness:
  "\<exists>r' c (x :: experiment_summary). process_completion sample_run_env ''c'' ''t'' ''e'' t0 (worked_store, ()) = ((r', ()), return Done_Completed) \<and>
     js_get (bt_candidates r') ''c'' = Some c \<and> cn_status c = COMPLETED \<and> cn_experiment c = Some (ex_id x)"
proof -
  obtain r' where p: "process_completion sample_run_env ''c'' ''t'' ''e'' t0 (worked_store, ()) = ((r', ()), return Done_Completed)"
    using worked_completed by blast
  have "experiments_ok worked_store" by (simp add: experiments_ok_def worked_store_def)
  moreover have "js_get (bt_candidates worked_store) ''c'' = Some worked_candidate" by (simp add: worked_store_def js_get_def)
  ultimately obtain c and x :: experiment_summary where "js_get (bt_candidates r') ''c'' = Some c" "cn_status c = COMPLETED" "cn_experiment c = Some (ex_id x)"
    using completion_publishes_experiment [OF worked_reachable _ p, of worked_candidate] worked_fields(1) by auto
  then show ?thesis using p by (intro exI [of _ r'] exI [of _ c] exI [of _ x]) simp
qed

end
