(* ===== verification/BacktestView.thy ===== *)
theory BacktestView
  imports BacktestRun
begin

text \<open>
  Reading back (\<^verbatim>\<open>BacktestingService\<close> in \<^verbatim>\<open>modules/backtesting/application/service.ts\<close>):
  the progress of candidates and search runs, pages of trades, experiments, replay
  verification, and the visualization of an experiment.
\<close>

section \<open>Progress\<close>

definition progress_of :: "candidate \<Rightarrow> attempt_progress list \<Rightarrow> candidate_progress" where
  "progress_of c as = (candidate_progress.truncate c)\<lparr>cn_attempts := as\<rparr>"

definition candidate_status_of :: "string \<Rightarrow> string \<Rightarrow> backtests \<Rightarrow> candidate_progress result" where
  "candidate_status_of user i r = and_then (owned_candidate user i r) (\<lambda>c. return (progress_of c (list_attempts i r)))"

record search_summary =
  sy_run :: string
  sy_active :: "candidate_progress list"
  sy_queued :: nat
  sy_running :: nat
  sy_tested :: nat
  sy_failed :: nat
  sy_retry_exhausted :: nat
  sy_infrastructure :: nat
  sy_completion_failed :: nat
  sy_failed_attempts :: nat
  sy_average_ms :: "number option"

definition count_if :: "('a \<Rightarrow> bool) \<Rightarrow> 'a list \<Rightarrow> nat" where
  "count_if P xs = length (filter P xs)"

definition summarize_search_candidates :: "string \<Rightarrow> string \<Rightarrow> backtests \<Rightarrow> search_summary result" where
  "summarize_search_candidates user run r = and_then (owned_search_candidates user run r) (\<lambda>cs.
     let attempts = concat (map (\<lambda>c. list_attempts (cn_id c) r) (filter (\<lambda>c. cn_status c \<noteq> CANCELLED) cs));
         failed = filter (\<lambda>c. cn_status c = FAILED) cs
     in return \<lparr>sy_run = run,
          sy_active = map (\<lambda>c. progress_of c (list_attempts (cn_id c) r)) (filter (\<lambda>c. \<not> terminal (cn_status c)) cs),
          sy_queued = count_if (\<lambda>c. cn_status c = QUEUED) cs,
          sy_running = count_if (\<lambda>c. cn_status c \<in> {BACKTESTING, RETRY_WAIT, PROCESSING_RESULT}) cs,
          sy_tested = count_if (\<lambda>c. cn_status c = COMPLETED \<or> cn_status c = FAILED) cs,
          sy_failed = length failed,
          sy_retry_exhausted = count_if (\<lambda>c. cn_failure_kind c = Some RETRY_EXHAUSTED) failed,
          sy_infrastructure = count_if (\<lambda>c. cn_failure_kind c = Some INFRASTRUCTURE) failed,
          sy_completion_failed = count_if (\<lambda>c. cn_failure_kind c = Some COMPLETION_PROCESSING) failed,
          sy_failed_attempts = count_if (\<lambda>a. at_status a = Attempt_Failed) attempts,
          sy_average_ms = average_duration_ms attempts\<rparr>)"

text \<open>An offset cursor is \<^verbatim>\<open>Number(cursor)\<close>.\<close>

definition offset_of :: "string option \<Rightarrow> string \<Rightarrow> nat result" where
  "offset_of cursor code = (case present cursor of None \<Rightarrow> return 0
     | Some t \<Rightarrow> (let n = string_to_number t in
         if \<not> is_integer n \<or> nlt n (num 0) then throw code else return (nat_of_number n)))"

definition list_search_candidates :: "string \<Rightarrow> string \<Rightarrow> nat \<Rightarrow> string option \<Rightarrow> backtests \<Rightarrow>
    (candidate_progress list \<times> string option) result" where
  "list_search_candidates user run limit cursor r =
     (if limit < 1 then throw ''INVALID_PAGE''
      else and_then (owned_search_candidates user run r) (\<lambda>cs.
        let items = sort_by (\<lambda>x y. locale_compare (cn_created_at x) (cn_created_at y)) cs in
        and_then (offset_of cursor ''INVALID_PAGE'') (\<lambda>offset.
          return (map (\<lambda>c. progress_of c (list_attempts (cn_id c) r)) (slice offset (offset + limit) items),
            if offset + limit < length items then Some (show_nat (offset + limit)) else None))))"

definition read_attempt :: "string \<Rightarrow> string \<Rightarrow> backtests \<Rightarrow> attempt result" where
  "read_attempt user i r = and_then (assert_auth user) (\<lambda>_. case read_stored_attempt i (Some user) r of
     None \<Rightarrow> throw ''BACKTEST_ATTEMPT_NOT_FOUND''
   | Some a \<Rightarrow> and_then (owned_candidate user (at_candidate a) r) (\<lambda>_.
       return (a\<lparr>at_duration_ms := attempt_duration_ms (at_started_at a) (at_completed_at a)\<rparr>)))"

section \<open>Experiments and their trades\<close>

definition read_experiment_summary :: "string \<Rightarrow> string \<Rightarrow> backtests \<Rightarrow> experiment_summary result" where
  "read_experiment_summary user i r = and_then (assert_auth user) (\<lambda>_. case read_experiment i (Some user) r of
     None \<Rightarrow> throw ''EXPERIMENT_NOT_FOUND'' | Some x \<Rightarrow> return x)"

definition list_attempt_trades :: "(trade_cursor \<Rightarrow> string) \<Rightarrow> (string \<Rightarrow> trade_cursor option) \<Rightarrow> string \<Rightarrow> string \<Rightarrow> nat option \<Rightarrow>
    string option \<Rightarrow> backtests \<Rightarrow> trade_page result" where
  "list_attempt_trades encode decode user i limit cursor r = and_then (read_attempt user i r) (\<lambda>_.
     page_trades encode decode (list_trades i r) limit cursor user (''attempt:'' @ i))"

definition list_experiment_trades :: "(trade_cursor \<Rightarrow> string) \<Rightarrow> (string \<Rightarrow> trade_cursor option) \<Rightarrow> string \<Rightarrow> string \<Rightarrow> nat option \<Rightarrow>
    string option \<Rightarrow> backtests \<Rightarrow> trade_page result" where
  "list_experiment_trades encode decode user i limit cursor r = and_then (read_experiment_summary user i r) (\<lambda>x.
     page_trades encode decode (xs_trades x) limit cursor user (''experiment:'' @ i))"

definition list_search_experiments :: "string \<Rightarrow> string \<Rightarrow> backtests \<Rightarrow> experiment_summary list result" where
  "list_search_experiments user run r = and_then (assert_auth user) (\<lambda>_.
     let mine = list_experiments_by_run run (Some user) r in
     if mine \<noteq> [] then return mine
     else if list_experiments_by_run run None r \<noteq> [] then throw ''BACKTEST_SEARCH_RUN_NOT_FOUND'' else return [])"

definition score_experiment :: "string \<Rightarrow> string \<Rightarrow> number \<Rightarrow> bool \<Rightarrow> backtests \<Rightarrow> (backtests \<times> experiment_summary) result" where
  "score_experiment user i overall eligible r = (if \<not> is_finite overall then throw ''INVALID_SCORE''
     else and_then (read_experiment_summary user i r) (\<lambda>_.
       case update_experiment_score i overall eligible (Some user) r of None \<Rightarrow> throw ''EXPERIMENT_NOT_FOUND'' | Some x \<Rightarrow> return x))"

section \<open>Replay\<close>

definition replay_sample_limit :: nat where "replay_sample_limit = 50"
definition replay_sample_max :: nat where "replay_sample_max = 500"

fun trade_result_text :: "trade_result \<Rightarrow> string" where
  "trade_result_text WIN = ''WIN''" | "trade_result_text LOSS = ''LOSS''" | "trade_result_text BREAKEVEN = ''BREAKEVEN''"

fun factor_status_text :: "factor_status \<Rightarrow> string" where
  "factor_status_text Factor_Finite = ''FINITE''" | "factor_status_text No_Trades = ''NO_TRADES''"
| "factor_status_text No_Losses = ''NO_LOSSES''" | "factor_status_text No_Gross_Movement = ''NO_GROSS_MOVEMENT''"

fun sharpe_status_text :: "sharpe_status \<Rightarrow> string" where
  "sharpe_status_text Sharpe_Finite = ''FINITE''" | "sharpe_status_text Insufficient_Observations = ''INSUFFICIENT_OBSERVATIONS''"
| "sharpe_status_text Zero_Variance = ''ZERO_VARIANCE''"

definition compared_fields :: "trade \<Rightarrow> (string \<times> json) list" where
  "compared_fields t = [(''id'', JStr (t_id t)), (''sequence'', JNum (num (int (t_sequence t)))), (''entryTime'', JStr (t_entry_time t)),
     (''entryPrice'', JNum (t_entry_price t)), (''exitTime'', JStr (t_exit_time t)), (''exitPrice'', JNum (t_exit_price t)),
     (''quantity'', JNum (t_quantity t)), (''equityBeforeTrade'', JNum (t_equity_before t)),
     (''equityAfterTrade'', JNum (t_equity_after t)), (''feeAmount'', JNum (t_fee_amount t)),
     (''slippageAmount'', JNum (t_slippage_amount t)), (''profit'', JNum (t_profit t)),
     (''resultPercent'', JNum (t_result_percent t)), (''result'', JStr (trade_result_text (t_result t)))]"

definition metric_fields :: "metrics \<Rightarrow> (string \<times> json) list" where
  "metric_fields m = [(''candidateId'', JStr (m_candidate_id m)), (''totalReturnPercent'', JNum (m_total_return m)),
     (''winRatePercent'', JNum (m_win_rate m)), (''numberOfTrades'', JNum (num (int (m_trades m)))),
     (''maxDrawdownPercent'', JNum (m_max_drawdown m)),
     (''profitFactor'', (case m_profit_factor m of None \<Rightarrow> JNull | Some f \<Rightarrow> JNum f)),
     (''profitFactorStatus'', JStr (factor_status_text (m_profit_factor_status m))), (''sharpeRatio'', JNum (m_sharpe m)),
     (''sharpeRatioStatus'', JStr (sharpe_status_text (m_sharpe_status m))), (''evaluationPolicyId'', JStr (m_policy m)),
     (''evaluationRuntimeVersion'', JStr (m_runtime_version m)), (''evaluationRuntimeSha256'', JStr (m_runtime_sha256 m))]"

definition policy_json :: "execution_policy \<Rightarrow> json" where
  "policy_json p = JObj ([(''policyId'', JStr (xp_policy_id p)), (''positionPolicyId'', JStr (xp_position_policy_id p)),
     (''sizingPolicyId'', JStr (xp_sizing_policy_id p)), (''fillPolicyId'', JStr (xp_fill_policy_id p)),
     (''oppositeSignalPolicyId'', JStr (xp_opposite_signal_policy_id p))]
     @ (case xp_stop_loss_percent p of None \<Rightarrow> [] | Some x \<Rightarrow> [(''stopLossPercent'', JNum x)])
     @ (case xp_take_profit_percent p of None \<Rightarrow> [] | Some x \<Rightarrow> [(''takeProfitPercent'', JNum x)])
     @ [(''warmupCandles'', JNum (xp_warmup_candles p)), (''sha256'', JStr (xp_sha256 p))])"

definition compare_values :: "string \<Rightarrow> json option \<Rightarrow> json option \<Rightarrow> mismatch list" where
  "compare_values path e a = (let x = map_option json_stringify e; y = map_option json_stringify a
     in if x \<noteq> y then [\<lparr>mm_field = path, mm_expected = x, mm_actual = y\<rparr>] else [])"

definition compare_fields :: "string \<Rightarrow> (string \<times> json) list \<Rightarrow> (string \<times> json) list \<Rightarrow> string list \<Rightarrow> mismatch list" where
  "compare_fields prefix es as ks = concat (map (\<lambda>k. compare_values (prefix @ ''.'' @ k) (map_of es k) (map_of as k)) ks)"

definition trade_at :: "trade list \<Rightarrow> nat \<Rightarrow> (string \<times> json) list" where
  "trade_at ts i = (if i < length ts then compared_fields (ts ! i) else [])"

definition compared_names :: "string list" where
  "compared_names = [''id'', ''sequence'', ''entryTime'', ''entryPrice'', ''exitTime'', ''exitPrice'', ''quantity'', ''equityBeforeTrade'',
     ''equityAfterTrade'', ''feeAmount'', ''slippageAmount'', ''profit'', ''resultPercent'', ''result'']"

definition trade_mismatches :: "trade list \<Rightarrow> trade list \<Rightarrow> mismatch list" where
  "trade_mismatches es as =
     (if length es \<noteq> length as then compare_values ''trades.length'' (Some (JNum (num (int (length es))))) (Some (JNum (num (int (length as))))) else [])
     @ concat (map (\<lambda>i. compare_fields (''trades['' @ show_nat i @ '']'') (trade_at es i) (trade_at as i) compared_names)
         [0..<max (length es) (length as)])"

record replay_report =
  rr_experiment :: string
  rr_attempt :: string
  rr_match :: bool
  rr_compared :: nat
  rr_mismatches :: "mismatch list"
  rr_total :: nat
  rr_truncated :: bool

definition replay_report_of :: "experiment_summary \<Rightarrow> attempt \<Rightarrow> trade list \<Rightarrow> metrics \<Rightarrow> execution_policy \<Rightarrow> replay_report" where
  "replay_report_of x a ts m policy =
     (let ms = trade_mismatches (xs_trades x) ts
            @ compare_fields ''metrics'' (metric_fields (xs_metrics x)) (metric_fields m) (map fst (metric_fields (xs_metrics x)))
            @ compare_values ''executionPolicy''
                (Some (policy_json (case xs_execution_policy x of Some p \<Rightarrow> p | None \<Rightarrow> policy))) (Some (policy_json policy))
      in \<lparr>rr_experiment = ex_id x, rr_attempt = at_id a, rr_match = (ms = []), rr_compared = max (length ts) (length (xs_trades x)),
          rr_mismatches = take replay_sample_limit ms, rr_total = length ms, rr_truncated = (length ms > replay_sample_limit)\<rparr>)"

definition replayed_simulation :: "('b, 'm) run_env_scheme \<Rightarrow> candidate \<Rightarrow> bench_scope \<Rightarrow> attempt \<Rightarrow> backtests \<Rightarrow> completed_backtest result" where
  "replayed_simulation env c s a r = and_then (prepare_run env c s r) (\<lambda>(cs, analyze, sentiment).
     simulate_backtest (simulation_of c s cs analyze sentiment (at_id a) (at_worker_version a) (at_worker_sha256 a)
       (at_started_at a) (case at_completed_at a of Some t \<Rightarrow> t | None \<Rightarrow> at_started_at a)))"

definition verify_replay :: "('b, 'm) run_env_scheme \<Rightarrow> string \<Rightarrow> string \<Rightarrow> backtests \<Rightarrow> replay_report result" where
  "verify_replay env user i r = and_then (read_experiment_summary user i r) (\<lambda>x.
     and_then (owned_candidate user (ex_candidate x) r) (\<lambda>c.
     and_then (owned_bench_scope user (ex_scope x) r) (\<lambda>s.
     and_then (read_attempt user (xs_attempt x) r) (\<lambda>a.
     and_then (replayed_simulation env c s a r) (\<lambda>result.
     and_then (evaluate_backtest result (rv_evaluation_version env) (rv_evaluation_sha256 env)) (\<lambda>m.
     and_then (case cn_execution_policy c of Some p \<Rightarrow> return p
         | None \<Rightarrow> normalize_execution_policy (be_sha256 env) None (Some (num (int (cn_warmup c)))) (bs_risk_policy s)) (\<lambda>policy.
       return (replay_report_of x a (cb_trades result) m policy))))))))"

definition start_replay :: "(queue_payload \<Rightarrow> string option) \<Rightarrow> string \<Rightarrow> string \<Rightarrow> string \<Rightarrow> string \<Rightarrow> backtesting \<Rightarrow> (backtesting \<times> string) result" where
  "start_replay refuse user i new_id now b = and_then (read_experiment_summary user i (bk_repo b)) (\<lambda>x.
     let v = \<lparr>re_id = new_id, re_experiment = i, re_source_attempt = xs_attempt x, re_owner = user, re_status = Replay_Queued,
               re_sample_limit = replay_sample_limit, re_requested_at = now, re_started_at = None, re_completed_at = None,
               re_claim_token = None, re_lease_expires_at = None\<rparr>;
         b1 = b\<lparr>bk_repo := fst (create_replay v (bk_repo b))\<rparr>
     in return (case enqueue refuse (Replay_Job new_id i replay_sample_limit now) (bk_queue b1) of
          Inl _ \<Rightarrow> b1 | Inr q \<Rightarrow> b1\<lparr>bk_queue := q\<rparr>, new_id))"

definition read_replay_verification :: "string \<Rightarrow> string \<Rightarrow> backtests \<Rightarrow> replay result" where
  "read_replay_verification user i r = and_then (assert_auth user) (\<lambda>_. case read_replay i (Some user) r of
     None \<Rightarrow> throw ''REPLAY_VERIFICATION_NOT_FOUND'' | Some v \<Rightarrow> return v)"

definition replay_failure_of :: "string \<Rightarrow> replay_failure" where
  "replay_failure_of code = (if code = ''BACKTEST_DATASET_NOT_FOUND'' \<or> code = ''SNAPSHOT_INCOMPLETE'' then MISSING_SNAPSHOT
     else if code = ''IMPLEMENTATION_ARTIFACT_UNAVAILABLE'' then IMPLEMENTATION_ARTIFACT_UNAVAILABLE else REPLAY_ARTIFACT_EXPIRED)"

definition replay_outcome :: "nat \<Rightarrow> replay_report result \<Rightarrow> replay_status" where
  "replay_outcome limit res = (case res of Inl e \<Rightarrow> Non_Replayable (replay_failure_of e)
     | Inr p \<Rightarrow> if rr_match p then Replay_Match (rr_compared p)
         else (let ms = take (min limit replay_sample_max) (rr_mismatches p)
               in Replay_Mismatch (rr_compared p) ms (rr_total p) (rr_total p > length ms)))"

definition process_replay :: "('b, 'm) run_env_scheme \<Rightarrow> string \<Rightarrow> string \<Rightarrow> string \<Rightarrow> backtests \<Rightarrow> backtests result" where
  "process_replay env i token now r = and_then (plus_seconds now 60) (\<lambda>lease.
     case claim_replay i token now lease r of None \<Rightarrow> return r
     | Some (r1, v) \<Rightarrow> complete_replay i token now (replay_outcome (re_sample_limit v) (verify_replay env (re_owner v) (re_experiment v) r1)) r1)"

section \<open>A simulation does not depend on its provenance\<close>

definition stamped :: "string \<Rightarrow> string \<Rightarrow> string \<Rightarrow> string \<Rightarrow> simulation_input \<Rightarrow> simulation_input" where
  "stamped version sha256 started ended inp = inp\<lparr>si_worker_version := version, si_worker_sha256 := sha256,
     si_started_at := started, si_completed_at := ended\<rparr>"

named_theorems stamp_simps

lemma stamped_fields [stamp_simps]:
  "si_candidate_id (stamped v h s e inp) = si_candidate_id inp" "si_attempt_id (stamped v h s e inp) = si_attempt_id inp"
  "si_pair (stamped v h s e inp) = si_pair inp" "si_settlement_asset (stamped v h s e inp) = si_settlement_asset inp"
  "si_timeframe (stamped v h s e inp) = si_timeframe inp" "si_candles (stamped v h s e inp) = si_candles inp"
  "si_warmup (stamped v h s e inp) = si_warmup inp" "si_analyze (stamped v h s e inp) = si_analyze inp"
  "si_sentiment_at (stamped v h s e inp) = si_sentiment_at inp" "si_initial_capital (stamped v h s e inp) = si_initial_capital inp"
  "si_fee_rate_percent (stamped v h s e inp) = si_fee_rate_percent inp" "si_slippage_bps (stamped v h s e inp) = si_slippage_bps inp"
  "si_stop_loss_percent (stamped v h s e inp) = si_stop_loss_percent inp"
  "si_take_profit_percent (stamped v h s e inp) = si_take_profit_percent inp"
  by (simp_all add: stamped_def)

lemma stamped_helpers [stamp_simps]:
  "slippage_bps_of (stamped v h s e inp) = slippage_bps_of inp" "warmup_of (stamped v h s e inp) = warmup_of inp"
  "input_invalid (stamped v h s e inp) = input_invalid inp" "validate_candle (stamped v h s e inp) = validate_candle inp"
  by (simp_all add: slippage_bps_of_def warmup_of_def input_invalid_def validate_candle_def fun_eq_iff stamp_simps)

lemma stamped_close [stamp_simps]: "close_position (stamped v h s e inp) = close_position inp"
  by (intro ext) (simp only: close_position_def stamp_simps)

lemma stamped_open [stamp_simps]: "open_position (stamped v h s e inp) = open_position inp"
  by (intro ext) (simp only: open_position_def stamp_simps)

lemma stamped_fill [stamp_simps]: "fill_scheduled (stamped v h s e inp) = fill_scheduled inp"
  by (intro ext) (simp only: fill_scheduled_def stamp_simps)

lemma stamped_protect [stamp_simps]: "protect_position (stamped v h s e inp) = protect_position inp"
  by (intro ext) (simp only: protect_position_def stamp_simps)

lemma stamped_signal [stamp_simps]: "schedule_signal (stamped v h s e inp) = schedule_signal inp"
  by (intro ext) (simp only: schedule_signal_def strategy_context_at_def stamp_simps)

lemma stamped_run [stamp_simps]: "run_candles (stamped v h s e inp) = run_candles inp"
proof -
  have "sim_step (stamped v h s e inp) = sim_step inp" "finish (stamped v h s e inp) = finish inp"
    by (intro ext, simp only: sim_step_def stamp_simps) (intro ext, simp only: finish_def stamp_simps)
  then show ?thesis by (intro ext) (simp only: run_candles_def stamp_simps)
qed

lemma stamped_validate [stamp_simps]: "validate_candles (stamped v h s e inp) prev cs = validate_candles inp prev cs"
  by (induction cs arbitrary: prev) (simp_all add: stamp_simps)

lemma stamped_simulation:
  assumes "simulate_backtest inp = return result"
  shows "\<exists>result'. simulate_backtest (stamped v h s e inp) = return result' \<and> cb_trades result' = cb_trades result \<and>
    cb_candidate_id result' = cb_candidate_id result"
  using assms by (auto simp: simulate_backtest_def stamp_simps Let_def result_simps)

lemma evaluate_cong:
  "cb_trades r = cb_trades r' \<Longrightarrow> cb_candidate_id r = cb_candidate_id r' \<Longrightarrow> evaluate_backtest r v h = evaluate_backtest r' v h"
  by (simp add: evaluate_backtest_def)

section \<open>Honest experiments replay\<close>

lemma compare_fields_same: "compare_fields p es es ks = []"
  by (simp add: compare_fields_def compare_values_def)

lemma trade_mismatches_same: "trade_mismatches ts ts = []"
  by (simp add: trade_mismatches_def compare_fields_same)

lemma report_same:
  "xs_trades x = ts \<Longrightarrow> xs_metrics x = m \<Longrightarrow> xs_execution_policy x = Some policy \<Longrightarrow>
    replay_report_of x a ts m policy = \<lparr>rr_experiment = ex_id x, rr_attempt = at_id a, rr_match = True,
      rr_compared = length ts, rr_mismatches = [], rr_total = 0, rr_truncated = False\<rparr>"
  by (simp add: replay_report_of_def trade_mismatches_same compare_fields_same compare_values_def Let_def)

lemma simulation_reproduced:
  assumes "simulate_backtest (simulation_of c s cs f g i v h t e) = return result"
  shows "\<exists>result'. simulate_backtest (simulation_of c s cs f g i v' h' t' e') = return result' \<and>
    cb_trades result' = cb_trades result \<and> cb_candidate_id result' = cn_id c"
proof -
  have "cb_candidate_id result = cn_id c"
    using assms by (auto simp: simulate_backtest_def simulation_of_def Let_def result_simps)
  then show ?thesis
    using stamped_simulation [OF assms, of v' h' t' e'] by (simp add: stamped_def simulation_of_def)
qed

text \<open>C18. Replaying is deterministic: an experiment whose trades came out of the simulation of its candidate, scope
  and attempt, and whose metrics were evaluated from them, replays as a MATCH of all its trades with
  no mismatch, whichever worker runtime and whenever the original run took place.\<close>

theorem honest_replay_matches:
  assumes "read_experiment_summary user i r = return x" "owned_candidate user (ex_candidate x) r = return c"
    "owned_bench_scope user (ex_scope x) r = return s" "read_attempt user (xs_attempt x) r = return a"
    "prepare_run env c s r = return (cs, analyze, sentiment)"
    "simulate_backtest (simulation_of c s cs analyze sentiment (at_id a) v h started ended) = return result"
    "xs_trades x = cb_trades result"
    "evaluate_backtest (completed_result c a s (xs_trades x) now) (rv_evaluation_version env) (rv_evaluation_sha256 env) = return (xs_metrics x)"
    "xs_execution_policy x = cn_execution_policy c" "cn_execution_policy c = Some policy"
  shows "verify_replay env user i r = return \<lparr>rr_experiment = ex_id x, rr_attempt = at_id a, rr_match = True,
    rr_compared = length (xs_trades x), rr_mismatches = [], rr_total = 0, rr_truncated = False\<rparr>"
proof -
  obtain result' where r': "simulate_backtest (simulation_of c s cs analyze sentiment (at_id a) (at_worker_version a) (at_worker_sha256 a)
      (at_started_at a) (case at_completed_at a of Some t \<Rightarrow> t | None \<Rightarrow> at_started_at a)) = return result'"
    "cb_trades result' = cb_trades result" "cb_candidate_id result' = cn_id c"
    using simulation_reproduced [OF assms(6)] by blast
  have "evaluate_backtest result' (rv_evaluation_version env) (rv_evaluation_sha256 env) = return (xs_metrics x)"
    using assms(7,8) r'(2,3) evaluate_cong [of result' "completed_result c a s (xs_trades x) now"] by (simp add: completed_result_def)
  then show ?thesis
    using assms r' report_same [of x "cb_trades result'" "xs_metrics x" policy a] by (simp add: verify_replay_def replayed_simulation_def)
qed


section \<open>A concrete replay\<close>

definition sample_policy :: execution_policy where
  "sample_policy = \<lparr>xp_policy_id = ''p'', xp_position_policy_id = [], xp_sizing_policy_id = [], xp_fill_policy_id = [],
     xp_opposite_signal_policy_id = [], xp_stop_loss_percent = None, xp_take_profit_percent = None, xp_warmup_candles = num 0, xp_sha256 = []\<rparr>"

definition honest_candidate :: candidate where
  "honest_candidate = sample_candidate\<lparr>cn_status := COMPLETED, cn_composite := sample_single,
     cn_definitions := [sample_definition 10 ''0''], cn_execution_policy := Some sample_policy\<rparr>"

definition honest_attempt :: attempt where
  "honest_attempt = \<lparr>at_id = ''a'', at_number = 1, at_status = Attempt_Completed, at_started_at = t0, at_completed_at = None,
     at_duration_ms = None, at_delivery_count = None, at_failure_category = None, at_failure_code = None, at_error_message = None,
     at_candidate = ''c'', at_queue_job = ''c'', at_worker_version = ''1'', at_worker_sha256 = ''h'', at_trade_count = 0,
     at_audit_only = False, at_fence_token = None, at_lease_expires_at = None\<rparr>"

definition honest_experiment :: "metrics \<Rightarrow> experiment_summary" where
  "honest_experiment m = \<lparr>ex_id = ''e'', ex_owner = Some ''u'', ex_candidate = ''c'', ex_search_run = None, ex_scope = ''s'', ex_formula = ''f'',
     ex_score = num 0, ex_eligible = False, xs_attempt = ''a'', xs_composite = sample_single, xs_snapshot = lb_snapshot sample_scope,
     xs_sentiment = None, xs_definitions = [sample_definition 10 ''0''], xs_execution_policy = Some sample_policy,
     xs_provenance = bs_provenance sample_bench_scope, xs_worker_version = ''1'', xs_worker_sha256 = ''h'', xs_evaluation_version = ''1'',
     xs_evaluation_sha256 = ''h'', xs_fee_rate_percent = num 0, xs_slippage_bps = num 0,
     xs_amounts = \<lparr>am_initial_capital = num 100, am_total_profit = num 0, am_ending_equity = num 100, am_wins = 0, am_losses = 0,
       am_breakevens = 0, am_max_drawdown = num 0\<rparr>, xs_metrics = m, xs_trades = [], xs_created_at = t0\<rparr>"

definition honest_scope :: bench_scope where
  "honest_scope = sample_bench_scope\<lparr>bs_initial_capital := Fin 10\<rparr>"

definition honest_store :: "metrics \<Rightarrow> backtests" where
  "honest_store m = \<lparr>bt_snapshots = [(''d'', lb_snapshot sample_scope, [])], bt_scopes = [(''s'', honest_scope)], bt_scope_keys = [],
     bt_candidates = [(''c'', honest_candidate)], bt_candidate_keys = [], bt_attempts = [(''a'', honest_attempt)], bt_trades = [],
     bt_experiments = [(''e'', honest_experiment m)], bt_replays = [], bt_dispatches = []\<rparr>"

definition holding :: strategy where
  "holding = \<lparr>s_name = ''RSI'', s_category = MOMENTUM, s_analyze = (\<lambda>_. HOLD), s_visualize = None\<rparr>"

definition honest_env :: "unit run_env" where
  "honest_env = sample_run_env\<lparr>rv_resolve := (\<lambda>_. return holding)\<rparr>"

lemma honest_reads:
  "assert_auth ''u'' = return ()"
  "read_experiment_summary ''u'' ''e'' (honest_store m) = return (honest_experiment m)"
  "owned_candidate ''u'' ''c'' (honest_store m) = return honest_candidate"
  "owned_bench_scope ''u'' ''s'' (honest_store m) = return honest_scope"
  "read_attempt ''u'' ''a'' (honest_store m) = return honest_attempt"
proof -
  show u: "assert_auth ''u'' = return ()" by (simp add: assert_auth_def trim_def is_space_def)
  have c: "js_get (bt_candidates (honest_store m)) ''c'' = Some honest_candidate" "cn_owner honest_candidate = ''u''"
    "js_get (bt_attempts (honest_store m)) ''a'' = Some honest_attempt" "at_candidate honest_attempt = ''c''"
    "at_completed_at honest_attempt = None" "honest_attempt\<lparr>at_duration_ms := None\<rparr> = honest_attempt"
    by (simp_all add: honest_store_def js_get_def honest_candidate_def sample_candidate_def honest_attempt_def)
  show "read_experiment_summary ''u'' ''e'' (honest_store m) = return (honest_experiment m)"
    by (simp add: read_experiment_summary_def u read_experiment_def honest_store_def js_get_def honest_experiment_def)
  show o: "owned_candidate ''u'' ''c'' (honest_store m) = return honest_candidate"
    by (simp add: owned_candidate_def u read_candidate_def c visible_to_def)
  show "owned_bench_scope ''u'' ''s'' (honest_store m) = return honest_scope"
    by (simp add: owned_bench_scope_def u read_scope_def honest_store_def js_get_def visible_to_def honest_scope_def sample_bench_scope_def)
  show "read_attempt ''u'' ''a'' (honest_store m) = return honest_attempt"
    by (simp add: read_attempt_def u read_stored_attempt_def c visible_to_def o attempt_duration_ms_def)
qed

definition honest_analyze :: "strategy_context \<Rightarrow> signal" where
  "honest_analyze x = runtime_combine sample_single [(''strategy-definition-0'', HOLD)]"

lemma honest_prepares: "prepare_run honest_env honest_candidate honest_scope (honest_store m) = return ([], honest_analyze, None)"
proof -
  have s: "scope_snapshot (bs_snapshot_id honest_scope) (honest_store m) = return (lb_snapshot sample_scope, [])"
    by (simp add: scope_snapshot_def read_input_snapshot_def honest_store_def honest_scope_def sample_bench_scope_def js_get_def)
  have c: "composite_strategy (rv_resolve honest_env) (cn_definitions honest_candidate) (cn_composite honest_candidate) = return honest_analyze"
    by (simp add: composite_strategy_def honest_env_def honest_candidate_def sample_single_def sample_definition_def holding_def
        honest_analyze_def fun_eq_iff)
  have "be_descriptors honest_env = []" "be_sentiment honest_env = None"
    by (simp_all add: honest_env_def sample_run_env_def sample_bench_env_def bench_env.defs)
  then show ?thesis by (simp add: prepare_run_def s c strategy_requirements_def load_sentiment_def)
qed

lemma honest_simulates:
  "\<exists>result. simulate_backtest (simulation_of honest_candidate honest_scope [] honest_analyze None ''a'' v h started ended) = return result \<and>
     cb_trades result = []"
proof -
  let ?i = "simulation_of honest_candidate honest_scope [] honest_analyze None ''a'' v h started ended"
  have f: "si_candles ?i = []" "si_initial_capital ?i = Fin 10" "si_fee_rate_percent ?i = Fin 0" "slippage_bps_of ?i = Fin 0"
    "warmup_of ?i = Fin 0" "si_stop_loss_percent ?i = None" "si_take_profit_percent ?i = None" "si_settlement_asset ?i = ''USDT''"
    by (simp_all add: simulation_of_def honest_scope_def sample_bench_scope_def slippage_bps_of_def warmup_of_def honest_candidate_def
        sample_candidate_def settlement_asset_of_def sample_scope_def stop_loss_of_def take_profit_of_def sample_policy_def number_simps)
  have "run_candles ?i [] 0 = return (initial_sim (dec 1000 2))"
    unfolding run_candles_def f sample_zero sample_ten and_then.simps sample_rates sample_rounded
    by (simp add: finish_def initial_sim_def)
  moreover have "\<not> input_invalid ?i" by (simp add: input_invalid_def f trim_def is_space_def number_simps)
  ultimately show ?thesis unfolding simulate_backtest_def f
    by (simp add: assert_positive_percent_def sort_candles_def initial_sim_def number_simps)
qed

lemma honest_evaluates: "\<exists>m. evaluate_backtest (completed_result honest_candidate honest_attempt honest_scope [] t0)
    (rv_evaluation_version honest_env) (rv_evaluation_sha256 honest_env) = return m"
  by (simp add: evaluate_backtest_def completed_result_def finite_metric_def initial_tally_def number_simps nsub_def nmax_def
      mean_of_def nsum_def sharpe_of_def factor_status_of_def Let_def)
lemma honest_replay_matches_witness:
  "\<exists>m. verify_replay honest_env ''u'' ''e'' (honest_store m) = return \<lparr>rr_experiment = ''e'', rr_attempt = ''a'', rr_match = True,
     rr_compared = 0, rr_mismatches = [], rr_total = 0, rr_truncated = False\<rparr>"
proof -
  obtain m where m: "evaluate_backtest (completed_result honest_candidate honest_attempt honest_scope [] t0)
    (rv_evaluation_version honest_env) (rv_evaluation_sha256 honest_env) = return m" using honest_evaluates by blast
  obtain result where r: "simulate_backtest (simulation_of honest_candidate honest_scope [] honest_analyze None ''a'' [] [] [] []) = return result"
    "cb_trades result = []" using honest_simulates by blast
  have f: "ex_candidate (honest_experiment m) = ''c''" "ex_scope (honest_experiment m) = ''s''" "xs_attempt (honest_experiment m) = ''a''"
    "ex_id (honest_experiment m) = ''e''" "xs_trades (honest_experiment m) = []" "xs_metrics (honest_experiment m) = m" "at_id honest_attempt = ''a''"
    "xs_execution_policy (honest_experiment m) = Some sample_policy" "cn_execution_policy honest_candidate = Some sample_policy"
    by (simp_all add: honest_experiment_def honest_attempt_def honest_candidate_def)
  have "verify_replay honest_env ''u'' ''e'' (honest_store m) = return \<lparr>rr_experiment = ex_id (honest_experiment m), rr_attempt = at_id honest_attempt,
     rr_match = True, rr_compared = length (xs_trades (honest_experiment m)), rr_mismatches = [], rr_total = 0, rr_truncated = False\<rparr>"
    by (rule honest_replay_matches [where c = honest_candidate and s = honest_scope and cs = "[]" and analyze = honest_analyze
          and sentiment = None and v = "[]" and h = "[]" and started = "[]" and ended = "[]" and result = result and now = t0 and policy = sample_policy])
      (simp_all only: f honest_reads honest_prepares r m)
  then show ?thesis by (simp add: f) blast
qed

end
