(* ===== verification/BacktestVisual.thy ===== *)
theory BacktestVisual
  imports BacktestView
begin

text \<open>
  The visualization of an experiment (\<^verbatim>\<open>readExperimentVisualization\<close> in
  \<^verbatim>\<open>modules/backtesting/application/service.ts\<close>): one page of the candles of its snapshot,
  the overlays its strategies draw over them, and the markers of its trades, all cut to a
  window of time. The strategy module's resolution and drawing are arguments.
\<close>

section \<open>Windows and contexts\<close>

definition visualization_candle_default :: nat where "visualization_candle_default = 500"
definition visualization_candle_max :: nat where "visualization_candle_max = 2000"
definition visualization_overlay_max :: nat where "visualization_overlay_max = 32"

definition in_window :: "int \<Rightarrow> int \<Rightarrow> string \<Rightarrow> bool" where
  "in_window from_ms to_ms t = (case date_parse t of None \<Rightarrow> False | Some m \<Rightarrow> from_ms \<le> m \<and> m < to_ms)"

definition visualization_contexts :: "candle list \<Rightarrow> strategy_context list" where
  "visualization_contexts cs = map (\<lambda>i. \<lparr>x_pair = c_pair (cs ! i), x_timeframe = c_timeframe (cs ! i),
     x_candles = map to_strategy_candle (take (i + 1) cs), x_current_price = c_close (cs ! i), x_sentiment = None\<rparr>) [0..<length cs]"

section \<open>Overlays\<close>

fun points_invalid :: "overlay_points \<Rightarrow> bool" where
  "points_invalid (Line_Points ps) = list_ex (\<lambda>(t, v). date_parse t = None \<or> \<not> is_finite v) ps"
| "points_invalid (Zone_Points ps) = list_ex (\<lambda>(t, low, high). date_parse t = None \<or> \<not> is_finite low \<or> \<not> is_finite high \<or> nlt high low) ps"
| "points_invalid (Signal_Points ps) = list_ex (\<lambda>(t, v, s). date_parse t = None \<or> \<not> is_finite v) ps"

fun points_within :: "int \<Rightarrow> int \<Rightarrow> overlay_points \<Rightarrow> overlay_points" where
  "points_within a b (Line_Points ps) = Line_Points (filter (\<lambda>(t, _). in_window a b t) ps)"
| "points_within a b (Zone_Points ps) = Zone_Points (filter (\<lambda>(t, _). in_window a b t) ps)"
| "points_within a b (Signal_Points ps) = Signal_Points (filter (\<lambda>(t, _). in_window a b t) ps)"

fun point_times :: "overlay_points \<Rightarrow> string list" where
  "point_times (Line_Points ps) = map fst ps"
| "point_times (Zone_Points ps) = map fst ps"
| "point_times (Signal_Points ps) = map fst ps"

definition overlay_invalid :: "strategy_definition \<Rightarrow> overlay \<Rightarrow> bool" where
  "overlay_invalid d v = (trim (ov_id v) = [] \<or> ov_definition_id v \<noteq> Some (sd_id d) \<or> trim (ov_label v) = [] \<or> points_invalid (ov_points v))"

definition cut_overlay :: "int \<Rightarrow> int \<Rightarrow> strategy_definition \<Rightarrow> overlay \<Rightarrow> overlay result" where
  "cut_overlay a b d v = (if overlay_invalid d v then throw ''INVALID_VISUALIZATION_PAGE''
     else return (v\<lparr>ov_points := points_within a b (ov_points v)\<rparr>))"

record drawing =
  dw_resolve :: "strategy_definition \<Rightarrow> strategy result"
  dw_build :: "(strategy_definition \<Rightarrow> strategy_context list \<Rightarrow> overlay list) option"

definition definition_overlays :: "drawing \<Rightarrow> (strategy_definition \<Rightarrow> strategy_context list \<Rightarrow> overlay list) \<Rightarrow> strategy_context list \<Rightarrow>
    int \<Rightarrow> int \<Rightarrow> strategy_definition \<Rightarrow> overlay list result" where
  "definition_overlays w build xs a b d = (case dw_resolve w d of Inl _ \<Rightarrow> throw ''IMPLEMENTATION_ARTIFACT_UNAVAILABLE''
     | Inr _ \<Rightarrow> map_results (cut_overlay a b d) (build d xs))"

definition build_experiment_overlays :: "drawing \<Rightarrow> strategy_definition list \<Rightarrow> candle list \<Rightarrow> int \<Rightarrow> int \<Rightarrow> overlay list result" where
  "build_experiment_overlays w ds cs a b = (case dw_build w of None \<Rightarrow> return []
     | Some build \<Rightarrow> and_then (map_results (definition_overlays w build (visualization_contexts cs) a b) ds) (\<lambda>vs.
         let overlays = concat vs
         in if length overlays > visualization_overlay_max then throw ''INVALID_VISUALIZATION_PAGE'' else return overlays))"

section \<open>Markers\<close>

datatype marker_kind = ENTRY | STOP_LOSS_LEVEL | TAKE_PROFIT_LEVEL | EXIT

fun marker_kind_text :: "marker_kind \<Rightarrow> string" where
  "marker_kind_text ENTRY = ''ENTRY''" | "marker_kind_text STOP_LOSS_LEVEL = ''STOP_LOSS''"
| "marker_kind_text TAKE_PROFIT_LEVEL = ''TAKE_PROFIT''" | "marker_kind_text EXIT = ''EXIT''"

fun marker_order :: "marker_kind \<Rightarrow> int" where
  "marker_order ENTRY = 0" | "marker_order STOP_LOSS_LEVEL = 1" | "marker_order TAKE_PROFIT_LEVEL = 2" | "marker_order EXIT = 3"

record marker =
  mk_id :: string
  mk_trade :: string
  mk_sequence :: nat
  mk_kind :: marker_kind
  mk_side :: trade_signal
  mk_time :: string
  mk_price :: number
  mk_exit_reason :: "exit_reason option"
  mk_highlighted :: bool

definition marker_of :: "string option \<Rightarrow> trade \<Rightarrow> marker_kind \<Rightarrow> string \<Rightarrow> number \<Rightarrow> marker" where
  "marker_of highlight t k time price = \<lparr>mk_id = t_id t @ '':'' @ marker_kind_text k, mk_trade = t_id t, mk_sequence = t_sequence t,
     mk_kind = k, mk_side = t_signal t, mk_time = time, mk_price = price,
     mk_exit_reason = (if k = EXIT then Some (t_exit_reason t) else None), mk_highlighted = (highlight = Some (t_id t))\<rparr>"

definition trade_markers :: "string option \<Rightarrow> trade \<Rightarrow> marker list" where
  "trade_markers highlight t = [marker_of highlight t ENTRY (t_entry_time t) (t_entry_price t)]
     @ (case t_stop_loss t of None \<Rightarrow> [] | Some p \<Rightarrow> [marker_of highlight t STOP_LOSS_LEVEL (t_entry_time t) p])
     @ (case t_take_profit t of None \<Rightarrow> [] | Some p \<Rightarrow> [marker_of highlight t TAKE_PROFIT_LEVEL (t_entry_time t) p])
     @ [marker_of highlight t EXIT (t_exit_time t) (t_exit_price t)]"

definition marker_cmp :: "marker compare_fn" where
  "marker_cmp x y = or_else (the (date_parse (mk_time x)) - the (date_parse (mk_time y)))
     (or_else (int (mk_sequence x) - int (mk_sequence y))
       (or_else (marker_order (mk_kind x) - marker_order (mk_kind y)) (locale_compare (mk_id x) (mk_id y))))"

definition markers_within :: "string option \<Rightarrow> int \<Rightarrow> int \<Rightarrow> trade list \<Rightarrow> marker list" where
  "markers_within highlight a b ts =
     sort_by marker_cmp (filter (\<lambda>m. in_window a b (mk_time m)) (concat (map (trade_markers highlight) ts)))"

section \<open>The page\<close>

record visual_request =
  vr_limit :: "nat option"
  vr_from :: "string option"
  vr_to :: "string option"
  vr_cursor :: "string option"
  vr_highlight :: "string option"

record visualization =
  vz_experiment :: string
  vz_snapshot :: snapshot_ref
  vz_candles :: "candle list"
  vz_overlays :: "overlay list"
  vz_markers :: "marker list"
  vz_next :: "string option"

text \<open>The window asked for, or the whole range of the snapshot; a range of the snapshot that does not parse
  compares as NaN, which refuses nothing.\<close>

definition bound_violated :: "(int \<Rightarrow> int \<Rightarrow> bool) \<Rightarrow> int \<Rightarrow> int option \<Rightarrow> bool" where
  "bound_violated rel x y = (case y of None \<Rightarrow> False | Some z \<Rightarrow> rel x z)"

definition window_of :: "visual_request \<Rightarrow> snapshot_ref \<Rightarrow> (int \<times> int) result" where
  "window_of q s = (case (date_parse (case vr_from q of Some t \<Rightarrow> t | None \<Rightarrow> sn_from s),
       date_parse (case vr_to q of Some t \<Rightarrow> t | None \<Rightarrow> sn_to s)) of
     (Some a, Some b) \<Rightarrow>
       if bound_violated (<) a (date_parse (sn_from s)) \<or> bound_violated (>) b (date_parse (sn_to s)) \<or> a \<ge> b
       then throw ''INVALID_VISUALIZATION_PAGE'' else return (a, b)
   | _ \<Rightarrow> throw ''INVALID_VISUALIZATION_PAGE'')"

definition before_end :: "int \<Rightarrow> string \<Rightarrow> bool" where
  "before_end b t = (case date_parse t of None \<Rightarrow> False | Some m \<Rightarrow> m < b)"

definition read_visualization :: "drawing \<Rightarrow> string \<Rightarrow> string \<Rightarrow> visual_request \<Rightarrow> backtests \<Rightarrow> visualization result" where
  "read_visualization w user i q r =
     (let limit = (case vr_limit q of None \<Rightarrow> visualization_candle_default | Some n \<Rightarrow> n) in
      and_then (reject_if (limit < 1 \<or> limit > visualization_candle_max) ''INVALID_VISUALIZATION_PAGE'') (\<lambda>_.
      and_then (read_experiment_summary user i r) (\<lambda>x.
      and_then (scope_snapshot (sn_id (xs_snapshot x)) r) (\<lambda>(s, cs).
      and_then (window_of q s) (\<lambda>(a, b).
      and_then (reject_if (case present (vr_highlight q) of None \<Rightarrow> False | Some h \<Rightarrow> h \<notin> set (map t_id (xs_trades x))) ''TRADE_NOT_FOUND'') (\<lambda>_.
      and_then (offset_of (vr_cursor q) ''INVALID_VISUALIZATION_PAGE'') (\<lambda>offset.
        let closed = closed_candles cs; window = filter (\<lambda>c. in_window a b (c_timestamp c)) closed in
        and_then (reject_if (offset > length window) ''INVALID_VISUALIZATION_PAGE'') (\<lambda>_.
        and_then (build_experiment_overlays w (xs_definitions x) (filter (\<lambda>c. before_end b (c_timestamp c)) closed) a b) (\<lambda>overlays.
          return \<lparr>vz_experiment = i, vz_snapshot = s, vz_candles = slice offset (offset + limit) window, vz_overlays = overlays,
            vz_markers = markers_within (vr_highlight q) a b (xs_trades x),
            vz_next = (if offset + limit < length window then Some (show_nat (offset + limit)) else None)\<rparr>)))))))))"

section \<open>Everything drawn lies in the window\<close>

lemma points_within_times: "list_all (in_window a b) (point_times (points_within a b ps))"
  by (cases ps) (auto simp: list_all_iff)

lemma cut_overlay_within: "cut_overlay a b d v = return v' \<Longrightarrow> list_all (in_window a b) (point_times (ov_points v'))"
  by (auto simp: cut_overlay_def points_within_times split: if_splits)

lemma definition_overlays_within:
  "definition_overlays w build xs a b d = return vs \<Longrightarrow> list_all (\<lambda>v. list_all (in_window a b) (point_times (ov_points v))) vs"
  unfolding list_all_iff [where xs = vs]
  by (auto simp: definition_overlays_def split: sum.splits dest!: map_results_set cut_overlay_within)

lemma experiment_overlays_within:
  assumes "build_experiment_overlays w ds cs a b = return vs"
  shows "length vs \<le> visualization_overlay_max \<and> list_all (\<lambda>v. list_all (in_window a b) (point_times (ov_points v))) vs"
proof (cases "dw_build w")
  case (Some build)
  then obtain vss where m: "map_results (definition_overlays w build (visualization_contexts cs) a b) ds = return vss"
    and vs: "vs = concat vss" "length vs \<le> visualization_overlay_max"
    using assms by (auto simp: build_experiment_overlays_def Let_def result_simps split: if_splits)
  have "list_all (\<lambda>v. list_all (in_window a b) (point_times (ov_points v))) ys" if "ys \<in> set vss" for ys
    using map_results_set [OF m that] definition_overlays_within by blast
  then show ?thesis using vs by (auto simp: list_all_iff)
qed (use assms in \<open>simp add: build_experiment_overlays_def\<close>)

lemma markers_in_window: "list_all (\<lambda>m. in_window a b (mk_time m)) (markers_within h a b ts)"
  by (simp add: markers_within_def list_all_iff)


lemma or_else_diff_le_0: "or_else (a - b) c \<le> 0 \<longleftrightarrow> a < b \<or> a = b \<and> c \<le> 0"
  by (auto simp: or_else_def)

interpretation mk: comparator_laws marker_cmp "\<lambda>_. True"
  by unfold_locales (auto simp: marker_cmp_def or_else_diff_le_0)

lemma markers_ordered: "sorted_wrt (\<lambda>x y. marker_cmp x y \<le> 0) (markers_within h a b ts)"
  unfolding markers_within_def by (rule mk.sort_by_sorted) (simp add: list_all_iff)

text \<open>A page of an experiment's visualization stays in its window: it holds at most 2000 closed candles and at most
  32 overlays, every candle, overlay point and marker on it lies in the window the request
  resolves to, and the markers are ordered by time, trade and kind.\<close>

lemma visualization_stays_in_window:
  assumes "read_visualization w user i q r = return z"
  shows "\<exists>a b. window_of q (vz_snapshot z) = return (a, b) \<and>
    length (vz_candles z) \<le> visualization_candle_max \<and>
    list_all (\<lambda>c. c_is_closed c \<and> in_window a b (c_timestamp c)) (vz_candles z) \<and>
    length (vz_overlays z) \<le> visualization_overlay_max \<and>
    list_all (\<lambda>v. list_all (in_window a b) (point_times (ov_points v))) (vz_overlays z) \<and>
    list_all (\<lambda>m. in_window a b (mk_time m)) (vz_markers z) \<and> sorted_wrt (\<lambda>x y. marker_cmp x y \<le> 0) (vz_markers z)"
proof -
  define limit where "limit = (case vr_limit q of None \<Rightarrow> visualization_candle_default | Some n \<Rightarrow> n)"
  obtain x s cs where l: "limit \<le> visualization_candle_max"
    and r1: "read_experiment_summary user i r = return x" "scope_snapshot (sn_id (xs_snapshot x)) r = return (s, cs)"
    using assms by (auto simp: read_visualization_def limit_def [symmetric] Let_def result_simps)
  note step = assms [unfolded read_visualization_def limit_def [symmetric] Let_def, simplified and_then_Inr_iff r1 and_then.simps prod.case]
  obtain a b offset where w: "window_of q s = return (a, b)" and f: "offset_of (vr_cursor q) ''INVALID_VISUALIZATION_PAGE'' = return offset"
    using step r1 by (auto simp: result_simps)
  define window where "window = filter (\<lambda>c. in_window a b (c_timestamp c)) (closed_candles cs)"
  obtain overlays where o: "build_experiment_overlays w (xs_definitions x) (filter (\<lambda>c. before_end b (c_timestamp c)) (closed_candles cs)) a b = return overlays"
    and z: "z = \<lparr>vz_experiment = i, vz_snapshot = s, vz_candles = slice offset (offset + limit) window, vz_overlays = overlays,
      vz_markers = markers_within (vr_highlight q) a b (xs_trades x),
      vz_next = (if offset + limit < length window then Some (show_nat (offset + limit)) else None)\<rparr>"
    using step r1 w f by (auto simp: window_def result_simps)
  have "list_all (\<lambda>c. c_is_closed c \<and> in_window a b (c_timestamp c)) (vz_candles z)"
    unfolding list_all_iff by (auto simp: z window_def closed_candles_def dest!: subsetD [OF set_slice])
  moreover have "length (vz_candles z) \<le> visualization_candle_max" by (simp add: z) (use l in simp)
  moreover have "vz_snapshot z = s" "vz_overlays z = overlays" "vz_markers z = markers_within (vr_highlight q) a b (xs_trades x)"
    by (simp_all add: z)
  ultimately show ?thesis using w experiment_overlays_within [OF o] markers_in_window markers_ordered by auto
qed

definition sample_request_window :: visual_request where
  "sample_request_window = \<lparr>vr_limit = None, vr_from = Some t0, vr_to = Some t1, vr_cursor = None, vr_highlight = None\<rparr>"

lemma visualization_stays_in_window_witness:
  "\<exists>m z. read_visualization \<lparr>dw_resolve = (\<lambda>_. return holding), dw_build = None\<rparr> ''u'' ''e'' sample_request_window (honest_store m) = return z \<and>
     length (vz_candles z) \<le> visualization_candle_max"
proof -
  have n: "date_parse [] = None" by (simp add: date_parse_def num_at_def)
  have s: "scope_snapshot ''d'' (honest_store m) = return (lb_snapshot sample_scope, [])" for m
    by (simp add: scope_snapshot_def read_input_snapshot_def honest_store_def js_get_def)
  have "\<exists>z. read_visualization \<lparr>dw_resolve = (\<lambda>_. return holding), dw_build = None\<rparr> ''u'' ''e'' sample_request_window (honest_store m) = return z" for m
    by (simp add: read_visualization_def sample_request_window_def visualization_candle_default_def visualization_candle_max_def honest_reads
        honest_experiment_def sample_scope_def [symmetric] s window_of_def parse_t0 parse_t1 bound_violated_def offset_of_def build_experiment_overlays_def
        n Let_def, simp add: sample_scope_def s [unfolded sample_scope_def] n bound_violated_def)
  then show ?thesis using visualization_stays_in_window by blast
qed

end
