(* ===== verification/SearchRandom.thy ===== *)
theory SearchRandom
  imports Simulator "HOL-Library.Word"
begin

text \<open>
  The pseudo random numbers of the strategy generators (\<^verbatim>\<open>rngFor\<close> in
  \<^verbatim>\<open>modules/search/domain/generators.ts\<close> and \<^verbatim>\<open>genetic.ts\<close>): a linear congruential
  generator on 32-bit words, seeded from a hash. A computation that draws numbers passes the
  state of the generator along and may throw.
\<close>

section \<open>Computations that draw numbers\<close>

type_synonym 'a random = "32 word \<Rightarrow> ('a \<times> 32 word) result"

definition rreturn :: "'a \<Rightarrow> 'a random" where
  "rreturn x s = return (x, s)"

definition rthrow :: "string \<Rightarrow> 'a random" where
  "rthrow e s = throw e"

definition rbind :: "'a random \<Rightarrow> ('a \<Rightarrow> 'b random) \<Rightarrow> 'b random" where
  "rbind m f s = and_then (m s) (\<lambda>(x, s1). f x s1)"

fun rmap :: "('a \<Rightarrow> 'b random) \<Rightarrow> 'a list \<Rightarrow> 'b list random" where
  "rmap f [] = rreturn []"
| "rmap f (x # xs) = rbind (f x) (\<lambda>y. rbind (rmap f xs) (\<lambda>ys. rreturn (y # ys)))"

fun rfold :: "('a \<Rightarrow> 'b \<Rightarrow> 'b random) \<Rightarrow> 'a list \<Rightarrow> 'b \<Rightarrow> 'b random" where
  "rfold f [] b = rreturn b"
| "rfold f (x # xs) b = rbind (f x b) (rfold f xs)"

lemma rreturn_Inr [simp]: "rreturn x s = Inr (y, s1) \<longleftrightarrow> y = x \<and> s1 = s"
  by (auto simp: rreturn_def)

lemma rthrow_Inr [simp]: "rthrow e s \<noteq> Inr r"
  by (simp add: rthrow_def)

lemma rbind_Inr: "rbind m f s = Inr (y, s2) \<longleftrightarrow> (\<exists>x s1. m s = Inr (x, s1) \<and> f x s1 = Inr (y, s2))"
  by (auto simp: rbind_def result_simps)

lemma rbindE:
  assumes "rbind m f s = Inr (y, s2)"
  obtains x s1 where "m s = Inr (x, s1)" "f x s1 = Inr (y, s2)"
  using assms by (auto simp: rbind_Inr)

lemma rfold_invariant:
  assumes "rfold f xs b s = Inr (c, s1)" "I b" "\<And>x b s c s1. x \<in> set xs \<Longrightarrow> I b \<Longrightarrow> f x b s = Inr (c, s1) \<Longrightarrow> I c"
  shows "I c"
  using assms
proof (induction xs arbitrary: b s)
  case (Cons x xs)
  from Cons.prems(1) obtain y s2 where y: "f x b s = Inr (y, s2)" "rfold f xs y s2 = Inr (c, s1)" by (auto elim: rbindE)
  have "I y" using Cons.prems(2,3) y(1) by (meson list.set_intros(1))
  then show ?case using Cons.IH [OF y(2)] Cons.prems(3) by (meson list.set_intros(2))
qed simp

lemma rmap_member: "rmap f xs s = Inr (ys, s1) \<Longrightarrow> y \<in> set ys \<Longrightarrow> \<exists>x\<in>set xs. \<exists>s s1. f x s = Inr (y, s1)"
proof (induction xs arbitrary: ys s)
  case (Cons x xs)
  from Cons.prems(1) obtain z s2 zs where "f x s = Inr (z, s2)" "rmap f xs s2 = Inr (zs, s1)" "ys = z # zs"
    by (auto elim!: rbindE)
  then show ?case using Cons.IH [where ys = zs and s = s2] Cons.prems(2) by auto
qed simp

lemma rmap_length: "rmap f xs s = Inr (ys, s1) \<Longrightarrow> length ys = length xs"
  by (induction xs arbitrary: ys s) (auto elim!: rbindE)

lemma rmap_all2: "rmap f xs s = Inr (ys, s1) \<Longrightarrow> (\<And>x y s s1. x \<in> set xs \<Longrightarrow> f x s = Inr (y, s1) \<Longrightarrow> R x y) \<Longrightarrow> list_all2 R xs ys"
  by (induction xs arbitrary: ys s) (auto elim!: rbindE)

section \<open>The generator\<close>

definition rng_step :: "32 word \<Rightarrow> 32 word" where
  "rng_step s = s * 1664525 + 1013904223"

definition unit_of :: "32 word \<Rightarrow> number" where
  "unit_of s = ndiv (num (uint s)) (num 4294967296)"

definition draw :: "number random" where
  "draw s = (let s1 = rng_step s in return (unit_of s1, s1))"

definition is_hex_digit :: "char \<Rightarrow> bool" where
  "is_hex_digit c = (radix_val c < 16)"

text \<open>\<^verbatim>\<open>Number.parseInt(hash(run:iteration).slice(0, 8), 16) || 1\<close>; the hash is an argument.\<close>

definition seed_of :: "(string \<Rightarrow> string) \<Rightarrow> string \<Rightarrow> nat \<Rightarrow> 32 word" where
  "seed_of sha256 run iteration =
     (let n = foldl (\<lambda>a c. 16 * a + radix_val c) 0 (takeWhile is_hex_digit (take 8 (sha256 (run @ '':'' @ show_nat iteration)))) in
      if n = 0 then 1 else word_of_nat n)"

definition draw_index :: "nat \<Rightarrow> nat random" where
  "draw_index k = rbind draw (\<lambda>u. rreturn (nat_of_number (nfloor (nmul u (num (int k))))))"

text \<open>\<^verbatim>\<open>xs[Math.floor(random() * xs.length)]\<close>, \<^verbatim>\<open>undefined\<close> being \<open>None\<close>.\<close>

definition pick :: "'a list \<Rightarrow> 'a option random" where
  "pick xs = rbind (draw_index (length xs)) (\<lambda>i. rreturn (if i < length xs then Some (xs ! i) else None))"

section \<open>A drawn index is in range\<close>

lemma rnd_scaled:
  assumes "\<bar>m\<bar> < 2 ^ 53" "- 1074 \<le> e" "e \<le> 0"
  shows "rnd (of_int m * 2 powi e) = Fin (of_int m * 2 powi e)"
proof (cases "m = 0")
  case False
  have b: "of_int \<bar>m\<bar> < (of_int (2 ^ 53) :: rat)" using assms(1) by (simp only: of_int_less_iff)
  have a: "\<bar>of_int m * 2 powi e\<bar> < (2::rat) powi (e + 53)"
    using b by (simp add: powi2_53 abs_mult)
  have g: "rnd_val (of_int m * 2 powi e) = of_int m * 2 powi e"
    by (rule rnd_val_grid) (rule ulp_exp_le, use False assms a in simp_all)
  have "(2::rat) powi (e + 53) \<le> 2 powi 53" using assms(3) by (intro powi2_mono) simp
  also have "\<dots> < 2 powi 1024" by (simp only: powi2_less_iff)
  finally have "\<bar>of_int m * 2 powi e\<bar> < (2::rat) ^ 1024" using a by (simp add: power_int_def)
  then show ?thesis unfolding rnd_def g of_val_def by (auto simp: abs_less_iff)
qed simp

lemma unit_of_exact:
  obtains n where "0 \<le> n" "n \<le> 4294967295" "unit_of s = Fin (of_int n * 2 powi (- 32))"
proof -
  obtain n where n: "n = uint s" "0 \<le> n" "n \<le> 4294967295"
  proof -
    have "uint s < 4294967296" using uint_bounded [of s] by simp
    then have "uint s \<le> 4294967295" by linarith
    then show thesis using that uint_ge_0 by blast
  qed
  have "num n = Fin (of_int n)" "num 4294967296 = Fin 4294967296"
    using num_exact [of n] num_exact [of 4294967296] n by simp_all
  moreover have "rnd (of_int n * 2 powi (- 32)) = Fin (of_int n * 2 powi (- 32))"
    using n by (intro rnd_scaled) simp_all
  ultimately have "unit_of s = Fin (of_int n * 2 powi (- 32))" by (simp add: unit_of_def n(1) [symmetric] power_int_def field_simps)
  then show thesis using that n by blast
qed

text \<open>Rounding never lifts the product to the length itself, for every length an array can have.\<close>

lemma scaled_draw:
  assumes "0 < k" "k \<le> 4294967296"
  obtains v where "nmul (unit_of s) (num (int k)) = Fin v" "0 \<le> v" "v < of_nat k"
proof -
  obtain n where u: "0 \<le> n" "n \<le> 4294967295" "unit_of s = Fin (of_int n * 2 powi (- 32))" by (rule unit_of_exact)
  let ?p = "of_int n * 2 powi (- 32) * of_nat k :: rat"
  have m: "nmul (unit_of s) (num (int k)) = rnd ?p" using num_exact [of "int k"] assms by (simp add: u)
  have l: "(of_int n :: rat) \<le> of_int 4294967295" using u(2) by (simp only: of_int_le_iff)
  have z: "0 \<le> ?p" using u(1) by (intro mult_nonneg_nonneg) simp_all
  have below: "?p \<le> of_nat k - of_nat k / 4294967296"
    using mult_right_mono [OF l, of "of_nat k / 4294967296"] by (simp add: power_int_def field_simps)
  show ?thesis
  proof (cases "k \<le> 2097152")
    case True
    have "n * int k < 4294967296 * 2097152"
      using u True assms by (intro mult_less_le_imp_less) simp_all
    then have "rnd (of_int (n * int k) * 2 powi (- 32)) = Fin (of_int (n * int k) * 2 powi (- 32))"
      using u(1) by (intro rnd_scaled) (simp_all add: abs_if mult_less_0_iff)
    then have "rnd ?p = Fin ?p" by (simp add: mult.commute mult.left_commute)
    moreover have "?p < of_nat k" using below assms(1) by (simp add: field_simps)
    ultimately show ?thesis using m z by (intro that [of ?p]) simp_all
  next
    case False
    let ?d = "of_int (int k * 1048576 - 1) * 2 powi (- 20) :: rat"
    have r: "rnd ?d = Fin ?d" using assms False by (intro rnd_scaled) simp_all
    have d: "?d = of_nat k - 1 / 1048576" by (simp add: power_int_def field_simps)
    have "(of_nat 2097152 :: rat) \<le> of_nat k" using False by (simp only: of_nat_le_iff)
    then have "1 / 1048576 \<le> (of_nat k / 4294967296 :: rat)" by simp
    then have "?p \<le> ?d" unfolding d using below by linarith
    then have "nle (rnd ?p) (Fin ?d)" "nle (Fin 0) (rnd ?p)" using double.upper [OF r] double.nonneg [OF z] by blast+
    then obtain v where "rnd ?p = Fin v" "0 \<le> v" "v \<le> ?d" by (cases "rnd ?p") auto
    moreover have "?d < of_nat k" unfolding d by simp
    ultimately show ?thesis using that m by simp
  qed
qed

lemma draw_index_below:
  assumes "draw_index k s = Inr (i, s1)" "0 < k" "k \<le> 4294967296"
  shows "i < k"
proof -
  obtain v where v: "nmul (unit_of (rng_step s)) (num (int k)) = Fin v" "0 \<le> v" "v < of_nat k"
    using scaled_draw [OF assms(2,3)] by blast
  have "i = nat \<lfloor>v\<rfloor>" using assms(1) v(1) by (auto simp: draw_index_def draw_def Let_def rbind_def)
  moreover have "\<lfloor>v\<rfloor> < int k" using v(3) by (simp add: floor_less_iff)
  moreover have "0 \<le> \<lfloor>v\<rfloor>" using v(2) by simp
  ultimately show ?thesis by linarith
qed

lemma pick_member: "pick xs s = Inr (Some x, s1) \<Longrightarrow> x \<in> set xs"
  by (auto simp: pick_def elim!: rbindE split: if_splits)

lemma pick_some: "pick xs s = Inr (r, s1) \<Longrightarrow> xs \<noteq> [] \<Longrightarrow> length xs \<le> 4294967296 \<Longrightarrow> r \<noteq> None"
  by (auto simp: pick_def elim!: rbindE split: if_splits dest!: draw_index_below)

end
