(* ===== verification/SearchGenetic.thy ===== *)
theory SearchGenetic
  imports SearchRandom BacktestTypes StrategyService JsonText
begin

text \<open>
  Search spaces and the genetic generator (\<^verbatim>\<open>modules/search/domain/contracts.ts\<close> and
  \<^verbatim>\<open>genetic.ts\<close>): descriptors and legal values of parameters, mutation with the repair of
  related parameters, crossover, fingerprints and the bounded search for an unseen candidate.
  The SHA-256 hash and the time of creation are arguments.
\<close>

section \<open>The search space\<close>

record search_descriptor = param_descriptor +
  pd_step :: "number option"

record search_definition = strategy_definition +
  sq_category :: "strategy_category option"
  sq_descriptors :: "search_descriptor list option"

record domain_rules =
  dr_required :: "strategy_category list option"
  dr_allowed :: "strategy_category list option"
  dr_forbidden :: "strategy_category list option"

record search_space =
  sp_available :: "search_definition list"
  sp_rules :: "domain_rules option"
  sp_max_components :: "number option"
  sp_generated :: "string list"

record generated_candidate =
  gc_definitions :: "search_definition list"
  gc_composite :: composite_definition
  gc_stop_loss :: "number option"
  gc_take_profit :: "number option"
  gc_type :: generator_type
  gc_fingerprint :: string
  gc_lineage :: "lineage option"

section \<open>Descriptors\<close>

definition bounds_ok :: "search_descriptor \<Rightarrow> bool" where
  "bounds_ok d =
     ((case pd_minimum d of None \<Rightarrow> True | Some a \<Rightarrow> is_finite a \<and> (case pd_maximum d of None \<Rightarrow> True | Some b \<Rightarrow> \<not> nlt b a)) \<and>
      (case pd_maximum d of None \<Rightarrow> True | Some b \<Rightarrow> is_finite b) \<and>
      (case pd_step d of None \<Rightarrow> True | Some s \<Rightarrow> is_finite s \<and> nlt (num 0) s))"

definition is_descriptor :: "search_descriptor \<Rightarrow> bool" where
  "is_descriptor d = (trim (pd_key d) \<noteq> [] \<and>
     (if pd_type d = ENUM
      then (case (pd_default d, pd_options d) of (PStr s, Some os) \<Rightarrow> os \<noteq> [] \<and> distinct os \<and> s \<in> set os | _ \<Rightarrow> False)
      else (case pd_default d of PNum n \<Rightarrow> is_finite n \<and> bounds_ok d | PStr _ \<Rightarrow> False)))"

definition inferred_descriptor :: "string \<times> param \<Rightarrow> search_descriptor" where
  "inferred_descriptor = (\<lambda>(k, v).
     \<lparr>pd_key = k, pd_label = k,
      pd_type = (case v of PNum n \<Rightarrow> if is_integer n then INTEGER else NUMBER | PStr _ \<Rightarrow> ENUM),
      pd_required = False, pd_default = v, pd_minimum = None, pd_maximum = None,
      pd_options = (case v of PNum _ \<Rightarrow> None | PStr s \<Rightarrow> Some [s]),
      pd_step = (case v of PNum n \<Rightarrow> Some (if is_integer n then num 1 else lit 1 1) | PStr _ \<Rightarrow> None)\<rparr>)"

definition descriptors_for :: "search_definition \<Rightarrow> search_descriptor list result" where
  "descriptors_for d = (case sq_descriptors d of
     None \<Rightarrow> return (map inferred_descriptor (sd_parameters d))
   | Some ds \<Rightarrow> if \<not> list_all is_descriptor ds \<or> \<not> distinct (map pd_key ds) then throw ''INVALID_SEARCH_CONFIG'' else return ds)"

definition step_off :: "search_descriptor \<Rightarrow> number \<Rightarrow> number \<Rightarrow> bool" where
  "step_off d s v = (let k = ndiv (nsub v (case pd_minimum d of None \<Rightarrow> num 0 | Some a \<Rightarrow> a)) s
     in nlt (lit 1 7) (nabs (nsub k (nround k))))"

definition aligned :: "search_descriptor \<Rightarrow> number \<Rightarrow> bool" where
  "aligned d v =
     (\<not> (case pd_minimum d of None \<Rightarrow> False | Some a \<Rightarrow> nlt v (nsub a (lit 1 9))) \<and>
      \<not> (case pd_maximum d of None \<Rightarrow> False | Some b \<Rightarrow> nlt (nadd b (lit 1 9)) v) \<and>
      \<not> (pd_type d = INTEGER \<and> \<not> is_integer v) \<and>
      \<not> (case pd_step d of None \<Rightarrow> False | Some s \<Rightarrow> step_off d s v))"

definition valid_value :: "param \<Rightarrow> search_descriptor \<Rightarrow> bool" where
  "valid_value v d = (if pd_type d = ENUM
     then (case (v, pd_options d) of (PStr s, Some os) \<Rightarrow> s \<in> set os | _ \<Rightarrow> False)
     else (case v of PNum n \<Rightarrow> is_finite n \<and> aligned d n | PStr _ \<Rightarrow> False))"

fun normal_params :: "search_descriptor list \<Rightarrow> params \<Rightarrow> params \<Rightarrow> params result" where
  "normal_params [] source acc = return acc"
| "normal_params (d # ds) source acc =
     (let v = (case js_get source (pd_key d) of None \<Rightarrow> pd_default d | Some v \<Rightarrow> v)
      in if \<not> valid_value v d then throw ''INVALID_SEARCH_CONFIG'' else normal_params ds source (js_set (pd_key d) v acc))"

definition normalize_definition :: "search_definition \<Rightarrow> (search_definition \<times> search_descriptor list) result" where
  "normalize_definition d = and_then (descriptors_for d) (\<lambda>ds.
     if list_ex (\<lambda>k. k \<notin> set (map pd_key ds)) (map fst (sd_parameters d)) then throw ''INVALID_SEARCH_CONFIG''
     else and_then (normal_params ds (sd_parameters d) []) (\<lambda>ps. return (d\<lparr>sd_parameters := ps\<rparr>, ds)))"

section \<open>Legal values\<close>

definition round12 :: "number \<Rightarrow> number" where
  "round12 v = to_fixed_num 12 v"

definition step_of :: "search_descriptor \<Rightarrow> number \<Rightarrow> number" where
  "step_of d current = (case pd_step d of Some s \<Rightarrow> s
     | None \<Rightarrow> if pd_type d = INTEGER then num 1
        else nmax (lit 1 2) (ndiv (nabs (nsub (case pd_maximum d of None \<Rightarrow> nadd current (num 8) | Some b \<Rightarrow> b)
                                              (case pd_minimum d of None \<Rightarrow> nsub current (num 8) | Some a \<Rightarrow> a))) (num 100)))"

definition lowest_of :: "search_descriptor \<Rightarrow> number \<Rightarrow> number" where
  "lowest_of d current = (case pd_minimum d of None \<Rightarrow> nsub current (nmul (step_of d current) (num 8)) | Some a \<Rightarrow> a)"

definition highest_of :: "search_descriptor \<Rightarrow> number \<Rightarrow> number" where
  "highest_of d current = (case pd_maximum d of None \<Rightarrow> nadd current (nmul (step_of d current) (num 8)) | Some b \<Rightarrow> b)"

definition value_count :: "search_descriptor \<Rightarrow> number \<Rightarrow> nat" where
  "value_count d current = nat_of_number (nmin (num 10000)
     (nadd (nfloor (nadd (ndiv (nsub (highest_of d current) (lowest_of d current)) (step_of d current)) (lit 1 9))) (num 1)))"

text \<open>The loop pushes an aligned value unless it is already there: \<open>uniq\<close> keeps the first of equal ones.\<close>

definition numeric_values :: "search_descriptor \<Rightarrow> number \<Rightarrow> number list" where
  "numeric_values d current = uniq (filter (aligned d)
     (map (\<lambda>i. round12 (nadd (lowest_of d current) (nmul (num (int i)) (step_of d current)))) [0..<value_count d current]))"

definition legal_values :: "search_descriptor \<Rightarrow> param \<Rightarrow> param list" where
  "legal_values d current = (if pd_type d = ENUM then map PStr (case pd_options d of None \<Rightarrow> [] | Some os \<Rightarrow> os)
     else map PNum (numeric_values d (case current of PNum n \<Rightarrow> n | PStr _ \<Rightarrow> to_number (pd_default d))))"

text \<open>Strict inequality; NaN differs from itself.\<close>

fun param_differs :: "param \<Rightarrow> param \<Rightarrow> bool" where
  "param_differs (PNum x) (PNum y) = (\<not> neq x y)"
| "param_differs (PStr s) (PStr t) = (s \<noteq> t)"
| "param_differs _ _ = True"

definition mutate_value :: "search_descriptor \<Rightarrow> param \<Rightarrow> param random" where
  "mutate_value d current = (let choices = filter (\<lambda>v. param_differs v current) (legal_values d current) in
     if choices = [] then rreturn current
     else rbind (pick choices) (\<lambda>r. case r of None \<Rightarrow> rthrow ''INDEX_OUT_OF_RANGE'' | Some v \<Rightarrow> rreturn v))"

section \<open>Related parameters\<close>

datatype relation_op = Below | Above

record relationship =
  rl_left :: string
  rl_right :: string
  rl_op :: relation_op

definition parameter_key :: "params \<Rightarrow> string \<Rightarrow> string option" where
  "parameter_key ps name = find (\<lambda>k. to_lower k = name) (map fst ps)"

fun satisfies :: "number \<Rightarrow> number \<Rightarrow> relation_op \<Rightarrow> bool" where
  "satisfies x y Below = nlt x y"
| "satisfies x y Above = nlt y x"

definition relation_of :: "string option \<Rightarrow> string option \<Rightarrow> relation_op \<Rightarrow> relationship list" where
  "relation_of x y rel = (case (x, y) of (Some l, Some r) \<Rightarrow> [\<lparr>rl_left = l, rl_right = r, rl_op = rel\<rparr>] | _ \<Rightarrow> [])"

definition relationships_of :: "search_definition \<Rightarrow> params \<Rightarrow> relationship list" where
  "relationships_of d ps = relation_of (parameter_key ps ''fastperiod'') (parameter_key ps ''slowperiod'') Below
     @ relation_of (parameter_key ps ''buythreshold'') (parameter_key ps ''sellthreshold'')
         (if to_upper (sd_strategy_name d) = ''SENTIMENT'' then Above else Below)"

definition descriptor_by_key :: "search_descriptor list \<Rightarrow> string \<Rightarrow> search_descriptor option" where
  "descriptor_by_key ds k = find (\<lambda>d. pd_key d = k) (rev ds)"

definition numbers_in :: "param list \<Rightarrow> number list" where
  "numbers_in vs = List.map_filter (\<lambda>v. case v of PNum n \<Rightarrow> Some n | PStr _ \<Rightarrow> None) vs"

definition legal_pairs :: "search_descriptor \<Rightarrow> number \<Rightarrow> search_descriptor \<Rightarrow> number \<Rightarrow> relation_op \<Rightarrow> (number \<times> number) list" where
  "legal_pairs dl x dr y rel = concat (map (\<lambda>a. map (Pair a) (filter (\<lambda>b. satisfies a b rel) (numbers_in (legal_values dr (PNum y)))))
     (numbers_in (legal_values dl (PNum x))))"

definition repair_one :: "search_descriptor list \<Rightarrow> relationship \<Rightarrow> params \<times> string list \<Rightarrow> (params \<times> string list) random" where
  "repair_one ds q = (\<lambda>(ps, changed).
     (case (js_get ps (rl_left q), js_get ps (rl_right q), descriptor_by_key ds (rl_left q), descriptor_by_key ds (rl_right q)) of
        (Some (PNum x), Some (PNum y), Some dl, Some dr) \<Rightarrow>
          if pd_type dl = ENUM \<or> pd_type dr = ENUM \<or> satisfies x y (rl_op q) then rreturn (ps, changed)
          else (let pairs = legal_pairs dl x dr y (rl_op q) in
            if pairs = [] then rthrow ''GENETIC_SEARCH_SPACE_UNSATISFIABLE''
            else rbind (pick pairs) (\<lambda>r. case r of None \<Rightarrow> rthrow ''INDEX_OUT_OF_RANGE''
              | Some (a, b) \<Rightarrow> rreturn (js_set (rl_right q) (PNum b) (js_set (rl_left q) (PNum a) ps),
                  changed @ (if neq x a then [] else [rl_left q]) @ (if neq y b then [] else [rl_right q]))))
      | _ \<Rightarrow> rreturn (ps, changed)))"

definition repair_relationships :: "search_definition \<Rightarrow> search_descriptor list \<Rightarrow> params \<Rightarrow> (params \<times> string list) random" where
  "repair_relationships d ds ps = rfold (repair_one ds) (relationships_of d ps) (ps, [])"

section \<open>Mutation\<close>

definition change_value :: "search_descriptor \<Rightarrow> params \<times> string list \<Rightarrow> (params \<times> string list) random" where
  "change_value d = (\<lambda>(ps, keys). case js_get ps (pd_key d) of None \<Rightarrow> rreturn (ps, keys)
     | Some current \<Rightarrow> rbind (mutate_value d current) (\<lambda>v.
         if param_differs v current then rreturn (js_set (pd_key d) v ps, keys @ [pd_key d]) else rreturn (ps, keys)))"

definition mutate_step :: "search_descriptor \<Rightarrow> params \<times> string list \<Rightarrow> (params \<times> string list) random" where
  "mutate_step d pk = rbind draw (\<lambda>u. if nlt u (lit 55 2) then change_value d pk else rreturn pk)"

fun force_change :: "search_descriptor list \<Rightarrow> params \<times> string list \<Rightarrow> (params \<times> string list) random" where
  "force_change [] pk = rreturn pk"
| "force_change (d # ds) pk = rbind (change_value d pk) (\<lambda>pk1. if snd pk1 \<noteq> snd pk then rreturn pk1 else force_change ds pk1)"

definition mutate_definition :: "search_definition \<Rightarrow> bool \<Rightarrow> (search_definition \<times> string list) random" where
  "mutate_definition d force = (\<lambda>s. and_then (normalize_definition d) (\<lambda>(n, ds).
     (rbind (rfold mutate_step ds (sd_parameters n, [])) (\<lambda>pk.
      rbind (if force \<and> snd pk = [] then force_change ds pk else rreturn pk) (\<lambda>(ps, keys).
      rbind (repair_relationships n ds ps) (\<lambda>(ps1, changed).
        rreturn (n\<lparr>sd_parameters := ps1\<rparr>, uniq (keys @ changed)))))) s))"

section \<open>Mutation keeps parameters typed\<close>

definition param_typed :: "search_descriptor \<Rightarrow> param \<Rightarrow> bool" where
  "param_typed d v = (if pd_type d = ENUM
     then (case (v, pd_options d) of (PStr s, Some os) \<Rightarrow> s \<in> set os | _ \<Rightarrow> False)
     else (case v of PNum n \<Rightarrow> aligned d n | PStr _ \<Rightarrow> False))"

definition well_typed :: "search_descriptor list \<Rightarrow> params \<Rightarrow> bool" where
  "well_typed ds ps = list_all (\<lambda>(k, v). list_ex (\<lambda>d. pd_key d = k \<and> param_typed d v) ds) ps"

lemma valid_typed: "valid_value v d \<Longrightarrow> param_typed d v"
  by (auto simp: valid_value_def param_typed_def split: param.splits option.splits if_splits)

lemma legal_typed: "v \<in> set (legal_values d current) \<Longrightarrow> param_typed d v"
  by (auto simp: legal_values_def param_typed_def numeric_values_def split: option.splits if_splits)

lemma well_typed_set:
  assumes "well_typed ds ps" "d \<in> set ds" "param_typed d v"
  shows "well_typed ds (js_set (pd_key d) v ps)"
proof -
  have "x \<in> set (js_set k v ps) \<Longrightarrow> x = (k, v) \<or> x \<in> set ps" for x k
    by (induction ps) (auto simp: js_set_def split: if_splits)
  then show ?thesis using assms by (fastforce simp: well_typed_def list_all_iff list_ex_iff)
qed

lemma normal_params_typed:
  "normal_params ds source acc = return ps \<Longrightarrow> well_typed es acc \<Longrightarrow> set ds \<subseteq> set es \<Longrightarrow> well_typed es ps"
  by (induction ds source acc rule: normal_params.induct)
    (auto simp: Let_def intro: well_typed_set valid_typed split: if_splits)

lemma normalize_typed: "normalize_definition d = return (n, ds) \<Longrightarrow> well_typed ds (sd_parameters n)"
proof -
  assume "normalize_definition d = return (n, ds)"
  then have "normal_params ds (sd_parameters d) [] = return (sd_parameters n)"
    by (auto simp: normalize_definition_def result_simps split: if_splits)
  then show ?thesis by (rule normal_params_typed) (simp_all add: well_typed_def)
qed

lemma mutate_value_typed:
  assumes "mutate_value d current s = Inr (v, s1)" "param_typed d current"
  shows "param_typed d v"
proof -
  have "v = current \<or> v \<in> set (legal_values d current)"
    using assms(1) by (auto simp: mutate_value_def Let_def elim!: rbindE dest!: pick_member split: if_splits option.splits)
  then show ?thesis using assms(2) legal_typed by blast
qed

lemma typed_lookup: "well_typed ds ps \<Longrightarrow> js_get ps k = Some v \<Longrightarrow> \<exists>d\<in>set ds. pd_key d = k \<and> param_typed d v"
  by (induction ps) (auto simp: well_typed_def js_get_def list_ex_iff split: if_splits)

lemma distinct_keys_eq: "distinct (map pd_key ds) \<Longrightarrow> d \<in> set ds \<Longrightarrow> e \<in> set ds \<Longrightarrow> pd_key d = pd_key e \<Longrightarrow> d = e"
  by (induction ds) (auto simp: image_iff)

lemma change_value_typed:
  assumes "change_value d pk s = Inr (pk1, s1)" "well_typed ds (fst pk)" "d \<in> set ds" "distinct (map pd_key ds)"
  shows "well_typed ds (fst pk1)"
proof -
  obtain ps keys where pk: "pk = (ps, keys)" by (cases pk)
  show ?thesis
  proof (cases "js_get ps (pd_key d)")
    case (Some current)
    then obtain e where "e \<in> set ds" "pd_key e = pd_key d" "param_typed e current"
      using typed_lookup assms(2) pk by fastforce
    then have t: "param_typed d current" using distinct_keys_eq [OF assms(4)] assms(3) by blast
    then show ?thesis using assms Some pk
      by (auto simp: change_value_def elim!: rbindE intro!: well_typed_set mutate_value_typed split: if_splits)
  qed (use assms pk in \<open>auto simp: change_value_def\<close>)
qed

lemma force_change_typed:
  "force_change es pk s = Inr (pk1, s1) \<Longrightarrow> well_typed ds (fst pk) \<Longrightarrow> set es \<subseteq> set ds \<Longrightarrow> distinct (map pd_key ds) \<Longrightarrow> well_typed ds (fst pk1)"
proof (induction es arbitrary: pk s)
  case (Cons d es)
  from Cons.prems(1) obtain pk2 s2 where c: "change_value d pk s = Inr (pk2, s2)"
    and r: "(if snd pk2 \<noteq> snd pk then rreturn pk2 else force_change es pk2) s2 = Inr (pk1, s1)" by (auto elim: rbindE)
  have "well_typed ds (fst pk2)" using change_value_typed [OF c] Cons.prems by simp
  then show ?case using r Cons.IH Cons.prems by (auto split: if_splits)
qed simp

lemma numbers_in_member: "n \<in> set (numbers_in vs) \<longleftrightarrow> PNum n \<in> set vs"
  by (induction vs) (auto simp: numbers_in_def List.map_filter_simps split: param.splits option.splits)

lemma legal_pairs_member:
  "(a, b) \<in> set (legal_pairs dl x dr y rel) \<Longrightarrow> PNum a \<in> set (legal_values dl (PNum x)) \<and> PNum b \<in> set (legal_values dr (PNum y)) \<and> satisfies a b rel"
  by (auto simp: legal_pairs_def numbers_in_member)

lemma descriptor_by_key_Some: "descriptor_by_key ds k = Some d \<Longrightarrow> d \<in> set ds \<and> pd_key d = k"
  by (auto simp: descriptor_by_key_def find_Some_iff) (metis nth_mem set_rev length_rev)

text \<open>What one repair does: nothing, or it writes a legal pair that satisfies the relation.\<close>

lemma repair_one_cases:
  assumes "repair_one ds q (ps, ch) s = Inr ((ps1, ch1), s1)"
  obtains (same) "ps1 = ps" "ch1 = ch" "case (js_get ps (rl_left q), js_get ps (rl_right q), descriptor_by_key ds (rl_left q), descriptor_by_key ds (rl_right q)) of
      (Some (PNum x), Some (PNum y), Some dl, Some dr) \<Rightarrow> pd_type dl = ENUM \<or> pd_type dr = ENUM \<or> satisfies x y (rl_op q) | _ \<Rightarrow> True"
  | (wrote) dl dr x y a b where "descriptor_by_key ds (rl_left q) = Some dl" "descriptor_by_key ds (rl_right q) = Some dr"
      "PNum a \<in> set (legal_values dl (PNum x))" "PNum b \<in> set (legal_values dr (PNum y))" "satisfies a b (rl_op q)"
      "ps1 = js_set (rl_right q) (PNum b) (js_set (rl_left q) (PNum a) ps)"
      "ch1 = ch @ (if neq x a then [] else [rl_left q]) @ (if neq y b then [] else [rl_right q])"
      "js_get ps (rl_left q) = Some (PNum x)" "js_get ps (rl_right q) = Some (PNum y)"
proof (cases "\<exists>x y dl dr. js_get ps (rl_left q) = Some (PNum x) \<and> js_get ps (rl_right q) = Some (PNum y) \<and>
    descriptor_by_key ds (rl_left q) = Some dl \<and> descriptor_by_key ds (rl_right q) = Some dr")
  case True
  then obtain x y dl dr where e: "js_get ps (rl_left q) = Some (PNum x)" "js_get ps (rl_right q) = Some (PNum y)"
    "descriptor_by_key ds (rl_left q) = Some dl" "descriptor_by_key ds (rl_right q) = Some dr" by blast
  show ?thesis
  proof (cases "pd_type dl = ENUM \<or> pd_type dr = ENUM \<or> satisfies x y (rl_op q)")
    case True
    then show ?thesis using assms e same by (simp add: repair_one_def)
  next
    case False
    then obtain a b s2 where p: "pick (legal_pairs dl x dr y (rl_op q)) s = Inr (Some (a, b), s2)"
      "ps1 = js_set (rl_right q) (PNum b) (js_set (rl_left q) (PNum a) ps)"
      "ch1 = ch @ (if neq x a then [] else [rl_left q]) @ (if neq y b then [] else [rl_right q])"
      using assms e by (auto simp: repair_one_def Let_def elim!: rbindE split: if_splits option.splits)
    note m = legal_pairs_member [OF pick_member [OF p(1)]]
    show ?thesis by (rule wrote [of dl dr a x b y]) (use m e p in blast)+
  qed
next
  case False
  then show ?thesis using assms same by (auto simp: repair_one_def split: option.splits param.splits)
qed

lemma repair_one_typed:
  assumes "repair_one ds q (ps, ch) s = Inr ((ps1, ch1), s1)" "well_typed ds ps"
  shows "well_typed ds ps1"
  using assms(1)
proof (cases rule: repair_one_cases)
  case (wrote dl dr x y a b)
  note k = descriptor_by_key_Some [OF wrote(1)] descriptor_by_key_Some [OF wrote(2)]
  have "well_typed ds (js_set (rl_left q) (PNum a) ps)"
    using well_typed_set [OF assms(2), of dl "PNum a"] legal_typed [OF wrote(3)] k by simp
  then show ?thesis using well_typed_set [of ds _ dr "PNum b"] legal_typed [OF wrote(4)] k wrote(6) by simp
qed (use assms in simp)

lemma mutate_step_typed:
  "mutate_step d pk s = Inr (pk1, s1) \<Longrightarrow> well_typed ds (fst pk) \<Longrightarrow> d \<in> set ds \<Longrightarrow> distinct (map pd_key ds) \<Longrightarrow> well_typed ds (fst pk1)"
  by (auto simp: mutate_step_def elim!: rbindE intro: change_value_typed split: if_splits)

lemma repair_typed:
  assumes "repair_relationships d ds ps s = Inr (pk, s1)" "well_typed ds ps"
  shows "well_typed ds (fst pk)"
proof (rule rfold_invariant [where I = "\<lambda>pk. well_typed ds (fst pk)"])
  show "rfold (repair_one ds) (relationships_of d ps) (ps, []) s = Inr (pk, s1)" using assms(1) by (simp add: repair_relationships_def)
  show "well_typed ds (fst (ps, []))" using assms(2) by simp
  show "well_typed ds (fst c)" if "well_typed ds (fst b)" "repair_one ds q b t = Inr (c, t1)" for q b t c t1
    using repair_one_typed [of ds q "fst b" "snd b" t "fst c" "snd c" t1] that by simp
qed

text \<open>The steps of a mutation: the normal parameters, the changes and the repair.\<close>

lemma mutateE:
  assumes "mutate_definition d force s = Inr ((m, keys), s1)"
  obtains n ds ps ks s2 changed where "normalize_definition d = return (n, ds)" "well_typed ds ps \<or> \<not> distinct (map pd_key ds)"
    "repair_relationships n ds ps s2 = Inr ((sd_parameters m, changed), s1)" "m = n\<lparr>sd_parameters := sd_parameters m\<rparr>" "keys = uniq (ks @ changed)"
proof -
  obtain n ds where n: "normalize_definition d = return (n, ds)" and r: "rbind (rfold mutate_step ds (sd_parameters n, [])) (\<lambda>pk.
      rbind (if force \<and> snd pk = [] then force_change ds pk else rreturn pk) (\<lambda>(ps, keys).
      rbind (repair_relationships n ds ps) (\<lambda>(ps1, changed). rreturn (n\<lparr>sd_parameters := ps1\<rparr>, uniq (keys @ changed))))) s = Inr ((m, keys), s1)"
    using assms by (auto simp: mutate_definition_def result_simps)
  from r obtain pk s2 where f: "rfold mutate_step ds (sd_parameters n, []) s = Inr (pk, s2)" and
    r2: "rbind (if force \<and> snd pk = [] then force_change ds pk else rreturn pk) (\<lambda>(ps, keys).
      rbind (repair_relationships n ds ps) (\<lambda>(ps1, changed). rreturn (n\<lparr>sd_parameters := ps1\<rparr>, uniq (keys @ changed)))) s2 = Inr ((m, keys), s1)"
    by (rule rbindE)
  from r2 obtain pk1 s3 where g: "(if force \<and> snd pk = [] then force_change ds pk else rreturn pk) s2 = Inr (pk1, s3)" and
    r3: "(case pk1 of (ps, keys) \<Rightarrow> rbind (repair_relationships n ds ps) (\<lambda>(ps1, changed). rreturn (n\<lparr>sd_parameters := ps1\<rparr>, uniq (keys @ changed)))) s3 = Inr ((m, keys), s1)"
    by (rule rbindE)
  obtain ps ks where pk1: "pk1 = (ps, ks)" by (cases pk1)
  from r3 obtain ps1 changed where h: "repair_relationships n ds ps s3 = Inr ((ps1, changed), s1)" "m = n\<lparr>sd_parameters := ps1\<rparr>" "keys = uniq (ks @ changed)"
    unfolding pk1 by (auto elim!: rbindE)
  have "well_typed ds ps" if "distinct (map pd_key ds)"
  proof -
    have "well_typed ds (fst pk)"
      by (rule rfold_invariant [OF f, where I = "\<lambda>pk. well_typed ds (fst pk)"]) (use normalize_typed [OF n] mutate_step_typed that in auto)
    then show ?thesis using g pk1 force_change_typed [of ds pk s2 pk1 s3 ds] that by (auto split: if_splits)
  qed
  then show thesis using that [OF n _ _ _ h(3), of ps s3] h by auto
qed

lemma normalize_distinct: "normalize_definition d = return (n, ds) \<Longrightarrow> distinct (map fst (sd_parameters d)) \<Longrightarrow> distinct (map pd_key ds)"
  by (auto simp: normalize_definition_def descriptors_for_def inferred_descriptor_def result_simps comp_def case_prod_beta split: option.splits if_splits)


section \<open>Mutation repairs related parameters\<close>

definition relation_holds :: "search_descriptor list \<Rightarrow> params \<Rightarrow> relationship \<Rightarrow> bool" where
  "relation_holds ds ps q =
     (case (js_get ps (rl_left q), js_get ps (rl_right q), descriptor_by_key ds (rl_left q), descriptor_by_key ds (rl_right q)) of
        (Some (PNum x), Some (PNum y), Some dl, Some dr) \<Rightarrow> pd_type dl = ENUM \<or> pd_type dr = ENUM \<or> satisfies x y (rl_op q)
      | _ \<Rightarrow> True)"

definition rel_keys :: "relationship \<Rightarrow> string set" where
  "rel_keys q = {rl_left q, rl_right q}"

lemma repair_one_holds:
  assumes "repair_one ds q (ps, ch) s = Inr ((ps1, ch1), s1)" "rl_left q \<noteq> rl_right q"
  shows "relation_holds ds ps1 q"
  using assms(1)
proof (cases rule: repair_one_cases)
  case same
  then show ?thesis by (simp add: relation_holds_def)
next
  case (wrote dl dr x y a b)
  then show ?thesis using assms(2) by (simp add: relation_holds_def js_get_set)
qed

lemma repair_one_frame:
  assumes "repair_one ds q (ps, ch) s = Inr ((ps1, ch1), s1)" "k \<notin> rel_keys q"
  shows "js_get ps1 k = js_get ps k"
  using assms(1) by (cases rule: repair_one_cases) (use assms(2) in \<open>simp_all add: rel_keys_def js_get_set\<close>)

lemma relation_holds_cong: "js_get ps (rl_left q) = js_get ps1 (rl_left q) \<Longrightarrow> js_get ps (rl_right q) = js_get ps1 (rl_right q) \<Longrightarrow>
    relation_holds ds ps q = relation_holds ds ps1 q"
  by (simp add: relation_holds_def)

lemma repairs_hold:
  assumes "rfold (repair_one ds) qs pk s = Inr (pk1, s1)" "list_all (\<lambda>q. rl_left q \<noteq> rl_right q) qs"
    "sorted_wrt (\<lambda>p q. rel_keys p \<inter> rel_keys q = {}) qs"
  shows "(\<forall>k. (\<forall>q\<in>set qs. k \<notin> rel_keys q) \<longrightarrow> js_get (fst pk1) k = js_get (fst pk) k) \<and> list_all (relation_holds ds (fst pk1)) qs"
  using assms
proof (induction qs arbitrary: pk s)
  case (Cons q qs)
  from Cons.prems(1) obtain pk2 s2 where r: "repair_one ds q (fst pk, snd pk) s = Inr ((fst pk2, snd pk2), s2)"
    and f: "rfold (repair_one ds) qs pk2 s2 = Inr (pk1, s1)" by (auto elim: rbindE)
  have ih: "(\<forall>k. (\<forall>q\<in>set qs. k \<notin> rel_keys q) \<longrightarrow> js_get (fst pk1) k = js_get (fst pk2) k) \<and> list_all (relation_holds ds (fst pk1)) qs"
    using Cons.IH [OF f] Cons.prems by simp
  have "rl_left q \<in> rel_keys q" "rl_right q \<in> rel_keys q" by (simp_all add: rel_keys_def)
  then have "js_get (fst pk1) (rl_left q) = js_get (fst pk2) (rl_left q)" "js_get (fst pk1) (rl_right q) = js_get (fst pk2) (rl_right q)"
    using ih Cons.prems(3) by auto
  then have "relation_holds ds (fst pk1) q"
    using repair_one_holds [OF r] Cons.prems(2) relation_holds_cong [of "fst pk1" q "fst pk2" ds] by simp
  then show ?case using ih repair_one_frame [OF r] by simp
qed simp

lemma parameter_key_lower: "parameter_key ps name = Some k \<Longrightarrow> to_lower k = name"
  by (auto simp: parameter_key_def find_Some_iff)

lemma relationships_disjoint:
  "list_all (\<lambda>q. rl_left q \<noteq> rl_right q) (relationships_of d ps) \<and> sorted_wrt (\<lambda>p q. rel_keys p \<inter> rel_keys q = {}) (relationships_of d ps)"
  by (auto simp: relationships_of_def relation_of_def rel_keys_def dest!: parameter_key_lower split: option.splits)

lemma js_set_keys: "k \<in> set (map fst m) \<Longrightarrow> map fst (js_set k v m) = map fst m"
  by (induction m) (auto simp: js_set_def)

lemma repair_one_keys:
  assumes "repair_one ds q (ps, ch) s = Inr ((ps1, ch1), s1)"
  shows "map fst ps1 = map fst ps"
  using assms
proof (cases rule: repair_one_cases)
  case (wrote dl dr x y a b)
  then have "rl_left q \<in> set (map fst ps)" "rl_right q \<in> set (map fst ps)"
    by (auto simp: js_get_def dest!: map_of_SomeD intro: rev_image_eqI)
  then show ?thesis by (simp only: wrote(6) js_set_keys)
qed simp

lemma repair_keys:
  assumes "repair_relationships d ds ps s = Inr (pk, s1)"
  shows "map fst (fst pk) = map fst ps"
proof (rule rfold_invariant [where I = "\<lambda>pk. map fst (fst pk) = map fst ps"])
  show "rfold (repair_one ds) (relationships_of d ps) (ps, []) s = Inr (pk, s1)" using assms by (simp add: repair_relationships_def)
  show "map fst (fst c) = map fst ps" if "map fst (fst b) = map fst ps" "repair_one ds q b t = Inr (c, t1)" for q b t c t1
    using repair_one_keys [of ds q "fst b" "snd b" t "fst c" "snd c" t1] that by simp
qed simp

lemma relationships_cong:
  "map fst ps = map fst ps1 \<Longrightarrow> sd_strategy_name d = sd_strategy_name d1 \<Longrightarrow> relationships_of d ps = relationships_of d1 ps1"
  by (simp add: relationships_of_def parameter_key_def)

text \<open>Mutation never leaves a strategy whose related parameters contradict each other: in every mutated definition
  the numeric fast period is below the slow period, and the buy threshold is on its side of the
  sell threshold (above it for the sentiment strategy, below it for any other).\<close>

lemma mutation_respects_relations:
  assumes "mutate_definition d force s = Inr ((m, keys), s1)"
  shows "\<exists>n ds. normalize_definition d = return (n, ds) \<and>
    list_all (relation_holds ds (sd_parameters m)) (relationships_of m (sd_parameters m))"
  using assms
proof (rule mutateE)
  fix n ds ps ks s2 changed
  assume n: "normalize_definition d = return (n, ds)" and m: "m = n\<lparr>sd_parameters := sd_parameters m\<rparr>"
    and r: "repair_relationships n ds ps s2 = Inr ((sd_parameters m, changed), s1)"
  have "list_all (relation_holds ds (sd_parameters m)) (relationships_of n ps)"
    using repairs_hold [OF r [unfolded repair_relationships_def]] relationships_disjoint by simp
  moreover have "sd_strategy_name m = sd_strategy_name n" by (subst m) simp
  then have "relationships_of m (sd_parameters m) = relationships_of n ps"
    using repair_keys [OF r] by (intro relationships_cong) simp_all
  ultimately show ?thesis using n by auto
qed

section \<open>The legal values of an integer range\<close>

lemma lit_small: "\<exists>e. lit 1 9 = Fin e \<and> 0 \<le> e \<and> e \<le> 1 / 4" "\<exists>e. lit 1 7 = Fin e \<and> 0 \<le> e"
proof -
  have "nle (lit 1 9) (Fin (1 / 4))" "nle (Fin 0) (lit 1 9)" "nle (Fin 0) (lit 1 7)" "nle (lit 1 7) (Fin (1 / 4))"
    unfolding lit_def by (rule double.upper [OF rnd_quarter] double.nonneg; simp)+
  then show "\<exists>e. lit 1 9 = Fin e \<and> 0 \<le> e \<and> e \<le> 1 / 4" "\<exists>e. lit 1 7 = Fin e \<and> 0 \<le> e"
    by (cases "lit 1 9"; simp) (cases "lit 1 7"; use \<open>nle (Fin 0) (lit 1 7)\<close> \<open>nle (lit 1 7) (Fin (1 / 4))\<close> in simp)
qed

lemma rnd_near_above:
  assumes "\<bar>n\<bar> \<le> 2 ^ 40" "0 \<le> e" "e \<le> 1 / 4"
  obtains v where "rnd (of_int n + e) = Fin v" "of_int n \<le> v" "v \<le> of_int n + 1 / 4"
proof -
  have n: "rnd (of_int n) = Fin (of_int n)" using assms(1) by (intro rnd_of_int) simp
  have e: "of_int n + 1 / 4 = (of_int (4 * n + 1) * 2 powi (- 2) :: rat)" by (simp add: power_int_def field_simps)
  have "rnd (of_int (4 * n + 1) * 2 powi (- 2)) = Fin (of_int (4 * n + 1) * 2 powi (- 2))"
    using assms(1) by (intro rnd_scaled) simp_all
  then have q: "rnd (of_int n + 1 / 4) = Fin (of_int n + 1 / 4)" unfolding e .
  show thesis using double.between [OF n q, of "of_int n + e"] assms(2,3) that by auto
qed

lemma rnd_near_below:
  assumes "\<bar>n\<bar> \<le> 2 ^ 40" "0 \<le> e" "e \<le> 1 / 4"
  obtains v where "rnd (of_int n - e) = Fin v" "v \<le> of_int n"
proof -
  obtain v where "rnd (of_int (- n) + e) = Fin v" "of_int (- n) \<le> v" using rnd_near_above [of "- n" e] assms by auto
  then show thesis using that [of "- v"] rnd_minus [of "of_int (- n) + e"] by simp
qed

lemma round12_int: "\<bar>n\<bar> \<le> 2 ^ 40 \<Longrightarrow> round12 (Fin (of_int n)) = Fin (of_int n)"
proof -
  assume n: "\<bar>n\<bar> \<le> 2 ^ 40"
  have f: "\<lfloor>\<bar>of_int n\<bar> * 10 ^ 12 + (1 / 2 :: rat)\<rfloor> = \<bar>n\<bar> * 10 ^ 12"
    by (intro floor_unique) (simp_all add: algebra_simps)
  have "sgn (of_int n :: rat) * of_int (\<bar>n\<bar> * 10 ^ 12) / 10 ^ 12 = of_int n"
    by (cases "n < 0"; cases "n = 0") simp_all
  moreover have "rnd (of_int n) = Fin (of_int n)" using n by (intro rnd_of_int) simp
  ultimately have "rnd (sgn (of_int n) * of_int \<lfloor>\<bar>of_int n\<bar> * 10 ^ 12 + (1 / 2 :: rat)\<rfloor> / 10 ^ 12) = Fin (of_int n)" unfolding f by simp
  moreover have "\<bar>of_int n\<bar> < (of_int (10 ^ 21) :: rat)" using n by (simp only: of_int_less_iff flip: of_int_abs) simp
  ultimately show ?thesis by (simp add: round12_def)
qed

definition integer_range :: "search_descriptor \<Rightarrow> int \<Rightarrow> int \<Rightarrow> bool" where
  "integer_range d a b = (pd_type d = INTEGER \<and> pd_minimum d = Some (num a) \<and> pd_maximum d = Some (num b) \<and> pd_step d = Some (num 1) \<and>
     a \<le> b \<and> \<bar>a\<bar> \<le> 1000000 \<and> \<bar>b\<bar> \<le> 1000000 \<and> b - a < 10000)"

lemma num_of_small: "\<bar>n\<bar> \<le> 2 ^ 40 \<Longrightarrow> num n = Fin (of_int n)" "\<bar>n\<bar> \<le> 2 ^ 40 \<Longrightarrow> rnd (of_int n) = Fin (of_int n)"
  by (intro num_exact rnd_of_int; simp)+

lemma integer_aligned:
  assumes "integer_range d a b" "a \<le> n" "n \<le> b"
  shows "aligned d (Fin (of_int n))"
proof -
  note r = assms(1) [unfolded integer_range_def]
  obtain e e7 where e: "lit 1 9 = Fin e" "0 \<le> e" "e \<le> 1 / 4" "lit 1 7 = Fin e7" "0 \<le> e7" using lit_small by blast
  obtain lo where lo: "rnd (of_int a - e) = Fin lo" "lo \<le> of_int a" using rnd_near_below [of a e] r e by auto
  obtain hi where hi: "rnd (of_int b + e) = Fin hi" "of_int b \<le> hi" using rnd_near_above [of b e] r e by auto
  have "of_int a \<le> (of_int n :: rat)" "of_int n \<le> (of_int b :: rat)" using assms by simp_all
  then have "lo \<le> of_int n" "of_int n \<le> hi" using lo hi by linarith+
  moreover have "\<lfloor>of_int n - of_int a + 1 / 2 :: rat\<rfloor> = n - a" by (intro floor_unique) simp_all
  moreover have "rnd (of_int n - of_int a) = Fin (of_int (n - a))" using num_of_small(2) [of "n - a"] r assms by simp
  ultimately show ?thesis using r e lo hi num_of_small [of a] num_of_small [of b] num_of_small [of 1] num_of_small(2) [of "n - a"] assms
    by (simp add: aligned_def step_off_def nsub_def Let_def)
qed

lemma integer_count:
  assumes "integer_range d a b"
  shows "value_count d current = nat (b - a + 1)"
proof -
  note r = assms [unfolded integer_range_def]
  obtain e where e: "lit 1 9 = Fin e" "0 \<le> e" "e \<le> 1 / 4" using lit_small by blast
  obtain v where v: "rnd (of_int (b - a) + e) = Fin v" "of_int (b - a) \<le> v" "v \<le> of_int (b - a) + 1 / 4"
    using rnd_near_above [of "b - a" e] r e by auto
  have "\<lfloor>v\<rfloor> = b - a" using v by (intro floor_unique) (simp_all add: of_int_diff)
  moreover have "rnd (of_int b - of_int a) = Fin (of_int (b - a))" using num_of_small(2) [of "b - a"] r by simp
  moreover have "rnd (of_int b - of_int a + 1) = Fin (of_int (b - a + 1))" using num_of_small(2) [of "b - a + 1"] r by simp
  moreover have c: "nat (b - a + 1) = 10000" if "\<not> of_int b - of_int a < (9999 :: rat)"
  proof -
    have "\<not> of_int (b - a) < (of_int 9999 :: rat)" using that by simp
    then have "\<not> b - a < 9999" by (metis of_int_less_iff)
    moreover have "b - a < 10000" using r by blast
    ultimately have "b - a = 9999" by linarith
    then show ?thesis by simp
  qed
  ultimately show ?thesis
    using r e v num_of_small [of a] num_of_small [of b] num_of_small [of 1] num_of_small [of 10000] num_of_small(2) [of "b - a"]
    by (simp add: value_count_def highest_of_def lowest_of_def step_of_def nsub_def nmin_def)
qed

text \<open>The values an integer parameter with bounds and step 1 can mutate to are exactly the integers of its range.\<close>

lemma integer_values:
  assumes "integer_range d a b"
  shows "numeric_values d current = map (\<lambda>i. Fin (of_int i)) [a..b]"
proof -
  note r = assms [unfolded integer_range_def]
  have v: "round12 (nadd (lowest_of d current) (nmul (num (int i)) (step_of d current))) = Fin (of_int (a + int i))"
    if i: "i < nat (b - a + 1)" for i
  proof -
    have "\<bar>int i\<bar> \<le> 2 ^ 40" "\<bar>a + int i\<bar> \<le> 2 ^ 40" using i r by auto
    then show ?thesis
    using r num_of_small [of a] num_of_small [of 1] num_of_small [of "int i"] num_of_small(2) [of "a + int i"] round12_int [of "a + int i"]
      by (simp add: lowest_of_def step_of_def)
  qed
  have "map (\<lambda>i. round12 (nadd (lowest_of d current) (nmul (num (int i)) (step_of d current)))) [0..<nat (b - a + 1)] =
      map (\<lambda>i. Fin (of_int (a + int i))) [0..<nat (b - a + 1)]"
    by (intro map_cong) (use v in auto)
  also have "\<dots> = map (\<lambda>i. Fin (of_int i)) [a..b]"
    by (rule nth_equalityI) (use r in \<open>auto simp: nth_upto\<close>)
  finally have m: "map (\<lambda>i. round12 (nadd (lowest_of d current) (nmul (num (int i)) (step_of d current)))) [0..<nat (b - a + 1)] =
      map (\<lambda>i. Fin (of_int i)) [a..b]" .
  have "filter (aligned d) (map (\<lambda>i. Fin (of_int i)) [a..b]) = map (\<lambda>i. Fin (of_int i)) [a..b]"
    by (intro filter_True) (use integer_aligned [OF assms] in auto)
  moreover have "uniq (map (\<lambda>i. Fin (of_int i)) [a..b]) = map (\<lambda>i. Fin (of_int i)) [a..b]"
    by (simp add: uniq_def distinct_remdups_id distinct_map inj_on_def)
  ultimately show ?thesis by (simp only: numeric_values_def integer_count [OF assms] m)
qed

section \<open>A concrete mutation\<close>

definition range_descriptor :: "string \<Rightarrow> int \<Rightarrow> int \<Rightarrow> search_descriptor" where
  "range_descriptor k a b = \<lparr>pd_key = k, pd_label = k, pd_type = INTEGER, pd_required = True, pd_default = PNum (num a),
     pd_minimum = Some (num a), pd_maximum = Some (num b), pd_options = None, pd_step = Some (num 1)\<rparr>"

text \<open>A fast period of 2 and a slow period of 2, where only 1 and 2, and only 2, are legal: mutation or repair lowers the fast one.\<close>

definition crossed_definition :: search_definition where
  "crossed_definition = \<lparr>sd_id = ''d'', sd_user = ''u'', sd_family = ''strategy:MA'', sd_family_name = ''MA'', sd_strategy_name = ''MA'',
     sd_version_tag = ''1'', sd_sha256 = ''h'', sd_version = 1,
     sd_parameters = [(''fastPeriod'', PNum (num 2)), (''slowPeriod'', PNum (num 2))], sd_created_at = [],
     sq_category = None, sq_descriptors = Some [range_descriptor ''fastPeriod'' 1 2, range_descriptor ''slowPeriod'' 2 2]\<rparr>"

lemma range_legal:
  "a \<le> b \<Longrightarrow> \<bar>a\<bar> \<le> 1000000 \<Longrightarrow> \<bar>b\<bar> \<le> 1000000 \<Longrightarrow> b - a < 10000 \<Longrightarrow>
    legal_values (range_descriptor k a b) current = map (\<lambda>i. PNum (Fin (of_int i))) [a..b]"
  "a \<le> b \<Longrightarrow> \<bar>a\<bar> \<le> 1000000 \<Longrightarrow> \<bar>b\<bar> \<le> 1000000 \<Longrightarrow> b - a < 10000 \<Longrightarrow> a \<le> n \<Longrightarrow> n \<le> b \<Longrightarrow>
    aligned (range_descriptor k a b) (Fin (of_int n))"
  using integer_values [of "range_descriptor k a b" a b] integer_aligned [of "range_descriptor k a b" a b n]
  by (simp_all add: legal_values_def integer_range_def range_descriptor_def)

lemma pick_one: "pick [x] s = Inr (Some x, rng_step s)"
proof -
  have i: "\<exists>i. draw_index (Suc 0) s = Inr (i, rng_step s)" by (simp add: draw_index_def rbind_def draw_def Let_def rreturn_def)
  then obtain i where i: "draw_index (Suc 0) s = Inr (i, rng_step s)" ..
  then have "i = 0" using draw_index_below [of "Suc 0"] by simp
  then show ?thesis using i by (simp add: pick_def rbind_def rreturn_def)
qed

abbreviation "fast_descriptor \<equiv> range_descriptor ''fastPeriod'' 1 2"
abbreviation "slow_descriptor \<equiv> range_descriptor ''slowPeriod'' 2 2"
abbreviation "periods x \<equiv> [(''fastPeriod'', PNum (Fin x)), (''slowPeriod'', PNum (Fin 2))]"

lemma crossed_legal:
  "legal_values fast_descriptor current = [PNum (Fin 1), PNum (Fin 2)]" "legal_values slow_descriptor current = [PNum (Fin 2)]"
  "aligned fast_descriptor (Fin 2)" "aligned slow_descriptor (Fin 2)"
  using range_legal(2) [of 1 2 2 "''fastPeriod''"] range_legal(2) [of 2 2 2 "''slowPeriod''"]
  by (simp_all add: range_legal upto.simps)

lemma crossed_normal: "\<exists>n. normalize_definition crossed_definition = return (n, [fast_descriptor, slow_descriptor]) \<and>
    sd_parameters n = periods 2 \<and> sd_strategy_name n = ''MA''"
proof -
  have "is_descriptor fast_descriptor" "is_descriptor slow_descriptor"
    by (simp_all add: is_descriptor_def bounds_ok_def range_descriptor_def trim_def is_space_def number_simps)
  then have d: "descriptors_for crossed_definition = return [fast_descriptor, slow_descriptor]"
    by (simp add: descriptors_for_def crossed_definition_def) (simp add: range_descriptor_def)
  have v: "valid_value (PNum (Fin 2)) fast_descriptor" "valid_value (PNum (Fin 2)) slow_descriptor"
    using crossed_legal by (simp_all add: valid_value_def) (simp_all add: range_descriptor_def)
  have k: "pd_key fast_descriptor = ''fastPeriod''" "pd_key slow_descriptor = ''slowPeriod''" by (simp_all add: range_descriptor_def)
  have p: "sd_parameters crossed_definition = periods 2" by (simp add: crossed_definition_def number_simps)
  have "normal_params [fast_descriptor, slow_descriptor] (periods 2) [] = return (periods 2)"
    using v by (simp add: k Let_def js_get_def js_set_def)
  then show ?thesis by (simp add: normalize_definition_def d k p) (simp add: crossed_definition_def)
qed

lemma crossed_steps:
  "\<exists>pk s1. mutate_step fast_descriptor (periods 2, []) s = Inr (pk, s1) \<and> (pk = (periods 2, []) \<or> pk = (periods 1, [''fastPeriod'']))"
  "\<exists>s1. mutate_step slow_descriptor (periods x, ks) s = Inr ((periods x, ks), s1)"
proof -
  have k: "pd_key fast_descriptor = ''fastPeriod''" "pd_key slow_descriptor = ''slowPeriod''" by (simp_all add: range_descriptor_def)
  have f: "change_value fast_descriptor (periods 2, []) s = Inr ((periods 1, [''fastPeriod'']), rng_step s)" for s
    by (simp add: change_value_def k js_get_def js_set_def mutate_value_def crossed_legal neq_def Let_def rbind_def pick_one rreturn_def)
  have g: "change_value slow_descriptor (periods x, ks) s = Inr ((periods x, ks), s)" for s
    by (simp add: change_value_def k js_get_def js_set_def mutate_value_def crossed_legal neq_def Let_def rbind_def rreturn_def)
  show "\<exists>pk s1. mutate_step fast_descriptor (periods 2, []) s = Inr (pk, s1) \<and> (pk = (periods 2, []) \<or> pk = (periods 1, [''fastPeriod'']))"
    by (simp add: mutate_step_def rbind_def draw_def Let_def f rreturn_def)
  show "\<exists>s1. mutate_step slow_descriptor (periods x, ks) s = Inr ((periods x, ks), s1)"
    by (simp add: mutate_step_def rbind_def draw_def Let_def g rreturn_def)
qed


lemma period_names: "to_lower ''fastPeriod'' = ''fastperiod''" "to_lower ''slowPeriod'' = ''slowperiod''"
  by code_simp+

lemma crossed_repair:
  assumes "sd_strategy_name n = ''MA''" "x = 1 \<or> x = 2"
  shows "\<exists>ch s1. repair_relationships n [fast_descriptor, slow_descriptor] (periods x) s = Inr ((periods 1, ch), s1)"
proof -
  have q: "relationships_of n (periods x) = [\<lparr>rl_left = ''fastPeriod'', rl_right = ''slowPeriod'', rl_op = Below\<rparr>]"
    by (simp add: relationships_of_def relation_of_def parameter_key_def period_names)
  have d: "descriptor_by_key [fast_descriptor, slow_descriptor] ''fastPeriod'' = Some fast_descriptor"
    "descriptor_by_key [fast_descriptor, slow_descriptor] ''slowPeriod'' = Some slow_descriptor"
    "pd_type fast_descriptor = INTEGER" "pd_type slow_descriptor = INTEGER"
    by (simp_all add: descriptor_by_key_def range_descriptor_def)
  have l: "legal_pairs fast_descriptor (Fin x) slow_descriptor (Fin 2) Below = [(Fin 1, Fin 2)]"
    by (simp add: legal_pairs_def numbers_in_def crossed_legal List.map_filter_simps)
  show ?thesis using assms(2)
    by (auto simp: repair_relationships_def q repair_one_def js_get_def js_set_def d l Let_def rbind_def pick_one rreturn_def)
qed

lemma crossed_mutates:
  "\<exists>m keys s1. mutate_definition crossed_definition False s = Inr ((m, keys), s1) \<and> sd_parameters m = periods 1"
proof -
  obtain n where n: "normalize_definition crossed_definition = return (n, [fast_descriptor, slow_descriptor])"
    "sd_parameters n = periods 2" "sd_strategy_name n = ''MA''" using crossed_normal by blast
  obtain x ks s2 where a: "mutate_step fast_descriptor (periods 2, []) s = Inr ((periods x, ks), s2)" "x = 1 \<or> x = 2"
    using crossed_steps(1) by blast
  obtain s3 where b: "mutate_step slow_descriptor (periods x, ks) s2 = Inr ((periods x, ks), s3)" using crossed_steps(2) by blast
  obtain ch s4 where c: "repair_relationships n [fast_descriptor, slow_descriptor] (periods x) s3 = Inr ((periods 1, ch), s4)"
    using crossed_repair [OF n(3) a(2)] by blast
  show ?thesis by (simp add: mutate_definition_def n rbind_def a b c rreturn_def)
qed

lemma crossed_keys: "distinct (map fst (sd_parameters crossed_definition))"
  by (simp add: crossed_definition_def)


lemma mutation_respects_relations_witness:
  "\<exists>m keys s1 ds. mutate_definition crossed_definition False 1 = Inr ((m, keys), s1) \<and> sd_parameters m = periods 1 \<and>
    list_all (relation_holds ds (sd_parameters m)) (relationships_of m (sd_parameters m))"
proof -
  obtain m keys s1 where m: "mutate_definition crossed_definition False 1 = Inr ((m, keys), s1)" "sd_parameters m = periods 1"
    using crossed_mutates by blast
  from mutation_respects_relations [OF m(1)] m show ?thesis by blast
qed

end
