(* ===== verification/SearchGenerators.thy ===== *)
theory SearchGenerators
  imports SearchGenetic
begin

text \<open>
  The three strategy generators (\<^verbatim>\<open>modules/search/domain/generators.ts\<close> and the generator of
  \<^verbatim>\<open>genetic.ts\<close>): random selection, selection guided by categories, and the genetic search
  with crossover, replacement and mutation. All draw from the 32-bit generator seeded by the run
  and the iteration. The hash and the time of creation are arguments.
\<close>

section \<open>Candidates and their fingerprints\<close>

fun generator_text :: "generator_type \<Rightarrow> string" where
  "generator_text RANDOM = ''RANDOM''" | "generator_text DOMAIN_GUIDED = ''DOMAIN_GUIDED''" | "generator_text GENETIC = ''GENETIC''"

fun json_of_param :: "param \<Rightarrow> json" where
  "json_of_param (PNum n) = JNum n" | "json_of_param (PStr s) = JStr s"

definition definition_json :: "search_definition \<Rightarrow> json" where
  "definition_json d = JObj [(''id'', JStr (sd_id d)), (''strategyName'', JStr (sd_strategy_name d)),
     (''implementationVersion'', JStr (sd_version_tag d)), (''implementationSha256'', JStr (sd_sha256 d)),
     (''parameters'', JObj (map (\<lambda>(k, v). (k, json_of_param v)) (sd_parameters d)))]"

definition method_for :: "'a list \<Rightarrow> combination_method" where
  "method_for selected = (if length selected > 1 then MAJORITY_VOTE else WEIGHTED_SCORE)"

definition fingerprint_json :: "generator_type \<Rightarrow> search_definition list \<Rightarrow> json" where
  "fingerprint_json g selected = JObj [(''generatedBy'', JStr (generator_text g)), (''ownerUserId'', JStr (sd_user (hd selected))),
     (''strategyDefinitions'', JArr (map definition_json (sort_by (\<lambda>x y. locale_compare (sd_id x) (sd_id y)) selected))),
     (''executionPolicy'', JStr ''TWO_SIDED_ONE_X_V1''), (''method'', JStr (method_text (method_for selected)))]"

definition fingerprint_for :: "(string \<Rightarrow> string) \<Rightarrow> generator_type \<Rightarrow> search_definition list \<Rightarrow> string" where
  "fingerprint_for sha256 g selected = sha256 (json_stable (fingerprint_json g selected))"

definition composite_for :: "generator_type \<Rightarrow> search_definition list \<Rightarrow> string \<Rightarrow> string \<Rightarrow> string \<Rightarrow> composite_definition" where
  "composite_for g selected fingerprint user now =
     \<lparr>cd_id = ''generated-'' @ to_lower (generator_text g) @ ''-'' @ fingerprint, cd_user = user,
      cd_family = (if length selected = 1 then ''composite:SINGLE:'' @ sd_id (hd selected) else ''generated:'' @ to_lower (generator_text g)),
      cd_version = 1, cd_method = (if length selected = 1 then WEIGHTED_SCORE else MAJORITY_VOTE),
      cd_components = (if length selected = 1 then [\<lparr>cp_definition_id = sd_id (hd selected), cp_weight = num 1\<rparr>]
        else map (\<lambda>d. \<lparr>cp_definition_id = sd_id d, cp_weight = num 0\<rparr>) selected),
      cd_thresholds = Some default_thresholds, cd_created_at = now\<rparr>"

definition candidate_for :: "(string \<Rightarrow> string) \<Rightarrow> string \<Rightarrow> generator_type \<Rightarrow> search_definition list \<Rightarrow> lineage option \<Rightarrow> generated_candidate result" where
  "candidate_for sha256 now g selected lin =
     (if selected = [] \<or> sd_user (hd selected) = [] \<or> list_ex (\<lambda>d. sd_user d \<noteq> sd_user (hd selected)) selected then throw ''INVALID_SEARCH_CONFIG''
      else let fingerprint = fingerprint_for sha256 g selected in
        return \<lparr>gc_definitions = selected, gc_composite = composite_for g selected fingerprint (sd_user (hd selected)) now,
          gc_stop_loss = None, gc_take_profit = None, gc_type = g, gc_fingerprint = fingerprint, gc_lineage = lin\<rparr>)"

section \<open>Selection\<close>

definition ordered :: "search_space \<Rightarrow> search_definition list" where
  "ordered space = sort_by (\<lambda>x y. locale_compare (sd_id x) (sd_id y)) (sp_available space)"

definition component_limit :: "search_space \<Rightarrow> nat \<Rightarrow> number" where
  "component_limit space n = nmax (num 1) (nmin (case sp_max_components space of None \<Rightarrow> num (int n) | Some m \<Rightarrow> m) (num (int n)))"

definition draw_order :: "(number \<times> 'a) compare_fn" where
  "draw_order x y = (if nlt (fst x) (fst y) then -1 else if nlt (fst y) (fst x) then 1 else 0)"

definition shuffled :: "'a list \<Rightarrow> 'a list random" where
  "shuffled xs = rbind (rmap (\<lambda>x. rbind draw (\<lambda>u. rreturn (u, x))) xs) (\<lambda>ys. rreturn (map snd (sort_by draw_order ys)))"

text \<open>\<^verbatim>\<open>1 + Math.floor(random() * limit)\<close>.\<close>

definition draw_count :: "number \<Rightarrow> nat random" where
  "draw_count limit = rbind draw (\<lambda>u. rreturn (nat_of_number (nadd (num 1) (nfloor (nmul u limit)))))"

definition variant :: "search_definition \<Rightarrow> search_definition random" where
  "variant d = rbind (mutate_definition d True) (\<lambda>(m, _). rreturn m)"

definition as_candidate :: "generated_candidate result \<Rightarrow> generated_candidate random" where
  "as_candidate r s = and_then r (\<lambda>c. return (c, s))"

definition random_candidate :: "(string \<Rightarrow> string) \<Rightarrow> string \<Rightarrow> search_space \<Rightarrow> generated_candidate random" where
  "random_candidate sha256 now space =
     (let available = ordered space in
      rbind (draw_count (component_limit space (length available))) (\<lambda>k.
      rbind (shuffled available) (\<lambda>order.
      rbind (rmap variant (take k order)) (\<lambda>selected. as_candidate (candidate_for sha256 now RANDOM selected None)))))"

section \<open>Category rules\<close>

definition rules_of :: "search_space \<Rightarrow> domain_rules" where
  "rules_of space = (case sp_rules space of None \<Rightarrow> \<lparr>dr_required = None, dr_allowed = None, dr_forbidden = None\<rparr> | Some r \<Rightarrow> r)"

definition listed :: "strategy_category list option \<Rightarrow> strategy_category list" where
  "listed c = (case c of None \<Rightarrow> [] | Some xs \<Rightarrow> xs)"

definition category_allowed :: "domain_rules \<Rightarrow> search_definition \<Rightarrow> bool" where
  "category_allowed r d =
     ((case dr_allowed r of None \<Rightarrow> True | Some xs \<Rightarrow> (case sq_category d of None \<Rightarrow> False | Some c \<Rightarrow> c \<in> set xs)) \<and>
      (case sq_category d of None \<Rightarrow> True | Some c \<Rightarrow> c \<notin> set (listed (dr_forbidden r))))"

fun select_required :: "strategy_category list \<Rightarrow> search_definition list \<Rightarrow> search_definition list \<Rightarrow> search_definition list result" where
  "select_required [] available selected = return selected"
| "select_required (c # cs) available selected = (case find (\<lambda>d. sq_category d = Some c) available of
     None \<Rightarrow> throw ''DOMAIN_RULE_UNSATISFIABLE''
   | Some d \<Rightarrow> select_required cs available (if list_ex (\<lambda>x. sd_id x = sd_id d) selected then selected else selected @ [d]))"

definition complete_selection :: "number \<Rightarrow> search_definition list \<Rightarrow> search_definition list \<Rightarrow> search_definition list" where
  "complete_selection limit available selected = foldl (\<lambda>acc d.
     if nlt (num (int (length acc))) limit \<and> \<not> list_ex (\<lambda>x. sd_id x = sd_id d) acc then acc @ [d] else acc) selected available"

definition guided_selection :: "search_space \<Rightarrow> search_definition list result" where
  "guided_selection space = (let r = rules_of space; required = uniq (listed (dr_required r)) in
     if list_ex (\<lambda>c. (case dr_allowed r of None \<Rightarrow> False | Some xs \<Rightarrow> c \<notin> set xs) \<or> c \<in> set (listed (dr_forbidden r))) required
     then throw ''DOMAIN_RULE_UNSATISFIABLE''
     else let available = filter (category_allowed r) (ordered space) in
       and_then (select_required required available []) (\<lambda>selected.
         let limit = component_limit space (length available) in
         if nlt limit (num (int (length selected))) then throw ''DOMAIN_RULE_UNSATISFIABLE''
         else let full = complete_selection limit available selected in
           if full = [] then throw ''EMPTY_SEARCH_SPACE'' else return full))"

definition guided_candidate :: "(string \<Rightarrow> string) \<Rightarrow> string \<Rightarrow> search_space \<Rightarrow> generated_candidate random" where
  "guided_candidate sha256 now space s = and_then (guided_selection space) (\<lambda>selected.
     rbind (rmap variant selected) (\<lambda>ms. as_candidate (candidate_for sha256 now DOMAIN_GUIDED ms None)) s)"

section \<open>The genetic generator\<close>

definition unique_by_id :: "search_definition list \<Rightarrow> search_definition list" where
  "unique_by_id ds = foldl (\<lambda>acc d. if sd_id d \<in> set (map sd_id acc) then acc else acc @ [d]) [] ds"

definition fill_child :: "nat \<Rightarrow> search_definition list \<Rightarrow> search_definition list \<Rightarrow> search_definition list" where
  "fill_child limit ds child = foldl (\<lambda>acc d. if length acc < limit \<and> sd_id d \<notin> set (map sd_id acc) then acc @ [d] else acc) child ds"

definition crossover :: "search_definition list \<Rightarrow> search_definition list \<Rightarrow> nat \<Rightarrow> (search_definition list \<times> nat) random" where
  "crossover a b limit = rbind (if a = [] then rreturn 0 else draw_index (min (length a) (length b) + 1)) (\<lambda>point.
     rreturn (take limit (fill_child limit (a @ b) (unique_by_id (take point a @ drop point b))), point))"

text \<open>With a chance of 65 in 100 one strategy of the child is replaced by one that is not in it.\<close>

definition replace_one :: "search_definition list \<Rightarrow> search_definition list \<Rightarrow> (search_definition list \<times> (string option \<times> string option) option) random" where
  "replace_one available child =
     (if length available > length child \<and> child \<noteq> []
      then rbind draw (\<lambda>u. if \<not> nlt u (lit 65 2) then rreturn (child, None)
        else rbind (pick (filter (\<lambda>d. sd_id d \<notin> set (map sd_id child)) available)) (\<lambda>r. case r of None \<Rightarrow> rreturn (child, None)
          | Some d \<Rightarrow> rbind (draw_index (length child)) (\<lambda>i.
              if i < length child then rreturn (child[i := d], Some (Some (sd_id (child ! i)), Some (sd_id d)))
              else rthrow ''INDEX_OUT_OF_RANGE'')))
      else rreturn (child, None))"

definition at_least_one :: "search_definition list \<Rightarrow> search_definition list \<Rightarrow> search_definition list random" where
  "at_least_one available child = (if child \<noteq> [] then rreturn child
     else rbind (pick available) (\<lambda>r. case r of None \<Rightarrow> rthrow ''INDEX_OUT_OF_RANGE'' | Some d \<Rightarrow> rreturn [d]))"

definition draw_parent :: "search_definition list \<Rightarrow> nat \<Rightarrow> search_definition list random" where
  "draw_parent available limit = rbind (shuffled available) (\<lambda>order.
     rbind (draw_count (num (int limit))) (\<lambda>k. rreturn (take k order)))"

definition mutate_child :: "bool \<Rightarrow> search_definition list \<Rightarrow> ((search_definition \<times> string list) \<times> string) list random" where
  "mutate_child force child = rmap (\<lambda>(i, d). rbind (mutate_definition d (force \<and> i = 0)) (\<lambda>r. rreturn (r, sd_id d))) (enumerate 0 child)"

definition mutated_keys_of :: "((search_definition \<times> string list) \<times> string) list \<Rightarrow> string list" where
  "mutated_keys_of ms = concat (map (\<lambda>((_, keys), i). map (\<lambda>k. i @ ''.'' @ k) keys) ms)"

definition genetic_attempt :: "(string \<Rightarrow> string) \<Rightarrow> string \<Rightarrow> search_definition list \<Rightarrow> nat \<Rightarrow> nat \<Rightarrow> generated_candidate random" where
  "genetic_attempt sha256 now available limit attempt =
     rbind (draw_parent available limit) (\<lambda>a.
     rbind (draw_parent available limit) (\<lambda>b.
     rbind (crossover a b limit) (\<lambda>(child, point).
     rbind (replace_one available child) (\<lambda>(child1, replaced).
     rbind (at_least_one available child1) (\<lambda>child2.
     rbind (mutate_child (attempt = 0) child2) (\<lambda>ms.
       as_candidate (candidate_for sha256 now GENETIC (map (fst \<circ> fst) ms)
         (Some \<lparr>li_parents = [fingerprint_for sha256 GENETIC a, fingerprint_for sha256 GENETIC b], li_crossover_point = int point,
           li_mutated_keys = mutated_keys_of ms, li_selection_mutation = replaced\<rparr>))))))))"

definition genetic_attempts :: nat where "genetic_attempts = 24"

fun genetic_search :: "(nat \<Rightarrow> generated_candidate result) \<Rightarrow> string list \<Rightarrow> nat list \<Rightarrow> generated_candidate result" where
  "genetic_search attempt prior [] = throw ''GENETIC_SEARCH_SPACE_UNSATISFIABLE''"
| "genetic_search attempt prior (i # is) = and_then (attempt i) (\<lambda>c.
     if gc_fingerprint c \<notin> set prior then return c else genetic_search attempt prior is)"

definition finished :: "generated_candidate random \<Rightarrow> 32 word \<Rightarrow> generated_candidate result" where
  "finished m s = and_then (m s) (\<lambda>(c, _). return c)"

definition max_components_invalid :: "number option \<Rightarrow> bool" where
  "max_components_invalid m = (case m of None \<Rightarrow> False | Some k \<Rightarrow> \<not> is_integer k \<or> nlt k (num 1))"

definition genetic_candidate :: "(string \<Rightarrow> string) \<Rightarrow> string \<Rightarrow> search_space \<Rightarrow> string \<Rightarrow> nat \<Rightarrow> generated_candidate result" where
  "genetic_candidate sha256 now space run iteration =
     (let available = ordered space in
      if available = [] then throw ''EMPTY_SEARCH_SPACE''
      else if max_components_invalid (sp_max_components space) then throw ''INVALID_SEARCH_CONFIG''
      else let limit = (case sp_max_components space of None \<Rightarrow> length available | Some k \<Rightarrow> min (nat_of_number k) (length available)) in
        genetic_search (\<lambda>i. finished (genetic_attempt sha256 now available limit i) (seed_of sha256 (run @ '':genetic:'' @ show_nat i) iteration))
          (sp_generated space) [0..<genetic_attempts])"

section \<open>The generators by name\<close>

definition generate_candidate :: "(string \<Rightarrow> string) \<Rightarrow> string \<Rightarrow> generator_type \<Rightarrow> search_space \<Rightarrow> string \<Rightarrow> nat \<Rightarrow> generated_candidate result" where
  "generate_candidate sha256 now g space run iteration = (case g of
     RANDOM \<Rightarrow> if sp_available space = [] then throw ''EMPTY_SEARCH_SPACE''
       else finished (random_candidate sha256 now space) (seed_of sha256 run iteration)
   | DOMAIN_GUIDED \<Rightarrow> finished (guided_candidate sha256 now space) (seed_of sha256 run iteration)
   | GENETIC \<Rightarrow> genetic_candidate sha256 now space run iteration)"

section \<open>Generated candidates come from the search space\<close>

definition ids_of :: "search_definition list \<Rightarrow> string set" where
  "ids_of ds = set (map sd_id ds)"

lemma ids_of_simps [simp]: "ids_of [] = {}" "ids_of (d # ds) = insert (sd_id d) (ids_of ds)" "ids_of (xs @ ys) = ids_of xs \<union> ids_of ys"
  by (simp_all add: ids_of_def)

lemma ids_of_mono: "set xs \<subseteq> set ys \<Longrightarrow> ids_of xs \<subseteq> ids_of ys"
  by (auto simp: ids_of_def)

lemma normalize_keeps_id: "normalize_definition d = return (n, ds) \<Longrightarrow> sd_id n = sd_id d"
  by (auto simp: normalize_definition_def result_simps split: if_splits)

lemma mutation_keeps_id:
  assumes "mutate_definition d force s = Inr ((m, keys), s1)"
  shows "sd_id m = sd_id d"
proof -
  obtain n where n: "sd_id n = sd_id d" "m = n\<lparr>sd_parameters := sd_parameters m\<rparr>"
    using assms by (rule mutateE) (metis normalize_keeps_id)
  show ?thesis by (subst n(2)) (simp add: n(1))
qed

lemma variants_ids: "rmap variant ds s = Inr (ms, s1) \<Longrightarrow> ids_of ms = ids_of ds"
proof -
  assume "rmap variant ds s = Inr (ms, s1)"
  then have "list_all2 (\<lambda>d m. sd_id m = sd_id d) ds ms"
    by (rule rmap_all2) (auto simp: variant_def elim!: rbindE dest!: mutation_keeps_id)
  then show ?thesis by (induction rule: list_all2_induct) simp_all
qed

lemma shuffled_set: "shuffled xs s = Inr (ys, s1) \<Longrightarrow> set ys = set xs"
proof -
  assume "shuffled xs s = Inr (ys, s1)"
  then obtain zs s2 where r: "rmap (\<lambda>x. rbind draw (\<lambda>u. rreturn (u, x))) xs s = Inr (zs, s2)" and ys: "ys = map snd (sort_by draw_order zs)"
    by (auto simp: shuffled_def elim!: rbindE)
  have "list_all2 (\<lambda>x z. snd z = x) xs zs" by (rule rmap_all2 [OF r]) (auto elim!: rbindE)
  then have "map snd zs = xs" by (induction rule: list_all2_induct) simp_all
  then have "set (map snd zs) = set xs" by simp
  then show ?thesis by (simp add: ys)
qed

lemma ordered_set [simp]: "set (ordered space) = set (sp_available space)" "ids_of (ordered space) = ids_of (sp_available space)"
  by (simp_all add: ordered_def ids_of_def)

lemma select_required_subset:
  "select_required cs available selected = return full \<Longrightarrow> set selected \<subseteq> set available \<Longrightarrow> set full \<subseteq> set available"
proof (induction cs available selected rule: select_required.induct)
  case (2 c cs available selected)
  from "2.prems"(1) obtain d where d: "find (\<lambda>d. sq_category d = Some c) available = Some d"
    and r: "select_required cs available (if list_ex (\<lambda>x. sd_id x = sd_id d) selected then selected else selected @ [d]) = return full"
    by (simp split: option.splits)
  have "d \<in> set available" using d by (metis find_Some_iff nth_mem)
  then have "set (if list_ex (\<lambda>x. sd_id x = sd_id d) selected then selected else selected @ [d]) \<subseteq> set available"
    using "2.prems"(2) by simp
  then show ?case using "2.IH" [OF d] r by blast
qed simp

lemma foldl_subset: "(\<And>acc d. set (f acc d) \<subseteq> insert d (set acc)) \<Longrightarrow> set (foldl f acc ds) \<subseteq> set acc \<union> set ds"
  by (induction ds arbitrary: acc) (auto, blast)

lemma complete_selection_subset: "set (complete_selection limit available selected) \<subseteq> set selected \<union> set available"
  unfolding complete_selection_def by (rule foldl_subset) auto

lemma guided_selection_subset: "guided_selection space = return full \<Longrightarrow> set full \<subseteq> set (sp_available space)"
proof -
  assume "guided_selection space = return full"
  then obtain selected limit where "select_required (uniq (listed (dr_required (rules_of space)))) (filter (category_allowed (rules_of space)) (ordered space)) [] = return selected"
    "full = complete_selection limit (filter (category_allowed (rules_of space)) (ordered space)) selected"
    by (auto simp: guided_selection_def Let_def result_simps split: if_splits)
  then show ?thesis using select_required_subset complete_selection_subset by fastforce
qed

lemma crossover_ids:
  assumes "crossover a b limit s = Inr ((child, point), s1)"
  shows "set child \<subseteq> set a \<union> set b"
proof -
  have "set (unique_by_id ds) \<subseteq> set ds" for ds
  proof -
    have "set (unique_by_id ds) \<subseteq> set [] \<union> set ds" unfolding unique_by_id_def by (rule foldl_subset) auto
    then show ?thesis by simp
  qed
  moreover have "set (fill_child limit ds c) \<subseteq> set c \<union> set ds" for ds c
    unfolding fill_child_def by (rule foldl_subset) auto
  moreover have "set (take point a @ drop point b) \<subseteq> set a \<union> set b" by (auto dest: in_set_takeD in_set_dropD)
  ultimately have "set (fill_child limit (a @ b) (unique_by_id (take point a @ drop point b))) \<subseteq> set a \<union> set b"
    by (metis (no_types, lifting) Un_subset_iff dual_order.trans set_append subset_refl)
  moreover have "child = take limit (fill_child limit (a @ b) (unique_by_id (take point a @ drop point b)))"
    using assms by (auto simp: crossover_def elim!: rbindE)
  ultimately show ?thesis using set_take_subset by (metis subset_trans)
qed

lemma replace_one_set:
  assumes "replace_one available child s = Inr ((c, r), s1)" "set child \<subseteq> set available"
  shows "set c \<subseteq> set available"
proof -
  have "c = child \<or> (\<exists>i d. c = child[i := d] \<and> d \<in> set available)"
    using assms(1) by (auto simp: replace_one_def elim!: rbindE dest!: pick_member split: if_splits option.splits)
  then show ?thesis using assms(2) set_update_subset_insert by fastforce
qed

lemma at_least_one_set:
  assumes "at_least_one available child s = Inr (c, s1)" "set child \<subseteq> set available"
  shows "set c \<subseteq> set available \<and> c \<noteq> []"
  using assms by (auto simp: at_least_one_def elim!: rbindE dest!: pick_member split: if_splits option.splits)

lemma draw_parent_set: "draw_parent available limit s = Inr (a, s1) \<Longrightarrow> set a \<subseteq> set available"
proof -
  assume "draw_parent available limit s = Inr (a, s1)"
  then obtain order k s2 where "shuffled available s = Inr (order, s2)" "a = take k order" by (auto simp: draw_parent_def elim!: rbindE)
  then show ?thesis using shuffled_set set_take_subset by fastforce
qed

lemma mutate_child_ids:
  assumes "mutate_child force child s = Inr (ms, s1)"
  shows "ids_of (map (fst \<circ> fst) ms) = ids_of child"
proof -
  have "list_all2 (\<lambda>x m. sd_id (fst (fst m)) = sd_id (snd x)) (enumerate 0 child) ms"
    using assms unfolding mutate_child_def by (rule rmap_all2) (auto elim!: rbindE dest!: mutation_keeps_id)
  then have "map (\<lambda>m. sd_id (fst (fst m))) ms = map (\<lambda>x. sd_id (snd x)) (enumerate 0 child)"
    by (induction rule: list_all2_induct) simp_all
  also have "\<dots> = map sd_id (map snd (enumerate 0 child))" by (simp only: map_map comp_def)
  finally have "map (\<lambda>m. sd_id (fst (fst m))) ms = map sd_id child" by (simp only: map_snd_enumerate)
  then have "set (map (\<lambda>m. sd_id (fst (fst m))) ms) = set (map sd_id child)" by (rule arg_cong)
  then show ?thesis by (simp add: ids_of_def image_image)
qed

text \<open>What a candidate promises: strategies of one owner under its fingerprint, combined by a composite of just them.\<close>

definition candidate_sound :: "(string \<Rightarrow> string) \<Rightarrow> search_space \<Rightarrow> generated_candidate \<Rightarrow> bool" where
  "candidate_sound sha256 space c = (gc_definitions c \<noteq> [] \<and> ids_of (gc_definitions c) \<subseteq> ids_of (sp_available space) \<and>
     list_all (\<lambda>d. sd_user d = cd_user (gc_composite c)) (gc_definitions c) \<and> cd_user (gc_composite c) \<noteq> [] \<and>
     map cp_definition_id (cd_components (gc_composite c)) = map sd_id (gc_definitions c) \<and>
     gc_fingerprint c = fingerprint_for sha256 (gc_type c) (gc_definitions c))"

lemma candidate_for_sound:
  assumes "candidate_for sha256 now g selected lin = return c" "ids_of selected \<subseteq> ids_of (sp_available space)"
  shows "candidate_sound sha256 space c \<and> gc_type c = g"
proof -
  let ?u = "sd_user (hd selected)" and ?f = "fingerprint_for sha256 g selected"
  have n: "\<not> (selected = [] \<or> ?u = [] \<or> list_ex (\<lambda>d. sd_user d \<noteq> ?u) selected)"
    by (rule ccontr) (use assms(1) in \<open>simp add: candidate_for_def\<close>)
  then have ok: "selected \<noteq> []" "?u \<noteq> []" "list_all (\<lambda>d. sd_user d = ?u) selected" unfolding list_ex_iff list_all_iff by blast+
  have c: "c = \<lparr>gc_definitions = selected, gc_composite = composite_for g selected ?f ?u now, gc_stop_loss = None, gc_take_profit = None,
      gc_type = g, gc_fingerprint = ?f, gc_lineage = lin\<rparr>"
    using assms(1) unfolding candidate_for_def if_not_P [OF n] Let_def by simp
  have "map cp_definition_id (cd_components (composite_for g selected ?f ?u now)) = map sd_id selected"
  proof (cases "length selected = 1")
    case True
    then obtain d where "selected = [d]" by (auto simp: length_Suc_conv)
    then show ?thesis by (simp add: composite_for_def)
  qed (simp add: composite_for_def comp_def)
  moreover have "cd_user (composite_for g selected ?f ?u now) = ?u" by (simp add: composite_for_def)
  ultimately show ?thesis using ok assms(2) by (simp add: candidate_sound_def c)
qed

lemma as_candidate_Inr: "as_candidate r s = Inr (c, s1) \<longleftrightarrow> r = return c \<and> s1 = s"
  by (auto simp: as_candidate_def result_simps)

lemma finished_Inr: "finished m s = return c \<longleftrightarrow> (\<exists>s1. m s = Inr (c, s1))"
  by (auto simp: finished_def result_simps)

lemma random_sound: "random_candidate sha256 now space s = Inr (c, s1) \<Longrightarrow> candidate_sound sha256 space c \<and> gc_type c = RANDOM"
proof -
  assume "random_candidate sha256 now space s = Inr (c, s1)"
  then obtain k order s2 s3 s4 ms where o: "shuffled (ordered space) s2 = Inr (order, s3)" and m: "rmap variant (take k order) s3 = Inr (ms, s4)"
    and c: "candidate_for sha256 now RANDOM ms None = return c"
    by (auto simp: random_candidate_def Let_def as_candidate_Inr elim!: rbindE)
  have "set (take k order) \<subseteq> set (sp_available space)" using shuffled_set [OF o] by (auto dest: in_set_takeD)
  then show ?thesis using candidate_for_sound [OF c] variants_ids [OF m] ids_of_mono by blast
qed

lemma guided_sound: "guided_candidate sha256 now space s = Inr (c, s1) \<Longrightarrow> candidate_sound sha256 space c \<and> gc_type c = DOMAIN_GUIDED"
proof -
  assume "guided_candidate sha256 now space s = Inr (c, s1)"
  then obtain selected ms s2 where g: "guided_selection space = return selected" and m: "rmap variant selected s = Inr (ms, s2)"
    and c: "candidate_for sha256 now DOMAIN_GUIDED ms None = return c"
    by (auto simp: guided_candidate_def result_simps as_candidate_Inr elim!: rbindE)
  show ?thesis using candidate_for_sound [OF c] variants_ids [OF m] ids_of_mono [OF guided_selection_subset [OF g]] by simp
qed

lemma attempt_sound:
  assumes "genetic_attempt sha256 now (ordered space) limit i s = Inr (c, s1)"
  shows "candidate_sound sha256 space c \<and> gc_type c = GENETIC"
proof -
  from assms obtain a b child point child1 r child2 ms lin s2 s3 s4 s5 s6 s7 where
    p: "draw_parent (ordered space) limit s = Inr (a, s2)" "draw_parent (ordered space) limit s2 = Inr (b, s3)"
    and x: "crossover a b limit s3 = Inr ((child, point), s4)" and y: "replace_one (ordered space) child s4 = Inr ((child1, r), s5)"
    and z: "at_least_one (ordered space) child1 s5 = Inr (child2, s6)" and m: "mutate_child (i = 0) child2 s6 = Inr (ms, s7)"
    and c: "candidate_for sha256 now GENETIC (map (fst \<circ> fst) ms) lin = return c"
    by (auto simp: genetic_attempt_def as_candidate_Inr elim!: rbindE)
  have "set child \<subseteq> set (ordered space)" using crossover_ids [OF x] draw_parent_set [OF p(1)] draw_parent_set [OF p(2)] by blast
  then have "set child2 \<subseteq> set (ordered space)" using at_least_one_set [OF z replace_one_set [OF y]] by blast
  then have "ids_of (map (fst \<circ> fst) ms) \<subseteq> ids_of (sp_available space)" unfolding mutate_child_ids [OF m] using ids_of_mono [of child2 "ordered space"] by simp
  then show ?thesis using candidate_for_sound [OF c] by blast
qed

lemma genetic_search_found:
  "genetic_search attempt prior is = return c \<Longrightarrow> gc_fingerprint c \<notin> set prior \<and> (\<exists>i\<in>set is. attempt i = return c)"
  by (induction attempt prior "is" rule: genetic_search.induct) (auto simp: result_simps split: if_splits)


section \<open>A concrete candidate\<close>

definition plain_definition :: search_definition where
  "plain_definition = crossed_definition\<lparr>sd_parameters := [], sq_descriptors := Some []\<rparr>"

definition plain_space :: search_space where
  "plain_space = \<lparr>sp_available = [plain_definition], sp_rules = None, sp_max_components = None, sp_generated = []\<rparr>"

lemma plain_mutates: "mutate_definition plain_definition force s = Inr ((plain_definition, []), s)"
proof -
  have n: "normalize_definition plain_definition = return (plain_definition, [])"
    by (simp add: normalize_definition_def descriptors_for_def plain_definition_def crossed_definition_def)
  have p: "sd_parameters plain_definition = []" by (simp add: plain_definition_def)
  have "relationships_of plain_definition [] = []" by (simp add: relationships_of_def relation_of_def parameter_key_def)
  then have r: "repair_relationships plain_definition [] [] s = Inr (([], []), s)" for s
    by (simp add: repair_relationships_def rreturn_def)
  have "plain_definition\<lparr>sd_parameters := []\<rparr> = plain_definition" by (simp add: plain_definition_def)
  then show ?thesis by (simp add: mutate_definition_def n p rbind_def rreturn_def r uniq_def)
qed

lemma plain_candidate: "\<exists>c. generate_candidate (\<lambda>_. ''h'') ''now'' DOMAIN_GUIDED plain_space ''run'' 1 = return c"
proof -
  have g: "guided_selection plain_space = return [plain_definition]"
    by (simp add: guided_selection_def plain_space_def rules_of_def listed_def uniq_def ordered_def category_allowed_def plain_definition_def
        crossed_definition_def component_limit_def complete_selection_def nmax_def nmin_def number_simps Let_def)
  have u: "sd_user plain_definition = ''u''" by (simp add: plain_definition_def crossed_definition_def)
  show ?thesis
    by (simp add: generate_candidate_def finished_def guided_candidate_def g variant_def plain_mutates rbind_def rreturn_def
        as_candidate_def candidate_for_def u Let_def)
qed


end
