(* ===== verification/Calls.thy ===== *)
theory Calls
  imports JsPrelude
begin

text \<open>
  Asynchronous operations over a state: a call maps the state to the state it leaves behind and
  to its value or the code of the error it throws. A failing call keeps the changes it made, the
  way a rejected promise does. \<open>call_try\<close> is \<^verbatim>\<open>try ... catch\<close>, \<open>call_each\<close> a loop of awaited calls.
\<close>

type_synonym ('w, 'a) call = "'w \<Rightarrow> 'w \<times> 'a result"

definition call_return :: "'a \<Rightarrow> ('w, 'a) call" where "call_return x w = (w, return x)"
definition call_throw :: "string \<Rightarrow> ('w, 'a) call" where "call_throw e w = (w, throw e)"

definition call_bind :: "('w, 'a) call \<Rightarrow> ('a \<Rightarrow> ('w, 'b) call) \<Rightarrow> ('w, 'b) call" where
  "call_bind m f w = (case m w of (w1, Inl e) \<Rightarrow> (w1, Inl e) | (w1, Inr x) \<Rightarrow> f x w1)"

definition call_if :: "bool \<Rightarrow> string \<Rightarrow> ('w, unit) call" where
  "call_if b e = (if b then call_throw e else call_return ())"

definition call_of :: "'a result \<Rightarrow> ('w, 'a) call" where
  "call_of r w = (w, r)"

definition call_try :: "('w, 'a) call \<Rightarrow> (string \<Rightarrow> ('w, 'a) call) \<Rightarrow> ('w, 'a) call" where
  "call_try m f w = (case m w of (w1, Inl e) \<Rightarrow> f e w1 | (w1, Inr x) \<Rightarrow> (w1, Inr x))"

fun call_each :: "('x \<Rightarrow> ('w, unit) call) \<Rightarrow> 'x list \<Rightarrow> ('w, unit) call" where
  "call_each f [] = call_return ()"
| "call_each f (x # xs) = call_bind (f x) (\<lambda>_. call_each f xs)"

definition call_keeps :: "('w \<Rightarrow> bool) \<Rightarrow> ('w, 'a) call \<Rightarrow> bool" where
  "call_keeps P m = (\<forall>w. P w \<longrightarrow> P (fst (m w)))"

lemma call_bind_Inr: "call_bind m f w = (w2, Inr y) \<longleftrightarrow> (\<exists>x w1. m w = (w1, Inr x) \<and> f x w1 = (w2, Inr y))"
  by (auto simp: call_bind_def split: prod.splits sum.splits)

lemma call_return_Inr [simp]: "call_return x w = (w1, Inr y) \<longleftrightarrow> w1 = w \<and> y = x"
  by (auto simp: call_return_def)

lemma call_of_Inr [simp]: "call_of r w = (w1, Inr y) \<longleftrightarrow> w1 = w \<and> r = Inr y"
  by (auto simp: call_of_def)

named_theorems call_keeps_intros

lemma call_keeps_basic [call_keeps_intros]:
  "call_keeps P (call_return x)" "call_keeps P (call_throw e)" "call_keeps P (call_of r)" "call_keeps P (call_if b e)"
  by (simp_all add: call_keeps_def call_return_def call_throw_def call_of_def call_if_def)

lemma call_keeps_bind [call_keeps_intros]:
  assumes "call_keeps P m" "\<And>x. call_keeps P (f x)"
  shows "call_keeps P (call_bind m f)"
  unfolding call_keeps_def call_bind_def
proof (intro allI impI)
  fix w assume p: "P w"
  obtain w1 r where m: "m w = (w1, r)" by (cases "m w")
  have "P w1" using assms(1) p m by (auto simp: call_keeps_def)
  then show "P (fst (case m w of (w1, Inl e) \<Rightarrow> (w1, Inl e) | (w1, Inr x) \<Rightarrow> f x w1))"
    using assms(2) m by (cases r) (auto simp: call_keeps_def)
qed

lemma call_keeps_of:
  "(\<And>x. r = Inr x \<Longrightarrow> call_keeps P (f x)) \<Longrightarrow> call_keeps P (call_bind (call_of r) f)"
  by (cases r) (auto simp: call_keeps_def call_bind_def call_of_def)

lemma call_keepsD: "call_keeps P m \<Longrightarrow> P w \<Longrightarrow> P (fst (m w))"
  by (simp add: call_keeps_def)

lemma call_keeps_try [call_keeps_intros]:
  assumes "call_keeps P m" "\<And>e. call_keeps P (f e)"
  shows "call_keeps P (call_try m f)"
  unfolding call_keeps_def call_try_def
proof (intro allI impI)
  fix w assume p: "P w"
  obtain w1 r where m: "m w = (w1, r)" by (cases "m w")
  have "P w1" using assms(1) p m by (auto simp: call_keeps_def)
  then show "P (fst (case m w of (w1, Inl e) \<Rightarrow> f e w1 | (w1, Inr x) \<Rightarrow> (w1, Inr x)))"
    using assms(2) m by (cases r) (auto simp: call_keeps_def)
qed

lemma call_keeps_each [call_keeps_intros]:
  "(\<And>x. call_keeps P (f x)) \<Longrightarrow> call_keeps P (call_each f xs)"
  by (induction xs) (simp_all add: call_keeps_intros)

end
