(* ===== verification/SearchService.thy ===== *)
theory SearchService
  imports SearchGenerators BacktestView Calls
begin

text \<open>
  Search runs (\<^verbatim>\<open>modules/search/application/service.ts\<close>): starting, filling the free
  slots, pausing, resuming, cancelling and reading a run, over the in-memory repository. The
  backtesting coordinator, the leaderboard, the strategy module and the clock live in a world
  of their own that every call may change, a failing one too. Operations run one after the
  other; the repository hands out the stored run itself, so a fill that fails leaves its partial
  updates in the run it marks as failed.
\<close>

section \<open>Runs\<close>

record stop_condition =
  sk_max_candidates :: "number option"
  sk_max_seconds :: "number option"
  sk_no_improvement :: "number option"

datatype run_state = Run_Created | RUNNING | PAUSED | Run_Completed | Run_Cancelled | Run_Failed

datatype stop_reason = MAX_CANDIDATES | MAX_DURATION | NO_IMPROVEMENT | USER_CANCELLED | Run_Error

record search_run =
  rn_id :: string
  rn_owner :: string
  rn_state :: run_state
  rn_counts :: search_summary
  rn_top :: "(nat \<times> experiment_result) option"
  rn_created_at :: string
  rn_started_at :: "string option"
  rn_updated_at :: string
  rn_ended_at :: "string option"
  rn_stop_reason :: "stop_reason option"
  rn_stop_condition :: stop_condition
  rn_last_error :: "string option"
  rn_space :: search_space
  rn_generator :: generator_type
  rn_scope :: string
  rn_max_in_flight :: nat
  rn_next :: nat
  rn_active_ms :: number
  rn_active_since :: "string option"
  rn_best :: "number option"
  rn_last_improvement :: "nat option"

record search_config =
  cf_space :: search_space
  cf_stop :: stop_condition
  cf_generator :: generator_type
  cf_scope :: string
  cf_max_in_flight :: number

record search_command =
  cm_scope :: string
  cm_definition_ids :: "string list"
  cm_composite_id :: string
  cm_stop_loss :: "number option"
  cm_take_profit :: "number option"
  cm_max_attempts :: nat
  cm_run :: string
  cm_iteration :: nat
  cm_generated_by :: generator_type
  cm_fingerprint :: string
  cm_lineage :: "lineage option"

section \<open>Calls into the world\<close>

record 'w strategy_port =
  po_read :: "string \<Rightarrow> string list \<Rightarrow> ('w, strategy_definition list) call"
  po_define :: "(string \<Rightarrow> string \<Rightarrow> params \<Rightarrow> ('w, strategy_definition) call) option"
  po_define_composite :: "string \<Rightarrow> combination_method \<Rightarrow> component list \<Rightarrow> thresholds option \<Rightarrow> ('w, composite_definition) call"
  po_read_composite :: "string \<Rightarrow> string \<Rightarrow> ('w, composite_definition) call"

record 'w search_env =
  ve_now :: "'w \<Rightarrow> string \<times> 'w"
  ve_read_scope :: "string \<Rightarrow> string \<Rightarrow> ('w, unit) call"
  ve_summarize :: "string \<Rightarrow> string \<Rightarrow> ('w, search_summary) call"
  ve_rank :: "string \<Rightarrow> string \<Rightarrow> ('w, (nat \<times> experiment_result) list) call"
  ve_generator :: "generator_type \<Rightarrow> (search_space \<Rightarrow> string \<Rightarrow> nat \<Rightarrow> generated_candidate result) option"
  ve_strategies :: "'w strategy_port option"
  ve_submit :: "string \<Rightarrow> search_command \<Rightarrow> ('w, unit) call"
  ve_cancel :: "string \<Rightarrow> string \<Rightarrow> ('w, string list) call"
  ve_remove_jobs :: "string list \<Rightarrow> 'w \<Rightarrow> 'w"

definition tick :: "'w search_env \<Rightarrow> ('w, string) call" where
  "tick env w = (case ve_now env w of (t, w1) \<Rightarrow> (w1, return t))"

section \<open>Validation\<close>

definition in_flight :: "search_summary \<Rightarrow> nat" where
  "in_flight s = sy_queued s + sy_running s"

definition stop_values :: "stop_condition \<Rightarrow> number list" where
  "stop_values c = List.map_filter id [sk_max_candidates c, sk_max_seconds c, sk_no_improvement c]"

definition validate_stop_condition :: "stop_condition \<Rightarrow> unit result" where
  "validate_stop_condition c = reject_if (stop_values c = [] \<or> list_ex (\<lambda>v. \<not> is_integer v \<or> nle v (num 0)) (stop_values c)) ''INVALID_STOP_CONDITION''"

definition validate_space_owner :: "string \<Rightarrow> search_space \<Rightarrow> unit result" where
  "validate_space_owner user space = reject_if (list_ex (\<lambda>d. sd_user d \<noteq> user) (sp_available space)) ''INVALID_SEARCH_CONFIG''"

definition repeats :: "strategy_category list option \<Rightarrow> bool" where
  "repeats c = (case c of None \<Rightarrow> False | Some xs \<Rightarrow> \<not> distinct xs)"

definition rules_clash :: "domain_rules \<Rightarrow> bool" where
  "rules_clash r =
     ((case (dr_required r, dr_forbidden r) of (Some rs, Some fs) \<Rightarrow> list_ex (\<lambda>c. c \<in> set fs) rs | _ \<Rightarrow> False) \<or>
      (case (dr_allowed r, dr_required r) of (Some as, Some rs) \<Rightarrow> list_ex (\<lambda>c. c \<notin> set as) rs | _ \<Rightarrow> False) \<or>
      (case (dr_allowed r, dr_forbidden r) of (Some as, Some fs) \<Rightarrow> list_ex (\<lambda>c. c \<in> set as) fs | _ \<Rightarrow> False))"

definition validate_domain_rules :: "generator_type \<Rightarrow> search_space \<Rightarrow> unit result" where
  "validate_domain_rules g space = (case sp_rules space of None \<Rightarrow> return ()
     | Some r \<Rightarrow>
       if g \<noteq> DOMAIN_GUIDED \<or> repeats (dr_required r) \<or> repeats (dr_allowed r) \<or> repeats (dr_forbidden r) then throw ''INVALID_SEARCH_CONFIG''
       else if rules_clash r then throw ''DOMAIN_RULE_UNSATISFIABLE''
       else let eligible = filter (category_allowed r) (sp_available space) in
         if eligible = [] \<or> list_ex (\<lambda>c. \<not> list_ex (\<lambda>d. sq_category d = Some c) eligible) (listed (dr_required r))
         then throw ''DOMAIN_RULE_UNSATISFIABLE''
         else reject_if (case (sp_max_components space, dr_required r) of (Some m, Some rs) \<Rightarrow> nlt m (num (int (length rs))) | _ \<Rightarrow> False)
           ''DOMAIN_RULE_UNSATISFIABLE'')"

section \<open>The repository of runs\<close>

record 'w search =
  sh_runs :: "(string, search_run) jsmap"
  sh_world :: 'w

definition get_run :: "string \<Rightarrow> 'w search \<Rightarrow> search_run option" where
  "get_run i h = js_get (sh_runs h) i"

definition run_by_owner :: "string \<Rightarrow> string \<Rightarrow> 'w search \<Rightarrow> search_run option" where
  "run_by_owner user i h = (case get_run i h of None \<Rightarrow> None | Some r \<Rightarrow> if rn_owner r = user then Some r else None)"

definition save_run :: "search_run \<Rightarrow> 'w search \<Rightarrow> 'w search" where
  "save_run r h = h\<lparr>sh_runs := js_set (rn_id r) r (sh_runs h)\<rparr>"

definition list_running :: "'w search \<Rightarrow> search_run list" where
  "list_running h = filter (\<lambda>r. rn_state r = RUNNING) (js_values (sh_runs h))"

definition newest_first :: "search_run compare_fn" where
  "newest_first a b = (case (date_parse (rn_created_at b), date_parse (rn_created_at a)) of (Some y, Some x) \<Rightarrow> y - x | _ \<Rightarrow> 0)"

definition list_by_owner :: "string \<Rightarrow> nat \<Rightarrow> 'w search \<Rightarrow> search_run list" where
  "list_by_owner user limit h = take limit (sort_by newest_first (filter (\<lambda>r. rn_owner r = user) (js_values (sh_runs h))))"

section \<open>Refreshing a run\<close>

definition no_counts :: "string \<Rightarrow> search_summary" where
  "no_counts i = \<lparr>sy_run = i, sy_active = [], sy_queued = 0, sy_running = 0, sy_tested = 0, sy_failed = 0, sy_retry_exhausted = 0,
     sy_infrastructure = 0, sy_completion_failed = 0, sy_failed_attempts = 0, sy_average_ms = None\<rparr>"

definition create_run :: "string \<Rightarrow> search_config \<Rightarrow> string \<Rightarrow> string \<Rightarrow> search_run" where
  "create_run i c user now = \<lparr>rn_id = i, rn_owner = user, rn_state = RUNNING, rn_counts = no_counts i, rn_top = None, rn_created_at = now,
     rn_started_at = Some now, rn_updated_at = now, rn_ended_at = None, rn_stop_reason = None, rn_stop_condition = cf_stop c,
     rn_last_error = None, rn_space = (cf_space c)\<lparr>sp_generated := uniq (sp_generated (cf_space c))\<rparr>, rn_generator = cf_generator c,
     rn_scope = cf_scope c, rn_max_in_flight = nat_of_number (cf_max_in_flight c), rn_next = 1, rn_active_ms = num 0,
     rn_active_since = Some now, rn_best = None, rn_last_improvement = None\<rparr>"

definition top_entry :: "(nat \<times> experiment_result) list \<Rightarrow> (nat \<times> experiment_result) option" where
  "top_entry es = (case es of [] \<Rightarrow> None | e # _ \<Rightarrow> Some e)"

definition project_run :: "'w search_env \<Rightarrow> search_run \<Rightarrow> ('w, search_run) call" where
  "project_run env r = call_bind (ve_summarize env (rn_owner r) (rn_id r)) (\<lambda>s.
     call_bind (ve_rank env (rn_owner r) (rn_id r)) (\<lambda>es. call_return (r\<lparr>rn_counts := s, rn_top := top_entry es\<rparr>)))"

definition note_best :: "search_run \<Rightarrow> search_run" where
  "note_best r = (case rn_top r of None \<Rightarrow> r
     | Some (_, x) \<Rightarrow> if (case rn_best r of None \<Rightarrow> True | Some b \<Rightarrow> nlt b (ex_score x))
         then r\<lparr>rn_best := Some (ex_score x), rn_last_improvement := Some (sy_tested (rn_counts r))\<rparr> else r)"

definition refresh_run :: "'w search_env \<Rightarrow> search_run \<Rightarrow> ('w, search_run) call" where
  "refresh_run env r = call_bind (project_run env r) (\<lambda>p. call_bind (tick env) (\<lambda>t. call_return (note_best (p\<lparr>rn_updated_at := t\<rparr>))))"

definition ms_between :: "string \<Rightarrow> string \<Rightarrow> number" where
  "ms_between later earlier = (case (date_parse later, date_parse earlier) of (Some y, Some x) \<Rightarrow> nsub (num y) (num x) | _ \<Rightarrow> NaN)"

definition reserved_count :: "search_run \<Rightarrow> nat" where
  "reserved_count r = max (sy_tested (rn_counts r) + in_flight (rn_counts r)) (rn_next r - 1)"

definition stop_reason_at :: "number \<Rightarrow> search_run \<Rightarrow> stop_reason option" where
  "stop_reason_at elapsed_ms r = (let c = rn_stop_condition r in
     if (case sk_max_seconds c of None \<Rightarrow> False | Some m \<Rightarrow> nle m (ndiv elapsed_ms (num 1000))) then Some MAX_DURATION
     else if (case sk_max_candidates c of None \<Rightarrow> False | Some m \<Rightarrow> nle m (num (int (reserved_count r)))) then Some MAX_CANDIDATES
     else if (case (sk_no_improvement c, rn_best r, rn_last_improvement r) of
          (Some m, Some _, Some k) \<Rightarrow> nle m (num (int (sy_tested (rn_counts r)) - int k)) | _ \<Rightarrow> False) then Some NO_IMPROVEMENT
     else None)"

definition stop_reason_of :: "'w search_env \<Rightarrow> search_run \<Rightarrow> ('w, stop_reason option) call" where
  "stop_reason_of env r = (case present (rn_active_since r) of
     None \<Rightarrow> call_return (stop_reason_at (nadd (rn_active_ms r) (num 0)) r)
   | Some since \<Rightarrow> call_bind (tick env) (\<lambda>t. call_return (stop_reason_at (nadd (rn_active_ms r) (ms_between t since)) r)))"

section \<open>Submitting a candidate\<close>

definition params_text :: "params \<Rightarrow> string" where
  "params_text ps = json_stringify (JObj (map (\<lambda>(k, v). (k, json_of_param v)) ps))"

fun remap_definitions :: "'w strategy_port \<Rightarrow> string \<Rightarrow> strategy_definition list \<Rightarrow> search_definition list \<Rightarrow> (string \<times> string) list \<Rightarrow>
    ('w, (string \<times> string) list) call" where
  "remap_definitions p user stored [] acc = call_return acc"
| "remap_definitions p user stored (g # gs) acc = (case find (\<lambda>d. sd_id d = sd_id g) (rev stored) of
     None \<Rightarrow> call_throw ''INVALID_SEARCH_CONFIG''
   | Some d \<Rightarrow>
       if sd_strategy_name d \<noteq> sd_strategy_name g then call_throw ''INVALID_SEARCH_CONFIG''
       else if params_text (sd_parameters d) = params_text (sd_parameters g)
       then remap_definitions p user stored gs (js_set (sd_id g) (sd_id d) acc)
       else (case po_define p of None \<Rightarrow> call_throw ''INVALID_SEARCH_CONFIG''
         | Some f \<Rightarrow> call_bind (f user (sd_strategy_name g) (sd_parameters g)) (\<lambda>created.
             if sd_user created \<noteq> user then call_throw ''INVALID_SEARCH_CONFIG''
             else remap_definitions p user stored gs (js_set (sd_id g) (sd_id created) acc))))"

definition remapped :: "(string \<times> string) list \<Rightarrow> string \<Rightarrow> string" where
  "remapped m i = (case js_get m i of None \<Rightarrow> i | Some j \<Rightarrow> j)"

definition remap_component :: "(string \<times> string) list \<Rightarrow> component \<Rightarrow> component" where
  "remap_component m k = k\<lparr>cp_definition_id := remapped m (cp_definition_id k)\<rparr>"

definition composite_differs :: "string \<Rightarrow> component list \<Rightarrow> composite_definition \<Rightarrow> bool" where
  "composite_differs user expected k = (cd_user k \<noteq> user \<or> length (cd_components k) \<noteq> length expected \<or>
     list_ex (\<lambda>(x, y). cp_definition_id x \<noteq> cp_definition_id y \<or> \<not> neq (cp_weight x) (cp_weight y)) (zip (cd_components k) expected))"

definition persist_candidate :: "'w strategy_port \<Rightarrow> string \<Rightarrow> generated_candidate \<Rightarrow> ('w, string list \<times> string) call" where
  "persist_candidate p user c = (let ids = map sd_id (gc_definitions c); composite = gc_composite c in
     call_bind (po_read p user ids) (\<lambda>stored.
     call_bind (call_if (length stored \<noteq> length ids \<or> list_ex (\<lambda>d. sd_user d \<noteq> user) stored) ''INVALID_SEARCH_CONFIG'') (\<lambda>_.
     call_bind (remap_definitions p user stored (gc_definitions c) []) (\<lambda>m.
     let mapped = filter (\<lambda>i. i \<noteq> []) (List.map_filter (js_get m) ids) in
     call_bind (call_if (length mapped \<noteq> length ids) ''INVALID_SEARCH_CONFIG'') (\<lambda>_.
     call_bind (po_define_composite p user (cd_method composite) (map (remap_component m) (cd_components composite)) (cd_thresholds composite)) (\<lambda>saved.
     call_bind (po_read_composite p user (cd_id saved)) (\<lambda>verified.
     call_bind (call_if (composite_differs user (map (remap_component m) (cd_components composite)) verified) ''INVALID_SEARCH_CONFIG'') (\<lambda>_.
       call_return (mapped, cd_id verified)))))))))"

definition command_for :: "search_run \<Rightarrow> generated_candidate \<Rightarrow> string list \<Rightarrow> string \<Rightarrow> search_command" where
  "command_for r c ids composite_id = \<lparr>cm_scope = rn_scope r, cm_definition_ids = ids, cm_composite_id = composite_id,
     cm_stop_loss = gc_stop_loss c, cm_take_profit = gc_take_profit c, cm_max_attempts = 1, cm_run = rn_id r, cm_iteration = rn_next r,
     cm_generated_by = gc_type c, cm_fingerprint = gc_fingerprint c, cm_lineage = gc_lineage c\<rparr>"

definition count_candidate :: "string \<Rightarrow> search_run \<Rightarrow> search_run" where
  "count_candidate fingerprint r = r\<lparr>rn_space := (rn_space r)\<lparr>sp_generated := uniq (sp_generated (rn_space r) @ [fingerprint])\<rparr>, rn_next := rn_next r + 1\<rparr>"

definition submit_generated :: "'w search_env \<Rightarrow> search_run \<Rightarrow> generated_candidate \<Rightarrow> ('w, search_run) call" where
  "submit_generated env r c =
     call_bind (case ve_strategies env of None \<Rightarrow> call_return (map sd_id (gc_definitions c), cd_id (gc_composite c))
       | Some p \<Rightarrow> persist_candidate p (rn_owner r) c) (\<lambda>(ids, composite_id).
     call_bind (ve_submit env (rn_owner r) (command_for r c ids composite_id)) (\<lambda>_. call_return (count_candidate (gc_fingerprint c) r)))"

section \<open>Filling the slots\<close>

text \<open>The loop of \<open>bound\<close> attempts, \<open>left\<close> of them still to come. A failing attempt is skipped
  unless it is the last one.\<close>

fun fill_loop :: "'w search_env \<Rightarrow> (search_space \<Rightarrow> string \<Rightarrow> nat \<Rightarrow> generated_candidate result) \<Rightarrow> nat \<Rightarrow> nat \<Rightarrow> nat \<Rightarrow> nat \<Rightarrow> search_run \<Rightarrow> 'w \<Rightarrow>
    search_run \<times> 'w \<times> nat result" where
  "fill_loop env gen slots bound 0 submitted r w = (r, w, return submitted)"
| "fill_loop env gen slots bound (Suc left) submitted r w =
     (if submitted \<ge> slots then (r, w, return submitted)
      else case gen (rn_space r) (rn_id r) (rn_next r + (bound - left) - 1) of
        Inl e \<Rightarrow> if left = 0 then (r, w, throw e) else fill_loop env gen slots bound left submitted r w
      | Inr c \<Rightarrow> if gc_fingerprint c \<in> set (sp_generated (rn_space r)) then fill_loop env gen slots bound left submitted r w
          else (case submit_generated env r c w of
            (w1, Inr r1) \<Rightarrow> fill_loop env gen slots bound left (submitted + 1) r1 w1
          | (w1, Inl e) \<Rightarrow> if left = 0 then (r, w1, throw e) else fill_loop env gen slots bound left submitted r w1))"

definition slots_of :: "search_run \<Rightarrow> nat" where
  "slots_of r = min (rn_max_in_flight r - in_flight (rn_counts r))
     (case sk_max_candidates (rn_stop_condition r) of None \<Rightarrow> rn_max_in_flight r | Some m \<Rightarrow> nat_of_number m - reserved_count r)"

definition attempts_of_slots :: "nat \<Rightarrow> nat" where
  "attempts_of_slots slots = max (slots * 4) (slots + 1)"

definition complete_run :: "stop_reason \<Rightarrow> string \<Rightarrow> search_run \<Rightarrow> search_run" where
  "complete_run reason t r = r\<lparr>rn_state := Run_Completed, rn_stop_reason := Some reason, rn_ended_at := Some t\<rparr>"

definition complete_if :: "'w search_env \<Rightarrow> stop_reason option \<Rightarrow> search_run \<Rightarrow> 'w \<Rightarrow> search_run \<times> 'w" where
  "complete_if env met r w = (case met of None \<Rightarrow> (r, w)
     | Some reason \<Rightarrow> if in_flight (rn_counts r) = 0 then (case ve_now env w of (t, w1) \<Rightarrow> (complete_run reason t r, w1)) else (r, w))"

text \<open>After the loop: refresh, check again, stamp.\<close>

definition fill_end :: "'w search_env \<Rightarrow> search_run \<Rightarrow> 'w \<Rightarrow> search_run \<times> 'w \<times> unit result" where
  "fill_end env r w = (case refresh_run env r w of
     (w1, Inl e) \<Rightarrow> (r, w1, throw e)
   | (w1, Inr r1) \<Rightarrow> (case stop_reason_of env r1 w1 of
       (w2, Inl e) \<Rightarrow> (r1, w2, throw e)
     | (w2, Inr met) \<Rightarrow> (case complete_if env met r1 w2 of (r2, w3) \<Rightarrow>
         (case ve_now env w3 of (t, w4) \<Rightarrow> (r2\<lparr>rn_updated_at := t\<rparr>, w4, return ())))))"

definition fill_slots :: "'w search_env \<Rightarrow> search_run \<Rightarrow> 'w \<Rightarrow> search_run \<times> 'w \<times> unit result" where
  "fill_slots env r w = (case ve_generator env (rn_generator r) of None \<Rightarrow> (r, w, throw ''UNSUPPORTED_GENERATOR'')
     | Some gen \<Rightarrow> (let slots = slots_of r; bound = attempts_of_slots slots in
         case fill_loop env gen slots bound bound 0 r w of
           (r1, w1, Inl e) \<Rightarrow> (r1, w1, throw e)
         | (r1, w1, Inr submitted) \<Rightarrow>
             if slots > 0 \<and> submitted = 0 then (r1, w1, throw ''SEARCH_GENERATION_EXHAUSTED'') else fill_end env r1 w1))"

definition fill_core :: "'w search_env \<Rightarrow> search_run \<Rightarrow> 'w \<Rightarrow> search_run \<times> 'w \<times> unit result" where
  "fill_core env r w = (if rn_state r \<noteq> RUNNING then (r, w, return ())
     else case refresh_run env r w of
       (w1, Inl e) \<Rightarrow> (r, w1, throw e)
     | (w1, Inr r1) \<Rightarrow> (case stop_reason_of env r1 w1 of
         (w2, Inl e) \<Rightarrow> (r1, w2, throw e)
       | (w2, Inr (Some reason)) \<Rightarrow> (case complete_if env (Some reason) r1 w2 of (r2, w3) \<Rightarrow> (r2, w3, return ()))
       | (w2, Inr None) \<Rightarrow> fill_slots env r1 w2))"

definition fail_run :: "string \<Rightarrow> string \<Rightarrow> string \<Rightarrow> search_run \<Rightarrow> search_run" where
  "fail_run e ended updated r = r\<lparr>rn_state := Run_Failed, rn_stop_reason := Some Run_Error, rn_last_error := Some e,
     rn_ended_at := Some ended, rn_updated_at := updated\<rparr>"

definition fill_run :: "'w search_env \<Rightarrow> string \<Rightarrow> 'w search \<Rightarrow> 'w search \<times> unit result" where
  "fill_run env i h = (case get_run i h of None \<Rightarrow> (h, throw ''SEARCH_RUN_NOT_FOUND'')
     | Some r \<Rightarrow> (case fill_core env r (sh_world h) of
         (r1, w, Inr _) \<Rightarrow> ((save_run r1 h)\<lparr>sh_world := w\<rparr>, return ())
       | (r1, w, Inl e) \<Rightarrow>
           if rn_state r1 = RUNNING \<or> rn_state r1 = PAUSED
           then (case ve_now env w of (t, w1) \<Rightarrow> case ve_now env w1 of (u, w2) \<Rightarrow> ((save_run (fail_run e t u r1) h)\<lparr>sh_world := w2\<rparr>, throw e))
           else ((save_run r1 h)\<lparr>sh_world := w\<rparr>, throw e)))"

section \<open>The public operations\<close>

definition owned_run :: "string \<Rightarrow> string \<Rightarrow> 'w search \<Rightarrow> search_run result" where
  "owned_run user i h = and_then (assert_auth user) (\<lambda>_. case run_by_owner user i h of None \<Rightarrow> throw ''SEARCH_RUN_NOT_FOUND'' | Some r \<Rightarrow> return r)"

definition config_invalid :: "search_config \<Rightarrow> bool" where
  "config_invalid c = (\<not> is_integer (cf_max_in_flight c) \<or> nle (cf_max_in_flight c) (num 0) \<or> cf_scope c = [] \<or> sp_available (cf_space c) = [])"

definition validate_start :: "string \<Rightarrow> search_config \<Rightarrow> unit result" where
  "validate_start user c = and_then (assert_auth user) (\<lambda>_. and_then (validate_stop_condition (cf_stop c)) (\<lambda>_.
     and_then (reject_if (config_invalid c) ''INVALID_SEARCH_CONFIG'') (\<lambda>_. and_then (validate_space_owner user (cf_space c)) (\<lambda>_.
       validate_domain_rules (cf_generator c) (cf_space c)))))"

definition start_run :: "'w search_env \<Rightarrow> string \<Rightarrow> search_config \<Rightarrow> string \<Rightarrow> 'w search \<Rightarrow> 'w search \<times> string result" where
  "start_run env user c new_id h = (case validate_start user c of Inl e \<Rightarrow> (h, throw e)
     | Inr _ \<Rightarrow> (case ve_read_scope env user (cf_scope c) (sh_world h) of
         (w, Inl e) \<Rightarrow> (h\<lparr>sh_world := w\<rparr>, throw e)
       | (w, Inr _) \<Rightarrow> (case ve_now env w of (t, w1) \<Rightarrow>
           (fst (fill_run env new_id ((save_run (create_run new_id c user t) h)\<lparr>sh_world := w1\<rparr>)), return new_id))))"

definition paused_at :: "string \<Rightarrow> search_run \<Rightarrow> search_run" where
  "paused_at now r = r\<lparr>rn_state := PAUSED, rn_active_ms := nadd (rn_active_ms r)
     (case present (rn_active_since r) of None \<Rightarrow> num 0 | Some since \<Rightarrow> ms_between now since), rn_active_since := None, rn_updated_at := now\<rparr>"

definition pause_run :: "'w search_env \<Rightarrow> string \<Rightarrow> string \<Rightarrow> 'w search \<Rightarrow> 'w search \<times> unit result" where
  "pause_run env user i h = (case owned_run user i h of Inl e \<Rightarrow> (h, throw e)
     | Inr r \<Rightarrow> if rn_state r = RUNNING
         then (case ve_now env (sh_world h) of (t, w) \<Rightarrow> ((save_run (paused_at t r) h)\<lparr>sh_world := w\<rparr>, return ())) else (h, return ()))"

definition resume_run :: "'w search_env \<Rightarrow> string \<Rightarrow> string \<Rightarrow> 'w search \<Rightarrow> 'w search \<times> unit result" where
  "resume_run env user i h = (case owned_run user i h of Inl e \<Rightarrow> (h, throw e)
     | Inr r \<Rightarrow> if rn_state r = Run_Failed then (h, throw ''CANNOT_RESUME_FAILED_RUN'')
         else fill_run env i (if rn_state r = PAUSED
           then (case ve_now env (sh_world h) of (t, w) \<Rightarrow>
             (save_run (r\<lparr>rn_state := RUNNING, rn_active_since := Some t, rn_updated_at := t\<rparr>) h)\<lparr>sh_world := w\<rparr>) else h))"

definition cancelled_run :: "string \<Rightarrow> search_run \<Rightarrow> search_run" where
  "cancelled_run now r = r\<lparr>rn_state := Run_Cancelled, rn_stop_reason := Some USER_CANCELLED, rn_ended_at := Some now,
     rn_active_since := None, rn_updated_at := now\<rparr>"

text \<open>The cancellation is one unit of work: when a step fails its rollback restores the candidates and the run.\<close>

definition cancel_run :: "'w search_env \<Rightarrow> string \<Rightarrow> string \<Rightarrow> 'w search \<Rightarrow> 'w search \<times> unit result" where
  "cancel_run env user i h = (case owned_run user i h of Inl e \<Rightarrow> (h, throw e)
     | Inr r \<Rightarrow> if rn_state r = Run_Cancelled \<or> rn_state r = Run_Failed then (h, return ())
         else (case ve_cancel env user i (sh_world h) of (_, Inl e) \<Rightarrow> (h, throw e)
           | (w, Inr ids) \<Rightarrow> (case ve_now env w of (t, w1) \<Rightarrow> ((save_run (cancelled_run t r) h)\<lparr>sh_world := ve_remove_jobs env ids w1\<rparr>, return ()))))"

definition run_status :: "'w search_env \<Rightarrow> string \<Rightarrow> string \<Rightarrow> 'w search \<Rightarrow> search_run result" where
  "run_status env user i h = and_then (owned_run user i h) (\<lambda>r. snd (project_run env r (sh_world h)))"

record run_summary =
  rs_id :: string
  rs_state :: run_state
  rs_generator :: generator_type
  rs_scope :: string
  rs_max_in_flight :: nat
  rs_next :: nat
  rs_best :: "number option"
  rs_stop_reason :: "stop_reason option"
  rs_created_at :: string
  rs_started_at :: "string option"
  rs_ended_at :: "string option"
  rs_updated_at :: string

definition summary_of_run :: "search_run \<Rightarrow> run_summary" where
  "summary_of_run r = \<lparr>rs_id = rn_id r, rs_state = rn_state r, rs_generator = rn_generator r, rs_scope = rn_scope r,
     rs_max_in_flight = rn_max_in_flight r, rs_next = rn_next r, rs_best = rn_best r, rs_stop_reason = rn_stop_reason r,
     rs_created_at = rn_created_at r, rs_started_at = rn_started_at r, rs_ended_at = rn_ended_at r, rs_updated_at = rn_updated_at r\<rparr>"

definition list_runs :: "string \<Rightarrow> nat \<Rightarrow> 'w search \<Rightarrow> run_summary list result" where
  "list_runs user limit h = and_then (assert_auth user) (\<lambda>_. return (map summary_of_run (list_by_owner user limit h)))"

definition run_leaderboard :: "'w search_env \<Rightarrow> string \<Rightarrow> string \<Rightarrow> 'w search \<Rightarrow> (nat \<times> experiment_result) list result" where
  "run_leaderboard env user i h = and_then (owned_run user i h) (\<lambda>r. snd (ve_rank env (rn_owner r) i (sh_world h)))"

fun fill_each :: "'w search_env \<Rightarrow> string list \<Rightarrow> 'w search \<Rightarrow> 'w search \<times> unit result" where
  "fill_each env [] h = (h, return ())"
| "fill_each env (i # is) h = (case fill_run env i h of (h1, Inl e) \<Rightarrow> (h1, throw e) | (h1, Inr _) \<Rightarrow> fill_each env is h1)"

definition reconcile_running :: "'w search_env \<Rightarrow> 'w search \<Rightarrow> 'w search \<times> nat result" where
  "reconcile_running env h = (let ids = map rn_id (list_running h) in
     case fill_each env ids h of (h1, Inl e) \<Rightarrow> (h1, throw e) | (h1, Inr _) \<Rightarrow> (h1, return (length ids)))"

end
