(* ===== verification/SearchProtocol.thy ===== *)
theory SearchProtocol
  imports SearchService
begin

text \<open>
  The search runs as a protocol: a step relation over the operations of \<open>SearchService\<close>, the
  budget every reachable run respects, and the abstract life cycle of a run that every step
  follows. The world (backtesting, leaderboard, strategies and clock) may answer anything.
\<close>

section \<open>What refreshing keeps\<close>

definition keeps :: "search_run \<Rightarrow> search_run \<Rightarrow> bool" where
  "keeps r r1 = (rn_id r1 = rn_id r \<and> rn_owner r1 = rn_owner r \<and> rn_state r1 = rn_state r \<and> rn_space r1 = rn_space r \<and>
     rn_next r1 = rn_next r \<and> rn_stop_condition r1 = rn_stop_condition r \<and> rn_max_in_flight r1 = rn_max_in_flight r)"

lemma keeps_refl [simp]: "keeps r r"
  by (simp add: keeps_def)

lemma keeps_trans: "keeps a b \<Longrightarrow> keeps b c \<Longrightarrow> keeps a c"
  by (simp add: keeps_def)

lemma note_best_keeps: "keeps r (note_best r)"
  by (simp add: note_best_def keeps_def split: option.splits prod.splits)

lemma refresh_keeps: "refresh_run env r w = (w1, Inr r1) \<Longrightarrow> keeps r r1"
proof -
  assume "refresh_run env r w = (w1, Inr r1)"
  then obtain s es t where "r1 = note_best (r\<lparr>rn_counts := s, rn_top := top_entry es, rn_updated_at := t\<rparr>)"
    by (auto simp: refresh_run_def project_run_def call_bind_Inr)
  moreover have "keeps r (r\<lparr>rn_counts := s, rn_top := top_entry es, rn_updated_at := t\<rparr>)" by (simp add: keeps_def)
  ultimately show ?thesis using note_best_keeps keeps_trans by blast
qed

section \<open>What the loop submits\<close>

definition with_submissions :: "string list \<Rightarrow> search_run \<Rightarrow> search_run" where
  "with_submissions fs r = r\<lparr>rn_space := (rn_space r)\<lparr>sp_generated := sp_generated (rn_space r) @ fs\<rparr>, rn_next := rn_next r + length fs\<rparr>"

lemma with_submissions_Nil [simp]: "with_submissions [] r = r"
  by (simp add: with_submissions_def)

lemma with_submissions_more: "with_submissions gs (with_submissions fs r) = with_submissions (fs @ gs) r"
  by (simp add: with_submissions_def)

lemma count_fresh: "distinct (sp_generated (rn_space r)) \<Longrightarrow> f \<notin> set (sp_generated (rn_space r)) \<Longrightarrow> count_candidate f r = with_submissions [f] r"
  by (simp add: count_candidate_def with_submissions_def uniq_def distinct_remdups_id)

lemma submit_counts: "submit_generated env r c w = (w1, Inr r1) \<Longrightarrow> r1 = count_candidate (gc_fingerprint c) r"
  by (auto simp: submit_generated_def call_bind_Inr)

lemma fill_loop_submits:
  assumes "fill_loop env gen slots bound left submitted r w = (r1, w1, res)" "distinct (sp_generated (rn_space r))" "submitted \<le> slots"
  shows "\<exists>fs. r1 = with_submissions fs r \<and> distinct (sp_generated (rn_space r) @ fs) \<and> submitted + length fs \<le> slots \<and>
    (\<forall>n. res = return n \<longrightarrow> n = submitted + length fs)"
  using assms
proof (induction env gen slots bound left submitted r w rule: fill_loop.induct)
  case (2 env gen slots bound left submitted r w)
  consider (full) "slots \<le> submitted"
    | (failed) e where "submitted < slots" "gen (rn_space r) (rn_id r) (rn_next r + (bound - left) - 1) = Inl e"
    | (known) c where "submitted < slots" "gen (rn_space r) (rn_id r) (rn_next r + (bound - left) - 1) = Inr c" "gc_fingerprint c \<in> set (sp_generated (rn_space r))"
    | (fresh) c where "submitted < slots" "gen (rn_space r) (rn_id r) (rn_next r + (bound - left) - 1) = Inr c" "gc_fingerprint c \<notin> set (sp_generated (rn_space r))"
    by (metis not_le old.sum.exhaust)
  then show ?case
  proof cases
    case full
    then show ?thesis using "2.prems" by (intro exI [of _ "[]"]) auto
  next
    case failed
    then show ?thesis using "2.prems" "2.IH"(1) by (cases "left = 0") (auto intro: exI [of _ "[]"])
  next
    case known
    then show ?thesis using "2.prems" "2.IH"(2) by auto
  next
    case fresh
    obtain w2 a where s: "submit_generated env r c w = (w2, a)" by (cases "submit_generated env r c w")
    show ?thesis
    proof (cases a)
      case (Inl e)
      show ?thesis
      proof (cases "left = 0")
        case True
        then show ?thesis using fresh "2.prems" s Inl by (intro exI [of _ "[]"]) auto
      next
        case False
        then have "fill_loop env gen slots bound left submitted r w2 = (r1, w1, res)" using "2.prems"(1) fresh s Inl by simp
        from "2.IH"(3) [OF _ fresh(2,3) s [symmetric] Inl False this "2.prems"(2,3)] fresh(1) show ?thesis by simp
      qed
    next
      case (Inr r2)
      have r2: "r2 = with_submissions [gc_fingerprint c] r" using submit_counts s Inr count_fresh fresh "2.prems"(2) by metis
      have f: "fill_loop env gen slots bound left (submitted + 1) r2 w2 = (r1, w1, res)" using "2.prems"(1) fresh s Inr by simp
      have d: "distinct (sp_generated (rn_space r2))" using r2 fresh "2.prems"(2) by (simp add: with_submissions_def)
      obtain fs where "r1 = with_submissions fs r2" "distinct (sp_generated (rn_space r2) @ fs)" "submitted + 1 + length fs \<le> slots"
        "\<forall>n. res = return n \<longrightarrow> n = submitted + 1 + length fs"
        using "2.IH"(4) [OF _ fresh(2,3) s [symmetric] Inr f d] fresh(1) by auto
      then show ?thesis unfolding r2 with_submissions_more
        by (intro exI [of _ "[gc_fingerprint c] @ fs"]) (simp add: with_submissions_def)
    qed
  qed
qed (auto intro: exI [of _ "[]"])

section \<open>What a fill does to a run\<close>

inductive run_edge :: "run_state \<Rightarrow> run_state \<Rightarrow> bool" where
  "run_edge RUNNING PAUSED"
| "run_edge PAUSED RUNNING"
| "run_edge RUNNING Run_Completed"
| "run_edge RUNNING Run_Failed"
| "run_edge s Run_Cancelled" if "s \<noteq> Run_Cancelled" "s \<noteq> Run_Failed"

inductive_cases run_edge_from: "run_edge Run_Cancelled s" "run_edge Run_Failed s"

text \<open>A fill submits a list of fresh candidates within the slots and the budget, and leaves the run in place or completes it.\<close>

definition filled :: "search_run \<Rightarrow> search_run \<Rightarrow> bool" where
  "filled r r1 = (rn_id r1 = rn_id r \<and> rn_owner r1 = rn_owner r \<and> rn_stop_condition r1 = rn_stop_condition r \<and>
     (rn_state r1 = rn_state r \<or> rn_state r = RUNNING \<and> rn_state r1 = Run_Completed) \<and>
     (\<exists>fs. sp_generated (rn_space r1) = sp_generated (rn_space r) @ fs \<and> distinct (sp_generated (rn_space r1)) \<and>
       rn_next r1 = rn_next r + length fs \<and> length fs \<le> rn_max_in_flight r \<and>
       (\<forall>m. sk_max_candidates (rn_stop_condition r) = Some m \<longrightarrow> length fs \<le> nat_of_number m - (rn_next r - 1))))"

lemma filled_refl: "distinct (sp_generated (rn_space r)) \<Longrightarrow> filled r r"
  by (auto simp: filled_def intro: exI [of _ "[]"])

lemma filled_keeps: "keeps r r1 \<Longrightarrow> filled r1 r2 \<Longrightarrow> filled r r2"
  unfolding filled_def keeps_def by (elim conjE) simp

lemma filled_then: "filled r r1 \<Longrightarrow> keeps r1 r2 \<Longrightarrow> filled r r2"
  unfolding filled_def keeps_def by (elim conjE) simp

lemma complete_if_cases:
  "complete_if env met r w = (r1, w1) \<Longrightarrow> r1 = r \<or> (\<exists>reason t. met = Some reason \<and> r1 = complete_run reason t r)"
  by (auto simp: complete_if_def split: option.splits if_splits prod.splits)

lemma completed_filled: "filled r r1 \<Longrightarrow> rn_state r = RUNNING \<Longrightarrow> filled r (complete_run reason t r1)"
  unfolding filled_def complete_run_def by (elim conjE) (intro conjI, simp_all)

lemma stamped_filled: "filled r r1 \<Longrightarrow> filled r (r1\<lparr>rn_updated_at := t\<rparr>)"
  by (rule filled_then) (simp_all add: keeps_def)

lemma fill_end_filled:
  assumes "fill_end env r1 w = (r2, w1, res)" "filled r r1" "rn_state r = RUNNING"
  shows "filled r r2"
proof (cases "refresh_run env r1 w")
  case (Pair w2 a)
  show ?thesis
  proof (cases a)
    case (Inr r3)
    have f: "filled r r3" using filled_then [OF assms(2)] refresh_keeps [of env r1 w w2 r3] Pair Inr by simp
    show ?thesis
    proof (cases "stop_reason_of env r3 w2")
      case s: (Pair w3 b)
      show ?thesis
      proof (cases b)
        case b: (Inr met)
        obtain r4 w4 where c: "complete_if env met r3 w3 = (r4, w4)" by (cases "complete_if env met r3 w3")
        then have "filled r r4" using complete_if_cases completed_filled f assms(3) by metis
        then show ?thesis using assms(1) Pair Inr s b c stamped_filled by (auto simp: fill_end_def split: prod.splits)
      qed (use assms(1) Pair Inr s f in \<open>simp add: fill_end_def\<close>)
    qed
  qed (use assms Pair in \<open>simp add: fill_end_def\<close>)
qed

lemma submissions_filled:
  assumes "distinct (sp_generated (rn_space r) @ fs)" "length fs \<le> slots_of r"
  shows "filled r (with_submissions fs r)"
  using assms by (auto simp: filled_def with_submissions_def slots_of_def reserved_count_def split: option.splits)

lemma fill_slots_filled:
  assumes "fill_slots env r w = (r2, w1, res)" "distinct (sp_generated (rn_space r))" "rn_state r = RUNNING"
  shows "filled r r2"
proof (cases "ve_generator env (rn_generator r)")
  case None
  then show ?thesis using assms filled_refl by (simp add: fill_slots_def)
next
  case (Some gen)
  obtain r1 w2 out where l: "fill_loop env gen (slots_of r) (attempts_of_slots (slots_of r)) (attempts_of_slots (slots_of r)) 0 r w = (r1, w2, out)"
    by (metis prod_cases3)
  obtain fs where "r1 = with_submissions fs r" "distinct (sp_generated (rn_space r) @ fs)" "length fs \<le> slots_of r"
    using fill_loop_submits [OF l assms(2)] by auto
  then have f: "filled r r1" using submissions_filled by blast
  show ?thesis
  proof (cases out)
    case (Inl e)
    then show ?thesis using assms(1) Some l f by (simp add: fill_slots_def Let_def)
  next
    case (Inr n)
    show ?thesis
    proof (cases "slots_of r > 0 \<and> n = 0")
      case True
      then show ?thesis using assms(1) Some l f Inr by (simp add: fill_slots_def Let_def)
    next
      case False
      then have "fill_end env r1 w2 = (r2, w1, res)" using assms(1) Some l Inr by (simp add: fill_slots_def Let_def split: if_splits)
      then show ?thesis by (rule fill_end_filled [OF _ f assms(3)])
    qed
  qed
qed

lemma fill_core_filled:
  assumes "fill_core env r w = (r2, w1, res)" "distinct (sp_generated (rn_space r))"
  shows "filled r r2 \<and> (rn_state r \<noteq> RUNNING \<longrightarrow> r2 = r \<and> res = return ())"
proof (cases "rn_state r = RUNNING")
  case run: True
  obtain w2 a where p: "refresh_run env r w = (w2, a)" by (cases "refresh_run env r w")
  have "filled r r2"
  proof (cases a)
    case (Inl e)
    then show ?thesis using assms run p filled_refl by (simp add: fill_core_def)
  next
    case (Inr r3)
    have k: "keeps r r3" using refresh_keeps [of env r w w2 r3] p Inr by simp
    then have d: "distinct (sp_generated (rn_space r3))" "rn_state r3 = RUNNING" using assms(2) run by (simp_all add: keeps_def)
    obtain w3 b where s: "stop_reason_of env r3 w2 = (w3, b)" by (cases "stop_reason_of env r3 w2")
    have "filled r3 r2"
    proof (cases b)
      case b: (Inr met)
      show ?thesis
      proof (cases met)
        case None
        then have "fill_slots env r3 w3 = (r2, w1, res)" using assms(1) run p Inr s b by (simp add: fill_core_def)
        then show ?thesis using d by (rule fill_slots_filled)
      next
        case (Some reason)
        obtain r4 w4 where c: "complete_if env (Some reason) r3 w3 = (r4, w4)" by (cases "complete_if env (Some reason) r3 w3")
        then have "filled r3 r4" using complete_if_cases completed_filled filled_refl d by metis
        then show ?thesis using assms(1) run p Inr s b Some c by (simp add: fill_core_def)
      qed
    qed (use assms(1) run p Inr s d filled_refl in \<open>simp add: fill_core_def\<close>)
    then show ?thesis using filled_keeps k by blast
  qed
  then show ?thesis using run by simp
qed (use assms filled_refl in \<open>simp add: fill_core_def\<close>)

section \<open>Steps over the repository\<close>

inductive search_step :: "'w search_env \<Rightarrow> 'w search \<Rightarrow> 'w search \<Rightarrow> bool" for env where
  started: "get_run i h = None \<Longrightarrow> search_step env h (fst (start_run env user c i h))"
| paused: "search_step env h (fst (pause_run env user i h))"
| resumed: "search_step env h (fst (resume_run env user i h))"
| cancelled: "search_step env h (fst (cancel_run env user i h))"
| woken: "search_step env h (fst (fill_run env i h))"
| reconciled: "search_step env h (fst (reconcile_running env h))"
| elsewhere: "search_step env h (h\<lparr>sh_world := w\<rparr>)"

inductive search_reachable :: "'w search_env \<Rightarrow> 'w search \<Rightarrow> bool" for env where
  initial: "search_reachable env \<lparr>sh_runs = [], sh_world = w\<rparr>"
| step: "search_reachable env h \<Longrightarrow> search_step env h h1 \<Longrightarrow> search_reachable env h1"

definition in_budget :: "string \<Rightarrow> search_run \<Rightarrow> bool" where
  "in_budget i r = (rn_id r = i \<and> distinct (sp_generated (rn_space r)) \<and> 1 \<le> rn_next r \<and>
     (\<forall>m. sk_max_candidates (rn_stop_condition r) = Some m \<longrightarrow> rn_next r - 1 \<le> nat_of_number m))"

definition budgeted :: "'w search \<Rightarrow> bool" where
  "budgeted h = (\<forall>i r. get_run i h = Some r \<longrightarrow> in_budget i r)"

text \<open>How one operation may move a stored run.\<close>

definition moved :: "search_run \<Rightarrow> search_run \<Rightarrow> bool" where
  "moved r r1 = (run_edge\<^sup>*\<^sup>* (rn_state r) (rn_state r1) \<and> rn_owner r1 = rn_owner r \<and> rn_stop_condition r1 = rn_stop_condition r \<and>
     rn_next r \<le> rn_next r1 \<and> (\<exists>fs. sp_generated (rn_space r1) = sp_generated (rn_space r) @ fs))"

definition all_moved :: "'w search \<Rightarrow> 'w search \<Rightarrow> bool" where
  "all_moved h h1 = (\<forall>i r. get_run i h = Some r \<longrightarrow> (\<exists>r1. get_run i h1 = Some r1 \<and> moved r r1))"

lemma moved_refl [simp]: "moved r r"
  by (simp add: moved_def)

lemma moved_trans: "moved a b \<Longrightarrow> moved b c \<Longrightarrow> moved a c"
  unfolding moved_def by (elim conjE exE) (auto intro: rtranclp_trans)

lemma all_moved_refl [simp]: "all_moved h h" "all_moved h (h\<lparr>sh_world := w\<rparr>)"
  by (simp_all add: all_moved_def get_run_def)

lemma all_moved_trans: "all_moved a b \<Longrightarrow> all_moved b c \<Longrightarrow> all_moved a c"
  unfolding all_moved_def using moved_trans by meson

lemma get_run_saved [simp]: "get_run i (save_run r h) = (if i = rn_id r then Some r else get_run i h)"
  by (simp add: get_run_def save_run_def js_get_set)

lemma get_run_world [simp]: "get_run i (h\<lparr>sh_world := w\<rparr>) = get_run i h"
  by (simp add: get_run_def)

lemma budgeted_world [simp]: "budgeted (h\<lparr>sh_world := w\<rparr>) = budgeted h"
  by (simp add: budgeted_def)

lemma budgeted_save: "budgeted h \<Longrightarrow> in_budget (rn_id r) r \<Longrightarrow> budgeted (save_run r h)"
  by (simp add: budgeted_def)

lemma all_moved_save:
  assumes "\<And>r0. get_run (rn_id r) h = Some r0 \<Longrightarrow> moved r0 r"
  shows "all_moved h ((save_run r h)\<lparr>sh_world := w\<rparr>)"
  using assms by (auto simp: all_moved_def)

text \<open>A stored run replaced by one that moved from it keeps both.\<close>

lemma replaced:
  assumes "budgeted h" "get_run i h = Some r" "in_budget i r1" "moved r r1"
  shows "budgeted ((save_run r1 h)\<lparr>sh_world := w\<rparr>) \<and> all_moved h ((save_run r1 h)\<lparr>sh_world := w\<rparr>)"
proof -
  have i: "rn_id r1 = i" using assms(3) by (simp add: in_budget_def)
  then have "budgeted (save_run r1 h)" using budgeted_save [OF assms(1)] assms(3) by simp
  moreover have "all_moved h ((save_run r1 h)\<lparr>sh_world := w\<rparr>)" by (rule all_moved_save) (use i assms in simp)
  ultimately show ?thesis by simp
qed

lemma filled_in_budget: "in_budget i r \<Longrightarrow> filled r r1 \<Longrightarrow> in_budget i r1"
  unfolding in_budget_def filled_def by (elim conjE exE) fastforce

lemma filled_moved: "filled r r1 \<Longrightarrow> moved r r1"
  unfolding filled_def moved_def by (elim conjE exE) (auto intro: r_into_rtranclp [of run_edge, OF run_edge.intros(3)])

definition keeps_budget :: "'w search \<Rightarrow> 'w search \<Rightarrow> bool" where
  "keeps_budget h h1 = (budgeted h1 \<and> all_moved h h1)"

lemma keeps_budget_refl [simp]: "budgeted h \<Longrightarrow> keeps_budget h h" "budgeted h \<Longrightarrow> keeps_budget h (h\<lparr>sh_world := w\<rparr>)"
  by (simp_all add: keeps_budget_def)

lemma keeps_budget_trans: "keeps_budget a b \<Longrightarrow> keeps_budget b c \<Longrightarrow> keeps_budget a c"
  using all_moved_trans by (auto simp: keeps_budget_def)

lemma fill_run_keeps: "budgeted h \<Longrightarrow> keeps_budget h (fst (fill_run env i h))"
proof (cases "get_run i h")
  case (Some r)
  assume h: "budgeted h"
  have b: "in_budget i r" using h Some by (simp add: budgeted_def)
  obtain r1 w1 out where c: "fill_core env r (sh_world h) = (r1, w1, out)" by (metis prod_cases3)
  have f: "filled r r1" and idle: "rn_state r \<noteq> RUNNING \<longrightarrow> r1 = r \<and> out = return ()"
    using fill_core_filled [OF c] b by (simp_all add: in_budget_def)
  note b1 = filled_in_budget [OF b f] and m1 = filled_moved [OF f]
  show ?thesis
  proof (cases "(\<exists>e. out = Inl e) \<and> (rn_state r1 = RUNNING \<or> rn_state r1 = PAUSED)")
    case False
    then have "\<exists>w. fst (fill_run env i h) = (save_run r1 h)\<lparr>sh_world := w\<rparr>"
      using Some c by (auto simp: fill_run_def split: sum.split)
    then show ?thesis using replaced [OF h Some b1 m1] by (auto simp: keeps_budget_def)
  next
    case True
    then obtain e where e: "out = Inl e" "rn_state r1 = RUNNING \<or> rn_state r1 = PAUSED" by blast
    then have run: "rn_state r1 = RUNNING" using idle f by (cases "rn_state r = RUNNING") (auto simp: filled_def)
    obtain t w3 u w2 where "ve_now env w1 = (t, w3)" "ve_now env w3 = (u, w2)" by (metis surj_pair)
    then have s: "fst (fill_run env i h) = (save_run (fail_run e t u r1) h)\<lparr>sh_world := w2\<rparr>"
      using Some c e by (simp add: fill_run_def)
    have "in_budget i (fail_run e t u r1)" using b1 by (simp add: in_budget_def fail_run_def)
    moreover have "moved r1 (fail_run e t u r1)" using run by (simp add: moved_def fail_run_def run_edge.intros r_into_rtranclp)
    ultimately show ?thesis unfolding s keeps_budget_def using replaced [OF h Some] moved_trans [OF m1] by blast
  qed
qed (simp add: fill_run_def)

lemma owned_run_Inr: "owned_run user i h = Inr r \<Longrightarrow> get_run i h = Some r"
  by (auto simp: owned_run_def run_by_owner_def and_then_Inr_iff split: option.splits if_splits)

lemma pause_run_keeps: "budgeted h \<Longrightarrow> keeps_budget h (fst (pause_run env user i h))"
proof (cases "owned_run user i h")
  case (Inr r)
  assume h: "budgeted h"
  note g = owned_run_Inr [OF Inr]
  then have b: "in_budget i r" using h by (simp add: budgeted_def)
  show ?thesis
  proof (cases "rn_state r = RUNNING")
    case True
    obtain t w where "ve_now env (sh_world h) = (t, w)" by (cases "ve_now env (sh_world h)")
    then have s: "fst (pause_run env user i h) = (save_run (paused_at t r) h)\<lparr>sh_world := w\<rparr>"
      using Inr True by (simp add: pause_run_def)
    have "in_budget i (paused_at t r)" using b by (simp add: in_budget_def paused_at_def)
    moreover have "moved r (paused_at t r)" using True by (simp add: moved_def paused_at_def run_edge.intros r_into_rtranclp)
    ultimately show ?thesis unfolding s keeps_budget_def by (rule replaced [OF h g])
  qed (use Inr h in \<open>simp add: pause_run_def\<close>)
qed (simp add: pause_run_def)

lemma resume_run_keeps: "budgeted h \<Longrightarrow> keeps_budget h (fst (resume_run env user i h))"
proof (cases "owned_run user i h")
  case (Inr r)
  assume h: "budgeted h"
  note g = owned_run_Inr [OF Inr]
  then have b: "in_budget i r" using h by (simp add: budgeted_def)
  consider "rn_state r = Run_Failed" | "rn_state r = PAUSED" | "rn_state r \<noteq> Run_Failed" "rn_state r \<noteq> PAUSED" by blast
  then show ?thesis
  proof cases
    case 2
    obtain t w where s: "ve_now env (sh_world h) = (t, w)" by (cases "ve_now env (sh_world h)")
    let ?r = "r\<lparr>rn_state := RUNNING, rn_active_since := Some t, rn_updated_at := t\<rparr>"
    let ?h = "(save_run ?r h)\<lparr>sh_world := w\<rparr>"
    have "in_budget i ?r" using b by (simp add: in_budget_def)
    moreover have "moved r ?r" using 2 by (simp add: moved_def run_edge.intros r_into_rtranclp)
    ultimately have k: "keeps_budget h ?h" unfolding keeps_budget_def by (rule replaced [OF h g])
    then have "keeps_budget ?h (fst (fill_run env i ?h))" by (intro fill_run_keeps) (simp only: keeps_budget_def)
    then show ?thesis using keeps_budget_trans [OF k] Inr s 2 by (simp add: resume_run_def)
  qed (use Inr h fill_run_keeps in \<open>simp_all add: resume_run_def\<close>)
qed (simp add: resume_run_def)

lemma cancel_run_keeps: "budgeted h \<Longrightarrow> keeps_budget h (fst (cancel_run env user i h))"
proof (cases "owned_run user i h")
  case (Inr r)
  assume h: "budgeted h"
  note g = owned_run_Inr [OF Inr]
  then have b: "in_budget i r" using h by (simp add: budgeted_def)
  show ?thesis
  proof (cases "rn_state r = Run_Cancelled \<or> rn_state r = Run_Failed")
    case True
    then show ?thesis using Inr h by (auto simp: cancel_run_def)
  next
    case open_run: False
    show ?thesis
    proof (cases "ve_cancel env user i (sh_world h)")
      case (Pair w a)
      show ?thesis
      proof (cases a)
        case (Inl e)
        then show ?thesis using Inr h open_run Pair by (simp add: cancel_run_def)
      next
        case a: (Inr ids)
        obtain t w1 where "ve_now env w = (t, w1)" by (cases "ve_now env w")
        then have s: "fst (cancel_run env user i h) = (save_run (cancelled_run t r) h)\<lparr>sh_world := ve_remove_jobs env ids w1\<rparr>"
          using Inr open_run Pair a by (simp add: cancel_run_def)
        have "in_budget i (cancelled_run t r)" using b by (simp add: in_budget_def cancelled_run_def)
        moreover have "moved r (cancelled_run t r)" using open_run by (simp add: moved_def cancelled_run_def run_edge.intros r_into_rtranclp)
        ultimately show ?thesis unfolding s keeps_budget_def by (rule replaced [OF h g])
      qed
    qed
  qed
qed (simp add: cancel_run_def)

lemma fill_each_keeps: "budgeted h \<Longrightarrow> keeps_budget h (fst (fill_each env is h))"
proof (induction env "is" h rule: fill_each.induct)
  case (2 env i "is" h)
  obtain h1 out where f: "fill_run env i h = (h1, out)" by (cases "fill_run env i h")
  then have k: "keeps_budget h h1" using fill_run_keeps [of h env i] 2 by simp
  show ?case
  proof (cases out)
    case (Inr u)
    then have "keeps_budget h1 (fst (fill_each env is h1))" using 2 f k by (simp add: keeps_budget_def)
    then show ?thesis using keeps_budget_trans [OF k] f Inr by simp
  qed (use f k in simp)
qed simp

lemma reconcile_keeps: "budgeted h \<Longrightarrow> keeps_budget h (fst (reconcile_running env h))"
  using fill_each_keeps [of h env "map rn_id (list_running h)"]
  by (auto simp: reconcile_running_def Let_def split: prod.splits sum.splits)

lemma start_run_keeps: "budgeted h \<Longrightarrow> get_run i h = None \<Longrightarrow> keeps_budget h (fst (start_run env user c i h))"
proof (cases "validate_start user c")
  case (Inr u)
  assume h: "budgeted h" and fresh: "get_run i h = None"
  obtain w a where p: "ve_read_scope env user (cf_scope c) (sh_world h) = (w, a)" by (cases "ve_read_scope env user (cf_scope c) (sh_world h)")
  show ?thesis
  proof (cases a)
    case a: (Inr v)
    obtain t w1 where t: "ve_now env w = (t, w1)" by (cases "ve_now env w")
    let ?r = "create_run i c user t"
    let ?h = "(save_run ?r h)\<lparr>sh_world := w1\<rparr>"
    have "in_budget i ?r" by (simp add: in_budget_def create_run_def uniq_def)
    moreover have i: "rn_id ?r = i" by (simp add: create_run_def)
    ultimately have "budgeted ?h" using budgeted_save [OF h, of ?r] by simp
    moreover have "all_moved h ?h" by (rule all_moved_save) (use i fresh in simp)
    ultimately have k: "keeps_budget h ?h" by (simp add: keeps_budget_def)
    then have "keeps_budget ?h (fst (fill_run env i ?h))" by (intro fill_run_keeps) (simp only: keeps_budget_def)
    then show ?thesis using keeps_budget_trans [OF k] Inr p a t by (simp add: start_run_def)
  qed (use Inr p h in \<open>simp add: start_run_def\<close>)
qed (simp add: start_run_def)

lemmas operations_keep = start_run_keeps pause_run_keeps resume_run_keeps cancel_run_keeps fill_run_keeps reconcile_keeps

lemma search_step_keeps: "search_step env h h1 \<Longrightarrow> budgeted h \<Longrightarrow> keeps_budget h h1"
  by (induction rule: search_step.induct) (simp_all add: operations_keep)

lemma reachable_budgeted: "search_reachable env h \<Longrightarrow> budgeted h"
proof (induction rule: search_reachable.induct)
  case (step h h1)
  then show ?case using search_step_keeps by (auto simp: keeps_budget_def)
qed (simp add: budgeted_def get_run_def)

lemma ended_stays: "run_edge\<^sup>*\<^sup>* s t \<Longrightarrow> s = Run_Cancelled \<or> s = Run_Failed \<Longrightarrow> t = s"
  by (erule converse_rtranclpE) (auto elim: run_edge_from)

section \<open>The budget and the life cycle\<close>



definition search_sample_candidate :: "nat \<Rightarrow> generated_candidate" where
  "search_sample_candidate n = \<lparr>gc_definitions = [], gc_composite = \<lparr>cd_id = ''k'', cd_user = ''u'', cd_family = ''f'', cd_version = 1, cd_method = MAJORITY_VOTE,
     cd_components = [], cd_thresholds = None, cd_created_at = ''t''\<rparr>, gc_stop_loss = None, gc_take_profit = None,
     gc_type = RANDOM, gc_fingerprint = replicate n CHR ''x'', gc_lineage = None\<rparr>"

definition search_sample_env :: "unit search_env" where
  "search_sample_env = \<lparr>ve_now = (\<lambda>w. (''t'', w)), ve_read_scope = (\<lambda>_ _ w. (w, return ())), ve_summarize = (\<lambda>_ i w. (w, return (no_counts i))),
     ve_rank = (\<lambda>_ _ w. (w, return [])), ve_generator = (\<lambda>_. Some (\<lambda>_ _ n. return (search_sample_candidate n))), ve_strategies = None,
     ve_submit = (\<lambda>_ _ w. (w, return ())), ve_cancel = (\<lambda>_ _ w. (w, return [])), ve_remove_jobs = (\<lambda>_ w. w)\<rparr>"


definition sample_config :: search_config where
  "sample_config = \<lparr>cf_space = plain_space, cf_stop = \<lparr>sk_max_candidates = Some (num 2), sk_max_seconds = None, sk_no_improvement = None\<rparr>,
     cf_generator = RANDOM, cf_scope = ''scope'', cf_max_in_flight = num 1\<rparr>"

definition sample_run :: search_run where
  "sample_run = (create_run ''s'' sample_config ''u'' ''t'')\<lparr>rn_space := plain_space\<lparr>sp_generated := [''x'']\<rparr>, rn_next := 2\<rparr>"

definition sample_search :: "unit search" where
  "sample_search = \<lparr>sh_runs = [(''s'', sample_run)], sh_world = ()\<rparr>"

lemma search_sample_valid: "validate_start ''u'' sample_config = return ()"
  by (simp add: validate_start_def assert_auth_def reject_if_def validate_stop_condition_def stop_values_def sample_config_def
      config_invalid_def validate_space_owner_def validate_domain_rules_def plain_space_def plain_definition_def crossed_definition_def
      List.map_filter_def number_simps trim_def is_space_def)

definition sample_first :: search_run where
  "sample_first = create_run ''s'' sample_config ''u'' ''t''"

lemmas sample_defs = sample_run_def sample_first_def create_run_def sample_config_def plain_space_def no_counts_def uniq_def

lemma sample_refresh: "refresh_run search_sample_env sample_first () = ((), return sample_first)" "refresh_run search_sample_env sample_run () = ((), return sample_run)"
  by (simp_all add: refresh_run_def project_run_def call_bind_def call_return_def tick_def note_best_def top_entry_def search_sample_env_def sample_defs)

lemma sample_stop: "stop_reason_of search_sample_env sample_first () = ((), return None)" "stop_reason_of search_sample_env sample_run () = ((), return None)"
  by (simp_all add: stop_reason_of_def stop_reason_at_def tick_def call_bind_def call_return_def search_sample_env_def sample_defs
      reserved_count_def in_flight_def number_simps)

lemma sample_loop: "fill_loop search_sample_env (\<lambda>_ _ n. return (search_sample_candidate n)) 1 4 4 0 sample_first () = (sample_run, (), return 1)"
  by (simp add: eval_nat_numeral submit_generated_def call_bind_def call_return_def search_sample_candidate_def count_candidate_def search_sample_env_def sample_defs)

lemma sample_slots: "slots_of sample_first = 1"
  by (simp add: slots_of_def in_flight_def sample_defs reserved_count_def number_simps)

lemma sample_core: "fill_core search_sample_env sample_first () = (sample_run, (), return ())"
proof -
  have "rn_state sample_first = RUNNING" by (simp add: sample_defs)
  moreover have "fill_end search_sample_env sample_run () = (sample_run, (), return ())"
    by (simp add: fill_end_def sample_refresh sample_stop complete_if_def) (simp add: search_sample_env_def sample_defs)
  moreover have "ve_generator search_sample_env g = Some (\<lambda>_ _ n. return (search_sample_candidate n))" for g by (simp add: search_sample_env_def)
  ultimately show ?thesis
    by (simp add: fill_core_def sample_refresh sample_stop fill_slots_def sample_slots attempts_of_slots_def Let_def sample_loop [unfolded One_nat_def])
qed

lemma sample_started: "fst (start_run search_sample_env ''u'' sample_config ''s'' \<lparr>sh_runs = [], sh_world = ()\<rparr>) = sample_search"
proof -
  have "fill_run search_sample_env ''s'' \<lparr>sh_runs = [(''s'', sample_first)], sh_world = ()\<rparr> = (sample_search, return ())"
    by (simp add: fill_run_def get_run_def js_get_def sample_core save_run_def) (simp add: js_set_def sample_search_def sample_defs)
  moreover have "save_run sample_first \<lparr>sh_runs = [], sh_world = w\<rparr> = \<lparr>sh_runs = [(''s'', sample_first)], sh_world = w\<rparr>" for w :: unit
    by (simp add: save_run_def js_set_def sample_defs)
  moreover have "ve_read_scope search_sample_env a b w = (w, return ())" "ve_now search_sample_env w = (''t'', w)" for a b w by (simp_all add: search_sample_env_def)
  ultimately show ?thesis by (simp add: start_run_def search_sample_valid flip: sample_first_def)
qed

lemma sample_reachable: "search_reachable search_sample_env sample_search"
proof -
  have "search_step search_sample_env \<lparr>sh_runs = [], sh_world = ()\<rparr> (fst (start_run search_sample_env ''u'' sample_config ''s'' \<lparr>sh_runs = [], sh_world = ()\<rparr>))"
    by (rule search_step.started) (simp add: get_run_def)
  then show ?thesis unfolding sample_started by (rule search_reachable.step [OF search_reachable.initial])
qed

lemma sample_stored: "get_run ''s'' sample_search = Some sample_run"
  by (simp add: sample_search_def get_run_def js_get_def)



end
