(* ===== verification/MarketRules.thy ===== *)
theory MarketRules
  imports MarketTypes JsJson
begin

text \<open>
  The rules of the market-data module (\<^verbatim>\<open>modules/market-data/domain/rules.ts\<close>): validation of
  pairs, time frames, limits, timestamps and candles, the gaps of a candle series and the
  canonical text of a snapshot. Time frames inside candles are already of their type.
\<close>

section \<open>Validation\<close>

fun timeframe_text :: "timeframe \<Rightarrow> string" where
  "timeframe_text M1 = ''1m''"
| "timeframe_text M5 = ''5m''"
| "timeframe_text M15 = ''15m''"
| "timeframe_text H1 = ''1h''"
| "timeframe_text H4 = ''4h''"
| "timeframe_text D1 = ''1d''"

definition timeframes :: "timeframe list" where
  "timeframes = [M1, M5, M15, H1, H4, D1]"

definition timeframe_of :: "string \<Rightarrow> timeframe option" where
  "timeframe_of s = find (\<lambda>t. timeframe_text t = s) timeframes"

definition validate_timeframe :: "json option \<Rightarrow> timeframe result" where
  "validate_timeframe v = (case v of Some (JStr s) \<Rightarrow> (case timeframe_of s of None \<Rightarrow> throw ''UNSUPPORTED_TIMEFRAME'' | Some t \<Rightarrow> return t)
     | _ \<Rightarrow> throw ''INVALID_TIMEFRAME'')"

definition pair_head :: "char \<Rightarrow> bool" where
  "pair_head c = (is_upper c \<or> is_digit c)"

definition pair_char :: "char \<Rightarrow> bool" where
  "pair_char c = (pair_head c \<or> c = CHR ''_'' \<or> c = CHR ''-'')"

fun pair_text :: "string \<Rightarrow> bool" where
  "pair_text [] = False"
| "pair_text (c # s) = (pair_head c \<and> list_all pair_char s)"

definition validate_pair :: "json option \<Rightarrow> string result" where
  "validate_pair v = (case v of Some (JStr s) \<Rightarrow> if pair_text s then return s else throw ''INVALID_PAIR'' | _ \<Rightarrow> throw ''INVALID_PAIR'')"

definition default_page_limit :: nat where "default_page_limit = 1000"
definition max_page_limit :: nat where "max_page_limit = 10000"

definition validate_limit :: "json option \<Rightarrow> nat result" where
  "validate_limit v = (case v of None \<Rightarrow> return default_page_limit
     | Some (JNum n) \<Rightarrow> if \<not> is_integer n \<or> nle n (num 0) \<or> nlt (num (int max_page_limit)) n then throw ''RANGE_TOO_LARGE'' else return (nat_of_number n)
     | _ \<Rightarrow> throw ''RANGE_TOO_LARGE'')"

text \<open>\<^verbatim>\<open>a > Date.parse(now)\<close>: false when \<open>now\<close> is no date.\<close>

definition past :: "int \<Rightarrow> string \<Rightarrow> bool" where
  "past t now = (case date_parse now of None \<Rightarrow> False | Some n \<Rightarrow> n < t)"

definition parse_timestamp :: "json option \<Rightarrow> timeframe \<Rightarrow> string \<Rightarrow> bool \<Rightarrow> string result" where
  "parse_timestamp v tf now allow_future = (case v of
     Some (JStr s) \<Rightarrow> (case date_parse s of None \<Rightarrow> throw ''INVALID_RANGE''
       | Some t \<Rightarrow> if \<not> ends_with ''Z'' s \<or> t mod timeframe_ms tf \<noteq> 0 \<or> \<not> allow_future \<and> past t now then throw ''INVALID_RANGE'' else return (to_iso t))
   | _ \<Rightarrow> throw ''INVALID_RANGE'')"

definition validate_range :: "json option \<times> json option \<Rightarrow> timeframe \<Rightarrow> string \<Rightarrow> (string \<times> string) result" where
  "validate_range r tf now = and_then (parse_timestamp (fst r) tf now False) (\<lambda>from_text. and_then (parse_timestamp (snd r) tf now True) (\<lambda>to_text.
     if (case (date_parse to_text, date_parse from_text) of (Some b, Some a) \<Rightarrow> b \<le> a | _ \<Rightarrow> False) then throw ''INVALID_RANGE'' else return (from_text, to_text)))"

definition candle_values :: "candle \<Rightarrow> number list" where
  "candle_values c = [c_open c, c_high c, c_low c, c_close c, c_volume c]"

definition ohlc_inconsistent :: "candle \<Rightarrow> bool" where
  "ohlc_inconsistent c = (nlt (c_high c) (nmax (nmax (c_open c) (c_close c)) (c_low c)) \<or> nlt (nmin (nmin (c_open c) (c_close c)) (c_high c)) (c_low c))"

definition validate_market_candle :: "candle \<Rightarrow> string \<Rightarrow> bool \<Rightarrow> candle result" where
  "validate_market_candle c now allow_future =
     and_then (validate_pair (Some (JStr (c_pair c)))) (\<lambda>pair.
     and_then (parse_timestamp (Some (JStr (c_timestamp c))) (c_timeframe c) now allow_future) (\<lambda>t.
       if \<not> list_all is_finite (candle_values c) \<or> list_ex (\<lambda>v. nle v (num 0)) [c_open c, c_high c, c_low c, c_close c] \<or> nlt (c_volume c) (num 0) \<or> ohlc_inconsistent c
       then throw ''PROVIDER_PAYLOAD_INVALID'' else return (c\<lparr>c_pair := pair, c_timestamp := t\<rparr>)))"

section \<open>Gaps\<close>

text \<open>The loop over the grid: the spans it closed so far and the start of the open one.\<close>

function gap_loop :: "timeframe \<Rightarrow> int list \<Rightarrow> int \<Rightarrow> int \<Rightarrow> int option \<Rightarrow> (int \<times> int) list \<times> int option" where
  "gap_loop tf existing t stop start =
     (if t \<ge> stop then ([], start)
      else if t \<notin> set existing then gap_loop tf existing (t + timeframe_ms tf) stop (Some (case start of None \<Rightarrow> t | Some s \<Rightarrow> s))
      else case start of
        None \<Rightarrow> gap_loop tf existing (t + timeframe_ms tf) stop None
      | Some s \<Rightarrow> (case gap_loop tf existing (t + timeframe_ms tf) stop None of (gs, end) \<Rightarrow> ((s, t) # gs, end)))"
  by pat_completeness auto
termination
  by (relation "measure (\<lambda>(tf, _, t, stop, _). nat (stop - t))") (auto simp: timeframe_ms_pos)

declare gap_loop.simps [simp del]

definition closed_times :: "candle list \<Rightarrow> int list" where
  "closed_times cs = List.map_filter (\<lambda>c. date_parse (c_timestamp c)) (filter c_is_closed cs)"

definition missing_ranges :: "candle list \<Rightarrow> string \<times> string \<Rightarrow> timeframe \<Rightarrow> (string \<times> string) list" where
  "missing_ranges cs r tf = (case (date_parse (fst r), date_parse (snd r)) of
     (Some a, Some b) \<Rightarrow> (case gap_loop tf (closed_times cs) a b None of (gs, end) \<Rightarrow>
        map (\<lambda>(x, y). (to_iso x, to_iso y)) gs @ (case end of None \<Rightarrow> [] | Some s \<Rightarrow> [(to_iso s, snd r)]))
   | _ \<Rightarrow> [])"

section \<open>Snapshot text\<close>

definition fixed_text :: "nat \<Rightarrow> rat \<Rightarrow> string" where
  "fixed_text d q = (let s = show_nat (nat \<lfloor>\<bar>q\<bar> * 10 ^ d + 1 / 2\<rfloor>); w = zeros (d + 1 - length s) @ s in
     (if q < 0 then ''-'' else []) @ take (length w - d) w @ (if d = 0 then [] else ''.'' @ drop (length w - d) w))"

definition to_fixed_text :: "nat \<Rightarrow> number \<Rightarrow> string" where
  "to_fixed_text d x = (case x of Fin q \<Rightarrow> if \<bar>q\<bar> \<ge> 10 ^ 21 then number_to_string x else fixed_text d q | _ \<Rightarrow> number_to_string x)"

definition drop_last_while :: "(char \<Rightarrow> bool) \<Rightarrow> string \<Rightarrow> string" where
  "drop_last_while P s = rev (dropWhile P (rev s))"

definition canonical_number :: "number \<Rightarrow> string" where
  "canonical_number x = (let s = drop_last_while (\<lambda>c. c = CHR ''0'') (to_fixed_text 15 x);
     f = (if ends_with ''.'' s then butlast s else s) in if f = ''-0'' then ''0'' else f)"

definition micros_text :: "string \<Rightarrow> string" where
  "micros_text s = number_to_string (case date_parse s of None \<Rightarrow> NaN | Some t \<Rightarrow> nmul (num t) (num 1000))"

definition candle_line :: "candle \<Rightarrow> string" where
  "candle_line c = ''candle='' @ join_with ''|'' (micros_text (c_timestamp c) # map canonical_number (candle_values c))"

definition sized :: "string \<Rightarrow> string" where
  "sized s = show_nat (length s) @ '':'' @ s"

definition new_line :: string where "new_line = [CHR 0x0A]"

definition snapshot_serialization :: "string \<Rightarrow> timeframe \<Rightarrow> string \<times> string \<Rightarrow> candle list \<Rightarrow> string" where
  "snapshot_serialization pair tf r cs = join_with new_line ([''version=market-data-snapshot-v1'', ''pair='' @ sized pair, ''timeframe='' @ sized (timeframe_text tf),
     ''fromEpochMicros='' @ micros_text (fst r), ''toEpochMicros='' @ micros_text (snd r), ''candleCount='' @ show_nat (length cs)] @ map candle_line cs)"

section \<open>The gaps are exactly the missing grid points\<close>

definition spans_of :: "int \<Rightarrow> (int \<times> int) list \<times> int option \<Rightarrow> (int \<times> int) list" where
  "spans_of stop p = fst p @ (case snd p of None \<Rightarrow> [] | Some s \<Rightarrow> [(s, stop)])"

lemma spans_of_Cons [simp]: "spans_of stop (case p of (gs, end) \<Rightarrow> (g # gs, end)) = g # spans_of stop p"
  by (simp add: spans_of_def split: prod.split)

definition covers :: "(int \<times> int) list \<Rightarrow> int \<Rightarrow> bool" where
  "covers gs u = (\<exists>(x, y)\<in>set gs. x \<le> u \<and> u < y)"

lemma covers_simps [simp]: "\<not> covers [] u" "covers ((x, y) # gs) u \<longleftrightarrow> x \<le> u \<and> u < y \<or> covers gs u"
  by (auto simp: covers_def)

text \<open>Every span starts at the open one or later, ends by the end and is followed only by later spans.\<close>

lemma gap_loop_bounds:
  assumes "case start of None \<Rightarrow> True | Some s \<Rightarrow> s < t \<and> s < stop"
  shows "(\<forall>(x, y)\<in>set (spans_of stop (gap_loop tf ex t stop start)). (case start of None \<Rightarrow> t \<le> x | Some s \<Rightarrow> s \<le> x) \<and> x < y \<and> y \<le> stop) \<and>
    sorted_wrt (\<lambda>p q. snd p < fst q) (spans_of stop (gap_loop tf ex t stop start)) \<and>
    (\<forall>s. start = Some s \<longrightarrow> (\<exists>y gs. spans_of stop (gap_loop tf ex t stop start) = (s, y) # gs \<and> (t \<le> y \<or> y = stop)))"
  using assms
proof (induction tf ex t stop start rule: gap_loop.induct)
  case (1 tf ex t stop start)
  have i: "1 \<le> timeframe_ms tf" by (cases tf) simp_all
  consider (stop) "t \<ge> stop" | (missing) "t < stop" "t \<notin> set ex" | (idle) "t < stop" "t \<in> set ex" "start = None" | (close) s where "t < stop" "t \<in> set ex" "start = Some s"
    by (metis not_le option.exhaust)
  then show ?case
  proof cases
    case stop
    then show ?thesis using 1(4) by (subst (1 2 3) gap_loop.simps) (auto simp: spans_of_def split: option.splits)
  next
    case missing
    let ?s = "case start of None \<Rightarrow> t | Some s \<Rightarrow> s"
    have s: "?s \<le> t" using 1(4) by (cases start) auto
    have e: "gap_loop tf ex t stop start = gap_loop tf ex (t + timeframe_ms tf) stop (Some ?s)"
      using missing by (subst gap_loop.simps) simp
    have pre: "case Some ?s of None \<Rightarrow> True | Some s \<Rightarrow> s < t + timeframe_ms tf \<and> s < stop" unfolding option.case using s i missing by linarith
    note ih = 1(1) [OF _ missing(2) pre]
    then show ?thesis unfolding e using missing(1) i by (cases start) (auto simp: not_le)
  next
    case idle
    have e: "gap_loop tf ex t stop start = gap_loop tf ex (t + timeframe_ms tf) stop None"
      using idle by (subst gap_loop.simps) simp
    show ?thesis unfolding e using 1(2) [of] idle i by (fastforce simp: not_le)
  next
    case close
    have e: "gap_loop tf ex t stop start = (case gap_loop tf ex (t + timeframe_ms tf) stop None of (gs, end) \<Rightarrow> ((s, t) # gs, end))"
      using close by (subst gap_loop.simps) simp
    have "(\<forall>(x, y)\<in>set (spans_of stop (gap_loop tf ex (t + timeframe_ms tf) stop None)). t + timeframe_ms tf \<le> x \<and> x < y \<and> y \<le> stop) \<and>
      sorted_wrt (\<lambda>p q. snd p < fst q) (spans_of stop (gap_loop tf ex (t + timeframe_ms tf) stop None))"
      using 1(3) [of s] close by (simp add: not_le)
    then show ?thesis unfolding e spans_of_Cons using close 1(4) i by fastforce
  qed
qed

lemma grid_nonneg: "0 \<le> int k * timeframe_ms tf"
  using timeframe_ms_pos [of tf] by (intro mult_nonneg_nonneg) linarith+

lemma gap_loop_covers:
  assumes "case start of None \<Rightarrow> True | Some s \<Rightarrow> s < t \<and> s < stop" "t + int k * timeframe_ms tf < stop"
  shows "covers (spans_of stop (gap_loop tf ex t stop start)) (t + int k * timeframe_ms tf) \<longleftrightarrow> t + int k * timeframe_ms tf \<notin> set ex"
  using assms
proof (induction tf ex t stop start arbitrary: k rule: gap_loop.induct)
  case (1 tf ex t stop start)
  have i: "1 \<le> timeframe_ms tf" by (cases tf) simp_all
  have "t \<le> t + int k * timeframe_ms tf" using grid_nonneg [of k tf] by linarith
  then have t: "t < stop" using 1(5) by linarith
  have shift: "t + int k * timeframe_ms tf = t + timeframe_ms tf + int (k - 1) * timeframe_ms tf" if "k > 0"
    using that by (simp add: int_distrib of_nat_diff algebra_simps)
  consider (missing) "t \<notin> set ex" | (idle) "t \<in> set ex" "start = None" | (close) s where "t \<in> set ex" "start = Some s" by (cases start) auto
  then show ?case
  proof cases
    case missing
    let ?s = "case start of None \<Rightarrow> t | Some s \<Rightarrow> s"
    have s: "?s \<le> t" using 1(4) by (cases start) auto
    have e: "gap_loop tf ex t stop start = gap_loop tf ex (t + timeframe_ms tf) stop (Some ?s)"
      using t missing by (subst gap_loop.simps) simp
    have pre: "case Some ?s of None \<Rightarrow> True | Some s \<Rightarrow> s < t + timeframe_ms tf \<and> s < stop" unfolding option.case using s i t by linarith
    show ?thesis
    proof (cases "k = 0")
      case True
      obtain y gs where "spans_of stop (gap_loop tf ex (t + timeframe_ms tf) stop (Some ?s)) = (?s, y) # gs" "t + timeframe_ms tf \<le> y \<or> y = stop"
        using gap_loop_bounds [OF pre] by blast
      then show ?thesis unfolding e using True missing s t i by auto
    next
      case False
      then have sh: "t + timeframe_ms tf + int (k - 1) * timeframe_ms tf = t + int k * timeframe_ms tf" using shift by simp
      show ?thesis unfolding e using 1(1) [OF _ missing pre, of "k - 1", unfolded sh] t 1(5) by simp
    qed
  next
    case idle
    have e: "gap_loop tf ex t stop start = gap_loop tf ex (t + timeframe_ms tf) stop None"
      using t idle by (subst gap_loop.simps) simp
    show ?thesis
    proof (cases "k = 0")
      case True
      have "\<forall>(x, y)\<in>set (spans_of stop (gap_loop tf ex (t + timeframe_ms tf) stop None)). t + timeframe_ms tf \<le> x"
        using gap_loop_bounds [where start = None] by fastforce
      then show ?thesis unfolding e covers_def using True idle i by fastforce
    next
      case False
      then have sh: "t + timeframe_ms tf + int (k - 1) * timeframe_ms tf = t + int k * timeframe_ms tf" using shift by simp
      show ?thesis unfolding e using 1(2) [OF _ _ idle(2), of "k - 1", unfolded sh] t 1(5) idle by simp
    qed
  next
    case close
    have e: "gap_loop tf ex t stop start = (case gap_loop tf ex (t + timeframe_ms tf) stop None of (gs, end) \<Rightarrow> ((s, t) # gs, end))"
      using t close by (subst gap_loop.simps) simp
    show ?thesis
    proof (cases "k = 0")
      case True
      have "\<forall>(x, y)\<in>set (spans_of stop (gap_loop tf ex (t + timeframe_ms tf) stop None)). t + timeframe_ms tf \<le> x"
        using gap_loop_bounds [where start = None] by fastforce
      then show ?thesis unfolding e spans_of_Cons covers_simps using True close i by (fastforce simp: covers_def)
    next
      case False
      have "t < t + int k * timeframe_ms tf" using grid_nonneg [of "k - 1" tf] shift False i by linarith
      moreover have sh: "t + timeframe_ms tf + int (k - 1) * timeframe_ms tf = t + int k * timeframe_ms tf" using shift False by simp
      ultimately show ?thesis unfolding e spans_of_Cons covers_simps using 1(3) [OF _ _ close(2), of "k - 1", unfolded sh] t 1(5) close by simp
    qed
  qed
qed

lemma gap_loop_closed: "\<forall>(x, y)\<in>set (fst (gap_loop tf ex t stop start)). y < stop"
proof (induction tf ex t stop start rule: gap_loop.induct)
  case (1 tf ex t stop start)
  then show ?case by (subst gap_loop.simps) (auto simp: not_le split: option.splits prod.splits)
qed

lemma gaps_of_rows:
  assumes "date_parse rf = Some a" "date_parse rt = Some b"
  shows "\<exists>spans. missing_ranges cs (rf, rt) tf = map (\<lambda>(x, y). (to_iso x, if y = b then rt else to_iso y)) spans \<and>
    sorted_wrt (\<lambda>p q. snd p < fst q) spans \<and> (\<forall>(x, y)\<in>set spans. a \<le> x \<and> x < y \<and> y \<le> b) \<and>
    (\<forall>k. a + int k * timeframe_ms tf < b \<longrightarrow> covers spans (a + int k * timeframe_ms tf) = (a + int k * timeframe_ms tf \<notin> set (closed_times cs)))"
proof -
  let ?g = "gap_loop tf (closed_times cs) a b None"
  have "\<forall>(x, y)\<in>set (fst ?g). y \<noteq> b" using gap_loop_closed [of tf "closed_times cs" a b None] by auto
  then have "map (\<lambda>(x, y). (to_iso x, to_iso y)) (fst ?g) = map (\<lambda>(x, y). (to_iso x, if y = b then rt else to_iso y)) (fst ?g)"
    by auto
  then have "missing_ranges cs (rf, rt) tf = map (\<lambda>(x, y). (to_iso x, if y = b then rt else to_iso y)) (spans_of b ?g)"
    using assms by (simp add: missing_ranges_def spans_of_def split: prod.splits option.splits)
  then show ?thesis
    using gap_loop_bounds [where start = None and t = a and stop = b and tf = tf and ex = "closed_times cs"]
      gap_loop_covers [where start = None and t = a and stop = b] by (intro exI [of _ "spans_of b ?g"]) simp
qed

text \<open>C27. The gaps missingRanges reports are spans of the requested range in order, apart from each other and never
  empty, and a point of the time frame's grid lies in one of them exactly when no closed candle has that time.\<close>

theorem missing_ranges_are_the_gaps:
  assumes "date_parse rf = Some a" "date_parse rt = Some b"
  shows "\<exists>spans. missing_ranges cs (rf, rt) tf = map (\<lambda>(x, y). (to_iso x, if y = b then rt else to_iso y)) spans \<and>
    sorted_wrt (\<lambda>p q. snd p < fst q) spans \<and> (\<forall>(x, y)\<in>set spans. a \<le> x \<and> x < y \<and> y \<le> b) \<and>
    (\<forall>k. a + int k * timeframe_ms tf < b \<longrightarrow> covers spans (a + int k * timeframe_ms tf) = (a + int k * timeframe_ms tf \<notin> set (closed_times cs)))"
  using gaps_of_rows [OF assms] .

definition gap_candle :: candle where
  "gap_candle = \<lparr>c_pair = ''BTCUSDT'', c_timeframe = M1, c_timestamp = ''1970-01-01T00:01:00.000Z'', c_open = num 1, c_high = num 2, c_low = num 1,
     c_close = num 2, c_volume = num 0, c_is_closed = True, c_source = None\<rparr>"

lemma gap_times:
  "date_parse ''1970-01-01T00:00:00.000Z'' = Some 0" "date_parse ''1970-01-01T00:01:00.000Z'' = Some 60000" "date_parse ''1970-01-01T00:02:00.000Z'' = Some 120000"
  by code_simp+

lemma missing_ranges_are_the_gaps_witness:
  "\<exists>spans. missing_ranges [gap_candle] (''1970-01-01T00:00:00.000Z'', ''1970-01-01T00:02:00.000Z'') M1 =
     map (\<lambda>(x, y). (to_iso x, if y = 120000 then ''1970-01-01T00:02:00.000Z'' else to_iso y)) spans \<and> covers spans 0 \<and> \<not> covers spans 60000"
proof -
  let ?r = "(''1970-01-01T00:00:00.000Z'', ''1970-01-01T00:02:00.000Z'')"
  obtain spans where s: "missing_ranges [gap_candle] ?r M1 = map (\<lambda>(x, y). (to_iso x, if y = 120000 then ''1970-01-01T00:02:00.000Z'' else to_iso y)) spans"
    "\<forall>k. 0 + int k * timeframe_ms M1 < 120000 \<longrightarrow> covers spans (0 + int k * timeframe_ms M1) = (0 + int k * timeframe_ms M1 \<notin> set (closed_times [gap_candle]))"
    using missing_ranges_are_the_gaps [OF gap_times(1,3), of "[gap_candle]" M1] by auto
  have "closed_times [gap_candle] = [60000]" by (simp add: closed_times_def gap_candle_def gap_times List.map_filter_simps)
  then show ?thesis using s(1) s(2) [rule_format, of 0] s(2) [rule_format, of 1] by (intro exI [of _ spans]) simp
qed

end
