(* ===== verification/MarketService.thy ===== *)
theory MarketService
  imports MarketRules Calls JsonText
begin

text \<open>
  Reading market data (\<^verbatim>\<open>modules/market-data/application/service.ts\<close>): the in-memory candle
  repository, the cache of latest candles, persisting observations, synchronising gaps with the
  provider, historical pages and sealed snapshots. The provider, the cache, the persistent
  snapshot repository and the identifiers belong to a world that every call may change; the
  clock shows the time of the world. Operations run one after the other, so a synchronisation
  never finds another one of the same range running.
\<close>

section \<open>State and world\<close>

record observation =
  ob_candle :: candle
  ob_source :: string

record cached_window =
  cw_version :: int
  cw_as_of :: string
  cw_complete_through :: string
  cw_candles :: "candle list"

datatype cached = Cache_Miss | Cache_Garbage | Cache_Window cached_window

record 'w provider =
  pv_id :: string
  pv_capabilities :: "('w, string list \<times> timeframe list) call"
  pv_fetch :: "string \<Rightarrow> timeframe \<Rightarrow> string \<times> string \<Rightarrow> ('w, observation list) call"
  pv_closed_through :: "(string \<Rightarrow> timeframe \<Rightarrow> ('w, string) call) option"
  pv_metadata :: "(string \<Rightarrow> ('w, pair_metadata) call) option"

record 'w candle_cache =
  ch_get :: "(string \<Rightarrow> ('w, cached) call) option"
  ch_set :: "(string \<Rightarrow> cached_window \<Rightarrow> ('w, unit) call) option"
  ch_delete :: "(string \<Rightarrow> ('w, unit) call) option"

record 'w snapshot_store =
  ss_create :: "snapshot_ref \<Rightarrow> candle list \<Rightarrow> ('w, snapshot_ref) call"
  ss_read :: "string \<Rightarrow> ('w, (snapshot_ref \<times> candle list) option) call"

record 'w market_env =
  me_now :: "'w \<Rightarrow> string"
  me_provider :: "'w provider option"
  me_cache :: "'w candle_cache option"
  me_store :: "'w snapshot_store option"
  me_uuid :: "('w, string) call"
  me_sha256 :: "string \<Rightarrow> string"
  me_encode :: "string \<Rightarrow> nat \<Rightarrow> string"
  me_decode :: "string \<Rightarrow> (string \<times> number) option"

record 'w market =
  mk_rows :: "(string, candle) jsmap"
  mk_snapshots :: "(string, snapshot_ref \<times> candle list) jsmap"
  mk_events :: "string list"
  mk_world :: 'w

definition in_world :: "('w, 'a) call \<Rightarrow> ('w market, 'a) call" where
  "in_world f m = (case f (mk_world m) of (w, r) \<Rightarrow> (m\<lparr>mk_world := w\<rparr>, r))"

definition time_of :: "'w market_env \<Rightarrow> ('w market, string) call" where
  "time_of env m = (m, return (me_now env (mk_world m)))"

definition note_event :: "string \<Rightarrow> ('w market, unit) call" where
  "note_event e m = (m\<lparr>mk_events := mk_events m @ [e]\<rparr>, return ())"

section \<open>The candle repository\<close>

definition candle_key :: "string \<Rightarrow> timeframe \<Rightarrow> string \<Rightarrow> string" where
  "candle_key pair tf t = pair @ ''|'' @ timeframe_text tf @ ''|'' @ t"

definition key_of :: "candle \<Rightarrow> string" where
  "key_of c = candle_key (c_pair c) (c_timeframe c) (c_timestamp c)"

definition by_timestamp :: "candle compare_fn" where
  "by_timestamp a b = locale_compare (c_timestamp a) (c_timestamp b)"

definition stored_rows :: "string \<Rightarrow> timeframe \<Rightarrow> 'w market \<Rightarrow> candle list" where
  "stored_rows pair tf m = sort_by by_timestamp (filter (\<lambda>c. c_pair c = pair \<and> c_timeframe c = tf) (js_values (mk_rows m)))"

definition upsert_candle :: "candle \<Rightarrow> 'w market \<Rightarrow> 'w market" where
  "upsert_candle c m = (if (case js_get (mk_rows m) (key_of c) of None \<Rightarrow> True | Some old \<Rightarrow> \<not> c_is_closed old) \<or> c_is_closed c
     then m\<lparr>mk_rows := js_set (key_of c) c (mk_rows m)\<rparr> else m)"

definition same_candle :: "candle \<Rightarrow> candle \<Rightarrow> bool" where
  "same_candle a b = (c_pair a = c_pair b \<and> c_timeframe a = c_timeframe b \<and> c_timestamp a = c_timestamp b \<and> list_all2 neq (candle_values a) (candle_values b) \<and>
     c_is_closed a = c_is_closed b)"

definition read_rows :: "string \<Rightarrow> timeframe \<Rightarrow> 'w market_env \<Rightarrow> ('w market, candle list) call" where
  "read_rows pair tf env m = (m, and_then (map_results (\<lambda>c. validate_market_candle c (me_now env (mk_world m)) True) (stored_rows pair tf m))
     (\<lambda>cs. return (sort_by by_timestamp cs)))"

section \<open>The cache of latest candles\<close>

definition max_skew :: int where "max_skew = 5000"
definition cache_version :: int where "cache_version = 1"
definition cache_window :: nat where "cache_window = 1000"

definition candle_cache_key :: "string \<Rightarrow> timeframe \<Rightarrow> string" where
  "candle_cache_key pair tf = ''candles:latest:'' @ pair @ '':'' @ timeframe_text tf"

definition cache_op :: "'w market_env \<Rightarrow> ('w candle_cache \<Rightarrow> 'f option) \<Rightarrow> 'f option" where
  "cache_op env f = (case me_cache env of None \<Rightarrow> None | Some c \<Rightarrow> f c)"

definition invalidate_candle_cache :: "string \<Rightarrow> timeframe \<Rightarrow> 'w market_env \<Rightarrow> ('w market, unit) call" where
  "invalidate_candle_cache pair tf env = (case cache_op env ch_delete of None \<Rightarrow> call_return ()
     | Some del \<Rightarrow> call_try (in_world (del (candle_cache_key pair tf))) (\<lambda>_. note_event ''market_data.cache_unavailable''))"

function complete_from :: "timeframe \<Rightarrow> int list \<Rightarrow> int \<Rightarrow> int" where
  "complete_from tf ts t = (if t \<in> set ts then complete_from tf ts (t + timeframe_ms tf) else t)"
  by pat_completeness auto
termination
proof (relation "measure (\<lambda>(tf, ts, t). card {x \<in> set ts. t \<le> x})")
  fix tf :: timeframe and ts :: "int list" and t :: int
  assume "t \<in> set ts"
  then have "t \<in> {x \<in> set ts. t \<le> x}" "t \<notin> {x \<in> set ts. t + timeframe_ms tf \<le> x}" by (auto simp: not_le)
  moreover have "t + timeframe_ms tf \<le> x \<Longrightarrow> t \<le> x" for x using timeframe_ms_pos [of tf] by linarith
  then have "{x \<in> set ts. t + timeframe_ms tf \<le> x} \<subseteq> {x \<in> set ts. t \<le> x}" by auto
  ultimately have "{x \<in> set ts. t + timeframe_ms tf \<le> x} \<subset> {x \<in> set ts. t \<le> x}" by blast
  then show "((tf, ts, t + timeframe_ms tf), tf, ts, t) \<in> measure (\<lambda>(tf, ts, t). card {x \<in> set ts. t \<le> x})"
    by (auto intro: psubset_card_mono)
qed simp

declare complete_from.simps [simp del]

definition floor_to :: "timeframe \<Rightarrow> int \<Rightarrow> int" where
  "floor_to tf t = t div timeframe_ms tf * timeframe_ms tf"

definition iso_text :: "int option \<Rightarrow> string result" where
  "iso_text t = (case t of None \<Rightarrow> throw ''RangeError'' | Some x \<Rightarrow> return (to_iso x))"

definition complete_through :: "timeframe \<Rightarrow> string \<Rightarrow> candle list \<Rightarrow> int option" where
  "complete_through tf now sealed_rows = (case last_n cache_window sealed_rows of [] \<Rightarrow> map_option (floor_to tf) (date_parse now)
     | c # _ \<Rightarrow> map_option (\<lambda>t. complete_from tf (closed_times sealed_rows) (t + timeframe_ms tf)) (date_parse (c_timestamp c)))"

definition refresh_candle_cache :: "string \<Rightarrow> timeframe \<Rightarrow> 'w market_env \<Rightarrow> ('w market, unit) call" where
  "refresh_candle_cache pair tf env = (case cache_op env ch_set of None \<Rightarrow> call_return ()
     | Some put \<Rightarrow> call_try
        (call_bind (read_rows pair tf env) (\<lambda>rows. call_bind (time_of env) (\<lambda>now.
           let sealed_rows = sort_by by_timestamp (filter c_is_closed rows); forming = last_n 1 (filter (\<lambda>c. \<not> c_is_closed c) rows) in
           call_bind (call_of (iso_text (complete_through tf now sealed_rows))) (\<lambda>complete.
             in_world (put (candle_cache_key pair tf) \<lparr>cw_version = cache_version, cw_as_of = now, cw_complete_through = complete,
               cw_candles = sort_by by_timestamp (last_n cache_window sealed_rows @ forming)\<rparr>)))))
        (\<lambda>_. note_event ''market_data.cache_write_error''))"

definition within_range :: "string \<times> string \<Rightarrow> candle \<Rightarrow> bool" where
  "within_range r c = (fst r \<le> c_timestamp c \<and> c_timestamp c < snd r)"

definition stale_window :: "timeframe \<Rightarrow> string \<Rightarrow> string \<Rightarrow> bool" where
  "stale_window tf as_of now = (case date_parse as_of of None \<Rightarrow> True
     | Some t \<Rightarrow> (case date_parse now of None \<Rightarrow> False | Some n \<Rightarrow> t > n + max_skew \<or> n - t > timeframe_ms tf * 2))"

definition later :: "string \<Rightarrow> string \<Rightarrow> int \<Rightarrow> bool" where
  "later a b skew = (case (date_parse a, date_parse b) of (Some x, Some y) \<Rightarrow> x > y + skew | _ \<Rightarrow> False)"

definition cached_rows :: "string \<Rightarrow> timeframe \<Rightarrow> string \<times> string \<Rightarrow> bool \<Rightarrow> string \<Rightarrow> cached_window \<Rightarrow> candle list result" where
  "cached_rows pair tf r forming now cw =
     and_then (reject_if (cw_version cw \<noteq> cache_version \<or> length (cw_candles cw) > cache_window + 1) ''invalid candle cache envelope'') (\<lambda>_.
     and_then (reject_if (stale_window tf (cw_as_of cw) now) ''stale candle cache'') (\<lambda>_.
     and_then (parse_timestamp (Some (JStr (cw_complete_through cw))) tf now True) (\<lambda>complete.
     and_then (reject_if (later complete now max_skew) ''future candle cache boundary'') (\<lambda>_.
     and_then (map_results (\<lambda>c. validate_market_candle c now True) (cw_candles cw)) (\<lambda>cs.
     and_then (reject_if (\<not> distinct (map c_timestamp cs) \<or> list_ex (\<lambda>c. c_pair c \<noteq> pair \<or> c_timeframe c \<noteq> tf) cs) ''invalid candle cache rows'') (\<lambda>_.
     and_then (reject_if (case find c_is_closed cs of None \<Rightarrow> True
       | Some first \<Rightarrow> later (c_timestamp first) (fst r) 0 \<or> later (snd r) complete 0 \<or>
           missing_ranges (filter (\<lambda>c. c_is_closed c \<and> within_range r c) cs) r tf \<noteq> []) ''candle cache does not cover range'') (\<lambda>_.
     and_then (reject_if (forming \<and> \<not> list_ex (\<lambda>c. \<not> c_is_closed c \<and> within_range r c) cs) ''forming candle cache is incomplete'') (\<lambda>_.
       return cs))))))))"

definition read_cached_window :: "string \<Rightarrow> timeframe \<Rightarrow> (string \<times> string) option \<Rightarrow> bool \<Rightarrow> string \<Rightarrow> 'w market_env \<Rightarrow> ('w market, candle list option) call" where
  "read_cached_window pair tf asked forming now env = (case (cache_op env ch_get, asked) of
     (Some get, Some r) \<Rightarrow>
       call_bind (call_try (call_bind (in_world (get (candle_cache_key pair tf))) (\<lambda>c. call_return (Some c)))
         (\<lambda>_. call_bind (note_event ''market_data.cache_unavailable'') (\<lambda>_. call_return None))) (\<lambda>raw.
       case raw of None \<Rightarrow> call_return None
       | Some Cache_Miss \<Rightarrow> call_bind (note_event ''market_data.cache_miss'') (\<lambda>_. call_return None)
       | Some Cache_Garbage \<Rightarrow> call_bind (note_event ''market_data.cache_invalid'') (\<lambda>_. call_return None)
       | Some (Cache_Window cw) \<Rightarrow> (case cached_rows pair tf r forming now cw of
           Inl _ \<Rightarrow> call_bind (note_event ''market_data.cache_invalid'') (\<lambda>_. call_return None)
         | Inr cs \<Rightarrow> call_bind (note_event ''market_data.cache_hit'') (\<lambda>_. call_return (Some cs))))
   | _ \<Rightarrow> call_return None)"

section \<open>Persisting and synchronising\<close>

definition source_of :: "'w market_env \<Rightarrow> string \<Rightarrow> string" where
  "source_of env s = (if CHR '':'' \<in> set s then s else (case me_provider env of None \<Rightarrow> ''UNKNOWN'' | Some p \<Rightarrow> pv_id p) @ '':'' @ s)"

definition put_candle :: "candle \<Rightarrow> ('w market, unit) call" where
  "put_candle c m = (upsert_candle c m, return ())"

definition row_at :: "candle \<Rightarrow> 'w market \<Rightarrow> candle option" where
  "row_at c m = find (\<lambda>x. c_timestamp x = c_timestamp c) (stored_rows (c_pair c) (c_timeframe c) m)"

definition persist_observation :: "observation \<Rightarrow> 'w market_env \<Rightarrow> ('w market, candle option) call" where
  "persist_observation ob env =
     call_bind (time_of env) (\<lambda>now.
     call_bind (call_of (validate_market_candle ((ob_candle ob)\<lparr>c_source := Some (source_of env (ob_source ob))\<rparr>) now False)) (\<lambda>c.
     call_bind (\<lambda>m. (m, return (row_at c m))) (\<lambda>old.
       let sealed = (case old of None \<Rightarrow> False | Some x \<Rightarrow> c_is_closed x); historical = ends_with ''HISTORICAL_SYNC'' (ob_source ob) in
       if sealed \<and> \<not> c_is_closed c then call_bind (note_event ''market_data.out_of_order_candle'') (\<lambda>_. call_return None)
       else if (case old of None \<Rightarrow> False | Some x \<Rightarrow> same_candle x c) then call_return None
       else if sealed \<and> \<not> historical then call_bind (note_event ''market_data.realtime_closed_correction_ignored'') (\<lambda>_. call_return None)
       else call_bind (if sealed then call_bind (note_event ''market_data.correction_detected'') (\<lambda>_. invalidate_candle_cache (c_pair c) (c_timeframe c) env) else call_return ()) (\<lambda>_.
         call_bind (put_candle c) (\<lambda>_. call_bind (refresh_candle_cache (c_pair c) (c_timeframe c) env) (\<lambda>_. call_return (Some c)))))))"

definition persist_all :: "observation list \<Rightarrow> 'w market_env \<Rightarrow> ('w market, unit) call" where
  "persist_all obs env = call_each (\<lambda>ob. call_bind (persist_observation ob env) (\<lambda>_. call_return ())) obs"

definition latest_closed_range :: "string \<Rightarrow> timeframe \<Rightarrow> nat \<Rightarrow> (string \<times> string) result" where
  "latest_closed_range now tf limit = (case date_parse now of None \<Rightarrow> throw ''RangeError''
     | Some n \<Rightarrow> let stop = floor_to tf n in return (to_iso (stop - int limit * timeframe_ms tf), to_iso stop))"

definition sync_missing :: "'w provider \<Rightarrow> string \<Rightarrow> timeframe \<Rightarrow> string \<times> string \<Rightarrow> 'w market_env \<Rightarrow> ('w market, unit) call" where
  "sync_missing p pair tf r env = call_bind (read_rows pair tf env) (\<lambda>rows.
     call_each (\<lambda>gap. call_bind (in_world (pv_fetch p pair tf gap)) (\<lambda>obs. persist_all obs env)) (missing_ranges (filter (within_range r) rows) r tf))"

definition reconcile_one :: "'w provider \<Rightarrow> (string \<Rightarrow> timeframe \<Rightarrow> ('w, string) call) \<Rightarrow> 'w market_env \<Rightarrow> string \<times> timeframe \<Rightarrow> ('w market, unit) call" where
  "reconcile_one p through env s = (case s of (pair, tf) \<Rightarrow>
     call_bind (time_of env) (\<lambda>now.
     call_bind (in_world (through pair tf)) (\<lambda>text.
     call_bind (call_of (parse_timestamp (Some (JStr text)) tf now True)) (\<lambda>stop.
     call_bind (call_if (later stop now max_skew) ''HISTORY_INCOMPLETE'') (\<lambda>_.
     call_bind (read_rows pair tf env) (\<lambda>rows.
     call_bind (call_of (case last_n 1 (sort_by by_timestamp (filter c_is_closed rows)) of
         [] \<Rightarrow> iso_text (map_option (\<lambda>t. t - timeframe_ms tf) (date_parse stop)) | c # _ \<Rightarrow> return (c_timestamp c))) (\<lambda>start.
     if (case (date_parse start, date_parse stop) of (Some a, Some b) \<Rightarrow> a \<ge> b | _ \<Rightarrow> False) then call_return ()
     else call_bind (in_world (pv_fetch p pair tf (start, stop))) (\<lambda>obs.
       call_bind (persist_all (map (\<lambda>ob. ob\<lparr>ob_source := ''HISTORICAL_SYNC''\<rparr>) obs) env) (\<lambda>_.
       call_bind (read_rows pair tf env) (\<lambda>again.
       call_bind (call_if (missing_ranges (filter (within_range (start, stop)) again) (start, stop) tf \<noteq> []) ''HISTORY_INCOMPLETE'') (\<lambda>_.
         refresh_candle_cache pair tf env)))))))))))"

definition reconcile_subscriptions :: "'w provider \<Rightarrow> (string \<times> timeframe) list \<Rightarrow> 'w market_env \<Rightarrow> ('w market, unit) call" where
  "reconcile_subscriptions p ss env = (case pv_closed_through p of None \<Rightarrow> note_event ''market_data.reconciliation_skipped''
     | Some through \<Rightarrow> call_each (reconcile_one p through env) ss)"

section \<open>Historical pages\<close>

datatype completeness = Allow_Partial | Require_Complete

record history_query =
  hq_pair :: string
  hq_timeframe :: string
  hq_range :: "(string \<times> string) option"
  hq_limit :: "number option"
  hq_cursor :: "string option"
  hq_forming :: "bool option"
  hq_completeness :: "completeness option"

record history_page =
  hp_pair :: string
  hp_timeframe :: timeframe
  hp_range :: "string \<times> string"
  hp_candles :: "candle list"
  hp_complete :: bool
  hp_missing :: "(string \<times> string) list"
  hp_forming :: bool
  hp_as_of :: string
  hp_next :: "string option"

fun completeness_text :: "completeness \<Rightarrow> string" where
  "completeness_text Allow_Partial = ''ALLOW_PARTIAL''"
| "completeness_text Require_Complete = ''REQUIRE_COMPLETE''"

definition range_json :: "string \<times> string \<Rightarrow> json" where
  "range_json r = JObj [(''from'', JStr (fst r)), (''to'', JStr (snd r))]"

definition or_value :: "'a option \<Rightarrow> 'a \<Rightarrow> 'a" where
  "or_value x d = (case x of None \<Rightarrow> d | Some v \<Rightarrow> v)"

definition query_fingerprint :: "history_query \<Rightarrow> string" where
  "query_fingerprint q = json_stringify (JObj ([(''pair'', JStr (hq_pair q)), (''timeframe'', JStr (hq_timeframe q))] @
     (case hq_range q of None \<Rightarrow> [] | Some r \<Rightarrow> [(''range'', range_json r)]) @
     [(''limit'', JNum (or_value (hq_limit q) (num 1000))), (''includeForming'', JBool (or_value (hq_forming q) False)),
      (''completeness'', JStr (completeness_text (or_value (hq_completeness q) Allow_Partial)))]))"

definition encode_cursor :: "'w market_env \<Rightarrow> history_query \<Rightarrow> nat \<Rightarrow> string" where
  "encode_cursor env q i = me_encode env (query_fingerprint q) i"

definition decode_cursor :: "'w market_env \<Rightarrow> history_query \<Rightarrow> string option \<Rightarrow> nat result" where
  "decode_cursor env q c = (case present c of None \<Rightarrow> return 0
     | Some text \<Rightarrow> (case me_decode env text of None \<Rightarrow> throw ''INVALID_CURSOR''
       | Some (f, i) \<Rightarrow> if f \<noteq> query_fingerprint q \<or> \<not> is_integer i \<or> nlt i (num 0) then throw ''INVALID_CURSOR'' else return (nat_of_number i)))"

definition read_pair_metadata :: "string \<Rightarrow> 'w market_env \<Rightarrow> ('w market, pair_metadata) call" where
  "read_pair_metadata pair env = call_bind (call_of (validate_pair (Some (JStr pair)))) (\<lambda>p.
     case (case me_provider env of None \<Rightarrow> None | Some v \<Rightarrow> pv_metadata v) of
       Some f \<Rightarrow> in_world (f p)
     | None \<Rightarrow> call_return \<lparr>md_pair = p, md_base_asset = p, md_quote_asset = [], md_settlement_asset = []\<rparr>)"

definition validate_provider :: "string \<Rightarrow> timeframe \<Rightarrow> 'w market_env \<Rightarrow> ('w market, 'w provider option) call" where
  "validate_provider pair tf env = (case me_provider env of None \<Rightarrow> call_return None
     | Some p \<Rightarrow> call_bind (in_world (pv_capabilities p)) (\<lambda>(pairs, tfs).
         call_bind (call_if (pair \<notin> set pairs) ''UNSUPPORTED_PAIR'') (\<lambda>_.
         call_bind (call_if (tf \<notin> set tfs) ''UNSUPPORTED_TIMEFRAME'') (\<lambda>_. call_return (Some p)))))"

definition read_capabilities :: "'w market_env \<Rightarrow> string \<Rightarrow> ('w market, string \<times> string list \<times> timeframe list) call" where
  "read_capabilities env fallback = (case me_provider env of None \<Rightarrow> call_return (fallback, [], [])
     | Some p \<Rightarrow> call_bind (in_world (pv_capabilities p)) (\<lambda>(pairs, tfs). call_return (pv_id p, pairs, tfs)))"

text \<open>The candles of a page: the closed ones of the requested range and, when asked for, the forming ones.\<close>

definition closed_in :: "(string \<times> string) option \<Rightarrow> candle list \<Rightarrow> candle list" where
  "closed_in r rows = filter (\<lambda>c. c_is_closed c \<and> (case r of None \<Rightarrow> True | Some x \<Rightarrow> within_range x c)) rows"

definition forming_in :: "(string \<times> string) option \<Rightarrow> (string \<times> string) option \<Rightarrow> candle list \<Rightarrow> candle list" where
  "forming_in asked r rows = filter (\<lambda>c. \<not> c_is_closed c \<and> (case r of None \<Rightarrow> True
     | Some x \<Rightarrow> (case asked of Some a \<Rightarrow> within_range a c | None \<Rightarrow> fst x \<le> c_timestamp c \<and> c_timestamp c \<le> snd x))) rows"

definition span_of :: "timeframe \<Rightarrow> candle list \<Rightarrow> string \<times> string \<Rightarrow> (string \<times> string) result" where
  "span_of tf cs d = (if cs = [] then return d
     else and_then (iso_text (map_option (\<lambda>t. t + timeframe_ms tf) (date_parse (c_timestamp (last cs))))) (\<lambda>stop. return (c_timestamp (hd cs), stop)))"

definition start_of :: "'w market_env \<Rightarrow> history_query \<Rightarrow> (string \<times> string) option \<Rightarrow> nat \<Rightarrow> nat \<Rightarrow> nat result" where
  "start_of env q asked limit n = (case present (hq_cursor q) of Some c \<Rightarrow> decode_cursor env q (Some c) | None \<Rightarrow> return (if asked = None then n - limit else 0))"

definition page_of :: "'w market_env \<Rightarrow> history_query \<Rightarrow> timeframe \<Rightarrow> string \<Rightarrow> nat \<Rightarrow> (string \<times> string) option \<Rightarrow> (string \<times> string) option \<Rightarrow>
    bool \<Rightarrow> candle list \<Rightarrow> history_page result" where
  "page_of env q tf now limit asked r failed rows = (let sealed_rows = closed_in r rows;
       forming = (if or_value (hq_forming q) False then forming_in asked r rows else []);
       page = sort_by by_timestamp (sealed_rows @ forming); total_rows = length page in
     and_then (case r of Some x \<Rightarrow> return x | None \<Rightarrow> span_of tf page (now, now)) (\<lambda>whole.
     let gaps = missing_ranges sealed_rows whole tf in
     and_then (reject_if (hq_completeness q = Some Require_Complete \<and> gaps \<noteq> []) ''HISTORY_INCOMPLETE'') (\<lambda>_.
     and_then (reject_if (asked = None \<and> page = []) (if failed then ''HISTORY_UNAVAILABLE'' else ''NO_DATA'')) (\<lambda>_.
     and_then (start_of env q asked limit total_rows) (\<lambda>start.
     let selected = take limit (drop start page) in
     and_then (case asked of Some a \<Rightarrow> return a | None \<Rightarrow> span_of tf selected whole) (\<lambda>shown.
       return \<lparr>hp_pair = hq_pair q, hp_timeframe = tf, hp_range = shown, hp_candles = selected, hp_complete = (gaps = []), hp_missing = gaps,
         hp_forming = list_ex (\<lambda>c. \<not> c_is_closed c) selected, hp_as_of = now,
         hp_next = (if start + limit < total_rows then Some (encode_cursor env q (start + limit)) else None)\<rparr>))))))"

text \<open>The checked request: the query with its pair and range normalised, the time frame, the time of the request,
  the limit, the provider and the range to read.\<close>

type_synonym 'w request = "history_query \<times> timeframe \<times> string \<times> nat \<times> 'w provider option \<times> (string \<times> string) option"

definition asked_range :: "history_query \<Rightarrow> timeframe \<Rightarrow> string \<Rightarrow> (string \<times> string) option result" where
  "asked_range query tf now = (case hq_range query of None \<Rightarrow> return None
     | Some r \<Rightarrow> and_then (validate_range (Some (JStr (fst r)), Some (JStr (snd r))) tf now) (\<lambda>x. return (Some x)))"

definition requested_range :: "(string \<times> string) option \<Rightarrow> 'w provider option \<Rightarrow> string \<Rightarrow> timeframe \<Rightarrow> nat \<Rightarrow> (string \<times> string) option result" where
  "requested_range asked provider now tf limit = (if asked = None \<and> provider \<noteq> None
     then and_then (latest_closed_range now tf limit) (\<lambda>x. return (Some x)) else return asked)"

definition check_request :: "history_query \<Rightarrow> 'w market_env \<Rightarrow> ('w market, 'w request) call" where
  "check_request query env = call_bind (call_of (validate_pair (Some (JStr (hq_pair query))))) (\<lambda>pair.
     call_bind (call_of (validate_timeframe (Some (JStr (hq_timeframe query))))) (\<lambda>tf.
     call_bind (time_of env) (\<lambda>now.
     call_bind (call_of (asked_range query tf now)) (\<lambda>asked.
     call_bind (call_of (validate_limit (map_option JNum (hq_limit query)))) (\<lambda>limit.
     call_bind (call_of (decode_cursor env (query\<lparr>hq_pair := pair, hq_range := asked\<rparr>) (hq_cursor query))) (\<lambda>_.
     call_bind (validate_provider pair tf env) (\<lambda>provider.
     call_bind (call_of (requested_range asked provider now tf limit)) (\<lambda>r.
       call_return (query\<lparr>hq_pair := pair, hq_range := asked\<rparr>, tf, now, limit, provider, r)))))))))"

text \<open>The rows of a request, and whether the provider failed.\<close>

definition synced_rows :: "history_query \<Rightarrow> timeframe \<Rightarrow> 'w provider option \<Rightarrow> (string \<times> string) option \<Rightarrow> 'w market_env \<Rightarrow> ('w market, candle list \<times> bool) call" where
  "synced_rows q tf provider r env = call_bind (read_rows (hq_pair q) tf env) (\<lambda>rows. case (provider, r) of
     (Some p, Some x) \<Rightarrow> call_try (call_bind (sync_missing p (hq_pair q) tf x env) (\<lambda>_. call_bind (read_rows (hq_pair q) tf env) (\<lambda>again. call_return (again, False))))
       (\<lambda>_. if hq_completeness q = Some Require_Complete then call_throw ''HISTORY_UNAVAILABLE'' else call_return (rows, True))
   | _ \<Rightarrow> call_return (rows, False))"

definition history_rows :: "history_query \<Rightarrow> timeframe \<Rightarrow> string \<Rightarrow> 'w provider option \<Rightarrow> (string \<times> string) option \<Rightarrow> 'w market_env \<Rightarrow> ('w market, candle list \<times> bool) call" where
  "history_rows q tf now provider r env =
     call_bind (read_cached_window (hq_pair q) tf r (or_value (hq_forming q) False) now env) (\<lambda>hit.
     call_bind (case hit of Some cs \<Rightarrow> call_return (cs, False) | None \<Rightarrow> synced_rows q tf provider r env) (\<lambda>found.
     call_bind (if hit = None \<and> r \<noteq> None then refresh_candle_cache (hq_pair q) tf env else call_return ()) (\<lambda>_. call_return found)))"

definition read_candles :: "history_query \<Rightarrow> 'w market_env \<Rightarrow> ('w market, history_page) call" where
  "read_candles query env = call_bind (check_request query env) (\<lambda>(q, tf, now, limit, provider, r).
     call_bind (history_rows q tf now provider r env) (\<lambda>(rows, failed).
       call_of (page_of env q tf now limit (hq_range q) r failed rows)))"

section \<open>Sealed snapshots\<close>

definition store_snapshot :: "snapshot_ref \<Rightarrow> candle list \<Rightarrow> ('w market, unit) call" where
  "store_snapshot s cs m = (m\<lparr>mk_snapshots := js_set (sn_id s) (s, cs) (mk_snapshots m)\<rparr>, return ())"

definition create_dataset_snapshot :: "string \<Rightarrow> string \<Rightarrow> string \<times> string \<Rightarrow> 'w market_env \<Rightarrow> ('w market, snapshot_ref) call" where
  "create_dataset_snapshot pair_in tf_in range_in env = call_bind (call_of (validate_pair (Some (JStr pair_in)))) (\<lambda>pair.
     call_bind (call_of (validate_timeframe (Some (JStr tf_in)))) (\<lambda>tf.
     call_bind (time_of env) (\<lambda>now.
     call_bind (call_of (validate_range (Some (JStr (fst range_in)), Some (JStr (snd range_in))) tf now)) (\<lambda>r.
     call_bind (read_candles \<lparr>hq_pair = pair, hq_timeframe = timeframe_text tf, hq_range = Some r, hq_limit = Some (num (int max_page_limit)),
       hq_cursor = None, hq_forming = Some False, hq_completeness = Some Require_Complete\<rparr> env) (\<lambda>page.
     call_bind (call_if (hp_candles page = []) ''DATASET_EMPTY'') (\<lambda>_.
     let sha = me_sha256 env (snapshot_serialization pair tf r (hp_candles page)) in
     call_bind (\<lambda>m. (m, return (find (\<lambda>(s, _). sn_sha256 s = sha) (js_values (mk_snapshots m))))) (\<lambda>old.
     case old of Some (s, _) \<Rightarrow> call_return s
     | None \<Rightarrow> call_bind (in_world (me_uuid env)) (\<lambda>i.
         call_bind (read_pair_metadata pair env) (\<lambda>md.
         call_bind (time_of env) (\<lambda>created.
         let s = \<lparr>sn_id = i, sn_pair = pair, sn_metadata = md, sn_timeframe = tf, sn_from = fst r, sn_to = snd r,
           sn_candle_count = length (hp_candles page), sn_sha256 = sha, sn_created_at = created\<rparr> in
         call_bind (case me_store env of None \<Rightarrow> call_return s | Some d \<Rightarrow> in_world (ss_create d s (hp_candles page))) (\<lambda>kept.
           call_bind (store_snapshot kept (hp_candles page)) (\<lambda>_. call_return kept))))))))))))"

record snapshot_page =
  dp_snapshot :: snapshot_ref
  dp_candles :: "candle list"
  dp_next :: "string option"

definition snapshot_query :: "snapshot_ref \<Rightarrow> nat \<Rightarrow> history_query" where
  "snapshot_query s limit = \<lparr>hq_pair = sn_pair s, hq_timeframe = timeframe_text (sn_timeframe s), hq_range = None, hq_limit = Some (num (int limit)),
     hq_cursor = None, hq_forming = None, hq_completeness = None\<rparr>"

definition read_dataset_snapshot :: "string \<Rightarrow> string option \<Rightarrow> number option \<Rightarrow> 'w market_env \<Rightarrow> ('w market, snapshot_page) call" where
  "read_dataset_snapshot i cursor asked env = call_bind (call_of (validate_limit (map_option JNum asked))) (\<lambda>limit.
     call_bind (\<lambda>m. case js_get (mk_snapshots m) i of Some x \<Rightarrow> (m, return (Some x))
       | None \<Rightarrow> (case me_store env of None \<Rightarrow> (m, return None) | Some d \<Rightarrow> in_world (ss_read d i) m)) (\<lambda>found.
     case found of None \<Rightarrow> call_throw ''DATASET_NOT_FOUND''
     | Some (s, cs) \<Rightarrow> call_bind (call_of (decode_cursor env (snapshot_query s limit) cursor)) (\<lambda>start.
         call_return \<lparr>dp_snapshot = s, dp_candles = take limit (drop start cs),
           dp_next = (if start + limit < length cs then Some (encode_cursor env (snapshot_query s limit) (start + limit)) else None)\<rparr>)))"

end
