(* ===== verification/MarketBinance.thy ===== *)
theory MarketBinance
  imports MarketService
begin

text \<open>
  The Binance adapter (\<^verbatim>\<open>modules/market-data/infrastructure/binance-adapter.ts\<close>): the rows of the REST
  history, its pages and the messages of the realtime stream. The HTTP client, the clock, the socket
  and the parser of message texts are parameters.
\<close>

section \<open>Values of a payload\<close>

definition malformed :: "'a result" where
  "malformed = throw ''BINANCE_MALFORMED_PAYLOAD''"

definition payload_number :: "json option \<Rightarrow> number result" where
  "payload_number v = (let n = (case v of Some (JNum x) \<Rightarrow> x | Some (JStr s) \<Rightarrow> string_to_number s | _ \<Rightarrow> NaN) in
     if is_finite n then return n else malformed)"

definition max_date :: int where "max_date = 8640000000000000"

fun integer_of :: "number \<Rightarrow> int" where
  "integer_of (Fin q) = \<lfloor>q\<rfloor>"
| "integer_of _ = 0"

definition unix_text :: "number \<Rightarrow> string result" where
  "unix_text n = (if \<not> is_integer n \<or> nle n (num 0) \<or> integer_of n > max_date then malformed else return (to_iso (integer_of n)))"

definition unix_value :: "json option \<Rightarrow> string result" where
  "unix_value v = and_then (payload_number v) unix_text"

definition quote_assets :: "string list" where
  "quote_assets = [''USDT'', ''BUSD'', ''USDC'', ''BTC'', ''ETH'']"

definition metadata_of :: "string \<Rightarrow> pair_metadata" where
  "metadata_of pair = (case find (\<lambda>q. ends_with q pair) quote_assets of
     None \<Rightarrow> \<lparr>md_pair = pair, md_base_asset = pair, md_quote_asset = [], md_settlement_asset = []\<rparr>
   | Some q \<Rightarrow> \<lparr>md_pair = pair, md_base_asset = take (length pair - length q) pair, md_quote_asset = q, md_settlement_asset = q\<rparr>)"

definition supported_pairs :: "string list" where
  "supported_pairs = [''BTCUSDT'', ''ETHUSDT'', ''BNBUSDT'', ''SOLUSDT'', ''XRPUSDT'', ''ADAUSDT'', ''DOGEUSDT'']"

text \<open>An observation with the key that orders it.\<close>

record keyed_observation = observation +
  ob_order_key :: string

definition prices_of :: "json option list \<Rightarrow> number list result" where
  "prices_of vs = map_results payload_number vs"

definition market_candle :: "string \<Rightarrow> timeframe \<Rightarrow> string \<Rightarrow> number list \<Rightarrow> bool \<Rightarrow> candle" where
  "market_candle pair tf t ns is_done = \<lparr>c_pair = pair, c_timeframe = tf, c_timestamp = t, c_open = ns ! 0, c_high = ns ! 1, c_low = ns ! 2, c_close = ns ! 3,
     c_volume = ns ! 4, c_is_closed = is_done, c_source = None\<rparr>"

definition normalize_kline :: "string \<Rightarrow> timeframe \<Rightarrow> json \<Rightarrow> int \<Rightarrow> keyed_observation result" where
  "normalize_kline pair tf row now = (case row of
     JArr vs \<Rightarrow> if length vs < 7 then malformed
       else and_then (payload_number (Some (vs ! 0))) (\<lambda>open_time. and_then (payload_number (Some (vs ! 6))) (\<lambda>close_time.
         and_then (unix_text open_time) (\<lambda>t. and_then (prices_of (map (\<lambda>i. Some (vs ! i)) [1, 2, 3, 4, 5])) (\<lambda>ns.
           return \<lparr>ob_candle = market_candle pair tf t ns (nlt close_time (num now)), ob_source = ''HISTORICAL_SYNC'', ob_order_key = number_to_string open_time\<rparr>))))
   | _ \<Rightarrow> malformed)"

section \<open>History\<close>

record rest_request =
  rr_symbol :: string
  rr_interval :: string
  rr_start :: int
  rr_end :: int
  rr_limit :: nat

record rest_response =
  rp_ok :: bool
  rp_status :: int
  rp_body :: "json option"

record 'w binance =
  bi_now :: "'w \<Rightarrow> int"
  bi_fetch :: "rest_request \<Rightarrow> ('w, rest_response) call"
  bi_parse :: "string \<Rightarrow> json option"

definition page_rows_of :: "rest_response \<Rightarrow> json list result" where
  "page_rows_of p = (if \<not> rp_ok p then throw (if rp_status p = 429 then ''BINANCE_RATE_LIMITED'' else ''BINANCE_HISTORY_UNAVAILABLE'')
     else case rp_body p of Some (JArr rows) \<Rightarrow> return rows | _ \<Rightarrow> malformed)"

definition fetch_page :: "'w binance \<Rightarrow> string \<Rightarrow> timeframe \<Rightarrow> int \<Rightarrow> int \<Rightarrow> ('w, keyed_observation list) call" where
  "fetch_page b pair tf start stop = call_bind (call_try (bi_fetch b \<lparr>rr_symbol = pair, rr_interval = timeframe_text tf, rr_start = start, rr_end = stop - 1, rr_limit = 1000\<rparr>)
       (\<lambda>_. call_throw ''BINANCE_HISTORY_UNAVAILABLE'')) (\<lambda>p.
     call_bind (call_of (page_rows_of p)) (\<lambda>rows w. (w, map_results (\<lambda>row. normalize_kline pair tf row (bi_now b w)) rows)))"

text \<open>The start of the next page, or none when the history ends here.\<close>

definition next_start :: "timeframe \<Rightarrow> int \<Rightarrow> keyed_observation list \<Rightarrow> int option result" where
  "next_start tf start page = (if page = [] \<or> length page < 1000 then return None
     else case date_parse (c_timestamp (ob_candle (last page))) of None \<Rightarrow> return None
       | Some t \<Rightarrow> if t + timeframe_ms tf \<le> start then malformed else return (Some (t + timeframe_ms tf)))"

function fetch_pages :: "'w binance \<Rightarrow> string \<Rightarrow> timeframe \<Rightarrow> int \<Rightarrow> int \<Rightarrow> keyed_observation list \<Rightarrow> ('w, keyed_observation list) call" where
  "fetch_pages b pair tf start stop acc w = (if start \<ge> stop then (w, return acc)
     else case fetch_page b pair tf start stop w of
       (w1, Inl e) \<Rightarrow> (w1, throw e)
     | (w1, Inr page) \<Rightarrow> (case next_start tf start page of
         Inl e \<Rightarrow> (w1, throw e)
       | Inr None \<Rightarrow> (w1, return (acc @ page))
       | Inr (Some next) \<Rightarrow> if next \<le> start then (w1, return (acc @ page)) else fetch_pages b pair tf next stop (acc @ page) w1))"
  by pat_completeness auto
termination
  by (relation "measure (\<lambda>(_, _, _, start, stop, _, _). nat (stop - start))") auto

declare fetch_pages.simps [simp del]

definition fetch_historical :: "'w binance \<Rightarrow> string \<Rightarrow> timeframe \<Rightarrow> string \<times> string \<Rightarrow> ('w, keyed_observation list) call" where
  "fetch_historical b pair tf r = (case (date_parse (fst r), date_parse (snd r)) of
     (Some start, Some stop) \<Rightarrow> call_bind (fetch_pages b pair tf start stop []) (\<lambda>obs.
       call_return (filter (\<lambda>ob. case date_parse (c_timestamp (ob_candle ob)) of None \<Rightarrow> False | Some t \<Rightarrow> start \<le> t \<and> t < stop) obs))
   | _ \<Rightarrow> call_return [])"

definition closed_through :: "'w binance \<Rightarrow> timeframe \<Rightarrow> 'w \<Rightarrow> string" where
  "closed_through b tf w = to_iso (floor_to tf (bi_now b w))"

section \<open>The realtime stream\<close>

definition stream_names :: "(string \<times> timeframe) list \<Rightarrow> string list" where
  "stream_names ss = uniq (concat (map (\<lambda>(pair, tf). [to_lower pair @ ''@trade'', to_lower pair @ ''@kline_'' @ timeframe_text tf]) ss))"

fun json_string :: "json \<Rightarrow> string" where
  "json_string JNull = ''null''"
| "json_string (JBool b) = (if b then ''true'' else ''false'')"
| "json_string (JNum n) = number_to_string n"
| "json_string (JStr s) = s"
| "json_string (JArr vs) = join_with '','' (map (\<lambda>v. if v = JNull then [] else json_string v) vs)"
| "json_string (JObj _) = ''[object Object]''"

definition json_text :: "json option \<Rightarrow> string" where
  "json_text v = (case v of None \<Rightarrow> ''undefined'' | Some j \<Rightarrow> json_string j)"

fun truthy :: "json option \<Rightarrow> bool" where
  "truthy None = False"
| "truthy (Some JNull) = False"
| "truthy (Some (JBool b)) = b"
| "truthy (Some (JNum n)) = (n \<noteq> NaN \<and> n \<noteq> num 0)"
| "truthy (Some (JStr s)) = (s \<noteq> [])"
| "truthy (Some _) = True"

record tick_observation =
  to_tick :: market_tick
  to_order_key :: string

datatype stream_event = Got_Tick tick_observation | Got_Candle keyed_observation | Got_Nothing

definition is_provider_error :: "json \<Rightarrow> bool" where
  "is_provider_error p = ((case json_field p ''code'' of Some (JNum _) \<Rightarrow> True | _ \<Rightarrow> False) \<or>
     (case json_field p ''msg'' of Some (JStr _) \<Rightarrow> \<not> truthy (json_field p ''e'') | _ \<Rightarrow> False))"

definition trade_event :: "json \<Rightarrow> stream_event result" where
  "trade_event p = (case json_field p ''m'' of Some (JBool maker) \<Rightarrow>
       and_then (payload_number (json_field p ''q'')) (\<lambda>quantity.
       and_then (reject_if (nle quantity (num 0)) ''BINANCE_MALFORMED_PAYLOAD'') (\<lambda>_.
       and_then (payload_number (json_field p ''p'')) (\<lambda>price.
       and_then (unix_value (json_field p ''T'')) (\<lambda>t.
         return (Got_Tick \<lparr>to_tick = \<lparr>tick_pair = json_text (json_field p ''s''), tick_price = price, tick_quantity = quantity, tick_timestamp = t,
           tick_side = (if maker then Sell_Side else Buy_Side)\<rparr>, to_order_key = json_text (json_field p ''t'')\<rparr>)))))
   | _ \<Rightarrow> malformed)"

definition kline_event :: "json \<Rightarrow> json \<Rightarrow> stream_event result" where
  "kline_event p k = (case (case json_field k ''i'' of Some (JStr i) \<Rightarrow> timeframe_of i | _ \<Rightarrow> None) of None \<Rightarrow> throw ''unsupported interval''
   | Some tf \<Rightarrow> and_then (unix_value (json_field k ''t'')) (\<lambda>t. and_then (prices_of (map (json_field k) [''o'', ''h'', ''l'', ''c'', ''v''])) (\<lambda>ns.
       return (Got_Candle \<lparr>ob_candle = market_candle (json_text (json_field p ''s'')) tf t ns (truthy (json_field k ''x'')), ob_source = ''REALTIME_STREAM'',
         ob_order_key = json_text (json_field k ''t'')\<rparr>))))"

text \<open>The payload of a message: its \<^verbatim>\<open>data\<close> unless that is absent or null.\<close>

definition payload_of :: "json \<Rightarrow> json" where
  "payload_of outer = (case json_field outer ''data'' of None \<Rightarrow> outer | Some JNull \<Rightarrow> outer | Some d \<Rightarrow> d)"

definition stream_message :: "'w binance \<Rightarrow> string \<Rightarrow> stream_event result" where
  "stream_message b text = (case bi_parse b text of None \<Rightarrow> malformed | Some JNull \<Rightarrow> malformed
     | Some outer \<Rightarrow> (let p = payload_of outer in
         if is_provider_error p then malformed
         else if json_field p ''e'' = Some (JStr ''trade'') then trade_event p
         else if json_field p ''e'' = Some (JStr ''kline'') then (case json_field p ''k'' of
             Some (JObj fs) \<Rightarrow> kline_event p (JObj fs)
           | Some (JArr vs) \<Rightarrow> kline_event p (JArr vs)
           | _ \<Rightarrow> return Got_Nothing)
         else return Got_Nothing))"

section \<open>The socket\<close>

record socket =
  sk_opened :: bool
  sk_closed :: bool

datatype socket_signal = Signal_Ready | Signal_Not_Ready | Signal_Connect | Signal_Event stream_event | Signal_Disconnect string | Signal_Close

definition disconnect :: "string \<Rightarrow> socket \<Rightarrow> socket \<times> socket_signal list" where
  "disconnect reason s = (if sk_closed s then (s, []) else (s\<lparr>sk_closed := True\<rparr>, [Signal_Disconnect reason]))"

definition socket_opened :: "socket \<Rightarrow> socket \<times> socket_signal list" where
  "socket_opened s = (if sk_closed s \<or> sk_opened s then (s, []) else (s\<lparr>sk_opened := True\<rparr>, [Signal_Ready, Signal_Connect]))"

definition socket_message :: "'w binance \<Rightarrow> string \<Rightarrow> socket \<Rightarrow> socket \<times> socket_signal list" where
  "socket_message b text s = (case stream_message b text of Inl _ \<Rightarrow> disconnect ''MALFORMED_RESPONSE'' s
     | Inr Got_Nothing \<Rightarrow> (s, []) | Inr e \<Rightarrow> (s, [Signal_Event e]))"

definition socket_failed :: "socket \<Rightarrow> socket \<times> socket_signal list" where
  "socket_failed s = (case disconnect ''UNAVAILABLE'' s of (s1, out) \<Rightarrow> (s1, (if sk_opened s then [] else [Signal_Not_Ready]) @ out))"

definition close_socket :: "socket \<Rightarrow> socket \<times> socket_signal list" where
  "close_socket s = (if sk_closed s then (s, []) else (s\<lparr>sk_closed := True\<rparr>, [Signal_Ready, Signal_Close]))"

section \<open>What the adapter promises\<close>

lemma metadata_splits: "md_base_asset (metadata_of pair) @ md_quote_asset (metadata_of pair) = pair"
proof (cases "find (\<lambda>q. ends_with q pair) quote_assets")
  case (Some q)
  then have "ends_with q pair" by (auto simp: find_Some_iff)
  then obtain r where "rev pair = rev q @ r" by (auto simp: ends_with_def starts_with_iff)
  then have "rev (rev pair) = rev (rev q @ r)" by (rule arg_cong)
  then have "pair = rev r @ q" by simp
  with Some show ?thesis by (simp add: metadata_of_def)
qed (simp add: metadata_of_def)

lemma fetched_in_range:
  assumes "fetch_historical b pair tf r w = (w1, Inr obs)" "ob \<in> set obs"
  shows "\<exists>start stop t. date_parse (fst r) = Some start \<and> date_parse (snd r) = Some stop \<and>
    date_parse (c_timestamp (ob_candle ob)) = Some t \<and> start \<le> t \<and> t < stop"
  using assms by (auto simp: fetch_historical_def call_bind_Inr split: option.splits)

lemma disconnect_once: "disconnect reason s = (s1, out) \<Longrightarrow> sk_closed s1 \<and> (sk_closed s \<longrightarrow> out = [])"
  by (auto simp: disconnect_def split: if_splits)

end
