(* ===== verification/MarketProtocol.thy ===== *)
theory MarketProtocol
  imports MarketService
begin

text \<open>
  Market data as a protocol: what every operation keeps of the stored candles, whatever the
  provider, the cache and the other parts of the world do, and what a historical page promises.
\<close>

section \<open>Operations that leave the rows alone\<close>

lemma js_get_put: "js_get (mk_rows (upsert_candle c m)) k = (if k = key_of c \<and> ((case js_get (mk_rows m) k of None \<Rightarrow> True | Some old \<Rightarrow> \<not> c_is_closed old) \<or> c_is_closed c)
    then Some c else js_get (mk_rows m) k)"
  by (auto simp: upsert_candle_def js_get_set)

definition on_rows :: "((string, candle) jsmap \<Rightarrow> bool) \<Rightarrow> 'w market \<Rightarrow> bool" where
  "on_rows P m = P (mk_rows m)"

named_theorems row_frames

lemma frame_in_world [row_frames]: "call_keeps (on_rows P) (in_world f)"
  by (simp add: call_keeps_def in_world_def on_rows_def split: prod.split)

lemma frame_note [row_frames]: "call_keeps (on_rows P) (note_event e)"
  by (simp add: call_keeps_def note_event_def on_rows_def)

lemma frame_time [row_frames]: "call_keeps (on_rows P) (time_of env)"
  by (simp add: call_keeps_def time_of_def)

lemma frame_rows [row_frames]: "call_keeps (on_rows P) (read_rows pair tf env)"
  by (simp add: call_keeps_def read_rows_def)

lemma frame_look [row_frames]: "call_keeps Q (\<lambda>m. (m, f m))"
  by (simp add: call_keeps_def)

lemma frame_store [row_frames]: "call_keeps (on_rows P) (store_snapshot s cs)"
  by (simp add: call_keeps_def store_snapshot_def on_rows_def)

lemma frame_invalidate [row_frames]: "call_keeps (on_rows P) (invalidate_candle_cache pair tf env)"
  by (simp add: invalidate_candle_cache_def row_frames call_keeps_intros split: option.split)

lemma frame_refresh [row_frames]: "call_keeps (on_rows P) (refresh_candle_cache pair tf env)"
  by (simp add: refresh_candle_cache_def Let_def row_frames call_keeps_intros split: option.split)

lemma frame_cached [row_frames]: "call_keeps (on_rows P) (read_cached_window pair tf r forming now env)"
  unfolding read_cached_window_def
  by (auto intro!: row_frames call_keeps_intros split: option.split cached.split sum.split)

lemma frame_metadata [row_frames]: "call_keeps (on_rows P) (read_pair_metadata pair env)"
  by (auto simp: read_pair_metadata_def intro!: row_frames call_keeps_intros split: option.split)

lemma frame_provider [row_frames]: "call_keeps (on_rows P) (validate_provider pair tf env)"
  by (auto simp: validate_provider_def intro!: row_frames call_keeps_intros split: option.split prod.split)

section \<open>What every operation keeps\<close>

text \<open>A predicate on the rows that every valid candle the service writes keeps.\<close>

definition candle_ok :: "candle \<Rightarrow> bool" where
  "candle_ok c = (pair_text (c_pair c) \<and> list_all is_finite (candle_values c) \<and> nlt (num 0) (c_low c) \<and> nle (num 0) (c_volume c) \<and>
     nle (c_low c) (c_open c) \<and> nle (c_open c) (c_high c) \<and> nle (c_low c) (c_close c) \<and> nle (c_close c) (c_high c))"

definition kept_by_writes :: "((string, candle) jsmap \<Rightarrow> bool) \<Rightarrow> bool" where
  "kept_by_writes P = (\<forall>c. candle_ok c \<longrightarrow> (\<forall>m :: unit market. P (mk_rows m) \<longrightarrow> P (mk_rows (upsert_candle c m))))"

lemma upsert_rows: "mk_rows (upsert_candle c m) = mk_rows (upsert_candle c \<lparr>mk_rows = mk_rows m, mk_snapshots = [], mk_events = [], mk_world = ()\<rparr>)"
  by (simp add: upsert_candle_def)

lemma finite_FinE: "is_finite x \<Longrightarrow> (\<And>q. x = Fin q \<Longrightarrow> thesis) \<Longrightarrow> thesis"
  by (cases x) auto

lemma validated_candle_ok: "validate_market_candle c now f = Inr d \<Longrightarrow> candle_ok d"
proof -
  assume v: "validate_market_candle c now f = Inr d"
  obtain t where d: "pair_text (c_pair c)" "d = c\<lparr>c_timestamp := t\<rparr>" and fin: "list_all is_finite (candle_values c)"
    and pos: "\<not> list_ex (\<lambda>v. nle v (num 0)) [c_open c, c_high c, c_low c, c_close c]" "\<not> nlt (c_volume c) (num 0)" and ohlc: "\<not> ohlc_inconsistent c"
    using v by (auto simp: validate_market_candle_def validate_pair_def and_then_Inr_iff split: if_splits)
  obtain p h l z v where "c_open c = Fin p" "c_high c = Fin h" "c_low c = Fin l" "c_close c = Fin z" "c_volume c = Fin v"
    using fin by (auto simp: candle_values_def elim!: finite_FinE)
  then show ?thesis using d pos ohlc
    by (auto simp: candle_ok_def candle_values_def ohlc_inconsistent_def nmax_def nmin_def num_0 not_less split: if_splits)
qed

lemma put_keeps: "kept_by_writes P \<Longrightarrow> candle_ok c \<Longrightarrow> call_keeps (on_rows P) (put_candle c)"
  unfolding call_keeps_def put_candle_def on_rows_def kept_by_writes_def fst_conv
  by (subst upsert_rows) simp

lemma persist_keeps: "kept_by_writes P \<Longrightarrow> call_keeps (on_rows P) (persist_observation ob env)"
  unfolding persist_observation_def Let_def
  by (intro call_keeps_bind call_keeps_of) (auto intro!: row_frames call_keeps_intros put_keeps dest: validated_candle_ok)

lemma persist_all_keeps: "kept_by_writes P \<Longrightarrow> call_keeps (on_rows P) (persist_all obs env)"
  unfolding persist_all_def by (auto intro!: call_keeps_intros persist_keeps)

lemma sync_keeps: "kept_by_writes P \<Longrightarrow> call_keeps (on_rows P) (sync_missing p pair tf r env)"
  unfolding sync_missing_def by (auto intro!: call_keeps_intros row_frames persist_all_keeps)

lemma reconcile_one_keeps: "kept_by_writes P \<Longrightarrow> call_keeps (on_rows P) (reconcile_one p through env s)"
  unfolding reconcile_one_def by (auto intro!: call_keeps_intros row_frames persist_all_keeps split: prod.split)

lemma market_reconcile_keeps: "kept_by_writes P \<Longrightarrow> call_keeps (on_rows P) (reconcile_subscriptions p ss env)"
  unfolding reconcile_subscriptions_def by (auto intro!: call_keeps_intros row_frames reconcile_one_keeps split: option.split)

lemma frame_request [row_frames]: "call_keeps (on_rows P) (check_request q env)"
  by (auto simp: check_request_def intro!: row_frames call_keeps_intros)

lemma synced_keeps: "kept_by_writes P \<Longrightarrow> call_keeps (on_rows P) (synced_rows q tf provider r env)"
  unfolding synced_rows_def by (auto intro!: call_keeps_intros row_frames sync_keeps split: option.split)

lemma history_keeps: "kept_by_writes P \<Longrightarrow> call_keeps (on_rows P) (history_rows q tf now provider r env)"
  unfolding history_rows_def by (auto intro!: call_keeps_intros row_frames synced_keeps split: option.split)

lemma read_candles_keeps: "kept_by_writes P \<Longrightarrow> call_keeps (on_rows P) (read_candles q env)"
  unfolding read_candles_def by (auto intro!: call_keeps_intros row_frames history_keeps split: prod.split)

lemma snapshot_keeps: "kept_by_writes P \<Longrightarrow> call_keeps (on_rows P) (create_dataset_snapshot pair tf r env)"
  unfolding create_dataset_snapshot_def Let_def
  by (auto intro!: call_keeps_intros row_frames read_candles_keeps split: option.split prod.split)

section \<open>The rows of a running service\<close>

definition rows_valid :: "(string, candle) jsmap \<Rightarrow> bool" where
  "rows_valid rows = (\<forall>k c. js_get rows k = Some c \<longrightarrow> key_of c = k \<and> candle_ok c)"

definition sealed :: "string \<Rightarrow> (string, candle) jsmap \<Rightarrow> bool" where
  "sealed k rows = (\<exists>c. js_get rows k = Some c \<and> c_is_closed c)"

lemma rows_valid_kept: "kept_by_writes rows_valid"
  by (auto simp: kept_by_writes_def rows_valid_def js_get_put)

lemma sealed_kept: "kept_by_writes (sealed k)"
  by (auto simp: kept_by_writes_def sealed_def js_get_put)

inductive market_step :: "'w market_env \<Rightarrow> 'w market \<Rightarrow> 'w market \<Rightarrow> bool" for env where
  observed: "market_step env m (fst (persist_observation ob env m))"
| reconciled: "market_step env m (fst (reconcile_subscriptions p ss env m))"
| paged: "market_step env m (fst (read_candles q env m))"
| sealed_dataset: "market_step env m (fst (create_dataset_snapshot pair tf r env m))"
| elsewhere: "market_step env m (m\<lparr>mk_world := w\<rparr>)"

inductive market_reachable :: "'w market_env \<Rightarrow> 'w market \<Rightarrow> bool" for env where
  initial: "market_reachable env \<lparr>mk_rows = [], mk_snapshots = [], mk_events = [], mk_world = w\<rparr>"
| step: "market_reachable env m \<Longrightarrow> market_step env m m1 \<Longrightarrow> market_reachable env m1"

lemma market_step_keeps: "market_step env m m1 \<Longrightarrow> kept_by_writes P \<Longrightarrow> on_rows P m \<Longrightarrow> on_rows P m1"
  by (induction rule: market_step.induct)
    (auto simp: on_rows_def [of _ "_\<lparr>mk_world := _\<rparr>"] simp flip: on_rows_def
      intro: call_keepsD persist_keeps market_reconcile_keeps read_candles_keeps snapshot_keeps)

text \<open>C28. Whatever the provider, the cache and the clock do, every candle of the in-memory repository is stored under its own
  key and is well formed: its pair is a legal name, its values are finite, prices are positive, the volume is not negative
  and opening and closing price lie between low and high.\<close>

theorem market_rows_stay_valid:
  assumes "market_reachable env m" "js_get (mk_rows m) k = Some c"
  shows "key_of c = k \<and> candle_ok c"
proof -
  have "on_rows rows_valid m" using assms(1)
  proof (induction rule: market_reachable.induct)
    case (step m m1)
    then show ?case using market_step_keeps rows_valid_kept by blast
  qed (simp add: on_rows_def rows_valid_def)
  then show ?thesis using assms(2) by (simp add: on_rows_def rows_valid_def)
qed

text \<open>C29. A closed candle stays: no observation, correction, synchronisation, page or snapshot removes it or turns it back
  into a forming one.\<close>

theorem closed_candles_stay_closed:
  assumes "market_step env m m1" "js_get (mk_rows m) k = Some c" "c_is_closed c"
  shows "\<exists>c1. js_get (mk_rows m1) k = Some c1 \<and> c_is_closed c1"
  using market_step_keeps [OF assms(1) sealed_kept [of k]] assms(2,3) by (auto simp: on_rows_def sealed_def)

section \<open>Historical pages\<close>

definition page_rows :: "history_query \<Rightarrow> string \<times> string \<Rightarrow> candle list \<Rightarrow> candle list" where
  "page_rows q r rows = sort_by by_timestamp (closed_in (Some r) rows @ (if or_value (hq_forming q) False then forming_in (Some r) (Some r) rows else []))"

lemma start_of_first: "hq_cursor q = None \<Longrightarrow> start_of env q (Some r) limit n = Inr k \<Longrightarrow> k = 0"
  by (simp add: start_of_def)

lemma page_of_Inr:
  assumes "page_of env q tf now limit (Some r) (Some r) failed rows = Inr page"
  obtains start gaps where "gaps = missing_ranges (closed_in (Some r) rows) r tf" "hq_completeness q = Some Require_Complete \<Longrightarrow> gaps = []"
    "hq_cursor q = None \<Longrightarrow> start = 0"
    "page = \<lparr>hp_pair = hq_pair q, hp_timeframe = tf, hp_range = r, hp_candles = take limit (drop start (page_rows q r rows)), hp_complete = (gaps = []), hp_missing = gaps,
       hp_forming = list_ex (\<lambda>c. \<not> c_is_closed c) (take limit (drop start (page_rows q r rows))), hp_as_of = now,
       hp_next = (if start + limit < length (page_rows q r rows) then Some (encode_cursor env q (start + limit)) else None)\<rparr>"
proof -
  define gaps where "gaps = missing_ranges (closed_in (Some r) rows) r tf"
  note a = assms [unfolded page_of_def Let_def option.case and_then.simps, folded page_rows_def, folded gaps_def]
  from a have "hq_completeness q = Some Require_Complete \<Longrightarrow> gaps = []" by (simp add: and_then_Inr_iff reject_if_Inr_iff)
  moreover from a obtain start where s: "start_of env q (Some r) limit (length (page_rows q r rows)) = Inr start"
    and p: "page = \<lparr>hp_pair = hq_pair q, hp_timeframe = tf, hp_range = r, hp_candles = take limit (drop start (page_rows q r rows)), hp_complete = (gaps = []), hp_missing = gaps,
       hp_forming = list_ex (\<lambda>c. \<not> c_is_closed c) (take limit (drop start (page_rows q r rows))), hp_as_of = now,
       hp_next = (if start + limit < length (page_rows q r rows) then Some (encode_cursor env q (start + limit)) else None)\<rparr>"
    unfolding and_then_Inr_iff reject_if_Inr_iff sum.inject by blast
  ultimately show thesis using that [OF gaps_def _ start_of_first [OF _ s] p] by blast
qed

lemma validate_pair_Inr [simp]: "validate_pair (Some (JStr s)) = Inr p \<longleftrightarrow> p = s \<and> pair_text s"
  by (auto simp: validate_pair_def)

lemma validate_timeframe_Inr [simp]: "validate_timeframe (Some (JStr s)) = Inr t \<longleftrightarrow> timeframe_of s = Some t"
  by (simp add: validate_timeframe_def split: option.split)

lemma validate_limit_le:
  assumes "validate_limit v = Inr n"
  shows "n \<le> max_page_limit"
proof -
  consider "v = None" | x where "v = Some (JNum x)" using assms by (cases v) (auto simp: validate_limit_def split: json.splits)
  then show ?thesis
  proof cases
    case 2
    then obtain q where "x = Fin q" "\<not> nlt (num 10000) (Fin q)" "n = nat \<lfloor>q\<rfloor>"
      using assms by (cases x) (auto simp: validate_limit_def max_page_limit_def split: if_splits)
    then show ?thesis by (simp add: max_page_limit_def num_numeral) linarith
  qed (use assms in \<open>simp add: validate_limit_def default_page_limit_def max_page_limit_def\<close>)
qed

lemma same_pair [simp]: "q\<lparr>hq_pair := hq_pair q\<rparr> = q"
  by (cases q) simp

lemma check_request_Inr:
  assumes "check_request query env m = (m1, Inr (q, tf, now, limit, provider, r))" "hq_range query = Some given"
  shows "timeframe_of (hq_timeframe query) = Some tf \<and> limit \<le> max_page_limit \<and> (\<exists>x. q = query\<lparr>hq_range := Some x\<rparr> \<and> r = Some x \<and>
    validate_range (Some (JStr (fst given)), Some (JStr (snd given))) tf now = Inr x)"
  using assms unfolding check_request_def call_bind_Inr call_of_Inr call_return_Inr
  by (auto simp: asked_range_def requested_range_def and_then_Inr_iff dest: validate_limit_le)

lemma read_candles_page:
  assumes "read_candles query env m = (m1, Inr page)" "hq_range query = Some given"
  obtains tf now limit r failed rows where "timeframe_of (hq_timeframe query) = Some tf" "limit \<le> max_page_limit"
    "page_of env (query\<lparr>hq_range := Some r\<rparr>) tf now limit (Some r) (Some r) failed rows = Inr page"
    "validate_range (Some (JStr (fst given)), Some (JStr (snd given))) tf now = Inr r"
proof -
  obtain q tf now limit provider r rows failed m2 where c: "check_request query env m = (m2, Inr (q, tf, now, limit, provider, r))"
    and p: "page_of env q tf now limit (hq_range q) r failed rows = Inr page"
    using assms(1) unfolding read_candles_def call_bind_Inr by (auto simp: call_bind_Inr split: prod.splits)
  from check_request_Inr [OF c assms(2)] p that show thesis by auto
qed

interpretation candle_order: comparator_laws by_timestamp "\<lambda>_. True"
  by unfold_locales (auto simp: by_timestamp_def)

lemma page_rows_sorted: "sorted_wrt (\<lambda>a b. c_timestamp a \<le> c_timestamp b) (page_rows q r rows)"
  using candle_order.sort_by_sorted [of "closed_in (Some r) rows @ (if or_value (hq_forming q) False then forming_in (Some r) (Some r) rows else [])"]
  by (simp add: page_rows_def by_timestamp_def list_all_iff)

lemma page_rows_within: "c \<in> set (page_rows q r rows) \<Longrightarrow> within_range r c"
  by (auto simp: page_rows_def closed_in_def forming_in_def split: if_splits)

lemma sorted_take_drop: "sorted_wrt P xs \<Longrightarrow> sorted_wrt P (take n (drop k xs))"
  by (simp add: sorted_wrt_take sorted_wrt_drop)

lemma no_gaps_covered:
  assumes "missing_ranges (closed_in (Some r) rows) r tf = []" "date_parse (fst r) = Some a" "date_parse (snd r) = Some b" "a + int k * timeframe_ms tf < b"
  shows "\<exists>c\<in>set (page_rows q r rows). c_is_closed c \<and> date_parse (c_timestamp c) = Some (a + int k * timeframe_ms tf)"
proof -
  obtain spans where s: "missing_ranges (closed_in (Some r) rows) (fst r, snd r) tf = map (\<lambda>(x, y). (to_iso x, if y = b then snd r else to_iso y)) spans"
    "\<forall>k. a + int k * timeframe_ms tf < b \<longrightarrow> covers spans (a + int k * timeframe_ms tf) = (a + int k * timeframe_ms tf \<notin> set (closed_times (closed_in (Some r) rows)))"
    using gaps_of_rows [OF assms(2,3), of "closed_in (Some r) rows" tf] by blast
  then have "spans = []" using assms(1) by simp
  then have "a + int k * timeframe_ms tf \<in> set (closed_times (closed_in (Some r) rows))" using s(2) assms(4) by simp
  then show ?thesis by (auto simp: closed_times_def page_rows_def closed_in_def List.map_filter_def)
qed


section \<open>A service with one candle\<close>

definition quiet_env :: "unit market_env" where
  "quiet_env = \<lparr>me_now = (\<lambda>_. ''1970-01-01T00:05:00.000Z''), me_provider = None, me_cache = None, me_store = None, me_uuid = call_return ''id'',
     me_sha256 = (\<lambda>s. s), me_encode = (\<lambda>f n. f), me_decode = (\<lambda>_. None)\<rparr>"

definition empty_market :: "unit market" where
  "empty_market = \<lparr>mk_rows = [], mk_snapshots = [], mk_events = [], mk_world = ()\<rparr>"

definition one_observation :: observation where
  "one_observation = \<lparr>ob_candle = gap_candle, ob_source = ''HISTORICAL_SYNC''\<rparr>"

definition one_query :: history_query where
  "one_query = \<lparr>hq_pair = ''BTCUSDT'', hq_timeframe = ''1m'', hq_range = Some (''1970-01-01T00:01:00.000Z'', ''1970-01-01T00:02:00.000Z''), hq_limit = None,
     hq_cursor = None, hq_forming = None, hq_completeness = Some Require_Complete\<rparr>"

definition one_row :: "(string, candle) jsmap" where
  "one_row = [(''BTCUSDT|1m|1970-01-01T00:01:00.000Z'', gap_candle\<lparr>c_source := Some ''UNKNOWN:HISTORICAL_SYNC''\<rparr>)]"

lemma quiet_env_simps: "cache_op quiet_env f = None" "me_now quiet_env w = ''1970-01-01T00:05:00.000Z''" "me_provider quiet_env = None"
  by (simp_all add: quiet_env_def cache_op_def)

lemma one_times: "to_iso 60000 = ''1970-01-01T00:01:00.000Z''" "to_iso 120000 = ''1970-01-01T00:02:00.000Z''"
  "date_parse ''1970-01-01T00:05:00.000Z'' = Some 300000"
  by code_simp+

lemma one_pair: "pair_text ''BTCUSDT''"
  by code_simp

lemma one_ends: "ends_with ''Z'' ''1970-01-01T00:01:00.000Z''" "ends_with ''Z'' ''1970-01-01T00:02:00.000Z''"
  by code_simp+

lemma one_timestamp:
  "parse_timestamp (Some (JStr ''1970-01-01T00:01:00.000Z'')) M1 ''1970-01-01T00:05:00.000Z'' f = return ''1970-01-01T00:01:00.000Z''"
  "parse_timestamp (Some (JStr ''1970-01-01T00:02:00.000Z'')) M1 ''1970-01-01T00:05:00.000Z'' f = return ''1970-01-01T00:02:00.000Z''"
  by (simp_all add: parse_timestamp_def gap_times one_times one_ends past_def)

abbreviation sourced :: candle where
  "sourced \<equiv> gap_candle\<lparr>c_source := Some ''UNKNOWN:HISTORICAL_SYNC''\<rparr>"

lemma one_valid: "validate_market_candle sourced ''1970-01-01T00:05:00.000Z'' f = return sourced"
proof -
  have "\<not> ohlc_inconsistent sourced" by (simp add: ohlc_inconsistent_def gap_candle_def nmax_def nmin_def number_simps)
  moreover have "list_all is_finite (candle_values sourced)" by (simp add: candle_values_def gap_candle_def number_simps)
  moreover have "\<not> list_ex (\<lambda>v. nle v (num 0)) [c_open sourced, c_high sourced, c_low sourced, c_close sourced]" "\<not> nlt (c_volume sourced) (num 0)"
    by (simp_all add: gap_candle_def number_simps)
  moreover have "c_pair sourced = ''BTCUSDT''" "c_timestamp sourced = ''1970-01-01T00:01:00.000Z''" "c_timeframe sourced = M1" by (simp_all add: gap_candle_def)
  moreover have "sourced\<lparr>c_pair := ''BTCUSDT'', c_timestamp := ''1970-01-01T00:01:00.000Z''\<rparr> = sourced" by (simp add: gap_candle_def)
  ultimately show ?thesis by (simp add: validate_market_candle_def validate_pair_def one_pair one_timestamp del: pair_text.simps)
qed

lemma one_persisted: "fst (persist_observation one_observation quiet_env empty_market) = empty_market\<lparr>mk_rows := one_row\<rparr>"
proof -
  have "ob_candle one_observation\<lparr>c_source := Some (source_of quiet_env (ob_source one_observation))\<rparr> = sourced"
    by (simp add: one_observation_def source_of_def quiet_env_def)
  then show ?thesis
    by (simp add: persist_observation_def call_bind_def time_of_def call_of_def one_valid row_at_def stored_rows_def empty_market_def js_values_def Let_def quiet_env_simps
      js_get_def put_candle_def upsert_candle_def refresh_candle_cache_def call_return_def js_set_def one_row_def key_of_def candle_key_def)
     (simp add: gap_candle_def)
qed

lemma one_read: "read_rows ''BTCUSDT'' M1 quiet_env (empty_market\<lparr>mk_rows := one_row\<rparr>) = (empty_market\<lparr>mk_rows := one_row\<rparr>, return [sourced])"
proof -
  have "stored_rows ''BTCUSDT'' M1 (empty_market\<lparr>mk_rows := one_row\<rparr>) = [sourced]"
    by (simp add: stored_rows_def one_row_def js_values_def) (simp add: gap_candle_def)
  then show ?thesis by (simp add: read_rows_def quiet_env_def one_valid)
qed

lemma one_page: "\<exists>page. read_candles one_query quiet_env (empty_market\<lparr>mk_rows := one_row\<rparr>) = (empty_market\<lparr>mk_rows := one_row\<rparr>, Inr page) \<and>
    hp_complete page \<and> hp_next page = None \<and> hp_range page = (''1970-01-01T00:01:00.000Z'', ''1970-01-01T00:02:00.000Z'') \<and> hp_timeframe page = M1"
proof -
  let ?r = "(''1970-01-01T00:01:00.000Z'', ''1970-01-01T00:02:00.000Z'')"
  let ?m = "empty_market\<lparr>mk_rows := one_row\<rparr>"
  have tf: "timeframe_of ''1m'' = Some M1" by code_simp
  note env = quiet_env_simps
  have "check_request one_query quiet_env ?m = (?m, return (one_query, M1, ''1970-01-01T00:05:00.000Z'', 1000, None, Some ?r))"
    by (simp add: check_request_def call_bind_def call_of_def validate_pair_def validate_timeframe_def one_pair tf time_of_def env asked_range_def
      validate_range_def one_timestamp gap_times validate_limit_def default_page_limit_def decode_cursor_def validate_provider_def requested_range_def
      call_return_def one_query_def del: pair_text.simps)
  moreover have "history_rows one_query M1 ''1970-01-01T00:05:00.000Z'' None (Some ?r) quiet_env ?m = (?m, return ([sourced], False))"
    by (simp add: history_rows_def read_cached_window_def env call_bind_def call_return_def synced_rows_def one_read refresh_candle_cache_def one_query_def)
  moreover have "closed_in (Some ?r) [sourced] = [sourced]"
    by (simp add: closed_in_def within_range_def gap_candle_def)
  moreover have "missing_ranges [sourced] ?r M1 = []"
    by (simp add: missing_ranges_def gap_times closed_times_def gap_candle_def gap_loop.simps List.map_filter_simps)
  ultimately show ?thesis
    by (simp add: read_candles_def call_bind_def call_of_def page_of_def Let_def start_of_def one_query_def or_value_def)
qed

lemma one_reachable: "market_reachable quiet_env (empty_market\<lparr>mk_rows := one_row\<rparr>)"
  using market_reachable.step [OF market_reachable.initial market_step.observed, of quiet_env one_observation "()"]
  unfolding empty_market_def [symmetric] one_persisted .

lemma one_stored: "js_get (mk_rows (empty_market\<lparr>mk_rows := one_row\<rparr>)) ''BTCUSDT|1m|1970-01-01T00:01:00.000Z'' = Some sourced"
  by (simp add: one_row_def js_get_def)

lemma market_rows_stay_valid_witness: "key_of sourced = ''BTCUSDT|1m|1970-01-01T00:01:00.000Z'' \<and> candle_ok sourced"
  by (rule market_rows_stay_valid [OF one_reachable one_stored])

lemma closed_candles_stay_closed_witness:
  "\<exists>c1. js_get (mk_rows (fst (persist_observation (one_observation\<lparr>ob_source := ''REALTIME_STREAM''\<rparr>) quiet_env (empty_market\<lparr>mk_rows := one_row\<rparr>))))
     ''BTCUSDT|1m|1970-01-01T00:01:00.000Z'' = Some c1 \<and> c_is_closed c1"
  by (rule closed_candles_stay_closed [OF market_step.observed one_stored]) (simp add: gap_candle_def)


end
