(* ===== verification/MarketStream.thy ===== *)
theory MarketStream
  imports MarketRules
begin

text \<open>
  The subscription manager (\<^verbatim>\<open>modules/market-data/application/subscription-manager.ts\<close>): one upstream
  connection for the union of the wanted subscriptions, with bounded reconnects. Every \<^verbatim>\<open>await\<close> of the
  code is a task of the state, so that the steps interleave the way the event loop may interleave them:
  calls, promises that resolve or reject, callbacks of the provider and the reconnect timer.
  Connections are named by numbers; closing one is noted.
\<close>

section \<open>State\<close>

type_synonym subscription = "string \<times> timeframe"

datatype stream_status = CONNECTED | RECONNECTING | DISCONNECTED

datatype task =
    Set_Closing nat
  | Stop_Closing
  | Opening nat bool
  | Ready_Wait nat bool
  | Finishing nat

record stream_options =
  so_base :: number
  so_maximum :: number
  so_max_attempts :: nat
  so_jitter :: "number \<Rightarrow> nat \<Rightarrow> number option"

record stream =
  st_desired :: "subscription list"
  st_connection :: "nat option"
  st_timer :: "(nat \<times> number) option"
  st_generation :: nat
  st_attempt :: nat
  st_stopped :: bool
  st_tasks :: "task list"
  st_statuses :: "(stream_status \<times> bool) list"
  st_closed :: "nat list"

definition new_stream :: stream where
  "new_stream = \<lparr>st_desired = [], st_connection = None, st_timer = None, st_generation = 0, st_attempt = 0, st_stopped = False,
     st_tasks = [], st_statuses = [], st_closed = []\<rparr>"

text \<open>A status with the flag of a failure report.\<close>

definition report :: "stream_status \<Rightarrow> bool \<Rightarrow> stream \<Rightarrow> stream" where
  "report x failure s = s\<lparr>st_statuses := st_statuses s @ [(x, failure)]\<rparr>"

definition add_task :: "task \<Rightarrow> stream \<Rightarrow> stream" where
  "add_task t s = s\<lparr>st_tasks := st_tasks s @ [t]\<rparr>"

definition end_task :: "task \<Rightarrow> stream \<Rightarrow> stream" where
  "end_task t s = s\<lparr>st_tasks := remove1 t (st_tasks s)\<rparr>"

text \<open>The guard every continuation repeats after an await.\<close>

definition outdated :: "nat \<Rightarrow> stream \<Rightarrow> bool" where
  "outdated g s = (g \<noteq> st_generation s \<or> st_stopped s \<or> st_desired s = [])"

section \<open>Operations\<close>

definition subscription_key :: "subscription \<Rightarrow> string" where
  "subscription_key s = fst s @ ''|'' @ timeframe_text (snd s)"

definition normalize_subscriptions :: "subscription list \<Rightarrow> subscription list" where
  "normalize_subscriptions ss = sort_by (\<lambda>a b. locale_compare (subscription_key a) (subscription_key b))
     (js_values (foldl (\<lambda>m s. js_set (subscription_key s) s m) [] ss))"

definition reconnect_delay :: "stream_options \<Rightarrow> nat \<Rightarrow> number" where
  "reconnect_delay o1 attempt = (let base = nmin (so_maximum o1) (nmul (so_base o1) (num (2 ^ min attempt 10))) in
     nmax (num 0) (nmin (so_maximum o1) (case so_jitter o1 base (attempt + 1) of None \<Rightarrow> base | Some d \<Rightarrow> d)))"

definition schedule_reconnect :: "stream_options \<Rightarrow> nat \<Rightarrow> stream \<Rightarrow> stream" where
  "schedule_reconnect o1 g s = (if st_timer s \<noteq> None \<or> outdated g s then s
     else if st_attempt s \<ge> so_max_attempts o1 then report DISCONNECTED True s
     else s\<lparr>st_attempt := st_attempt s + 1, st_timer := Some (g, reconnect_delay o1 (st_attempt s))\<rparr>)"

definition connect :: "nat \<Rightarrow> stream \<Rightarrow> stream" where
  "connect g s = (if outdated g s then s else add_task (Opening g False) (report RECONNECTING False s))"

definition finish_connection :: "nat \<Rightarrow> stream \<Rightarrow> stream" where
  "finish_connection g s = (if outdated g s then s else add_task (Finishing g) s)"

text \<open>\<^verbatim>\<open>markConnected\<close>: whether this connection's readiness has started, and the state.\<close>

definition mark_connected :: "nat \<Rightarrow> bool \<Rightarrow> stream \<Rightarrow> bool \<times> stream" where
  "mark_connected g ready s = (if ready \<or> g \<noteq> st_generation s \<or> st_stopped s then (ready, s) else (True, finish_connection g s))"

definition set_subscriptions :: "subscription list \<Rightarrow> stream \<Rightarrow> stream" where
  "set_subscriptions ss s = (let next = normalize_subscriptions ss in
     if st_stopped s \<or> next = st_desired s \<and> (next = [] \<or> st_connection s \<noteq> None \<or> st_timer s \<noteq> None) then s
     else add_task (Set_Closing (st_generation s + 1)) (s\<lparr>st_desired := next, st_generation := st_generation s + 1, st_timer := None,
       st_connection := None, st_closed := st_closed s @ (case st_connection s of None \<Rightarrow> [] | Some c \<Rightarrow> [c])\<rparr>))"

definition subscriptions_closed :: "nat \<Rightarrow> stream \<Rightarrow> stream" where
  "subscriptions_closed g s = (if g \<noteq> st_generation s \<or> st_stopped s then s
     else if st_desired s = [] then report DISCONNECTED False (s\<lparr>st_attempt := 0\<rparr>) else connect g (s\<lparr>st_attempt := 0\<rparr>))"

definition stop_stream :: "stream \<Rightarrow> stream" where
  "stop_stream s = (if st_stopped s then s
     else add_task Stop_Closing (s\<lparr>st_stopped := True, st_generation := st_generation s + 1, st_timer := None, st_connection := None,
       st_closed := st_closed s @ (case st_connection s of None \<Rightarrow> [] | Some c \<Rightarrow> [c])\<rparr>))"

text \<open>\<^verbatim>\<open>connectRealtime\<close> resolved with connection \<open>c\<close>, which may offer a promise of its readiness.\<close>

definition connection_opened :: "nat \<Rightarrow> bool \<Rightarrow> nat \<Rightarrow> bool \<Rightarrow> stream \<Rightarrow> stream" where
  "connection_opened g ready c offers s = (if outdated g s then s\<lparr>st_closed := st_closed s @ [c]\<rparr>
     else if \<not> ready \<and> offers then add_task (Ready_Wait g ready) (s\<lparr>st_connection := Some c\<rparr>)
     else snd (mark_connected g ready (s\<lparr>st_connection := Some c\<rparr>)))"

text \<open>\<^verbatim>\<open>connectRealtime\<close> or the readiness promise rejected.\<close>

definition connection_failed :: "stream_options \<Rightarrow> nat \<Rightarrow> stream \<Rightarrow> stream" where
  "connection_failed o1 g s = (let s1 = s\<lparr>st_connection := None\<rparr> in if outdated g s1 then s1 else schedule_reconnect o1 g (report DISCONNECTED True s1))"

definition reconciled :: "nat \<Rightarrow> stream \<Rightarrow> stream" where
  "reconciled g s = (if outdated g s then s else report CONNECTED False (s\<lparr>st_attempt := 0\<rparr>))"

definition reconciliation_failed :: "stream_options \<Rightarrow> nat \<Rightarrow> stream \<Rightarrow> stream" where
  "reconciliation_failed o1 g s = (if outdated g s then s else schedule_reconnect o1 g (report RECONNECTING True s))"

definition handle_disconnect :: "stream_options \<Rightarrow> nat \<Rightarrow> bool \<Rightarrow> stream \<Rightarrow> stream" where
  "handle_disconnect o1 g failure s = (if outdated g s then s
     else schedule_reconnect o1 (st_generation s + 1) (report RECONNECTING failure (s\<lparr>st_generation := st_generation s + 1, st_connection := None\<rparr>)))"

definition timer_fired :: "nat \<Rightarrow> stream \<Rightarrow> stream" where
  "timer_fired g s = connect g (s\<lparr>st_timer := None\<rparr>)"

section \<open>Steps\<close>

text \<open>Events of the provider and the event loop, apart from the end of a reconciliation.\<close>

inductive upstream_event :: "stream_options \<Rightarrow> stream \<Rightarrow> stream \<Rightarrow> bool" for o1 where
  set_closed: "Set_Closing g \<in> set (st_tasks s) \<Longrightarrow> upstream_event o1 s (subscriptions_closed g (end_task (Set_Closing g) s))"
| set_close_failed: "Set_Closing g \<in> set (st_tasks s) \<Longrightarrow> upstream_event o1 s (end_task (Set_Closing g) s)"
| stop_closed: "Stop_Closing \<in> set (st_tasks s) \<Longrightarrow> upstream_event o1 s (report DISCONNECTED False ((end_task Stop_Closing s)\<lparr>st_desired := []\<rparr>))"
| stop_close_failed: "Stop_Closing \<in> set (st_tasks s) \<Longrightarrow> upstream_event o1 s (end_task Stop_Closing s)"
| opened: "Opening g r \<in> set (st_tasks s) \<Longrightarrow> upstream_event o1 s (connection_opened g r c offers (end_task (Opening g r) s))"
| open_failed: "Opening g r \<in> set (st_tasks s) \<Longrightarrow> upstream_event o1 s (connection_failed o1 g (end_task (Opening g r) s))"
| early_connect: "Opening g r \<in> set (st_tasks s) \<Longrightarrow> mark_connected g r (end_task (Opening g r) s) = (r1, s1) \<Longrightarrow> upstream_event o1 s (add_task (Opening g r1) s1)"
| late_connect: "Ready_Wait g r \<in> set (st_tasks s) \<Longrightarrow> mark_connected g r (end_task (Ready_Wait g r) s) = (r1, s1) \<Longrightarrow> upstream_event o1 s (add_task (Ready_Wait g r1) s1)"
| ready: "Ready_Wait g r \<in> set (st_tasks s) \<Longrightarrow> upstream_event o1 s (snd (mark_connected g r (end_task (Ready_Wait g r) s)))"
| ready_failed: "Ready_Wait g r \<in> set (st_tasks s) \<Longrightarrow> upstream_event o1 s (connection_failed o1 g (end_task (Ready_Wait g r) s))"
| disconnected: "upstream_event o1 s (handle_disconnect o1 g failure s)"
| fired: "st_timer s = Some (g, d) \<Longrightarrow> upstream_event o1 s (timer_fired g s)"

inductive stream_step :: "stream_options \<Rightarrow> stream \<Rightarrow> stream \<Rightarrow> bool" for o1 where
  subscribe: "stream_step o1 s (set_subscriptions ss s)"
| stop: "stream_step o1 s (stop_stream s)"
| event: "upstream_event o1 s s1 \<Longrightarrow> stream_step o1 s s1"
| reconciled: "Finishing g \<in> set (st_tasks s) \<Longrightarrow> stream_step o1 s (reconciled g (end_task (Finishing g) s))"
| reconcile_failed: "Finishing g \<in> set (st_tasks s) \<Longrightarrow> stream_step o1 s (reconciliation_failed o1 g (end_task (Finishing g) s))"

inductive stream_reachable :: "stream_options \<Rightarrow> stream \<Rightarrow> bool" for o1 where
  initial: "stream_reachable o1 new_stream"
| step: "stream_reachable o1 s \<Longrightarrow> stream_step o1 s s1 \<Longrightarrow> stream_reachable o1 s1"

section \<open>What always holds\<close>

definition stream_ok :: "stream_options \<Rightarrow> stream \<Rightarrow> bool" where
  "stream_ok o1 s = (st_attempt s \<le> so_max_attempts o1 \<and> (st_stopped s \<longrightarrow> st_connection s = None \<and> st_timer s = None) \<and>
     (\<forall>g d. st_timer s = Some (g, d) \<longrightarrow> nle (num 0) d \<and> nle d (so_maximum o1)))"

named_theorems stream_rules

lemma report_ok [stream_rules]: "stream_ok o1 (report x f s) = stream_ok o1 s"
  by (simp add: stream_ok_def report_def)

lemma task_ok [stream_rules]: "stream_ok o1 (add_task t s) = stream_ok o1 s" "stream_ok o1 (end_task t s) = stream_ok o1 s"
  by (simp_all add: stream_ok_def add_task_def end_task_def)

lemma fields_ok [stream_rules]: "stream_ok o1 (s\<lparr>st_desired := d\<rparr>) = stream_ok o1 s" "stream_ok o1 (s\<lparr>st_generation := g\<rparr>) = stream_ok o1 s"
  "stream_ok o1 (s\<lparr>st_closed := cs\<rparr>) = stream_ok o1 s"
  by (simp_all add: stream_ok_def)

lemma attempt_ok: "stream_ok o1 s \<Longrightarrow> stream_ok o1 (s\<lparr>st_attempt := 0\<rparr>)"
  by (simp add: stream_ok_def)

lemma cut_ok: "stream_ok o1 s \<Longrightarrow> stream_ok o1 (s\<lparr>st_connection := None\<rparr>)" "stream_ok o1 s \<Longrightarrow> stream_ok o1 (s\<lparr>st_timer := None\<rparr>)"
  by (simp_all add: stream_ok_def)

lemma connect_ok: "stream_ok o1 s \<Longrightarrow> stream_ok o1 (connect g s)"
  by (simp add: connect_def stream_rules)

lemma finish_ok: "stream_ok o1 s \<Longrightarrow> stream_ok o1 (finish_connection g s)"
  by (simp add: finish_connection_def stream_rules)

lemma mark_ok: "stream_ok o1 s \<Longrightarrow> mark_connected g r s = (r1, s1) \<Longrightarrow> stream_ok o1 s1"
  by (auto simp: mark_connected_def finish_ok split: if_splits)

lemma mark_snd_ok: "stream_ok o1 s \<Longrightarrow> stream_ok o1 (snd (mark_connected g r s))"
  by (auto simp: mark_connected_def finish_ok)

definition options_sound :: "stream_options \<Rightarrow> bool" where
  "options_sound o1 = (is_finite (so_base o1) \<and> is_finite (so_maximum o1) \<and> nle (num 0) (so_maximum o1) \<and> (\<forall>b a. so_jitter o1 b a \<noteq> Some NaN))"

lemma delay_bounds:
  assumes "options_sound o1"
  shows "nle (num 0) (reconnect_delay o1 k) \<and> nle (reconnect_delay o1 k) (so_maximum o1)"
proof -
  obtain M where M: "so_maximum o1 = Fin M" "0 \<le> M" using assms by (cases "so_maximum o1") (auto simp: options_sound_def num_0)
  obtain b where b: "so_base o1 = Fin b" using assms by (cases "so_base o1") (auto simp: options_sound_def)
  define base where "base = nmin (so_maximum o1) (nmul (so_base o1) (num (2 ^ min k 10)))"
  define d where "d = (case so_jitter o1 base (k + 1) of None \<Rightarrow> base | Some d \<Rightarrow> d)"
  have "nmul (so_base o1) (num (2 ^ min k 10)) \<noteq> NaN"
  proof -
    have "(2::int) ^ min k 10 \<le> 2 ^ 10" by (rule power_increasing) simp_all
    then have "\<bar>(2::int) ^ min k 10\<bar> \<le> 2 ^ 53" by simp
    then show ?thesis using num_exact [of "2 ^ min k 10"] by (simp add: b)
  qed
  then have "base \<noteq> NaN" by (auto simp: base_def nmin_def M)
  then have "d \<noteq> NaN" using assms by (auto simp: d_def options_sound_def split: option.split)
  then have "nle (num 0) (nmax (num 0) (nmin (so_maximum o1) d)) \<and> nle (nmax (num 0) (nmin (so_maximum o1) d)) (so_maximum o1)"
    unfolding M num_0 using M(2) by (cases d) (auto simp: nmax_def nmin_def)
  then show ?thesis by (simp only: reconnect_delay_def Let_def base_def d_def)
qed

lemma schedule_ok: "options_sound o1 \<Longrightarrow> stream_ok o1 s \<Longrightarrow> stream_ok o1 (schedule_reconnect o1 g s)"
  using delay_bounds by (auto simp: schedule_reconnect_def stream_rules) (simp add: stream_ok_def outdated_def)

lemma upstream_event_ok: "upstream_event o1 s s1 \<Longrightarrow> options_sound o1 \<Longrightarrow> stream_ok o1 s \<Longrightarrow> stream_ok o1 s1"
proof (induction rule: upstream_event.induct)
  case (opened g r s c offers)
  let ?s = "end_task (Opening g r) s"
  have e: "stream_ok o1 ?s" using opened by (simp add: stream_rules)
  show ?case
  proof (cases "outdated g ?s")
    case False
    then have "\<not> st_stopped ?s" by (simp add: outdated_def)
    then have k: "stream_ok o1 (?s\<lparr>st_connection := Some c\<rparr>)" using e by (simp add: stream_ok_def)
    then have "stream_ok o1 (snd (mark_connected g r (?s\<lparr>st_connection := Some c\<rparr>)))"
      using mark_ok [OF k, of g r] by (cases "mark_connected g r (?s\<lparr>st_connection := Some c\<rparr>)") simp
    then show ?thesis using False k by (cases r) (simp_all add: connection_opened_def stream_rules)
  qed (use e in \<open>simp add: connection_opened_def stream_rules\<close>)
next
  case (early_connect g r s r1 s1)
  then show ?case using mark_ok [of o1 "end_task (Opening g r) s" g r r1 s1] by (simp add: stream_rules)
next
  case (late_connect g r s r1 s1)
  then show ?case using mark_ok [of o1 "end_task (Ready_Wait g r) s" g r r1 s1] by (simp add: stream_rules)
qed (auto simp: stream_rules subscriptions_closed_def connection_failed_def handle_disconnect_def timer_fired_def Let_def
    intro!: attempt_ok cut_ok connect_ok schedule_ok mark_snd_ok)

lemma stream_step_ok: "stream_step o1 s s1 \<Longrightarrow> options_sound o1 \<Longrightarrow> stream_ok o1 s \<Longrightarrow> stream_ok o1 s1"
proof (induction rule: stream_step.induct)
  case (stop s)
  then show ?case by (simp add: stop_stream_def stream_ok_def add_task_def)
next
  case (event s s1)
  then show ?case by (rule upstream_event_ok)
qed (auto simp: stream_rules set_subscriptions_def reconciled_def reconciliation_failed_def Let_def intro!: attempt_ok cut_ok schedule_ok)

text \<open>C32. With sound options (finite delays, a jitter that is a number) the subscription manager never exceeds its number of
  reconnect attempts, never waits longer than its maximal delay or a negative time, and once stopped it holds no
  connection and no timer, in whatever order promises, callbacks and calls arrive.\<close>

theorem stream_stays_bounded:
  assumes "options_sound o1" "stream_reachable o1 s"
  shows "st_attempt s \<le> so_max_attempts o1 \<and> (st_stopped s \<longrightarrow> st_connection s = None \<and> st_timer s = None) \<and>
    (\<forall>g d. st_timer s = Some (g, d) \<longrightarrow> nle (num 0) d \<and> nle d (so_maximum o1))"
proof -
  have "stream_ok o1 s" using assms(2)
  proof (induction rule: stream_reachable.induct)
    case (step s s1)
    then show ?case using stream_step_ok assms(1) by blast
  qed (simp add: stream_ok_def new_stream_def)
  then show ?thesis by (simp add: stream_ok_def)
qed

section \<open>Two traces of the defaults\<close>

definition default_options :: stream_options where
  "default_options = \<lparr>so_base = num 500, so_maximum = num 30000, so_max_attempts = 8, so_jitter = (\<lambda>_ _. None)\<rparr>"

lemma default_sound: "options_sound default_options"
  by (simp add: options_sound_def default_options_def number_simps)

text \<open>Subscribed, connected to upstream 7, and the reconciliation after connecting failed: the reconnect timer runs
  while the connection stays.\<close>

definition failing_stream :: stream where
  "failing_stream = \<lparr>st_desired = [(''BTCUSDT'', M1)], st_connection = Some 7, st_timer = Some (1, reconnect_delay default_options 0), st_generation = 1,
     st_attempt = 1, st_stopped = False, st_tasks = [], st_statuses = [(RECONNECTING, False), (RECONNECTING, True)], st_closed = []\<rparr>"

lemmas stream_defs = set_subscriptions_def subscriptions_closed_def connect_def connection_opened_def mark_connected_def finish_connection_def
  reconciliation_failed_def schedule_reconnect_def handle_disconnect_def timer_fired_def outdated_def report_def add_task_def end_task_def

lemma normalize_one: "normalize_subscriptions [s] = [s]"
  by (simp add: normalize_subscriptions_def js_set_def js_values_def)

lemma flaky_reachable: "stream_reachable default_options failing_stream"
proof -
  let ?s1 = "set_subscriptions [(''BTCUSDT'', M1)] new_stream"
  have 1: "stream_reachable default_options ?s1" by (rule stream_reachable.step [OF stream_reachable.initial stream_step.subscribe])
  let ?s2 = "subscriptions_closed 1 (end_task (Set_Closing 1) ?s1)"
  have 2: "stream_reachable default_options ?s2"
    by (rule stream_reachable.step [OF 1 stream_step.event [OF upstream_event.set_closed]]) (simp add: set_subscriptions_def normalize_one new_stream_def add_task_def)
  let ?s3 = "connection_opened 1 False 7 False (end_task (Opening 1 False) ?s2)"
  have 3: "stream_reachable default_options ?s3"
    by (rule stream_reachable.step [OF 2 stream_step.event [OF upstream_event.opened]]) (simp add: stream_defs normalize_one new_stream_def)
  have 4: "stream_reachable default_options (reconciliation_failed default_options 1 (end_task (Finishing 1) ?s3))"
    by (rule stream_reachable.step [OF 3 stream_step.reconcile_failed]) (simp add: stream_defs normalize_one new_stream_def)
  moreover have "so_max_attempts default_options = 8" by (simp add: default_options_def)
  then have "reconciliation_failed default_options 1 (end_task (Finishing 1) ?s3) = failing_stream"
    by (simp add: stream_defs normalize_one new_stream_def failing_stream_def)
  ultimately show ?thesis by simp
qed

lemma stream_stays_bounded_witness: "st_attempt failing_stream \<le> 8 \<and> nle (reconnect_delay default_options 0) (num 30000)"
  using stream_stays_bounded [OF default_sound flaky_reachable] by (simp add: failing_stream_def default_options_def)

text \<open>When the reconciliation of a fresh connection fails and the connection then drops before the reconnect timer
  fires, the manager is stuck: it still wants its subscriptions, but has no connection, no timer and nothing pending
  that would ever reconnect.\<close>

lemma reconnect_can_be_lost:
  "\<exists>s. stream_reachable default_options s \<and> st_desired s \<noteq> [] \<and> \<not> st_stopped s \<and> st_connection s = None \<and> st_timer s = None \<and> st_tasks s = []"
proof -
  let ?s1 = "handle_disconnect default_options 1 True failing_stream"
  have 1: "stream_reachable default_options ?s1" by (rule stream_reachable.step [OF flaky_reachable stream_step.event [OF upstream_event.disconnected]])
  have t: "st_timer ?s1 = Some (1, reconnect_delay default_options 0)" by (simp add: stream_defs failing_stream_def)
  have "stream_reachable default_options (timer_fired 1 ?s1)" by (rule stream_reachable.step [OF 1 stream_step.event [OF upstream_event.fired [OF t]]])
  moreover have "st_desired (timer_fired 1 ?s1) \<noteq> []" "\<not> st_stopped (timer_fired 1 ?s1)" "st_connection (timer_fired 1 ?s1) = None"
    "st_timer (timer_fired 1 ?s1) = None" "st_tasks (timer_fired 1 ?s1) = []" by (simp_all add: stream_defs failing_stream_def)
  ultimately show ?thesis by blast
qed

text \<open>Without the drop the timer opens a second connection, and the first one is never closed.\<close>

lemma connection_can_leak:
  "\<exists>s. stream_reachable default_options s \<and> st_connection s = Some 8 \<and> 7 \<notin> set (st_closed s) \<and> stream_reachable default_options failing_stream \<and> st_connection failing_stream = Some 7"
proof -
  let ?s1 = "timer_fired 1 failing_stream"
  have 1: "stream_reachable default_options ?s1"
    by (rule stream_reachable.step [OF flaky_reachable stream_step.event [OF upstream_event.fired]]) (simp add: failing_stream_def)
  have "stream_reachable default_options (connection_opened 1 False 8 False (end_task (Opening 1 False) ?s1))"
    by (rule stream_reachable.step [OF 1 stream_step.event [OF upstream_event.opened]]) (simp add: stream_defs failing_stream_def)
  moreover have "st_connection (connection_opened 1 False 8 False (end_task (Opening 1 False) ?s1)) = Some 8"
    "st_closed (connection_opened 1 False 8 False (end_task (Opening 1 False) ?s1)) = []" by (simp_all add: stream_defs failing_stream_def)
  ultimately show ?thesis using flaky_reachable by (intro exI) (auto simp: failing_stream_def)
qed

end
