(* ===== verification/MarketRealtime.thy ===== *)
theory MarketRealtime
  imports MarketProtocol MarketStream
begin

text \<open>
  The realtime side of \<^verbatim>\<open>modules/market-data/application/service.ts\<close>: subscribers, delivery of ticks,
  candles and status changes. Sinks and the cache of ticks and statuses belong to the world; a sink
  that throws is noted and the others still hear the update.
\<close>

record connection_status =
  cs_provider :: string
  cs_state :: stream_status
  cs_last_event :: string
  cs_error :: "string option"

datatype update = Tick_Update market_tick | Candle_Update candle | Status_Update connection_status

record 'w realtime =
  rt_market :: "'w market"
  rt_subscribers :: "(nat, string list) jsmap"
  rt_sequence :: nat
  rt_status :: connection_status
  rt_stopped :: bool

record 'w realtime_env =
  re_market :: "'w market_env"
  re_sink :: "nat \<Rightarrow> update \<Rightarrow> ('w, unit) call"
  re_put_tick :: "(string \<Rightarrow> string \<Rightarrow> market_tick \<Rightarrow> ('w, unit) call) option"
  re_put_status :: "(string \<Rightarrow> connection_status \<Rightarrow> ('w, unit) call) option"

definition in_market :: "('w market, 'a) call \<Rightarrow> ('w realtime, 'a) call" where
  "in_market f m = (case f (rt_market m) of (x, r) \<Rightarrow> (m\<lparr>rt_market := x\<rparr>, r))"

definition deliver :: "'w realtime_env \<Rightarrow> update \<Rightarrow> nat \<Rightarrow> ('w realtime, unit) call" where
  "deliver env u i = call_try (in_market (in_world (re_sink env i u))) (\<lambda>_. in_market (note_event ''market_data.sink_error''))"

definition broadcast :: "'w realtime_env \<Rightarrow> update \<Rightarrow> ('w realtime, unit) call" where
  "broadcast env u m = call_each (deliver env u) (map fst (rt_subscribers m)) m"

definition tick_cache_key :: "string \<Rightarrow> string" where
  "tick_cache_key pair = ''ticks:latest:'' @ pair"

definition status_cache_key :: "string \<Rightarrow> string" where
  "status_cache_key provider = ''connection:status:'' @ provider"

definition write_status_cache :: "'w realtime_env \<Rightarrow> connection_status \<Rightarrow> ('w realtime, unit) call" where
  "write_status_cache env s = (case re_put_status env of None \<Rightarrow> call_return ()
     | Some put \<Rightarrow> call_try (in_market (in_world (put (status_cache_key (cs_provider s)) s))) (\<lambda>_. in_market (note_event ''market_data.cache_write_error'')))"

definition now_of :: "'w realtime_env \<Rightarrow> 'w realtime \<Rightarrow> string" where
  "now_of env m = me_now (re_market env) (mk_world (rt_market m))"

definition set_status :: "'w realtime_env \<Rightarrow> string \<Rightarrow> stream_status \<Rightarrow> string option \<Rightarrow> ('w realtime, unit) call" where
  "set_status env provider s e m = (let x = \<lparr>cs_provider = provider, cs_state = s, cs_last_event = now_of env m, cs_error = e\<rparr> in
     call_bind (write_status_cache env x) (\<lambda>_. broadcast env (Status_Update x)) (m\<lparr>rt_status := x\<rparr>))"

definition checked_tick :: "string \<Rightarrow> market_tick \<Rightarrow> market_tick result" where
  "checked_tick now t = and_then (validate_pair (Some (JStr (tick_pair t)))) (\<lambda>pair. case date_parse (tick_timestamp t) of
     None \<Rightarrow> throw ''invalid future tick''
   | Some x \<Rightarrow> and_then (reject_if (\<not> ends_with ''Z'' (tick_timestamp t) \<or> (case date_parse now of None \<Rightarrow> False | Some n \<Rightarrow> x > n + max_skew)) ''invalid future tick'') (\<lambda>_.
       and_then (reject_if (\<not> is_finite (tick_price t) \<or> nle (tick_price t) (num 0)) ''invalid tick price'') (\<lambda>_.
       and_then (reject_if (\<not> is_finite (tick_quantity t) \<or> nle (tick_quantity t) (num 0)) ''invalid tick quantity'') (\<lambda>_.
         return (t\<lparr>tick_pair := pair, tick_timestamp := to_iso x\<rparr>)))))"

definition handle_tick :: "'w realtime_env \<Rightarrow> market_tick \<Rightarrow> ('w realtime, unit) call" where
  "handle_tick env t m = (case checked_tick (now_of env m) t of
     Inl _ \<Rightarrow> in_market (note_event ''market_data.invalid_tick'') m
   | Inr x \<Rightarrow> call_bind (case re_put_tick env of None \<Rightarrow> call_return ()
         | Some put \<Rightarrow> call_try (in_market (in_world (put (tick_cache_key (tick_pair x)) (now_of env m) x))) (\<lambda>_. in_market (note_event ''market_data.cache_write_error'')))
       (\<lambda>_. broadcast env (Tick_Update x)) m)"

definition handle_candle :: "'w realtime_env \<Rightarrow> observation \<Rightarrow> ('w realtime, unit) call" where
  "handle_candle env ob = call_try (call_bind (in_market (persist_observation ob (re_market env))) (\<lambda>c. case c of None \<Rightarrow> call_return ()
     | Some x \<Rightarrow> broadcast env (Candle_Update x))) (\<lambda>_. in_market (note_event ''market_data.invalid_candle''))"

definition checked_subscription :: "string \<times> string \<Rightarrow> subscription result" where
  "checked_subscription s = and_then (validate_pair (Some (JStr (fst s)))) (\<lambda>pair. and_then (validate_timeframe (Some (JStr (snd s)))) (\<lambda>tf. return (pair, tf)))"

text \<open>Subscribing up to the reconciliation of the upstream connection: what may be asked for, which waits for the
  provider, and the entry of the subscriber, whose number is the answer.\<close>

definition admit_subscriptions :: "'w realtime_env \<Rightarrow> (string \<times> string) list \<Rightarrow> ('w realtime, subscription list) call" where
  "admit_subscriptions env ss m = (if rt_stopped m then (m, throw ''SUBSCRIPTION_REJECTED'')
     else call_bind (call_of (map_results checked_subscription ss)) (\<lambda>valid.
       call_bind (call_each (\<lambda>s. call_bind (in_market (validate_provider (fst s) (snd s) (re_market env))) (\<lambda>_. call_return ())) valid)
         (\<lambda>_. call_return valid)) m)"

definition enter_subscriber :: "'w realtime_env \<Rightarrow> subscription list \<Rightarrow> ('w realtime, nat) call" where
  "enter_subscriber env valid m = (let i = rt_sequence m + 1 in
     call_bind (deliver env (Status_Update (rt_status m)) i) (\<lambda>_. call_return i)
       (m\<lparr>rt_sequence := i, rt_subscribers := js_set i (uniq (map subscription_key valid)) (rt_subscribers m)\<rparr>))"

definition remove_subscriber :: "nat \<Rightarrow> 'w realtime \<Rightarrow> 'w realtime" where
  "remove_subscriber i m = m\<lparr>rt_subscribers := js_delete i (rt_subscribers m)\<rparr>"

text \<open>The union of the wanted subscriptions, by key.\<close>

definition key_parts :: "string \<Rightarrow> string \<times> string" where
  "key_parts k = (before_char CHR ''|'' k, or_value (second_part CHR ''|'' k) ''undefined'')"

definition union_subscriptions :: "'w realtime \<Rightarrow> (string \<times> string) list" where
  "union_subscriptions m = sort_by (\<lambda>a b. locale_compare (fst a @ ''|'' @ snd a) (fst b @ ''|'' @ snd b))
     (map key_parts (uniq (concat (js_values (rt_subscribers m)))))"

section \<open>Delivery\<close>

lemma deliver_returns: "\<exists>m1. deliver env u i m = (m1, return ())"
  by (cases "re_sink env i u (mk_world (rt_market m))"; cases "snd (re_sink env i u (mk_world (rt_market m)))")
    (auto simp: deliver_def call_try_def in_market_def in_world_def note_event_def)

text \<open>A sink that throws never keeps an update from the other subscribers.\<close>

lemma broadcast_returns: "\<exists>m1. broadcast env u m = (m1, return ())"
proof -
  have "\<exists>m1. call_each (deliver env u) is m = (m1, return ())" for "is"
  proof (induction "is" arbitrary: m)
    case (Cons i "is")
    obtain m1 where "deliver env u i m = (m1, return ())" using deliver_returns by blast
    then show ?case using Cons by (simp add: call_bind_def)
  qed (simp add: call_return_def)
  then show ?thesis by (simp add: broadcast_def)
qed

lemma pair_without_bar: "pair_text p \<Longrightarrow> CHR ''|'' \<notin> set p"
  by (cases p) (auto simp: pair_char_def pair_head_def is_upper_def is_digit_def list_all_iff)

lemma timeframe_without_bar: "CHR ''|'' \<notin> set (timeframe_text tf)"
  by (cases tf) simp_all

lemma key_parts_key: "pair_text (fst s) \<Longrightarrow> key_parts (subscription_key s) = (fst s, timeframe_text (snd s))"
  using pair_without_bar [of "fst s"] timeframe_without_bar [of "snd s"]
  by (simp add: key_parts_def subscription_key_def before_char_append second_part_append or_value_def)

text \<open>The union holds a subscription exactly when some subscriber asked for it.\<close>

lemma union_subscriptions_iff:
  assumes "\<forall>ks\<in>set (js_values (rt_subscribers m)). \<forall>k\<in>set ks. \<exists>s. pair_text (fst s) \<and> k = subscription_key s"
  shows "(pair, tf) \<in> set (union_subscriptions m) \<longleftrightarrow>
    (\<exists>ks\<in>set (js_values (rt_subscribers m)). \<exists>s. subscription_key s \<in> set ks \<and> pair_text (fst s) \<and> (pair, tf) = (fst s, timeframe_text (snd s)))"
proof -
  have u: "set (union_subscriptions m) = key_parts ` (\<Union>ks\<in>set (js_values (rt_subscribers m)). set ks)"
    by (simp add: union_subscriptions_def)
  show ?thesis
  proof
    assume "(pair, tf) \<in> set (union_subscriptions m)"
    then obtain ks k where k: "ks \<in> set (js_values (rt_subscribers m))" "k \<in> set ks" "(pair, tf) = key_parts k" unfolding u by blast
    then obtain s where s: "pair_text (fst s)" "k = subscription_key s" using assms by blast
    then have "subscription_key s \<in> set ks \<and> pair_text (fst s) \<and> (pair, tf) = (fst s, timeframe_text (snd s))"
      using k key_parts_key [OF s(1)] by simp
    then show "\<exists>ks\<in>set (js_values (rt_subscribers m)). \<exists>s. subscription_key s \<in> set ks \<and> pair_text (fst s) \<and> (pair, tf) = (fst s, timeframe_text (snd s))"
      using k(1) by blast
  next
    assume "\<exists>ks\<in>set (js_values (rt_subscribers m)). \<exists>s. subscription_key s \<in> set ks \<and> pair_text (fst s) \<and> (pair, tf) = (fst s, timeframe_text (snd s))"
    then obtain ks s where "ks \<in> set (js_values (rt_subscribers m))" "subscription_key s \<in> set ks" "(pair, tf) = key_parts (subscription_key s)"
      using key_parts_key by metis
    then show "(pair, tf) \<in> set (union_subscriptions m)" unfolding u by blast
  qed
qed

end
