(* ===== verification/MarketHub.thy ===== *)
theory MarketHub
  imports MarketRealtime
begin

text \<open>
  The hand-over between subscribers and the upstream connection (\<^verbatim>\<open>subscribeMarketData\<close>, \<^verbatim>\<open>reconcileRealtime\<close>
  and \<^verbatim>\<open>shutdown\<close> of \<^verbatim>\<open>modules/market-data/application/service.ts\<close>): the realtime service of MarketRealtime
  together with the subscription manager of MarketStream. The waits between the parts of an operation are
  states, so that calls, reconciliations and events of the manager interleave: an admitted caller that still
  has to be entered, a reconciliation that waits for earlier ones (\<^verbatim>\<open>reconcilePromise\<close>), for the provider or for
  \<^verbatim>\<open>setSubscriptions\<close>, a shutdown that waits for the manager. A wait may end at any time. The provider is
  resolved to the same value every time.
\<close>

section \<open>State\<close>

datatype hub_phase = Hub_Idle | Hub_Resolving "(string \<times> string) list" | Hub_Setting

record 'w hub =
  hb_realtime :: "'w realtime"
  hb_manager :: "stream option"
  hb_left :: "stream list"
  hb_entering :: "subscription list list"
  hb_active :: "nat list"
  hb_queue :: nat
  hb_phase :: hub_phase
  hb_closing :: bool

record 'w hub_env =
  he_realtime :: "'w realtime_env"
  he_close :: "('w, unit) call option"

definition hub_provider :: "'w hub_env \<Rightarrow> 'w provider option" where
  "hub_provider env = me_provider (re_market (he_realtime env))"

definition new_hub :: "'w hub_env \<Rightarrow> string \<Rightarrow> 'w \<Rightarrow> 'w hub" where
  "new_hub env provider w = \<lparr>hb_realtime = \<lparr>rt_market = \<lparr>mk_rows = [], mk_snapshots = [], mk_events = [], mk_world = w\<rparr>, rt_subscribers = [], rt_sequence = 0,
       rt_status = \<lparr>cs_provider = provider, cs_state = DISCONNECTED, cs_last_event = me_now (re_market (he_realtime env)) w, cs_error = None\<rparr>, rt_stopped = False\<rparr>,
     hb_manager = None, hb_left = [], hb_entering = [], hb_active = [], hb_queue = 0, hb_phase = Hub_Idle, hb_closing = False\<rparr>"

section \<open>Subscribing\<close>

definition hub_admit :: "'w hub_env \<Rightarrow> (string \<times> string) list \<Rightarrow> 'w hub \<Rightarrow> 'w hub" where
  "hub_admit env ss h = (case admit_subscriptions (he_realtime env) ss (hb_realtime h) of
     (m, Inl _) \<Rightarrow> h\<lparr>hb_realtime := m\<rparr>
   | (m, Inr valid) \<Rightarrow> h\<lparr>hb_realtime := m, hb_entering := hb_entering h @ [valid]\<rparr>)"

definition request_reconcile :: "'w hub \<Rightarrow> 'w hub" where
  "request_reconcile h = h\<lparr>hb_queue := hb_queue h + 1\<rparr>"

definition hub_enter :: "'w hub_env \<Rightarrow> subscription list \<Rightarrow> 'w hub \<Rightarrow> 'w hub" where
  "hub_enter env valid h = (case enter_subscriber (he_realtime env) valid (hb_realtime h) of
     (m, Inl _) \<Rightarrow> h\<lparr>hb_realtime := m\<rparr>
   | (m, Inr i) \<Rightarrow> request_reconcile (h\<lparr>hb_realtime := m, hb_entering := remove1 valid (hb_entering h), hb_active := i # hb_active h\<rparr>))"

text \<open>The function a subscriber gets back works once.\<close>

definition hub_leave :: "nat \<Rightarrow> 'w hub \<Rightarrow> 'w hub" where
  "hub_leave i h = (if i \<notin> set (hb_active h) then h
     else request_reconcile (h\<lparr>hb_active := removeAll i (hb_active h), hb_realtime := remove_subscriber i (hb_realtime h)\<rparr>))"

section \<open>Reconciling\<close>

text \<open>The cast of the parts of a key; keys are built from timeframes, so none is dropped.\<close>

definition cast_subscriptions :: "(string \<times> string) list \<Rightarrow> subscription list" where
  "cast_subscriptions ss = List.map_filter (\<lambda>(pair, t). map_option (Pair pair) (timeframe_of t)) ss"

definition start_reconcile :: "'w hub \<Rightarrow> 'w hub" where
  "start_reconcile h = h\<lparr>hb_queue := hb_queue h - 1, hb_phase := Hub_Resolving (union_subscriptions (hb_realtime h))\<rparr>"

definition apply_union :: "'w hub_env \<Rightarrow> (string \<times> string) list \<Rightarrow> 'w hub \<Rightarrow> 'w hub" where
  "apply_union env ss h = (if hub_provider env = None \<or> ss = [] then
       h\<lparr>hb_manager := map_option (set_subscriptions []) (hb_manager h), hb_phase := Hub_Setting,
         hb_realtime := (if ss = [] then hb_realtime h
           else fst (set_status (he_realtime env) (cs_provider (rt_status (hb_realtime h))) DISCONNECTED None (hb_realtime h)))\<rparr>
     else h\<lparr>hb_manager := Some (set_subscriptions (cast_subscriptions ss) (case hb_manager h of None \<Rightarrow> new_stream | Some s \<Rightarrow> s)), hb_phase := Hub_Setting\<rparr>)"

definition finish_reconcile :: "'w hub \<Rightarrow> 'w hub" where
  "finish_reconcile h = h\<lparr>hb_phase := Hub_Idle\<rparr>"

section \<open>Events of the manager\<close>

text \<open>\<^verbatim>\<open>onStatus\<close>: what the manager newly reported becomes the status of the service; \<open>code\<close> is the code of a reported
  failure.\<close>

definition forward_statuses :: "'w hub_env \<Rightarrow> 'w provider \<Rightarrow> string \<Rightarrow> stream \<Rightarrow> stream \<Rightarrow> 'w realtime \<Rightarrow> 'w realtime" where
  "forward_statuses env p code s s1 m = fst (call_each (\<lambda>(x, failed). set_status (he_realtime env) (pv_id p) x (if failed then Some code else None))
     (drop (length (st_statuses s)) (st_statuses s1)) m)"

text \<open>\<^verbatim>\<open>onConnected\<close>: the candles missed meanwhile are fetched, and the manager hears whether that worked.\<close>

definition after_connecting :: "'w hub_env \<Rightarrow> 'w provider \<Rightarrow> nat \<Rightarrow> subscription list \<Rightarrow> stream \<Rightarrow> 'w realtime \<Rightarrow> stream \<times> 'w realtime" where
  "after_connecting env p g ss s m = (case in_market (reconcile_subscriptions p ss (re_market (he_realtime env))) m of
     (m1, Inl _) \<Rightarrow> (reconciliation_failed default_options g (end_task (Finishing g) s), m1)
   | (m1, Inr _) \<Rightarrow> (reconciled g (end_task (Finishing g) s), m1))"

definition manager_moved :: "'w hub_env \<Rightarrow> 'w provider \<Rightarrow> string \<Rightarrow> stream \<Rightarrow> stream \<Rightarrow> 'w hub \<Rightarrow> 'w hub" where
  "manager_moved env p code s s1 h = h\<lparr>hb_manager := Some s1, hb_realtime := forward_statuses env p code s s1 (hb_realtime h)\<rparr>"

definition left_moved :: "'w hub_env \<Rightarrow> 'w provider \<Rightarrow> string \<Rightarrow> nat \<Rightarrow> stream \<Rightarrow> 'w hub \<Rightarrow> 'w hub" where
  "left_moved env p code i s1 h = h\<lparr>hb_left := (hb_left h)[i := s1], hb_realtime := forward_statuses env p code (hb_left h ! i) s1 (hb_realtime h)\<rparr>"

section \<open>Shutting down\<close>

definition begin_shutdown :: "'w hub \<Rightarrow> 'w hub" where
  "begin_shutdown h = (if rt_stopped (hb_realtime h) then h
     else h\<lparr>hb_realtime := (hb_realtime h)\<lparr>rt_stopped := True\<rparr>, hb_manager := map_option stop_stream (hb_manager h), hb_closing := True\<rparr>)"

definition finish_shutdown :: "'w hub_env \<Rightarrow> 'w hub \<Rightarrow> 'w hub" where
  "finish_shutdown env h = h\<lparr>hb_closing := False, hb_manager := None, hb_left := hb_left h @ (case hb_manager h of None \<Rightarrow> [] | Some s \<Rightarrow> [s]),
     hb_realtime := (case he_close env of None \<Rightarrow> id | Some close \<Rightarrow> \<lambda>m. fst (in_market (in_world close) m)) ((hb_realtime h)\<lparr>rt_subscribers := []\<rparr>)\<rparr>"

text \<open>The manager could not be stopped; the shutdown gives up there.\<close>

definition abort_shutdown :: "'w hub \<Rightarrow> 'w hub" where
  "abort_shutdown h = h\<lparr>hb_closing := False\<rparr>"

section \<open>Steps\<close>

inductive hub_step :: "'w hub_env \<Rightarrow> 'w hub \<Rightarrow> 'w hub \<Rightarrow> bool" for env where
  admit: "hub_step env h (hub_admit env ss h)"
| enter: "valid \<in> set (hb_entering h) \<Longrightarrow> hub_step env h (hub_enter env valid h)"
| leave: "hub_step env h (hub_leave i h)"
| start: "hb_phase h = Hub_Idle \<Longrightarrow> 0 < hb_queue h \<Longrightarrow> hub_step env h (start_reconcile h)"
| resolve: "hb_phase h = Hub_Resolving ss \<Longrightarrow> hub_step env h (apply_union env ss h)"
| set_end: "hb_phase h = Hub_Setting \<Longrightarrow> hub_step env h (finish_reconcile h)"
| manager: "hb_manager h = Some s \<Longrightarrow> hub_provider env = Some p \<Longrightarrow> upstream_event default_options s s1 \<Longrightarrow>
    hub_step env h (manager_moved env p code s s1 h)"
| connected: "hb_manager h = Some s \<Longrightarrow> hub_provider env = Some p \<Longrightarrow> Finishing g \<in> set (st_tasks s) \<Longrightarrow> (\<not> outdated g s \<longrightarrow> ss = st_desired s) \<Longrightarrow>
    after_connecting env p g ss s (hb_realtime h) = (s1, m) \<Longrightarrow> hub_step env h (manager_moved env p code s s1 (h\<lparr>hb_realtime := m\<rparr>))"
| left_manager: "i < length (hb_left h) \<Longrightarrow> hub_provider env = Some p \<Longrightarrow> upstream_event default_options (hb_left h ! i) s1 \<Longrightarrow>
    hub_step env h (left_moved env p code i s1 h)"
| left_connected: "i < length (hb_left h) \<Longrightarrow> hub_provider env = Some p \<Longrightarrow> Finishing g \<in> set (st_tasks (hb_left h ! i)) \<Longrightarrow>
    (\<not> outdated g (hb_left h ! i) \<longrightarrow> ss = st_desired (hb_left h ! i)) \<Longrightarrow> after_connecting env p g ss (hb_left h ! i) (hb_realtime h) = (s1, m) \<Longrightarrow>
    hub_step env h (left_moved env p code i s1 (h\<lparr>hb_realtime := m\<rparr>))"
| tick: "hub_step env h (h\<lparr>hb_realtime := fst (handle_tick (he_realtime env) t (hb_realtime h))\<rparr>)"
| candle: "hub_step env h (h\<lparr>hb_realtime := fst (handle_candle (he_realtime env) ob (hb_realtime h))\<rparr>)"
| shut: "hub_step env h (begin_shutdown h)"
| shut_end: "hb_closing h \<Longrightarrow> (\<forall>s. hb_manager h = Some s \<longrightarrow> Stop_Closing \<notin> set (st_tasks s)) \<Longrightarrow> hub_step env h (finish_shutdown env h)"
| shut_fails: "hb_closing h \<Longrightarrow> hub_step env h (abort_shutdown h)"

inductive hub_reachable :: "'w hub_env \<Rightarrow> 'w hub \<Rightarrow> bool" for env where
  initial: "hub_reachable env (new_hub env provider w)"
| step: "hub_reachable env h \<Longrightarrow> hub_step env h h1 \<Longrightarrow> hub_reachable env h1"

section \<open>What leaves the subscribers alone\<close>

definition same_wants :: "(nat, string list) jsmap \<Rightarrow> bool \<Rightarrow> 'w realtime \<Rightarrow> bool" where
  "same_wants subs stopped m = (rt_subscribers m = subs \<and> rt_stopped m = stopped)"

named_theorems want_frames

lemma wants_in_market [want_frames]: "call_keeps (same_wants subs b) (in_market f)"
  by (simp add: call_keeps_def in_market_def same_wants_def split: prod.split)

lemma wants_deliver [want_frames]: "call_keeps (same_wants subs b) (deliver env u i)"
  unfolding deliver_def by (intro call_keeps_intros want_frames)

lemma wants_broadcast [want_frames]: "call_keeps (same_wants subs b) (broadcast env u)"
proof -
  have "call_keeps (same_wants subs b) (call_each (deliver env u) (map fst subs))" by (intro call_keeps_intros want_frames)
  then show ?thesis by (simp add: call_keeps_def broadcast_def same_wants_def)
qed

lemma wants_status_cache [want_frames]: "call_keeps (same_wants subs b) (write_status_cache env x)"
  unfolding write_status_cache_def by (auto intro!: call_keeps_intros want_frames split: option.split)

lemma wants_set_status [want_frames]: "call_keeps (same_wants subs b) (set_status env p x e)"
proof -
  have "call_keeps (same_wants subs b) (call_bind (write_status_cache env y) (\<lambda>_. broadcast env (Status_Update y)))" for y
    by (intro call_keeps_intros want_frames)
  then show ?thesis by (simp add: call_keeps_def set_status_def Let_def same_wants_def)
qed

lemma wants_at: "(\<And>x. call_keeps P (f x)) \<Longrightarrow> (\<And>m. h m = f (g m) m) \<Longrightarrow> call_keeps P h"
  by (simp add: call_keeps_def)

lemma wants_tick [want_frames]: "call_keeps (same_wants subs b) (handle_tick env t)"
proof -
  let ?f = "\<lambda>now. case checked_tick now t of Inl _ \<Rightarrow> in_market (note_event ''market_data.invalid_tick'')
    | Inr x \<Rightarrow> call_bind (case re_put_tick env of None \<Rightarrow> call_return ()
         | Some put \<Rightarrow> call_try (in_market (in_world (put (tick_cache_key (tick_pair x)) now x))) (\<lambda>_. in_market (note_event ''market_data.cache_write_error'')))
       (\<lambda>_. broadcast env (Tick_Update x))"
  have "call_keeps (same_wants subs b) (?f now)" for now
    by (auto intro!: call_keeps_intros want_frames split: sum.split option.split)
  then show ?thesis by (rule wants_at [where f = ?f and g = "now_of env"]) (simp add: handle_tick_def split: sum.split)
qed

lemma wants_candle [want_frames]: "call_keeps (same_wants subs b) (handle_candle env ob)"
  unfolding handle_candle_def by (auto intro!: call_keeps_intros want_frames split: option.split)

lemma wants_admit [want_frames]: "call_keeps (same_wants subs b) (admit_subscriptions env ss)"
proof -
  let ?f = "\<lambda>stopped. if stopped then call_throw ''SUBSCRIPTION_REJECTED'' else call_bind (call_of (map_results checked_subscription ss)) (\<lambda>valid.
       call_bind (call_each (\<lambda>s. call_bind (in_market (validate_provider (fst s) (snd s) (re_market env))) (\<lambda>_. call_return ())) valid)
         (\<lambda>_. call_return valid))"
  have "call_keeps (same_wants subs b) (?f stopped)" for stopped by (auto intro!: call_keeps_intros want_frames)
  then show ?thesis by (rule wants_at [where f = ?f and g = rt_stopped]) (simp add: admit_subscriptions_def call_throw_def)
qed

lemma wants_forward [want_frames]: "same_wants subs b m \<Longrightarrow> same_wants subs b (forward_statuses env p code s s1 m)"
  unfolding forward_statuses_def by (rule call_keepsD) (auto intro!: call_keeps_intros want_frames split: prod.split)

lemma frame_same: "(\<And>subs b. call_keeps (same_wants subs b) f) \<Longrightarrow> rt_subscribers (fst (f m)) = rt_subscribers m \<and> rt_stopped (fst (f m)) = rt_stopped m"
  using call_keepsD [of "same_wants (rt_subscribers m) (rt_stopped m)" f m] by (simp add: same_wants_def)

lemmas same_after = frame_same [OF wants_in_market] frame_same [OF wants_set_status] frame_same [OF wants_tick] frame_same [OF wants_candle]
  frame_same [OF wants_admit]

lemma forward_same [simp]: "rt_subscribers (forward_statuses env p code s s1 m) = rt_subscribers m"
    "rt_stopped (forward_statuses env p code s s1 m) = rt_stopped m"
  using wants_forward [of "rt_subscribers m" "rt_stopped m" m] by (simp_all add: same_wants_def)

text \<open>Entering a subscriber never fails, and adds its wants.\<close>

lemma enter_subscriber_adds:
  "\<exists>m1. enter_subscriber env valid m = (m1, return (rt_sequence m + 1)) \<and> rt_stopped m1 = rt_stopped m \<and>
    rt_subscribers m1 = js_set (rt_sequence m + 1) (uniq (map subscription_key valid)) (rt_subscribers m)"
proof -
  let ?m = "m\<lparr>rt_sequence := rt_sequence m + 1, rt_subscribers := js_set (rt_sequence m + 1) (uniq (map subscription_key valid)) (rt_subscribers m)\<rparr>"
  obtain m1 where d: "deliver env (Status_Update (rt_status m)) (rt_sequence m + 1) ?m = (m1, return ())" using deliver_returns by blast
  then show ?thesis using frame_same [OF wants_deliver, of env "Status_Update (rt_status m)" "rt_sequence m + 1" ?m]
    by (simp add: enter_subscriber_def Let_def call_bind_def call_return_def)
qed

section \<open>Steps of the manager\<close>

definition serving :: "stream \<Rightarrow> bool" where
  "serving s = (\<not> st_stopped s \<and> Stop_Closing \<notin> set (st_tasks s))"

definition serves_on :: "stream \<Rightarrow> stream \<Rightarrow> bool" where
  "serves_on s s1 = (st_desired s1 = st_desired s \<and> (serving s \<longrightarrow> serving s1))"

lemma serves_on_trans: "serves_on s s1 \<Longrightarrow> serves_on s1 s2 \<Longrightarrow> serves_on s s2"
  by (simp add: serves_on_def)

lemma serves_on_fields [simp]: "serves_on s s" "serves_on s (report x f s)" "serves_on s (end_task t s)" "serves_on s (s\<lparr>st_attempt := a\<rparr>)" "serves_on s (s\<lparr>st_connection := c\<rparr>)"
    "serves_on s (s\<lparr>st_timer := x1\<rparr>)" "serves_on s (s\<lparr>st_generation := g\<rparr>)" "serves_on s (s\<lparr>st_closed := cl\<rparr>)" "t1 \<noteq> Stop_Closing \<Longrightarrow> serves_on s (add_task t1 s)"
  by (auto simp: serves_on_def serving_def report_def end_task_def add_task_def dest: notin_set_remove1)

lemma serves_on_finish: "serves_on s (finish_connection g s)"
  by (simp add: finish_connection_def)

lemma serves_on_mark: "serves_on s (snd (mark_connected g r s))"
  by (simp add: mark_connected_def serves_on_finish)

lemma serves_on_marked: "mark_connected g r s = (r1, s1) \<Longrightarrow> serves_on s s1"
  using serves_on_mark [of s g r] by simp

lemmas serve_defs = serves_on_def serving_def report_def add_task_def schedule_reconnect_def connect_def finish_connection_def mark_connected_def

lemma serves_on_opened: "serves_on s (connection_opened g r c offers s)"
  by (simp add: connection_opened_def serve_defs)

lemma serves_on_failed: "serves_on s (connection_failed o1 g s)"
  by (simp add: connection_failed_def Let_def serve_defs)

lemma serves_on_subscribed: "serves_on s (subscriptions_closed g s)"
  by (simp add: subscriptions_closed_def serve_defs)

lemma serves_on_disconnect: "serves_on s (handle_disconnect o1 g f s)"
  by (simp add: handle_disconnect_def serve_defs)

lemma serves_on_fired: "serves_on s (timer_fired g s)"
  by (simp add: timer_fired_def serve_defs)

lemma serves_on_reconciled: "serves_on s (reconciled g s)" "serves_on s (reconciliation_failed o1 g s)"
  by (simp_all add: reconciled_def reconciliation_failed_def serve_defs)

lemma event_serves_on: "upstream_event o1 s s1 \<Longrightarrow> serving s \<Longrightarrow> st_desired s1 = st_desired s \<and> serving s1"
proof -
  assume "upstream_event o1 s s1" and sv: "serving s"
  then have "serves_on s s1"
  proof (induction rule: upstream_event.induct)
    case (set_closed g s)
    then show ?case by (blast intro: serves_on_trans [OF serves_on_fields(3)] serves_on_subscribed)
  next
    case (opened g r s c offers)
    then show ?case by (blast intro: serves_on_trans [OF serves_on_fields(3)] serves_on_opened)
  next
    case (early_connect g r s r1 s1)
    then show ?case using serves_on_trans [OF serves_on_trans [OF serves_on_fields(3) serves_on_marked] serves_on_fields(9)] by blast
  next
    case (late_connect g r s r1 s1)
    then show ?case using serves_on_trans [OF serves_on_trans [OF serves_on_fields(3) serves_on_marked] serves_on_fields(9)] by blast
  qed (auto simp: serving_def serves_on_disconnect serves_on_fired intro: serves_on_trans [OF serves_on_fields(3)] serves_on_mark serves_on_failed)
  then show ?thesis using sv by (simp add: serves_on_def)
qed

lemma set_subscriptions_serves: "serving s \<Longrightarrow> st_desired (set_subscriptions ss s) = normalize_subscriptions ss \<and> serving (set_subscriptions ss s)"
  by (auto simp: set_subscriptions_def Let_def serving_def add_task_def)

section \<open>What always holds\<close>

definition hub_desired :: "'w hub \<Rightarrow> subscription list" where
  "hub_desired h = (case hb_manager h of None \<Rightarrow> [] | Some s \<Rightarrow> st_desired s)"

definition upstream_wants :: "'w realtime \<Rightarrow> subscription list" where
  "upstream_wants m = normalize_subscriptions (cast_subscriptions (union_subscriptions m))"

definition named_wants :: "'w realtime \<Rightarrow> bool" where
  "named_wants m = (\<forall>ks\<in>set (js_values (rt_subscribers m)). \<forall>k\<in>set ks. \<exists>s. pair_text (fst s) \<and> k = subscription_key s)"

definition hub_named :: "'w hub \<Rightarrow> bool" where
  "hub_named h = (named_wants (hb_realtime h) \<and> (\<forall>v\<in>set (hb_entering h). \<forall>s\<in>set v. pair_text (fst s)))"

definition up_to_date :: "'w hub \<Rightarrow> bool" where
  "up_to_date h = (case hb_phase h of Hub_Resolving ss \<Rightarrow> ss = union_subscriptions (hb_realtime h) | _ \<Rightarrow> hub_desired h = upstream_wants (hb_realtime h))"

definition hub_served :: "'w hub_env \<Rightarrow> 'w hub \<Rightarrow> bool" where
  "hub_served env h = ((hb_closing h \<longrightarrow> rt_stopped (hb_realtime h)) \<and> (\<not> rt_stopped (hb_realtime h) \<longrightarrow>
     (\<forall>s. hb_manager h = Some s \<longrightarrow> serving s) \<and> (hub_provider env \<noteq> None \<longrightarrow> hb_queue h = 0 \<longrightarrow> up_to_date h)))"

lemma named_cong: "rt_subscribers m1 = rt_subscribers m \<Longrightarrow> named_wants m1 = named_wants m"
  by (simp add: named_wants_def)

lemmas served_defs = hub_served_def up_to_date_def hub_desired_def upstream_wants_def union_subscriptions_def

text \<open>A step that changes neither the subscribers nor what the manager is asked for.\<close>

lemma served_elsewhere:
  assumes "hub_served env h" "rt_subscribers m = rt_subscribers (hb_realtime h)" "rt_stopped m = rt_stopped (hb_realtime h)"
  shows "hub_served env (h\<lparr>hb_realtime := m\<rparr>)"
  using assms by (cases "hb_phase h") (simp_all add: served_defs)

lemma named_elsewhere: "hub_named h \<Longrightarrow> rt_subscribers m = rt_subscribers (hb_realtime h) \<Longrightarrow> hub_named (h\<lparr>hb_realtime := m\<rparr>)"
  using named_cong [of m "hb_realtime h"] by (simp add: hub_named_def)

lemma after_connecting_serves:
  assumes "after_connecting env p g ss s m = (s1, m1)"
  shows "rt_subscribers m1 = rt_subscribers m \<and> rt_stopped m1 = rt_stopped m \<and> st_desired s1 = st_desired s \<and> (serving s \<longrightarrow> serving s1)"
proof -
  let ?c = "in_market (reconcile_subscriptions p ss (re_market (he_realtime env))) m"
  have m: "m1 = fst ?c" using assms by (auto simp: after_connecting_def split: prod.splits sum.splits)
  have "s1 = reconciled g (end_task (Finishing g) s) \<or> s1 = reconciliation_failed default_options g (end_task (Finishing g) s)"
    using assms by (auto simp: after_connecting_def split: prod.splits sum.splits)
  then have "serves_on s s1" by (auto intro: serves_on_trans [OF serves_on_fields(3)] serves_on_reconciled)
  then show ?thesis using m by (simp add: serves_on_def same_after)
qed

lemma served_moved:
  assumes "hub_served env h" "hb_manager h = Some s" "st_desired s1 = st_desired s" "serving s \<longrightarrow> serving s1"
  shows "hub_served env (manager_moved env p code s s1 h)"
  using assms by (cases "hb_phase h") (simp_all add: served_defs manager_moved_def)

lemma served_left: "hub_served env h \<Longrightarrow> hub_served env (left_moved env p code i s1 h)"
  by (cases "hb_phase h") (simp_all add: served_defs left_moved_def)

lemma served_union:
  assumes "hub_served env h" "hb_phase h = Hub_Resolving ss"
  shows "hub_served env (apply_union env ss h)"
proof -
  have new: "serving new_stream" by (simp add: serving_def new_stream_def)
  have none: "normalize_subscriptions [] = []" by (simp add: normalize_subscriptions_def js_values_def)
  have sv: "hb_manager h = Some s \<Longrightarrow> \<not> rt_stopped (hb_realtime h) \<Longrightarrow> serving s" for s using assms(1) by (simp add: hub_served_def)
  have ss: "\<not> rt_stopped (hb_realtime h) \<Longrightarrow> hub_provider env \<noteq> None \<Longrightarrow> hb_queue h = 0 \<Longrightarrow> ss = union_subscriptions (hb_realtime h)"
    using assms by (simp add: hub_served_def up_to_date_def)
  have cl: "hb_closing h \<longrightarrow> rt_stopped (hb_realtime h)" using assms(1) by (simp add: hub_served_def)
  show ?thesis
  proof (cases "hub_provider env = None \<or> ss = []")
    case True
    let ?m = "hb_realtime (apply_union env ss h)"
    have m: "rt_subscribers ?m = rt_subscribers (hb_realtime h)" "rt_stopped ?m = rt_stopped (hb_realtime h)"
      using True by (simp_all add: apply_union_def same_after)
    have w: "upstream_wants ?m = []" if "\<not> rt_stopped (hb_realtime h)" "hub_provider env \<noteq> None" "hb_queue h = 0"
      using ss [OF that] True that none m by (simp add: upstream_wants_def union_subscriptions_def cast_subscriptions_def)
    have "hub_desired (apply_union env ss h) = []" if "\<not> rt_stopped (hb_realtime h)"
      using True sv that set_subscriptions_serves none by (cases "hb_manager h") (auto simp: apply_union_def hub_desired_def)
    moreover have "serving s" if "hb_manager (apply_union env ss h) = Some s" "\<not> rt_stopped (hb_realtime h)" for s
      using True that sv set_subscriptions_serves by (auto simp: apply_union_def)
    moreover have "hb_phase (apply_union env ss h) = Hub_Setting" "hb_closing (apply_union env ss h) = hb_closing h" "hb_queue (apply_union env ss h) = hb_queue h"
      using True by (simp_all add: apply_union_def)
    ultimately show ?thesis using w m cl by (simp add: hub_served_def up_to_date_def)
  next
    case False
    let ?s = "case hb_manager h of None \<Rightarrow> new_stream | Some s \<Rightarrow> s"
    have "\<not> rt_stopped (hb_realtime h) \<Longrightarrow> serving ?s" using sv new by (simp split: option.split)
    then show ?thesis using False ss cl set_subscriptions_serves [of ?s "cast_subscriptions ss"]
      by (auto simp: hub_served_def apply_union_def up_to_date_def hub_desired_def upstream_wants_def)
  qed
qed

lemma hub_step_served: "hub_step env h h1 \<Longrightarrow> hub_served env h \<Longrightarrow> hub_served env h1"
proof (induction rule: hub_step.induct)
  case (admit h ss)
  let ?m = "fst (admit_subscriptions (he_realtime env) ss (hb_realtime h))"
  have "hub_served env (h\<lparr>hb_realtime := ?m\<rparr>)" using admit by (rule served_elsewhere) (simp_all add: same_after)
  then show ?case
    by (cases "admit_subscriptions (he_realtime env) ss (hb_realtime h)"; cases "snd (admit_subscriptions (he_realtime env) ss (hb_realtime h))"; cases "hb_phase h")
      (simp_all add: hub_admit_def served_defs)
next
  case (enter valid h)
  obtain m1 where m1: "enter_subscriber (he_realtime env) valid (hb_realtime h) = (m1, return (rt_sequence (hb_realtime h) + 1))" "rt_stopped m1 = rt_stopped (hb_realtime h)"
    using enter_subscriber_adds by blast
  then show ?case using enter by (simp add: hub_enter_def request_reconcile_def hub_served_def)
next
  case (leave h i)
  then show ?case by (simp add: hub_leave_def request_reconcile_def remove_subscriber_def hub_served_def)
next
  case (start h)
  then show ?case by (simp add: start_reconcile_def hub_served_def up_to_date_def union_subscriptions_def)
next
  case (resolve h ss)
  then show ?case by (intro served_union)
next
  case (set_end h)
  then show ?case by (simp add: finish_reconcile_def served_defs)
next
  case (manager h s p s1 code)
  show ?case
  proof (cases "serving s")
    case True
    then show ?thesis using event_serves_on [OF manager(3)] manager(1,4) by (intro served_moved) auto
  next
    case False
    then have "rt_stopped (hb_realtime h)" using manager by (auto simp: hub_served_def)
    then show ?thesis by (simp add: hub_served_def manager_moved_def)
  qed
next
  case (connected h s p g ss s1 m code)
  note a = after_connecting_serves [OF connected(5)]
  have "hub_served env (h\<lparr>hb_realtime := m\<rparr>)" using connected(6) a by (intro served_elsewhere) simp_all
  then show ?case using a connected(1) by (intro served_moved) simp_all
next
  case (left_manager i h p s1 code)
  then show ?case by (intro served_left)
next
  case (left_connected i h p g ss s1 m code)
  have "hub_served env (h\<lparr>hb_realtime := m\<rparr>)" using left_connected(6) after_connecting_serves [OF left_connected(5)] by (intro served_elsewhere) simp_all
  then show ?case by (rule served_left)
next
  case (tick h t)
  then show ?case by (rule served_elsewhere) (simp_all add: same_after)
next
  case (candle h ob)
  then show ?case by (rule served_elsewhere) (simp_all add: same_after)
next
  case (shut h)
  then show ?case by (simp add: begin_shutdown_def hub_served_def)
next
  case (shut_end h)
  then show ?case by (simp add: finish_shutdown_def hub_served_def same_after split: option.split)
next
  case (shut_fails h)
  then show ?case by (cases "hb_phase h") (simp_all add: abort_shutdown_def served_defs)
qed

text \<open>Who is entered asked for legal pairs.\<close>

lemma admitted_pairs: "admit_subscriptions env ss m = (m1, Inr valid) \<Longrightarrow> s \<in> set valid \<Longrightarrow> pair_text (fst s)"
proof -
  assume "admit_subscriptions env ss m = (m1, Inr valid)" and s: "s \<in> set valid"
  then have "map_results checked_subscription ss = Inr valid"
    by (auto simp: admit_subscriptions_def call_bind_Inr split: if_splits)
  then obtain x where "checked_subscription x = Inr s" using s by (auto dest: map_results_set)
  then show "pair_text (fst s)" by (auto simp: checked_subscription_def and_then_Inr_iff validate_pair_def split: if_splits)
qed

lemma values_set: "set (js_values (js_set k v m)) \<subseteq> insert v (set (js_values m))"
  by (induction m) (auto simp: js_values_def js_set_def)

lemma values_delete: "set (js_values (js_delete k m)) \<subseteq> set (js_values m)"
  by (induction m) (auto simp: js_values_def js_delete_def)

lemma hub_step_named: "hub_step env h h1 \<Longrightarrow> hub_named h \<Longrightarrow> hub_named h1"
proof (induction rule: hub_step.induct)
  case (admit h ss)
  have k: "hub_named (h\<lparr>hb_realtime := fst (admit_subscriptions (he_realtime env) ss (hb_realtime h))\<rparr>)"
    using admit by (rule named_elsewhere) (simp add: same_after)
  obtain m r where a: "admit_subscriptions (he_realtime env) ss (hb_realtime h) = (m, r)" by fastforce
  show ?case using k a admitted_pairs by (cases r) (auto simp: hub_admit_def hub_named_def)
next
  case (enter valid h)
  obtain m1 where m1: "enter_subscriber (he_realtime env) valid (hb_realtime h) = (m1, return (rt_sequence (hb_realtime h) + 1))"
    "rt_subscribers m1 = js_set (rt_sequence (hb_realtime h) + 1) (uniq (map subscription_key valid)) (rt_subscribers (hb_realtime h))"
    using enter_subscriber_adds by blast
  have "named_wants m1"
    unfolding named_wants_def m1(2)
  proof (intro ballI)
    fix ks k assume "ks \<in> set (js_values (js_set (rt_sequence (hb_realtime h) + 1) (uniq (map subscription_key valid)) (rt_subscribers (hb_realtime h))))" "k \<in> set ks"
    then have "k \<in> set (uniq (map subscription_key valid)) \<or> (\<exists>ks\<in>set (js_values (rt_subscribers (hb_realtime h))). k \<in> set ks)"
      using values_set by fastforce
    moreover have "\<forall>s\<in>set valid. pair_text (fst s)" "named_wants (hb_realtime h)" using enter by (auto simp: hub_named_def)
    ultimately show "\<exists>s. pair_text (fst s) \<and> k = subscription_key s" unfolding named_wants_def set_uniq set_map by blast
  qed
  then show ?case using enter m1(1) by (auto simp: hub_enter_def request_reconcile_def hub_named_def dest: notin_set_remove1)
next
  case (leave h i)
  then show ?case using values_delete [of i "rt_subscribers (hb_realtime h)"]
    by (auto simp: hub_leave_def request_reconcile_def remove_subscriber_def hub_named_def named_wants_def)
next
  case (connected h s p g ss s1 m code)
  then show ?case using after_connecting_serves [OF connected(5)] by (simp add: manager_moved_def hub_named_def named_wants_def)
next
  case (left_connected i h p g ss s1 m code)
  then show ?case using after_connecting_serves [OF left_connected(5)] by (simp add: left_moved_def hub_named_def named_wants_def)
next
  case (shut_end h)
  then show ?case by (simp add: finish_shutdown_def hub_named_def named_wants_def js_values_def same_after split: option.split)
qed (simp_all add: hub_named_def named_wants_def start_reconcile_def apply_union_def finish_reconcile_def manager_moved_def left_moved_def
    begin_shutdown_def abort_shutdown_def same_after)

lemma reachable_hub: "hub_reachable env h \<Longrightarrow> hub_named h \<and> hub_served env h"
proof (induction rule: hub_reachable.induct)
  case (initial provider w)
  have "upstream_wants (hb_realtime (new_hub env provider w)) = []"
    by (simp add: upstream_wants_def union_subscriptions_def new_hub_def js_values_def cast_subscriptions_def normalize_subscriptions_def uniq_def)
  then show ?case by (simp add: hub_named_def named_wants_def js_values_def hub_served_def up_to_date_def hub_desired_def new_hub_def)
qed (blast intro: hub_step_named hub_step_served)

section \<open>What is wanted\<close>

lemma timeframe_of_text: "timeframe_of t = Some tf \<longleftrightarrow> t = timeframe_text tf"
  by (cases tf) (auto simp: timeframe_of_def timeframes_def)

lemma timeframe_of_own: "timeframe_of (timeframe_text tf) = Some tf"
  by (simp add: timeframe_of_text)

lemma timeframe_text_inj: "timeframe_text a = timeframe_text b \<longleftrightarrow> a = b"
  using timeframe_of_own option.inject by metis

lemma cast_iff: "(pair, tf) \<in> set (cast_subscriptions ss) \<longleftrightarrow> (pair, timeframe_text tf) \<in> set ss"
  by (induction ss) (auto simp: cast_subscriptions_def map_filter_simps timeframe_of_text timeframe_of_own timeframe_text_inj split: option.split)

lemma keys_injective: "(\<And>s. s \<in> A \<Longrightarrow> pair_text (fst s)) \<Longrightarrow> inj_on subscription_key A"
proof (rule inj_onI)
  fix s t assume a: "\<And>s. s \<in> A \<Longrightarrow> pair_text (fst s)" "s \<in> A" "t \<in> A" "subscription_key s = subscription_key t"
  then have "(fst s, timeframe_text (snd s)) = (fst t, timeframe_text (snd t))" using key_parts_key by metis
  moreover have "timeframe_of (timeframe_text (snd s)) = Some (snd s)" "timeframe_of (timeframe_text (snd t)) = Some (snd t)"
    by (simp_all add: timeframe_of_text)
  ultimately show "s = t" by (metis option.inject prod.collapse prod.inject)
qed

lemma normalize_set:
  assumes named: "\<And>s. s \<in> set ss \<Longrightarrow> pair_text (fst s)"
  shows "set (normalize_subscriptions ss) = set ss"
proof -
  let ?F = "\<lambda>xs. foldl (\<lambda>m s. js_set (subscription_key s) s m) [] xs"
  have wf: "js_wf (?F xs)" for xs by (induction xs rule: rev_induct) (simp_all add: js_wf_set js_wf_def [of "[]"])
  have from_list: "js_get (?F xs) k = Some s \<Longrightarrow> s \<in> set xs" for xs k s
    by (induction xs rule: rev_induct) (auto simp: js_get_set split: if_splits)
  have found: "s \<in> set xs \<Longrightarrow> inj_on subscription_key (set xs) \<Longrightarrow> js_get (?F xs) (subscription_key s) = Some s" for xs s
    by (induction xs rule: rev_induct) (auto simp: js_get_set inj_on_def)
  have "set (js_values (?F ss)) = set ss"
    using js_values_iff [OF wf] from_list found keys_injective [of "set ss"] named by blast
  then show ?thesis by (simp add: normalize_subscriptions_def)
qed

text \<open>C31. In every interleaving of subscribers coming and going, reconciliations, provider events and market updates: once no
  reconciliation waits or asks for the provider, the subscription manager is asked for exactly the subscriptions that some
  entered subscriber wants, as long as the service is not shut down and has a provider.\<close>

theorem settled_hub_serves_its_subscribers:
  assumes "hub_reachable env h" "hub_provider env \<noteq> None" "\<not> rt_stopped (hb_realtime h)" "hb_queue h = 0" "hb_phase h = Hub_Idle \<or> hb_phase h = Hub_Setting"
  shows "s \<in> set (hub_desired h) \<longleftrightarrow> pair_text (fst s) \<and> (\<exists>ks\<in>set (js_values (rt_subscribers (hb_realtime h))). subscription_key s \<in> set ks)"
proof -
  let ?u = "union_subscriptions (hb_realtime h)"
  have named: "\<forall>ks\<in>set (js_values (rt_subscribers (hb_realtime h))). \<forall>k\<in>set ks. \<exists>s. pair_text (fst s) \<and> k = subscription_key s"
    using reachable_hub [OF assms(1)] by (simp add: hub_named_def named_wants_def)
  have d: "hub_desired h = normalize_subscriptions (cast_subscriptions ?u)"
    using reachable_hub [OF assms(1)] assms(2-5) by (auto simp: hub_served_def up_to_date_def upstream_wants_def)
  have c: "x \<in> set (cast_subscriptions ?u) \<longleftrightarrow> pair_text (fst x) \<and> (\<exists>ks\<in>set (js_values (rt_subscribers (hb_realtime h))). subscription_key x \<in> set ks)" for x
  proof -
    have "x \<in> set (cast_subscriptions ?u) \<longleftrightarrow> (fst x, timeframe_text (snd x)) \<in> set ?u" using cast_iff [of "fst x" "snd x"] by simp
    also have "\<dots> \<longleftrightarrow> (\<exists>ks\<in>set (js_values (rt_subscribers (hb_realtime h))). \<exists>y. subscription_key y \<in> set ks \<and> pair_text (fst y) \<and> (fst x, timeframe_text (snd x)) = (fst y, timeframe_text (snd y)))"
      by (rule union_subscriptions_iff [OF named])
    also have "\<dots> \<longleftrightarrow> pair_text (fst x) \<and> (\<exists>ks\<in>set (js_values (rt_subscribers (hb_realtime h))). subscription_key x \<in> set ks)"
      unfolding subscription_key_def by auto
    finally show ?thesis .
  qed
  then show ?thesis using normalize_set [of "cast_subscriptions ?u"] by (simp add: d)
qed

section \<open>The manager runs as the manager\<close>

text \<open>Whatever the service does, its managers only take steps of MarketStream.\<close>

definition managers_reachable :: "'w hub \<Rightarrow> bool" where
  "managers_reachable h = ((\<forall>s. hb_manager h = Some s \<longrightarrow> stream_reachable default_options s) \<and> (\<forall>s\<in>set (hb_left h). stream_reachable default_options s))"

lemma reconciling_reachable:
  assumes "after_connecting env p g ss s m = (s1, m1)" "Finishing g \<in> set (st_tasks s)" "stream_reachable default_options s"
  shows "stream_reachable default_options s1"
proof -
  have "s1 = reconciled g (end_task (Finishing g) s) \<or> s1 = reconciliation_failed default_options g (end_task (Finishing g) s)"
    using assms(1) by (auto simp: after_connecting_def split: prod.splits sum.splits)
  then show ?thesis using assms(2,3) by (blast intro: stream_reachable.step stream_step.reconciled stream_step.reconcile_failed)
qed

lemma hub_step_managers: "hub_step env h h1 \<Longrightarrow> managers_reachable h \<Longrightarrow> managers_reachable h1"
proof (induction rule: hub_step.induct)
  case (resolve h ss)
  have "stream_reachable default_options (set_subscriptions xs (case hb_manager h of None \<Rightarrow> new_stream | Some s \<Rightarrow> s))" for xs
    using resolve by (auto simp: managers_reachable_def split: option.split intro: stream_reachable.intros stream_step.subscribe)
  moreover have "hb_manager h = Some s \<Longrightarrow> stream_reachable default_options (set_subscriptions xs s)" for xs s
    using resolve by (auto simp: managers_reachable_def intro: stream_reachable.step stream_step.subscribe)
  ultimately show ?case using resolve by (auto simp: managers_reachable_def apply_union_def)
next
  case (manager h s p s1 code)
  then show ?case by (auto simp: managers_reachable_def manager_moved_def intro: stream_reachable.step stream_step.event)
next
  case (connected h s p g ss s1 m code)
  then show ?case using reconciling_reachable [OF connected(5,3)] by (auto simp: managers_reachable_def manager_moved_def)
next
  case (left_manager i h p s1 code)
  then have "stream_reachable default_options (hb_left h ! i)" by (simp add: managers_reachable_def)
  then have "stream_reachable default_options s1" using left_manager(3) by (blast intro: stream_reachable.step stream_step.event)
  then show ?case using left_manager by (auto simp: managers_reachable_def left_moved_def dest: set_update_subset_insert [THEN subsetD])
next
  case (left_connected i h p g ss s1 m code)
  then have "stream_reachable default_options s1" using reconciling_reachable [OF left_connected(5,3)] by (simp add: managers_reachable_def)
  then show ?case using left_connected by (auto simp: managers_reachable_def left_moved_def dest: set_update_subset_insert [THEN subsetD])
next
  case (shut h)
  then show ?case by (auto simp: managers_reachable_def begin_shutdown_def intro: stream_reachable.step stream_step.stop)
next
  case (shut_end h)
  then show ?case by (auto simp: managers_reachable_def finish_shutdown_def split: option.split)
qed (auto simp: managers_reachable_def hub_admit_def hub_enter_def hub_leave_def request_reconcile_def start_reconcile_def finish_reconcile_def abort_shutdown_def
    split: prod.split sum.split)

lemma manager_reachable: "hub_reachable env h \<Longrightarrow> managers_reachable h"
proof (induction rule: hub_reachable.induct)
  case (initial provider w)
  then show ?case by (simp add: managers_reachable_def new_hub_def)
qed (blast intro: hub_step_managers)

section \<open>A service that is used\<close>

definition demo_provider :: "unit provider" where
  "demo_provider = \<lparr>pv_id = ''BINANCE'', pv_capabilities = call_return ([''BTCUSDT''], [M1]), pv_fetch = (\<lambda>_ _ _. call_return []), pv_closed_through = None, pv_metadata = None\<rparr>"

definition demo_env :: "unit hub_env" where
  "demo_env = \<lparr>he_realtime = \<lparr>re_market = quiet_env\<lparr>me_provider := Some demo_provider\<rparr>, re_sink = (\<lambda>_ _. call_return ()), re_put_tick = None, re_put_status = None\<rparr>,
     he_close = None\<rparr>"

definition fresh_hub :: "unit hub" where
  "fresh_hub = new_hub demo_env ''BINANCE'' ()"

definition admitted_hub :: "unit hub" where
  "admitted_hub = hub_admit demo_env [(''BTCUSDT'', ''1m'')] fresh_hub"

definition served_hub :: "unit hub \<Rightarrow> unit hub" where
  "served_hub h = apply_union demo_env [(''BTCUSDT'', ''1m'')] (start_reconcile (hub_enter demo_env [(''BTCUSDT'', M1)] h))"

lemma demo_provided: "hub_provider demo_env = Some demo_provider"
  by (simp add: hub_provider_def demo_env_def)

lemma demo_admits: "admitted_hub = fresh_hub\<lparr>hb_entering := [[(''BTCUSDT'', M1)]]\<rparr>"
proof -
  have "checked_subscription (''BTCUSDT'', ''1m'') = Inr (''BTCUSDT'', M1)"
    by (simp add: checked_subscription_def validate_pair_def validate_timeframe_def timeframe_of_def timeframes_def result_simps pair_head_def is_upper_def pair_char_def)
  then show ?thesis
    by (simp add: admitted_hub_def hub_admit_def admit_subscriptions_def fresh_hub_def new_hub_def call_bind_def call_of_def result_simps in_market_def validate_provider_def
        in_world_def demo_env_def demo_provider_def call_return_def call_if_def)
qed

lemma demo_deliver: "deliver (he_realtime demo_env) u i m = (m, return ())"
  by (simp add: deliver_def call_try_def in_market_def in_world_def demo_env_def call_return_def)

lemma demo_enters:
  assumes "rt_subscribers (hb_realtime h) = []" "rt_sequence (hb_realtime h) = 0" "hb_entering h = [[(''BTCUSDT'', M1)]]"
  shows "hub_enter demo_env [(''BTCUSDT'', M1)] h = h\<lparr>hb_realtime := (hb_realtime h)\<lparr>rt_sequence := 1, rt_subscribers := [(1, [''BTCUSDT|1m''])]\<rparr>,
    hb_entering := [], hb_active := 1 # hb_active h, hb_queue := hb_queue h + 1\<rparr>"
  using assms by (simp add: hub_enter_def enter_subscriber_def Let_def demo_deliver call_bind_def call_return_def request_reconcile_def js_set_def uniq_def subscription_key_def)

lemma demo_union: "rt_subscribers m = [(1, [''BTCUSDT|1m''])] \<Longrightarrow> union_subscriptions m = [(''BTCUSDT'', ''1m'')]"
  by (simp add: union_subscriptions_def js_values_def uniq_def key_parts_def before_char_def second_part_def or_value_def)

definition entered_realtime :: "unit realtime \<Rightarrow> unit realtime" where
  "entered_realtime m = m\<lparr>rt_sequence := 1, rt_subscribers := [(1, [''BTCUSDT|1m''])]\<rparr>"

definition asked_stream :: stream where
  "asked_stream = set_subscriptions [(''BTCUSDT'', M1)] new_stream"

lemma demo_serves:
  assumes "hub_reachable demo_env h" "rt_subscribers (hb_realtime h) = []" "rt_sequence (hb_realtime h) = 0" "hb_entering h = [[(''BTCUSDT'', M1)]]"
    and idle: "hb_phase h = Hub_Idle" "hb_queue h = 0" "hb_manager h = None"
  shows "served_hub h = h\<lparr>hb_realtime := entered_realtime (hb_realtime h), hb_entering := [], hb_active := 1 # hb_active h, hb_phase := Hub_Setting,
      hb_manager := Some asked_stream\<rparr> \<and> hub_reachable demo_env (served_hub h)"
proof -
  let ?e = "hub_enter demo_env [(''BTCUSDT'', M1)] h"
  have "hub_reachable demo_env ?e" using assms(1) by (rule hub_reachable.step) (rule hub_step.enter, simp add: assms(4))
  then have 1: "hub_reachable demo_env (start_reconcile ?e)" by (rule hub_reachable.step) (rule hub_step.start, simp_all add: demo_enters [OF assms(2-4)] idle)
  have p: "hb_phase (start_reconcile ?e) = Hub_Resolving [(''BTCUSDT'', ''1m'')]" by (simp add: start_reconcile_def demo_enters [OF assms(2-4)] demo_union)
  have "hub_reachable demo_env (served_hub h)" unfolding served_hub_def by (rule hub_reachable.step [OF 1 hub_step.resolve [OF p]])
  moreover have "cast_subscriptions [(''BTCUSDT'', ''1m'')] = [(''BTCUSDT'', M1)]" by (simp add: cast_subscriptions_def map_filter_simps timeframe_of_def timeframes_def)
  ultimately show ?thesis
    by (simp add: served_hub_def apply_union_def demo_provided start_reconcile_def demo_enters [OF assms(2-4)] idle asked_stream_def entered_realtime_def)
qed

lemma admitted_reachable: "hub_reachable demo_env admitted_hub"
  unfolding admitted_hub_def by (rule hub_reachable.step [OF _ hub_step.admit]) (simp add: fresh_hub_def hub_reachable.initial)

lemma admitted_fields: "rt_subscribers (hb_realtime admitted_hub) = []" "rt_sequence (hb_realtime admitted_hub) = 0" "rt_stopped (hb_realtime admitted_hub) = False"
    "hb_entering admitted_hub = [[(''BTCUSDT'', M1)]]" "hb_phase admitted_hub = Hub_Idle" "hb_queue admitted_hub = 0" "hb_manager admitted_hub = None"
    "hb_active admitted_hub = []" "hb_closing admitted_hub = False"
  by (simp_all add: demo_admits fresh_hub_def new_hub_def)

lemma settled_hub_serves_its_subscribers_witness:
  "(''BTCUSDT'', M1) \<in> set (hub_desired (served_hub admitted_hub)) \<and> (''ETHUSDT'', M1) \<notin> set (hub_desired (served_hub admitted_hub))"
proof -
  note s = demo_serves [OF admitted_reachable admitted_fields(1,2,4-7)]
  have iff: "s \<in> set (hub_desired (served_hub admitted_hub)) \<longleftrightarrow> pair_text (fst s) \<and> subscription_key s = ''BTCUSDT|1m''" for s
    using settled_hub_serves_its_subscribers [OF s [THEN conjunct2], of s] unfolding s [THEN conjunct1]
    by (simp add: demo_provided entered_realtime_def admitted_fields js_values_def)
  show ?thesis unfolding iff by (simp add: subscription_key_def pair_head_def is_upper_def pair_char_def)
qed

text \<open>Shutting down does not stop who was admitted before and is entered after: nothing looks at \<^verbatim>\<open>stopped\<close> again, a new manager is
  created and connects, and no shutdown will ever stop it.\<close>

lemma late_subscriber_reconnects:
  "\<exists>h s. hub_reachable demo_env h \<and> rt_stopped (hb_realtime h) \<and> \<not> hb_closing h \<and> hb_manager h = Some s \<and> st_connection s = Some 7 \<and> begin_shutdown h = h"
proof -
  let ?late = "admitted_hub\<lparr>hb_realtime := (hb_realtime admitted_hub)\<lparr>rt_stopped := True\<rparr>\<rparr>"
  let ?shut = "finish_shutdown demo_env (begin_shutdown admitted_hub)"
  have shut: "?shut = ?late"
    by (simp add: finish_shutdown_def begin_shutdown_def demo_admits fresh_hub_def new_hub_def demo_env_def)
  have "hub_reachable demo_env (begin_shutdown admitted_hub)" using admitted_reachable hub_step.shut by (rule hub_reachable.step)
  then have "hub_reachable demo_env ?shut"
    by (rule hub_reachable.step) (rule hub_step.shut_end, simp_all add: begin_shutdown_def admitted_fields)
  note s = demo_serves [OF this, unfolded shut, simplified, OF admitted_fields(1,2,4-7)]
  note l = s [THEN conjunct1] and 1 = s [THEN conjunct2]
  let ?s2 = "subscriptions_closed 1 (end_task (Set_Closing 1) asked_stream)"
  let ?h2 = "manager_moved demo_env demo_provider ''UNAVAILABLE'' asked_stream ?s2 (served_hub ?late)"
  have "upstream_event default_options asked_stream ?s2"
    by (rule upstream_event.set_closed) (simp add: asked_stream_def set_subscriptions_def normalize_one new_stream_def add_task_def)
  then have 2: "hub_reachable demo_env ?h2"
    by (intro hub_reachable.step [OF 1 hub_step.manager]) (simp_all add: l demo_provided)
  let ?s3 = "connection_opened 1 False 7 False (end_task (Opening 1 False) ?s2)"
  let ?h3 = "manager_moved demo_env demo_provider ''UNAVAILABLE'' ?s2 ?s3 ?h2"
  have "upstream_event default_options ?s2 ?s3"
    by (rule upstream_event.opened) (simp add: asked_stream_def stream_defs normalize_one new_stream_def)
  then have "hub_reachable demo_env ?h3"
    by (intro hub_reachable.step [OF 2 hub_step.manager]) (simp_all add: manager_moved_def demo_provided)
  moreover have "rt_stopped (hb_realtime ?h3)" "\<not> hb_closing ?h3" "hb_manager ?h3 = Some ?s3"
    by (simp_all add: manager_moved_def l entered_realtime_def admitted_fields)
  moreover have "st_connection ?s3 = Some 7" by (simp add: asked_stream_def stream_defs normalize_one new_stream_def)
  moreover have "begin_shutdown ?h3 = ?h3" using calculation(2) by (simp add: begin_shutdown_def)
  ultimately show ?thesis by blast
qed

end
