(* ===== verification/MarketGateway.thy ===== *)
theory MarketGateway
  imports MarketStream Calls
begin

text \<open>
  The WebSocket gateway of market data (\<^verbatim>\<open>apps/backend/src/market.gateway.ts\<close>): authentication of a
  client, its commands and its end. Verification of tokens and the market data service belong to the world.
  A command waits for the service, so it is modelled in two parts, between which the client may disconnect.
\<close>

datatype ack_state = Ack_Active | Already_Active | Absent

datatype server_message = Gateway_Error "string option" string bool
  | Subscription_Ack string bool "(subscription \<times> ack_state) list" "json list"

record gateway_client =
  gc_user :: "string option"
  gc_subscriptions :: "subscription list"
  gc_handle :: "nat option"
  gc_sent :: "server_message list"
  gc_closed :: bool

record 'w gateway_env =
  gw_verify :: "string \<Rightarrow> ('w, string) call"
  gw_subscribe :: "subscription list \<Rightarrow> ('w, nat) call"
  gw_unsubscribe :: "nat \<Rightarrow> ('w, unit) call"

type_synonym ('w, 'a) gateway_call = "(gateway_client \<times> 'w, 'a) call"

definition gw_outside :: "('w, 'a) call \<Rightarrow> ('w, 'a) gateway_call" where
  "gw_outside f s = (case s of (c, w) \<Rightarrow> (case f w of (w1, r) \<Rightarrow> ((c, w1), r)))"

definition gw_update :: "(gateway_client \<Rightarrow> gateway_client) \<Rightarrow> ('w, unit) gateway_call" where
  "gw_update f s = (case s of (c, w) \<Rightarrow> ((f c, w), return ()))"

definition send_message :: "server_message \<Rightarrow> ('w, unit) gateway_call" where
  "send_message m = gw_update (\<lambda>c. c\<lparr>gc_sent := gc_sent c @ [m]\<rparr>)"

section \<open>Connecting and disconnecting\<close>

definition token_from :: "json option \<Rightarrow> json option \<Rightarrow> string option" where
  "token_from auth_token header = (case string_json auth_token of Some t \<Rightarrow> Some t
     | None \<Rightarrow> (case string_json header of None \<Rightarrow> None | Some h \<Rightarrow> if starts_with ''Bearer '' h then Some (drop 7 h) else None))"

definition handle_connection :: "'w gateway_env \<Rightarrow> json option \<Rightarrow> json option \<Rightarrow> ('w, unit) gateway_call" where
  "handle_connection env auth_token header = call_try
     (case present (token_from auth_token header) of None \<Rightarrow> call_throw ''INVALID_TOKEN''
      | Some t \<Rightarrow> call_bind (gw_outside (gw_verify env t)) (\<lambda>u. gw_update (\<lambda>c. c\<lparr>gc_user := Some u\<rparr>)))
     (\<lambda>_. call_bind (send_message (Gateway_Error None ''INVALID_TOKEN'' False)) (\<lambda>_. gw_update (\<lambda>c. c\<lparr>gc_closed := True\<rparr>)))"

definition end_subscription :: "'w gateway_env \<Rightarrow> ('w, unit) gateway_call" where
  "end_subscription env s = call_bind (case gc_handle (fst s) of None \<Rightarrow> call_return () | Some h \<Rightarrow> gw_outside (gw_unsubscribe env h))
     (\<lambda>_. gw_update (\<lambda>c. c\<lparr>gc_handle := None\<rparr>)) s"

definition handle_client_disconnect :: "'w gateway_env \<Rightarrow> ('w, unit) gateway_call" where
  "handle_client_disconnect env = call_bind (end_subscription env) (\<lambda>_. gw_update (\<lambda>c. c\<lparr>gc_subscriptions := []\<rparr>))"

section \<open>Commands\<close>

record client_command =
  cc_subscribe :: bool
  cc_request :: string
  cc_items :: "json list"

definition read_command :: "json \<Rightarrow> client_command option" where
  "read_command j = (case (json_field j ''schemaVersion'', string_json (json_field j ''action''), string_json (json_field j ''requestId''), array_json (json_field j ''subscriptions'')) of
     (Some (JNum v), Some a, Some i, Some xs) \<Rightarrow> if neq v (num 1) \<and> (a = ''SUBSCRIBE'' \<or> a = ''UNSUBSCRIBE'')
       then Some \<lparr>cc_subscribe = (a = ''SUBSCRIBE''), cc_request = i, cc_items = xs\<rparr> else None
   | _ \<Rightarrow> None)"

definition valid_subscription :: "json \<Rightarrow> subscription option" where
  "valid_subscription j = (case (string_json (json_field j ''pair''), string_json (json_field j ''timeframe'')) of
     (Some p, Some t) \<Rightarrow> if pair_text p then map_option (Pair p) (timeframe_of t) else None | _ \<Rightarrow> None)"

definition valid_items :: "json list \<Rightarrow> subscription list" where
  "valid_items xs = concat (map (\<lambda>j. case valid_subscription j of None \<Rightarrow> [] | Some s \<Rightarrow> [s]) xs)"

definition rejected_items :: "json list \<Rightarrow> json list" where
  "rejected_items xs = filter (\<lambda>j. valid_subscription j = None) xs"

definition remove_at :: "nat \<Rightarrow> 'a list \<Rightarrow> 'a list" where
  "remove_at i xs = take i xs @ drop (i + 1) xs"

definition apply_item :: "bool \<Rightarrow> subscription list \<times> (subscription \<times> ack_state) list \<Rightarrow> subscription \<Rightarrow> subscription list \<times> (subscription \<times> ack_state) list" where
  "apply_item subscribing x s = (case x of (current, accepted) \<Rightarrow>
     (case find_index (\<lambda>t. subscription_key t = subscription_key s) current of
        Some i \<Rightarrow> if subscribing then (current, accepted @ [(s, Already_Active)]) else (remove_at i current, accepted @ [(s, Absent)])
      | None \<Rightarrow> if subscribing then (current @ [s], accepted @ [(s, Ack_Active)]) else (current, accepted @ [(s, Absent)])))"

definition apply_items :: "bool \<Rightarrow> subscription list \<Rightarrow> subscription list \<Rightarrow> subscription list \<times> (subscription \<times> ack_state) list" where
  "apply_items subscribing current xs = foldl (apply_item subscribing) (current, []) xs"

definition acknowledge :: "client_command \<Rightarrow> (subscription \<times> ack_state) list \<Rightarrow> ('w, unit) gateway_call" where
  "acknowledge m accepted = send_message (Subscription_Ack (cc_request m) (cc_subscribe m) accepted (rejected_items (cc_items m)))"

text \<open>What the client wants after a command, and whether the service has to hear of it.\<close>

definition wanted :: "client_command \<Rightarrow> gateway_client \<Rightarrow> subscription list \<times> (subscription \<times> ack_state) list" where
  "wanted m c = apply_items (cc_subscribe m) (gc_subscriptions c) (valid_items (cc_items m))"

definition must_change :: "client_command \<Rightarrow> gateway_client \<Rightarrow> bool" where
  "must_change m c = (length (fst (wanted m c)) \<noteq> length (gc_subscriptions c) \<or> \<not> cc_subscribe m \<and> valid_items (cc_items m) \<noteq> [])"

definition command_start :: "'w gateway_env \<Rightarrow> client_command \<Rightarrow> ('w, (subscription list \<times> (subscription \<times> ack_state) list) option) gateway_call" where
  "command_start env m s = (if must_change m (fst s)
     then call_bind (end_subscription env) (\<lambda>_. call_return (Some (wanted m (fst s)))) s
     else call_bind (acknowledge m (snd (wanted m (fst s)))) (\<lambda>_. call_return None) s)"

definition error_code :: "string \<Rightarrow> string" where
  "error_code e = (if e \<noteq> [] \<and> list_all (\<lambda>c. is_upper c \<or> is_digit c \<or> c = CHR ''_'') e then e else ''MARKET_DATA_UNAVAILABLE'')"

definition command_finish :: "'w gateway_env \<Rightarrow> client_command \<Rightarrow> subscription list \<times> (subscription \<times> ack_state) list \<Rightarrow> ('w, unit) gateway_call" where
  "command_finish env m x = (case x of (next, accepted) \<Rightarrow>
     if next = [] then call_bind (gw_update (\<lambda>c. c\<lparr>gc_subscriptions := next\<rparr>)) (\<lambda>_. acknowledge m accepted)
     else call_try (call_bind (gw_outside (gw_subscribe env next)) (\<lambda>h. call_bind (gw_update (\<lambda>c. c\<lparr>gc_handle := Some h, gc_subscriptions := next\<rparr>)) (\<lambda>_. acknowledge m accepted)))
       (\<lambda>e. call_bind (gw_update (\<lambda>c. c\<lparr>gc_subscriptions := []\<rparr>)) (\<lambda>_. send_message (Gateway_Error (Some (cc_request m)) (error_code e) True))))"

definition client_command_call :: "'w gateway_env \<Rightarrow> json \<Rightarrow> ('w, unit) gateway_call" where
  "client_command_call env j s = (if present (gc_user (fst s)) = None then (s, return ())
     else case read_command j of None \<Rightarrow> send_message (Gateway_Error None ''INVALID_SUBSCRIPTION'' False) s
       | Some m \<Rightarrow> call_bind (command_start env m) (\<lambda>r. case r of None \<Rightarrow> call_return () | Some x \<Rightarrow> command_finish env m x) s)"

section \<open>What a command does to the subscriptions\<close>

abbreviation keys :: "subscription list \<Rightarrow> string list" where
  "keys xs \<equiv> map subscription_key xs"

lemma remove_at_keys: "i < length xs \<Longrightarrow> distinct xs \<Longrightarrow> set (remove_at i xs) = set xs - {xs ! i} \<and> distinct (remove_at i xs)"
proof -
  assume i: "i < length xs" and d: "distinct xs"
  have x: "xs = take i xs @ xs ! i # drop (i + 1) xs" using id_take_nth_drop [OF i] by simp
  have "set xs = set (take i xs) \<union> insert (xs ! i) (set (drop (i + 1) xs))" by (subst x) simp
  moreover have "distinct (take i xs @ xs ! i # drop (i + 1) xs)" using d x by simp
  ultimately show ?thesis by (auto simp: remove_at_def)
qed

lemma apply_item_keys:
  assumes "apply_item subscribing (current, ack) s = (next, ack')" and "distinct (keys current)"
  shows "distinct (keys next) \<and> set (keys next) = (if subscribing then insert (subscription_key s) (set (keys current)) else set (keys current) - {subscription_key s})"
proof (cases "find_index (\<lambda>t. subscription_key t = subscription_key s) current")
  case None
  then have "subscription_key s \<notin> set (keys current)" using find_index_None [of _ current] by fastforce
  then show ?thesis using assms None by (auto simp: apply_item_def split: if_splits)
next
  case (Some i)
  then have i: "i < length current" "subscription_key (current ! i) = subscription_key s" using find_index_Some by fastforce+
  have m: "keys (remove_at i current) = remove_at i (keys current)" by (simp add: remove_at_def take_map drop_map)
  have "keys current ! i = subscription_key s" "i < length (keys current)" using i by simp_all
  then have "set (remove_at i (keys current)) = set (keys current) - {subscription_key s} \<and> distinct (remove_at i (keys current))"
    using remove_at_keys [of i "keys current"] assms(2) by metis
  moreover have "subscription_key s \<in> set (keys current)" using i by (metis length_map nth_map nth_mem)
  ultimately show ?thesis using assms Some m by (auto simp: apply_item_def insert_absorb simp del: set_map split: if_splits)
qed

text \<open>A command to subscribe adds the keys of its valid items, one to unsubscribe removes them, and no key is ever
  held twice.\<close>

lemma applied_keys:
  assumes "distinct (keys current)"
  shows "distinct (keys (fst (apply_items subscribing current xs))) \<and>
    set (keys (fst (apply_items subscribing current xs))) = (if subscribing then set (keys current) \<union> set (keys xs) else set (keys current) - set (keys xs))"
proof -
  have "distinct (keys (fst (foldl (apply_item subscribing) (current, ack) xs))) \<and>
      set (keys (fst (foldl (apply_item subscribing) (current, ack) xs))) = (if subscribing then set (keys current) \<union> set (keys xs) else set (keys current) - set (keys xs))" for ack
    using assms
  proof (induction xs arbitrary: current ack)
    case (Cons s xs)
    obtain c1 a1 where a: "apply_item subscribing (current, ack) s = (c1, a1)" by (cases "apply_item subscribing (current, ack) s")
    note k = apply_item_keys [OF a Cons(2)]
    show ?case using Cons(1) [of c1 a1] k a by (auto simp del: set_map split: if_splits)
  qed simp
  then show ?thesis by (simp add: apply_items_def)
qed

text \<open>A client that disconnects while its command waits for the service leaves the subscription behind: the end of
  the connection finds no handle to release, and the answer that follows stores one nobody will release.\<close>

definition open_env :: "unit gateway_env" where
  "open_env = \<lparr>gw_verify = (\<lambda>t w. (w, return t)), gw_subscribe = (\<lambda>_ w. (w, return 7)), gw_unsubscribe = (\<lambda>_ w. (w, return ()))\<rparr>"

lemma disconnect_can_leak_subscription:
  assumes "gc_handle c = None" and "must_change m c" and "fst (wanted m c) \<noteq> []"
  shows "\<exists>x s1 s2 s3. command_start open_env m (c, ()) = (s1, Inr (Some x)) \<and> handle_client_disconnect open_env s1 = (s2, Inr ()) \<and>
    command_finish open_env m x s2 = (s3, Inr ()) \<and> gc_handle (fst s2) = None \<and> gc_handle (fst s3) = Some 7"
proof -
  obtain nxt acc where w: "wanted m c = (nxt, acc)" by (cases "wanted m c")
  have "command_start open_env m (c, ()) = ((c, ()), Inr (Some (nxt, acc)))"
    using assms(1,2) w by (simp add: command_start_def end_subscription_def call_bind_def call_return_def gw_update_def)
  moreover have "handle_client_disconnect open_env (c, ()) = ((c\<lparr>gc_subscriptions := []\<rparr>, ()), Inr ())"
    using assms(1) by (simp add: handle_client_disconnect_def end_subscription_def call_bind_def call_return_def gw_update_def)
  moreover have "\<exists>s3. command_finish open_env m (nxt, acc) (c\<lparr>gc_subscriptions := []\<rparr>, ()) = (s3, Inr ()) \<and> gc_handle (fst s3) = Some 7"
    using assms(3) w by (simp add: command_finish_def call_try_def call_bind_def gw_outside_def open_env_def gw_update_def acknowledge_def send_message_def)
  moreover have "gc_handle (fst (c\<lparr>gc_subscriptions := []\<rparr>, ())) = None" using assms(1) by simp
  ultimately show ?thesis by blast
qed

end
