(* ===== verification/Sentiment.thy ===== *)
theory Sentiment
  imports BacktestScope Leaderboard Calls JsonText
begin

text \<open>
  The sentiment module (\<^verbatim>\<open>modules/sentiment\<close>): validation of inputs, results and snapshots, the
  in-memory repositories, analysis, aggregation into sealed points, reading a point at the close of a
  candle, and the lexicon adapter. The analysis service, the identifiers, the hash and the clock are
  parameters. Times are milliseconds below 2 to the 53, where the quotient of two integers rounds to an
  integer only when it is one, so that \<^verbatim>\<open>Math.ceil\<close> of a quotient is the exact ceiling.
\<close>

section \<open>Data\<close>

record news_input =
  ni_news :: string
  ni_title :: string
  ni_content :: string
  ni_source :: string
  ni_published :: string
  ni_coins :: "string list"

record sentiment_result =
  ar_news :: string
  ar_label :: sentiment_label
  ar_score :: number
  ar_model :: string
  ar_version :: string
  ar_analyzed :: string

record point =
  pt_timestamp :: string
  pt_label :: sentiment_label
  pt_score :: number

record sealed_points =
  sl_ref :: sentiment_ref
  sl_points :: "point list"

datatype failure_reason = TIMEOUT | INFERENCE_ERROR | INVALID_RESULT

record 'w sentiment_module =
  sm_rows :: "(news_input \<times> sentiment_result \<times> nat) list"
  sm_sequence :: nat
  sm_snapshots :: "(string, sealed_points) jsmap"
  sm_hashes :: "(string, string) jsmap"
  sm_failures :: "(string \<times> failure_reason) list"
  sm_world :: 'w

record 'w sentiment_env =
  sv_analyze :: "news_input \<Rightarrow> ('w, sentiment_result) call"
  sv_uuid :: "('w, string) call"
  sv_hash :: "string \<Rightarrow> string"
  sv_now :: "'w \<Rightarrow> string"

section \<open>Rules\<close>

definition canonical_timestamp :: "string \<Rightarrow> bool" where
  "canonical_timestamp s = (case date_parse s of None \<Rightarrow> False | Some t \<Rightarrow> ends_with ''Z'' s \<and> to_iso t = s)"

definition required_text :: "string \<Rightarrow> bool" where
  "required_text s = (trim s \<noteq> [])"

definition validate_input :: "news_input \<Rightarrow> news_input result" where
  "validate_input i = (if \<not> list_all required_text [ni_news i, ni_title i, ni_content i, ni_source i] \<or>
     \<not> canonical_timestamp (ni_published i) \<or> \<not> list_all required_text (ni_coins i) then throw ''INVALID_INPUT'' else return i)"

definition outside_unit :: "number \<Rightarrow> bool" where
  "outside_unit x = (\<not> is_finite x \<or> nlt x (num (-1)) \<or> nlt (num 1) x)"

definition validate_result :: "sentiment_result \<Rightarrow> news_input \<Rightarrow> sentiment_result result" where
  "validate_result r i = (if \<not> required_text (ar_news r) \<or> outside_unit (ar_score r) \<or> \<not> list_all required_text [ar_model r, ar_version r] \<or>
     \<not> canonical_timestamp (ar_analyzed r) \<or> ar_news r \<noteq> ni_news i then throw ''INVALID_RESULT'' else return r)"

definition quote_suffixes :: "string list" where
  "quote_suffixes = [''USDT'', ''USDC'', ''BUSD'', ''FDUSD'', ''USD'']"

definition base_asset :: "string \<Rightarrow> bool" where
  "base_asset c = (required_text c \<and> c = to_upper c \<and> \<not> list_ex (\<lambda>q. ends_with q c) quote_suffixes \<and> 2 \<le> length c \<and> length c \<le> 12 \<and>
     list_all (\<lambda>x. is_upper x \<or> is_digit x) c)"

definition range_ok :: "string \<Rightarrow> string \<Rightarrow> bool" where
  "range_ok a b = (canonical_timestamp a \<and> canonical_timestamp b \<and> (case (date_parse b, date_parse a) of (Some y, Some x) \<Rightarrow> x < y | _ \<Rightarrow> False))"

definition validate_snapshot_command :: "sentiment_command \<Rightarrow> sentiment_command result" where
  "validate_snapshot_command c = (if \<not> base_asset (sq_coin c) \<or> \<not> range_ok (sq_from c) (sq_to c) \<or> \<not> is_integer (sq_window_seconds c) \<or> nle (sq_window_seconds c) (num 0) \<or>
     \<not> list_all required_text [sq_model_name c, sq_model_version c] \<or> \<not> is_sha256 (sq_model_sha256 c) then throw ''INVALID_SNAPSHOT'' else return (c\<lparr>sq_model_sha256 := to_lower (sq_model_sha256 c)\<rparr>))"

definition validate_point :: "point \<Rightarrow> point result" where
  "validate_point p = (if \<not> canonical_timestamp (pt_timestamp p) \<or> outside_unit (pt_score p) then throw ''INVALID_SNAPSHOT'' else return p)"

section \<open>Repositories\<close>

definition insert_result :: "sentiment_result \<Rightarrow> news_input \<Rightarrow> ('w sentiment_module, sentiment_result) call" where
  "insert_result r i m = (if list_ex (\<lambda>(_, x, _). ar_news x = ar_news r \<and> ar_model x = ar_model r \<and> ar_version x = ar_version r) (sm_rows m)
     then (m, throw ''DUPLICATE_RESULT'')
     else (m\<lparr>sm_rows := sm_rows m @ [(i, r, sm_sequence m + 1)], sm_sequence := sm_sequence m + 1\<rparr>, return r))"

definition newest_result :: "(news_input \<times> sentiment_result \<times> nat) compare_fn" where
  "newest_result x y = (case (x, y) of ((_, a, i), (_, b, j)) \<Rightarrow> or_else (locale_compare (ar_analyzed b) (ar_analyzed a)) (int j - int i))"

definition read_latest_for_news :: "string \<Rightarrow> 'w sentiment_module \<Rightarrow> sentiment_result option" where
  "read_latest_for_news i m = (case sort_by newest_result (filter (\<lambda>(_, r, _). ar_news r = i) (sm_rows m)) of [] \<Rightarrow> None | (_, r, _) # _ \<Rightarrow> Some r)"

definition rows_for_snapshot :: "sentiment_command \<Rightarrow> 'w sentiment_module \<Rightarrow> (news_input \<times> sentiment_result) list" where
  "rows_for_snapshot c m = map (\<lambda>(i, r, _). (i, r)) (filter (\<lambda>(i, r, _). ar_model r = sq_model_name c \<and> ar_version r = sq_model_version c \<and>
     sq_coin c \<in> set (ni_coins i) \<and> sq_from c \<le> ni_published i \<and> ni_published i < sq_to c) (sm_rows m))"

definition insert_sealed :: "sentiment_ref \<Rightarrow> point list \<Rightarrow> ('w sentiment_module, sentiment_ref) call" where
  "insert_sealed r ps m = (case present (js_get (sm_hashes m) (sr_sha256 r)) of
     Some i \<Rightarrow> (case js_get (sm_snapshots m) i of Some x \<Rightarrow> (m, return (sl_ref x)) | None \<Rightarrow> (m, throw ''TypeError''))
   | None \<Rightarrow> (m\<lparr>sm_snapshots := js_set (sr_id r) \<lparr>sl_ref = r, sl_points = ps\<rparr> (sm_snapshots m), sm_hashes := js_set (sr_sha256 r) (sr_id r) (sm_hashes m)\<rparr>, return r))"

section \<open>Analysis\<close>

definition sentiment_codes :: "string list" where
  "sentiment_codes = [''ANALYSIS_FAILED'', ''DUPLICATE_RESULT'', ''INVALID_INPUT'', ''INVALID_RESULT'', ''INVALID_SNAPSHOT'', ''SNAPSHOT_NOT_FOUND'']"

definition failure_reason_of :: "string \<Rightarrow> failure_reason" where
  "failure_reason_of e = (if has_part ''timeout'' (to_lower e) then TIMEOUT else if e = ''INVALID_RESULT'' then INVALID_RESULT else INFERENCE_ERROR)"

definition record_failure :: "string \<Rightarrow> string \<Rightarrow> ('w sentiment_module, unit) call" where
  "record_failure news e m = (m\<lparr>sm_failures := sm_failures m @ [(news, failure_reason_of e)]\<rparr>, return ())"

definition in_analysis :: "('w, 'a) call \<Rightarrow> ('w sentiment_module, 'a) call" where
  "in_analysis f m = (case f (sm_world m) of (w, r) \<Rightarrow> (m\<lparr>sm_world := w\<rparr>, r))"

definition analyze_news :: "'w sentiment_env \<Rightarrow> news_input \<Rightarrow> ('w sentiment_module, sentiment_result) call" where
  "analyze_news env i = call_bind (call_of (validate_input i)) (\<lambda>x. call_try
     (call_bind (in_analysis (sv_analyze env x)) (\<lambda>r. call_bind (call_of (validate_result r x)) (\<lambda>y. insert_result y x)))
     (\<lambda>e. call_bind (record_failure (ni_news x) e) (\<lambda>_. call_throw (if e \<in> set sentiment_codes then e else ''ANALYSIS_FAILED''))))"

section \<open>Sealed points\<close>

text \<open>The end of the window a time falls into: the start of the range itself belongs to the first window.\<close>

definition ceil_div :: "int \<Rightarrow> int \<Rightarrow> int" where
  "ceil_div a b = - ((- a) div b)"

definition window_ms :: "number \<Rightarrow> int" where
  "window_ms w = int (nat_of_number w) * 1000"

definition window_end :: "int \<Rightarrow> int \<Rightarrow> int \<Rightarrow> int" where
  "window_end start w t = start + max 1 (ceil_div (t - start) w) * w"

definition label_for :: "number \<Rightarrow> sentiment_label" where
  "label_for x = (if nlt (num 0) x then POSITIVE else if nlt x (num 0) then NEGATIVE else NEUTRAL)"

type_synonym buckets = "(int, number list) jsmap"

definition add_row :: "sentiment_command \<Rightarrow> int \<Rightarrow> int \<Rightarrow> news_input \<times> sentiment_result \<Rightarrow> buckets \<Rightarrow> buckets result" where
  "add_row c start stop row bs = (case row of (i, x) \<Rightarrow> and_then (validate_input i) (\<lambda>_. and_then (validate_result x i) (\<lambda>r.
     if ar_model r \<noteq> sq_model_name c \<or> ar_version r \<noteq> sq_model_version c \<or> sq_coin c \<notin> set (ni_coins i) then return bs
     else case date_parse (ni_published i) of None \<Rightarrow> return bs
       | Some t \<Rightarrow> if t < start \<or> t \<ge> stop then return bs
           else let end = window_end start (window_ms (sq_window_seconds c)) t in
             if end > stop then return bs
             else return (js_set end ((case js_get bs end of None \<Rightarrow> [] | Some xs \<Rightarrow> xs) @ [ar_score r]) bs))))"

definition average :: "number list \<Rightarrow> number" where
  "average xs = to_fixed_num 12 (ndiv (foldl nadd (num 0) xs) (num (int (length xs))))"

definition point_of :: "int \<times> number list \<Rightarrow> point result" where
  "point_of b = (case b of (end, xs) \<Rightarrow> validate_point \<lparr>pt_timestamp = to_iso end, pt_label = label_for (average xs), pt_score = average xs\<rparr>)"

definition by_end :: "(int \<times> number list) compare_fn" where
  "by_end a b = fst a - fst b"

definition aggregate_points :: "sentiment_command \<Rightarrow> (news_input \<times> sentiment_result) list \<Rightarrow> point list result" where
  "aggregate_points c rows = (case (date_parse (sq_from c), date_parse (sq_to c)) of
     (Some start, Some stop) \<Rightarrow> and_then (fold_results (add_row c start stop) rows []) (\<lambda>bs. map_results point_of (sort_by by_end bs))
   | _ \<Rightarrow> return [])"

fun label_text :: "sentiment_label \<Rightarrow> string" where
  "label_text POSITIVE = ''POSITIVE''"
| "label_text NEUTRAL = ''NEUTRAL''"
| "label_text NEGATIVE = ''NEGATIVE''"

definition snapshot_text :: "sentiment_command \<Rightarrow> point list \<Rightarrow> string" where
  "snapshot_text c ps = json_stringify (JObj [(''relatedCoin'', JStr (sq_coin c)), (''range'', JObj [(''from'', JStr (sq_from c)), (''to'', JStr (sq_to c))]),
     (''aggregationWindowSeconds'', JNum (sq_window_seconds c)), (''modelName'', JStr (sq_model_name c)), (''modelVersion'', JStr (sq_model_version c)),
     (''modelSha256'', JStr (sq_model_sha256 c)), (''points'', JArr (map (\<lambda>p. JArr [JStr (pt_timestamp p), JStr (label_text (pt_label p)), JNum (pt_score p)]) ps))])"

definition ref_of :: "sentiment_command \<Rightarrow> string \<Rightarrow> point list \<Rightarrow> string \<Rightarrow> string \<Rightarrow> sentiment_ref" where
  "ref_of c i ps sha now = \<lparr>sr_id = i, sr_coin = sq_coin c, sr_from = sq_from c, sr_to = sq_to c, sr_window_seconds = sq_window_seconds c,
     sr_model_name = sq_model_name c, sr_model_version = sq_model_version c, sr_model_sha256 = sq_model_sha256 c, sr_point_count = num (int (length ps)),
     sr_sha256 = sha, sr_created_at = now\<rparr>"

definition create_snapshot :: "'w sentiment_env \<Rightarrow> sentiment_command \<Rightarrow> ('w sentiment_module, sentiment_ref) call" where
  "create_snapshot env c = call_bind (call_of (validate_snapshot_command c)) (\<lambda>n.
     call_bind (\<lambda>m. (m, aggregate_points n (rows_for_snapshot n m))) (\<lambda>ps.
     call_bind (call_if (ps = []) ''INVALID_SNAPSHOT'') (\<lambda>_.
     call_bind (in_analysis (sv_uuid env)) (\<lambda>i m.
       insert_sealed (ref_of n i ps (sv_hash env (snapshot_text n ps)) (sv_now env (sm_world m))) ps m))))"

definition get_snapshot_ref :: "string \<Rightarrow> 'w sentiment_module \<Rightarrow> sentiment_ref result" where
  "get_snapshot_ref i m = (case js_get (sm_snapshots m) i of None \<Rightarrow> throw ''SNAPSHOT_NOT_FOUND'' | Some x \<Rightarrow> return (sl_ref x))"

definition read_snapshot :: "string \<Rightarrow> 'w sentiment_module \<Rightarrow> sealed_points result" where
  "read_snapshot i m = (case js_get (sm_snapshots m) i of None \<Rightarrow> throw ''SNAPSHOT_NOT_FOUND''
     | Some x \<Rightarrow> and_then (map_results validate_point (sl_points x)) (\<lambda>ps.
         if \<not> neq (num (int (length ps))) (sr_point_count (sl_ref x)) \<or> \<not> distinct (map pt_timestamp ps) then throw ''INVALID_SNAPSHOT''
         else return \<lparr>sl_ref = sl_ref x, sl_points = ps\<rparr>))"

text \<open>The reader of a sealed snapshot: the point of the window that ends at the close of the candle.\<close>

definition read_at :: "sealed_points \<Rightarrow> string \<Rightarrow> string \<Rightarrow> point option" where
  "read_at x i close_time = (if sr_id (sl_ref x) \<noteq> i then None
     else case (date_parse (sr_from (sl_ref x)), date_parse (sr_to (sl_ref x)), date_parse close_time) of
       (Some start, Some stop, Some t) \<Rightarrow>
         if t \<le> start \<or> t > stop then None
         else let end = window_end start (window_ms (sr_window_seconds (sl_ref x))) t in
           if end > stop \<or> end \<noteq> t then None else find (\<lambda>p. pt_timestamp p = to_iso end) (sl_points x)
     | _ \<Rightarrow> None)"

section \<open>The lexicon adapter\<close>

definition positive_words :: "string list" where
  "positive_words = [''adoption'', ''approval'', ''bullish'', ''confidence'', ''gain'', ''growth'', ''inflow'', ''positive'', ''rally'', ''support'', ''upgrade'']"

definition negative_words :: "string list" where
  "negative_words = [''bearish'', ''crash'', ''exploit'', ''hack'', ''loss'', ''negative'', ''outflow'', ''risk'', ''sell'', ''shutdown'']"

definition lexicon_label :: "number \<Rightarrow> sentiment_label" where
  "lexicon_label x = (if nle (lit 15 2) x then POSITIVE else if nle x (nneg (lit 15 2)) then NEGATIVE else NEUTRAL)"

fun words_from :: "string \<Rightarrow> string \<Rightarrow> string list" where
  "words_from [] cur = (if cur = [] then [] else [cur])"
| "words_from (c # s) cur = (if is_lower c \<or> is_digit c then words_from s (cur @ [c])
     else (if cur = [] then [] else [cur]) @ words_from s [])"

definition words_of :: "string \<Rightarrow> string list" where
  "words_of s = words_from (to_lower s) []"

definition lexicon_score :: "string list \<Rightarrow> number" where
  "lexicon_score ws = (let gains = int (length (filter (\<lambda>w. w \<in> set positive_words) ws)); losses = int (length (filter (\<lambda>w. w \<in> set negative_words) ws)) in
     to_fixed_num 12 (nmax (num (-1)) (nmin (num 1) (ndiv (num (gains - losses)) (num (max 1 (gains + losses)))))))"

definition lexicon_analyze :: "string \<Rightarrow> news_input \<Rightarrow> sentiment_result" where
  "lexicon_analyze now i = (let score = lexicon_score (words_of (ni_title i @ '' '' @ ni_content i)) in
     \<lparr>ar_news = ni_news i, ar_label = lexicon_label score, ar_score = score, ar_model = ''LOCAL_LEXICON'', ar_version = ''1.0.0'', ar_analyzed = now\<rparr>)"


section \<open>What a sealed point averages\<close>

text \<open>The times that belong to the window that ends at \<open>end\<close>, and the scores published in it.\<close>

definition in_its_window :: "int \<Rightarrow> int \<Rightarrow> int \<Rightarrow> int \<Rightarrow> bool" where
  "in_its_window start w end t = (end - w < t \<and> t \<le> end \<or> t = start \<and> end = start + w)"

definition counted :: "sentiment_command \<Rightarrow> int \<Rightarrow> int \<Rightarrow> news_input \<times> sentiment_result \<Rightarrow> int option" where
  "counted c start stop row = (case row of (i, r) \<Rightarrow>
     if ar_model r = sq_model_name c \<and> ar_version r = sq_model_version c \<and> sq_coin c \<in> set (ni_coins i)
     then (case date_parse (ni_published i) of Some t \<Rightarrow> if start \<le> t \<and> t < stop then Some t else None | None \<Rightarrow> None) else None)"

definition window_scores :: "sentiment_command \<Rightarrow> int \<Rightarrow> int \<Rightarrow> int \<Rightarrow> (news_input \<times> sentiment_result) list \<Rightarrow> number list" where
  "window_scores c start stop end rows = map (\<lambda>(i, r). ar_score r)
     (filter (\<lambda>row. case counted c start stop row of Some t \<Rightarrow> in_its_window start (window_ms (sq_window_seconds c)) end t | None \<Rightarrow> False) rows)"

lemma ceil_div_bounds:
  assumes "0 < b"
  shows "(ceil_div a b - 1) * b < a" and "a \<le> ceil_div a b * b"
proof -
  define k r where "k = (- a) div b" and "r = (- a) mod b"
  have "- a = k * b + r" "0 \<le> r" "r < b" using assms by (simp_all add: k_def r_def)
  then show "(ceil_div a b - 1) * b < a" "a \<le> ceil_div a b * b"
    by (simp_all add: ceil_div_def k_def[symmetric] left_diff_distrib)
qed

lemma window_end_in:
  assumes "0 < w" and "start \<le> t"
  shows "in_its_window start w (window_end start w t) t" and "start + w \<le> window_end start w t"
    and "w dvd window_end start w t - start"
proof -
  let ?k = "ceil_div (t - start) w"
  have b: "(?k - 1) * w < t - start" "t - start \<le> ?k * w" using ceil_div_bounds[OF assms(1)] by simp_all
  show "w dvd window_end start w t - start" by (simp add: window_end_def)
  have "0 \<le> ?k * w" using b(2) assms(2) by linarith
  then have k: "0 \<le> ?k" using assms(1) by (simp add: zero_le_mult_iff)
  have "1 * w \<le> max 1 ?k * w" using assms(1) by (intro mult_right_mono) simp_all
  then show "start + w \<le> window_end start w t" by (simp add: window_end_def)
  show "in_its_window start w (window_end start w t) t"
  proof (cases "?k = 0")
    case True
    then have "t = start" using b(2) assms(2) by simp
    then show ?thesis using True by (simp add: in_its_window_def window_end_def)
  next
    case False
    then have "max 1 ?k = ?k" using k by simp
    then show ?thesis using b by (simp add: in_its_window_def window_end_def algebra_simps)
  qed
qed

lemma window_end_unique:
  assumes w: "0 < w" and t: "start \<le> t" and e: "in_its_window start w end t" "start + w \<le> end" "w dvd end - start"
  shows "end = window_end start w t"
proof -
  note u = window_end_in[OF w t]
  let ?u = "window_end start w t"
  have "w dvd (end - start) - (?u - start)" using e(3) u(3) by (rule dvd_diff)
  then have d: "w dvd end - ?u" by simp
  have "\<bar>end - ?u\<bar> < w"
    using e(1,2) u(1,2) w by (auto simp: in_its_window_def)
  then show ?thesis using d w zdvd_not_zless[of "\<bar>end - ?u\<bar>" w] by (cases "end = ?u") auto
qed


text \<open>The buckets of the rows read so far: for each end of a window the scores published in it, in order.\<close>

definition buckets_of :: "sentiment_command \<Rightarrow> int \<Rightarrow> int \<Rightarrow> (news_input \<times> sentiment_result) list \<Rightarrow> buckets \<Rightarrow> bool" where
  "buckets_of c start stop rows bs = (js_wf bs \<and> (\<forall>end. js_get bs end =
     (if end \<le> stop \<and> start + window_ms (sq_window_seconds c) \<le> end \<and> window_ms (sq_window_seconds c) dvd end - start \<and> window_scores c start stop end rows \<noteq> []
      then Some (window_scores c start stop end rows) else None)))"

lemma window_scores_snoc:
  assumes "0 < window_ms (sq_window_seconds c)" "start + window_ms (sq_window_seconds c) \<le> end" "window_ms (sq_window_seconds c) dvd end - start"
  shows "window_scores c start stop end (rows @ [(i, r)]) = window_scores c start stop end rows @
    (case counted c start stop (i, r) of Some t \<Rightarrow> if end = window_end start (window_ms (sq_window_seconds c)) t then [ar_score r] else [] | None \<Rightarrow> [])"
proof (cases "counted c start stop (i, r)")
  case (Some t)
  then have "start \<le> t" by (auto simp: counted_def split: if_splits option.splits)
  then have "in_its_window start (window_ms (sq_window_seconds c)) end t \<longleftrightarrow> end = window_end start (window_ms (sq_window_seconds c)) t"
    using assms window_end_unique window_end_in by blast
  then show ?thesis using Some by (simp add: window_scores_def)
qed (simp add: window_scores_def)

lemma add_row_counted:
  assumes "add_row c start stop (i, r) bs = Inr bs'"
  shows "bs' = (case counted c start stop (i, r) of None \<Rightarrow> bs
    | Some t \<Rightarrow> let end = window_end start (window_ms (sq_window_seconds c)) t in
        if end > stop then bs else js_set end ((case js_get bs end of None \<Rightarrow> [] | Some xs \<Rightarrow> xs) @ [ar_score r]) bs)"
  using assms by (auto simp: add_row_def counted_def Let_def validate_result_def result_simps split: if_splits option.splits)

lemma add_row_buckets:
  assumes w: "0 < window_ms (sq_window_seconds c)" and b: "buckets_of c start stop rows bs"
    and step: "add_row c start stop (i, r) bs = Inr bs'"
  shows "buckets_of c start stop (rows @ [(i, r)]) bs'"
proof (cases "counted c start stop (i, r)")
  case None
  then have "bs' = bs" using add_row_counted[OF step] by simp
  moreover have "\<And>end. window_scores c start stop end (rows @ [(i, r)]) = window_scores c start stop end rows"
    using None by (simp add: window_scores_def)
  ultimately show ?thesis using b by (simp add: buckets_of_def)
next
  case (Some t)
  let ?u = "window_end start (window_ms (sq_window_seconds c)) t"
  have "start \<le> t" using Some by (auto simp: counted_def split: if_splits option.splits)
  note u = window_end_in[OF w this]
  have bs': "bs' = (if ?u > stop then bs else js_set ?u ((case js_get bs ?u of None \<Rightarrow> [] | Some xs \<Rightarrow> xs) @ [ar_score r]) bs)"
    using add_row_counted[OF step] Some by (simp add: Let_def)
  have "js_wf bs'" using b bs' by (simp add: buckets_of_def js_wf_set)
  moreover have "js_get bs' e = (if e \<le> stop \<and> start + window_ms (sq_window_seconds c) \<le> e \<and> window_ms (sq_window_seconds c) dvd e - start \<and> window_scores c start stop e (rows @ [(i, r)]) \<noteq> []
      then Some (window_scores c start stop e (rows @ [(i, r)])) else None)" for e
  proof (cases "e \<le> stop \<and> start + window_ms (sq_window_seconds c) \<le> e \<and> window_ms (sq_window_seconds c) dvd e - start")
    case True
    then have s: "window_scores c start stop e (rows @ [(i, r)]) = window_scores c start stop e rows @ (if e = ?u then [ar_score r] else [])"
      using window_scores_snoc[OF w] Some by simp
    have "js_get bs e = (if window_scores c start stop e rows \<noteq> [] then Some (window_scores c start stop e rows) else None)"
      using b True by (simp add: buckets_of_def)
    then show ?thesis using True by (auto simp: s bs' js_get_set split: option.splits if_splits)
  next
    case False
    then have "js_get bs e = None" using b unfolding buckets_of_def by metis
    moreover have "e \<noteq> ?u \<or> ?u > stop" using False u by auto
    ultimately show ?thesis using False by (auto simp: bs' js_get_set)
  qed
  ultimately show ?thesis by (simp add: buckets_of_def)
qed

lemma fold_rows_buckets:
  assumes w: "0 < window_ms (sq_window_seconds c)" and "fold_results (add_row c start stop) rows [] = Inr bs"
  shows "buckets_of c start stop rows bs"
  using assms(2)
proof (induction rows arbitrary: bs rule: rev_induct)
  case Nil
  then show ?case by (simp add: buckets_of_def window_scores_def)
next
  case (snoc x rows)
  obtain i r where x: "x = (i, r)" by (cases x)
  from snoc(2) obtain b where "fold_results (add_row c start stop) rows [] = Inr b" "add_row c start stop (i, r) b = Inr bs"
    by (auto simp: fold_results_append result_simps x)
  then show ?case using snoc(1) add_row_buckets[OF w] x by blast
qed

lemma window_positive:
  assumes "validate_snapshot_command c0 = Inr c"
  shows "0 < window_ms (sq_window_seconds c)"
proof -
  have "is_integer (sq_window_seconds c)" "\<not> nle (sq_window_seconds c) (num 0)"
    using assms by (auto simp: validate_snapshot_command_def split: if_splits)
  then obtain q where "sq_window_seconds c = Fin q" "of_int \<lfloor>q\<rfloor> = q" "0 < q"
    by (cases "sq_window_seconds c") auto
  moreover from this(2,3) have "0 < \<lfloor>q\<rfloor>" by (metis of_int_0_less_iff)
  ultimately show ?thesis by (simp add: window_ms_def)
qed

lemma points_of_buckets:
  "map_results point_of bs = Inr ps \<Longrightarrow>
   ps = map (\<lambda>(e, xs). \<lparr>pt_timestamp = to_iso e, pt_label = label_for (average xs), pt_score = average xs\<rparr>) bs"
proof (induction bs arbitrary: ps)
  case (Cons b bs)
  then show ?case by (auto simp: result_simps point_of_def validate_point_def split: prod.splits if_splits)
qed simp

interpretation end_order: comparator_laws by_end "\<lambda>_. True"
  by unfold_locales (auto simp: by_end_def)

lemma sorted_by_end:
  assumes "js_wf bs"
  shows "sorted_wrt (<) (map fst (sort_by by_end bs))"
proof -
  have "sorted_wrt (\<lambda>a b. by_end a b \<le> 0) (sort_by by_end bs)"
    by (rule end_order.sort_by_sorted) (simp add: list_all_iff)
  then have "sorted (map fst (sort_by by_end bs))"
    by (simp add: sorted_map by_end_def)
  moreover have "distinct (map fst (sort_by by_end bs))"
    using assms mset_eq_imp_distinct_iff[of "map fst (sort_by by_end bs)" "map fst bs"] by (simp add: js_wf_def mset_map)
  ultimately show ?thesis by (simp add: strict_sorted_iff)
qed

definition snapshot_ends :: "sentiment_command \<Rightarrow> int \<Rightarrow> int \<Rightarrow> (news_input \<times> sentiment_result) list \<Rightarrow> int set" where
  "snapshot_ends c start stop rows = {e. e \<le> stop \<and> start + window_ms (sq_window_seconds c) \<le> e \<and>
     window_ms (sq_window_seconds c) dvd e - start \<and> window_scores c start stop e rows \<noteq> []}"

definition window_point :: "sentiment_command \<Rightarrow> int \<Rightarrow> int \<Rightarrow> (news_input \<times> sentiment_result) list \<Rightarrow> int \<Rightarrow> point" where
  "window_point c start stop rows e = \<lparr>pt_timestamp = to_iso e, pt_label = label_for (average (window_scores c start stop e rows)),
     pt_score = average (window_scores c start stop e rows)\<rparr>"

lemma aggregated:
  assumes w: "0 < window_ms (sq_window_seconds c)" and a: "aggregate_points c rows = Inr ps"
    and d: "date_parse (sq_from c) = Some start" "date_parse (sq_to c) = Some stop"
  shows "\<exists>ends. sorted_wrt (<) ends \<and> set ends = snapshot_ends c start stop rows \<and> ps = map (window_point c start stop rows) ends"
proof -
  obtain bs where f: "fold_results (add_row c start stop) rows [] = Inr bs" and m: "map_results point_of (sort_by by_end bs) = Inr ps"
    using a d by (auto simp: aggregate_points_def result_simps)
  have b: "buckets_of c start stop rows bs" using fold_rows_buckets[OF w f] .
  then have wf: "js_wf bs" by (simp add: buckets_of_def)
  have get: "(e, xs) \<in> set bs \<longleftrightarrow> js_get bs e = Some xs" for e xs
    using wf by (simp add: js_wf_def js_get_def)
  have "e \<in> set (map fst (sort_by by_end bs)) \<longleftrightarrow> (\<exists>xs. js_get bs e = Some xs)" for e
    using get by (force simp: image_iff)
  then have keys: "set (map fst (sort_by by_end bs)) = snapshot_ends c start stop rows"
    using b unfolding buckets_of_def snapshot_ends_def set_eq_iff mem_Collect_eq by (metis option.distinct(1))
  have vals: "xs = window_scores c start stop e rows" if "(e, xs) \<in> set bs" for e xs
    using b get that unfolding buckets_of_def by (metis option.distinct(1) option.inject)
  have "ps = map (window_point c start stop rows) (map fst (sort_by by_end bs))"
    unfolding points_of_buckets[OF m] map_map by (rule map_cong) (auto simp: window_point_def dest!: vals)
  then show ?thesis using sorted_by_end[OF wf] keys by blast
qed

lemma year_step: "day_from_year y \<le> day_from_year (y + 1)"
  using year_length[of y] by (simp split: if_splits)

text \<open>Instants between two instants of the years 0 to 9999 are of those years.\<close>

lemma iso_range_between:
  assumes "iso_range a" "iso_range b" "a \<le> t" "t \<le> b"
  shows "iso_range t"
proof -
  have mono: "year_from_day d \<le> year_from_day e" if "d \<le> e" for d e
  proof (rule ccontr)
    assume "\<not> ?thesis"
    then have "year_from_day e + 1 \<le> year_from_day d" by simp
    then have "day_from_year (year_from_day e + 1) \<le> day_from_year (year_from_day d)"
      by (induction rule: int_ge_induct) (simp, use order_trans year_step in blast)
    then show False using year_from_day_bounds[of d] year_from_day_bounds[of e] that by linarith
  qed
  have "a div ms_per_day \<le> t div ms_per_day" "t div ms_per_day \<le> b div ms_per_day"
    using assms by (simp_all add: ms_per_day_def zdiv_mono1)
  then show ?thesis using mono assms(1,2) unfolding iso_range_def by (meson order_trans)
qed

lemma to_iso_inj: "iso_range a \<Longrightarrow> iso_range b \<Longrightarrow> to_iso a = to_iso b \<Longrightarrow> a = b"
  by (metis date_parse_to_iso option.inject)

lemma find_window_point:
  assumes "\<And>e. e \<in> set ends \<Longrightarrow> iso_range e" and "iso_range t"
  shows "find (\<lambda>p. pt_timestamp p = to_iso t) (map (window_point c start stop rows) ends) =
    (if t \<in> set ends then Some (window_point c start stop rows t) else None)"
  using assms by (induction ends) (auto simp: window_point_def dest: to_iso_inj)

lemma window_end_self:
  assumes "0 < w" "start < t"
  shows "window_end start w t = t \<longleftrightarrow> start + w \<le> t \<and> w dvd t - start"
proof
  assume "window_end start w t = t"
  then show "start + w \<le> t \<and> w dvd t - start" using window_end_in[of w start t] assms by simp
next
  assume "start + w \<le> t \<and> w dvd t - start"
  then show "window_end start w t = t"
    using window_end_unique[of w start t t] assms by (simp add: in_its_window_def)
qed

lemma read_sealed:
  assumes v: "validate_snapshot_command c0 = Inr c" and a: "aggregate_points c rows = Inr ps"
    and d: "date_parse (sq_from c) = Some start" "date_parse (sq_to c) = Some stop" and r: "iso_range start" "iso_range stop"
    and t: "date_parse close_time = Some t"
  shows "read_at \<lparr>sl_ref = ref_of c i ps sha now, sl_points = ps\<rparr> i close_time =
    (if t \<in> snapshot_ends c start stop rows then Some (window_point c start stop rows t) else None)"
proof -
  note w = window_positive[OF v]
  obtain ends where e: "set ends = snapshot_ends c start stop rows" "ps = map (window_point c start stop rows) ends"
    using aggregated[OF w a d] by blast
  have iso: "iso_range x" if "start \<le> x" "x \<le> stop" for x using iso_range_between[OF r that] .
  have ends: "iso_range x" if "x \<in> set ends" for x
    using that w by (intro iso) (auto simp: e snapshot_ends_def)
  show ?thesis
  proof (cases "start < t \<and> t \<le> stop \<and> window_end start (window_ms (sq_window_seconds c)) t = t")
    case True
    then show ?thesis using find_window_point[of ends t c start stop rows] ends iso[of t]
      by (simp add: read_at_def ref_of_def d t e Let_def)
  next
    case False
    then have "t \<notin> snapshot_ends c start stop rows"
      using w window_end_self[OF w, of start t] by (auto simp: snapshot_ends_def)
    then show ?thesis using False by (auto simp: read_at_def ref_of_def d t Let_def)
  qed
qed

text \<open>C33. Reading a sealed snapshot at the close of a candle gives, exactly when the close ends a whole
  window of the range in which some matching result was published, the point with the rounded average
  and label of precisely the scores published in that window, and nothing at any other time.\<close>

theorem sealed_reader_averages_its_window:
  assumes "validate_snapshot_command c0 = Inr c" and "aggregate_points c rows = Inr ps"
    and "date_parse (sq_from c) = Some start" "date_parse (sq_to c) = Some stop" and "iso_range start" "iso_range stop"
    and "date_parse close_time = Some t"
  shows "read_at \<lparr>sl_ref = ref_of c i ps sha now, sl_points = ps\<rparr> i close_time =
    (if t \<in> snapshot_ends c start stop rows then Some (window_point c start stop rows t) else None)"
  using assms by (rule read_sealed)

text \<open>The results published up to a time.\<close>

definition published_until :: "int \<Rightarrow> (news_input \<times> sentiment_result) list \<Rightarrow> (news_input \<times> sentiment_result) list" where
  "published_until t rows = filter (\<lambda>(i, r). case date_parse (ni_published i) of Some u \<Rightarrow> u \<le> t | None \<Rightarrow> False) rows"

lemma window_scores_until:
  assumes "0 < window_ms (sq_window_seconds c)"
  shows "window_scores c start stop e (published_until e rows) = window_scores c start stop e rows"
  using assms unfolding window_scores_def published_until_def filter_filter
  by (intro arg_cong[where f = "map _"] filter_cong) (auto simp: counted_def in_its_window_def split: option.splits if_splits)

text \<open>C34. What a strategy reads at the close of a candle depends only on results published up to that
  close: two sets of results that agree up to it give the same answer, whatever was published later.\<close>

theorem sealed_reader_has_no_look_ahead:
  assumes "validate_snapshot_command c0 = Inr c" and "aggregate_points c rows = Inr ps" and "aggregate_points c rows' = Inr ps'"
    and "date_parse (sq_from c) = Some start" "date_parse (sq_to c) = Some stop" and "iso_range start" "iso_range stop"
    and "date_parse close_time = Some t" and "published_until t rows = published_until t rows'"
  shows "read_at \<lparr>sl_ref = ref_of c i ps sha now, sl_points = ps\<rparr> i close_time =
    read_at \<lparr>sl_ref = ref_of c i ps' sha' now', sl_points = ps'\<rparr> i close_time"
proof -
  have "window_scores c start stop t rows = window_scores c start stop t rows'"
    using window_scores_until[OF window_positive[OF assms(1)]] assms(9) by metis
  then show ?thesis
    unfolding read_sealed[OF assms(1,2,4-8)] read_sealed[OF assms(1,3-8)]
    by (simp add: snapshot_ends_def window_point_def)
qed

section \<open>An example\<close>

text \<open>One hour, two results; the second is published after the close of the first window.\<close>

definition hour_command :: sentiment_command where
  "hour_command = \<lparr>sq_coin = ''BTC'', sq_from = ''1970-01-01T00:00:00.000Z'', sq_to = ''1970-01-01T02:00:00.000Z'', sq_window_seconds = num 3600,
     sq_model_name = ''M'', sq_model_version = ''1'', sq_model_sha256 = replicate 64 CHR ''a''\<rparr>"

definition news_at :: "string \<Rightarrow> string \<Rightarrow> news_input" where
  "news_at i published = \<lparr>ni_news = i, ni_title = ''t'', ni_content = ''c'', ni_source = ''s'', ni_published = published, ni_coins = [''BTC'']\<rparr>"

definition scored_result :: "string \<Rightarrow> number \<Rightarrow> sentiment_result" where
  "scored_result i x = \<lparr>ar_news = i, ar_label = POSITIVE, ar_score = x, ar_model = ''M'', ar_version = ''1'', ar_analyzed = ''1970-01-01T02:00:00.000Z''\<rparr>"

definition hour_rows :: "(news_input \<times> sentiment_result) list" where
  "hour_rows = [(news_at ''1'' ''1970-01-01T00:30:00.000Z'', scored_result ''1'' (num 1)), (news_at ''2'' ''1970-01-01T01:30:00.000Z'', scored_result ''2'' (num (-1)))]"

lemma hour_dates:
  "date_parse ''1970-01-01T00:00:00.000Z'' = Some 0" "date_parse ''1970-01-01T00:30:00.000Z'' = Some 1800000"
  "date_parse ''1970-01-01T01:00:00.000Z'' = Some 3600000" "date_parse ''1970-01-01T01:30:00.000Z'' = Some 5400000"
  "date_parse ''1970-01-01T02:00:00.000Z'' = Some 7200000"
  by code_simp+

lemma digit_chars:
  "digit 0 = CHR ''0''" "digit 1 = CHR ''1''" "digit (Suc 0) = CHR ''1''" "digit 2 = CHR ''2''" "digit 3 = CHR ''3''" "digit 4 = CHR ''4''"
  "digit 5 = CHR ''5''" "digit 6 = CHR ''6''" "digit 7 = CHR ''7''" "digit 8 = CHR ''8''" "digit 9 = CHR ''9''"
  by code_simp+

lemma first_day: "year_from_day 0 = 1970" "day_from_year 1970 = 0" "month_of 1970 0 = 1" "month_start 1970 1 = 0"
  by code_simp+

lemma hour_texts:
  "to_iso 0 = ''1970-01-01T00:00:00.000Z''" "to_iso 1800000 = ''1970-01-01T00:30:00.000Z''"
  "to_iso 3600000 = ''1970-01-01T01:00:00.000Z''" "to_iso 5400000 = ''1970-01-01T01:30:00.000Z''"
  "to_iso 7200000 = ''1970-01-01T02:00:00.000Z''"
  by (simp_all add: to_iso_def Let_def ms_per_day_def first_day pad2_def pad3_def pad4_def digit_chars)

lemma hour_ends:
  "ends_with ''Z'' ''1970-01-01T00:00:00.000Z''" "ends_with ''Z'' ''1970-01-01T00:30:00.000Z''" "ends_with ''Z'' ''1970-01-01T01:00:00.000Z''"
  "ends_with ''Z'' ''1970-01-01T01:30:00.000Z''" "ends_with ''Z'' ''1970-01-01T02:00:00.000Z''"
  by code_simp+

lemma hour_canonical:
  "canonical_timestamp ''1970-01-01T00:00:00.000Z''" "canonical_timestamp ''1970-01-01T00:30:00.000Z''"
  "canonical_timestamp ''1970-01-01T01:00:00.000Z''" "canonical_timestamp ''1970-01-01T01:30:00.000Z''"
  "canonical_timestamp ''1970-01-01T02:00:00.000Z''"
  by (simp_all add: canonical_timestamp_def hour_dates hour_texts hour_ends)

lemma hour_iso: "iso_range 0" "iso_range 7200000"
  by code_simp+

lemma hour_valid: "validate_snapshot_command hour_command = Inr hour_command"
proof -
  have "base_asset ''BTC''" "required_text ''M''" "required_text ''1''" "is_sha256 (replicate 64 CHR ''a'')" "to_lower (replicate 64 CHR ''a'') = replicate 64 CHR ''a''"
    by code_simp+
  then show ?thesis
    by (simp add: hour_command_def validate_snapshot_command_def range_ok_def hour_canonical hour_dates number_simps)
qed

lemma hour_averages: "average [num 1] = Fin 1" "average [num (-1)] = Fin (-1)" "label_for (Fin 1) = POSITIVE" "label_for (Fin (-1)) = NEGATIVE"
  by (simp_all add: average_def label_for_def number_simps half_even_def)

lemma hour_texts_required:
  "required_text ''t''" "required_text ''c''" "required_text ''s''" "required_text ''1''" "required_text ''2''" "required_text ''M''" "required_text ''BTC''"
  by code_simp+

lemma hour_units: "\<not> outside_unit (Fin 1)" "\<not> outside_unit (Fin (-1))" "\<not> outside_unit (num 1)" "\<not> outside_unit (num (-1))"
  by (simp_all add: outside_unit_def number_simps)

lemma hour_windows: "window_ms (num 3600) = 3600000" "window_end 0 3600000 1800000 = 3600000" "window_end 0 3600000 5400000 = 7200000"
  by (simp_all add: window_ms_def window_end_def ceil_div_def number_simps)

lemma hour_points: "aggregate_points hour_command hour_rows = Inr
  [\<lparr>pt_timestamp = ''1970-01-01T01:00:00.000Z'', pt_label = POSITIVE, pt_score = Fin 1\<rparr>,
   \<lparr>pt_timestamp = ''1970-01-01T02:00:00.000Z'', pt_label = NEGATIVE, pt_score = Fin (-1)\<rparr>]"
proof -
  have "fold_results (add_row hour_command 0 7200000) hour_rows [] = Inr [(3600000, [num 1]), (7200000, [num (-1)])]"
    by (simp add: hour_rows_def hour_command_def news_at_def scored_result_def add_row_def validate_input_def validate_result_def
      hour_canonical hour_dates hour_texts_required hour_units hour_windows Let_def js_set_def js_get_def)
  moreover have "sort_by by_end [(3600000, [num 1]), (7200000, [num (-1)])] = [(3600000, [num 1]), (7200000, [num (-1)])]"
    by (simp add: by_end_def)
  moreover have "date_parse (sq_from hour_command) = Some 0" "date_parse (sq_to hour_command) = Some 7200000"
    by (simp_all add: hour_command_def hour_dates)
  ultimately show ?thesis
    by (simp add: aggregate_points_def point_of_def validate_point_def hour_canonical hour_texts hour_averages hour_units)
qed

lemma early_points: "aggregate_points hour_command (take 1 hour_rows) = Inr
  [\<lparr>pt_timestamp = ''1970-01-01T01:00:00.000Z'', pt_label = POSITIVE, pt_score = Fin 1\<rparr>]"
  by (simp add: aggregate_points_def point_of_def validate_point_def hour_rows_def hour_command_def news_at_def scored_result_def add_row_def validate_input_def
    validate_result_def hour_canonical hour_texts hour_dates hour_texts_required hour_averages hour_units hour_windows Let_def js_set_def js_get_def)

theorem sealed_reader_averages_its_window_witness:
  "read_at \<lparr>sl_ref = ref_of hour_command ''x'' [\<lparr>pt_timestamp = ''1970-01-01T01:00:00.000Z'', pt_label = POSITIVE, pt_score = Fin 1\<rparr>,
     \<lparr>pt_timestamp = ''1970-01-01T02:00:00.000Z'', pt_label = NEGATIVE, pt_score = Fin (-1)\<rparr>] ''s'' ''n'',
     sl_points = [\<lparr>pt_timestamp = ''1970-01-01T01:00:00.000Z'', pt_label = POSITIVE, pt_score = Fin 1\<rparr>,
     \<lparr>pt_timestamp = ''1970-01-01T02:00:00.000Z'', pt_label = NEGATIVE, pt_score = Fin (-1)\<rparr>]\<rparr> ''x'' ''1970-01-01T01:00:00.000Z'' =
   (if 3600000 \<in> snapshot_ends hour_command 0 7200000 hour_rows
    then Some (window_point hour_command 0 7200000 hour_rows 3600000) else None)"
  by (rule sealed_reader_averages_its_window [OF hour_valid hour_points])
     (simp_all add: hour_command_def hour_dates hour_iso)

theorem sealed_reader_has_no_look_ahead_witness:
  "\<exists>ps ps'. read_at \<lparr>sl_ref = ref_of hour_command ''x'' ps ''s'' ''n'', sl_points = ps\<rparr> ''x'' ''1970-01-01T01:00:00.000Z'' =
     read_at \<lparr>sl_ref = ref_of hour_command ''x'' ps' ''s'' ''n'', sl_points = ps'\<rparr> ''x'' ''1970-01-01T01:00:00.000Z'' \<and> ps \<noteq> ps'"
  using sealed_reader_has_no_look_ahead [OF hour_valid hour_points early_points, of 0 7200000 "''1970-01-01T01:00:00.000Z''" 3600000 "''x''" "''s''" "''n''" "''s''" "''n''"]
  by (intro exI[of _ "[\<lparr>pt_timestamp = ''1970-01-01T01:00:00.000Z'', pt_label = POSITIVE, pt_score = Fin 1\<rparr>,
      \<lparr>pt_timestamp = ''1970-01-01T02:00:00.000Z'', pt_label = NEGATIVE, pt_score = Fin (-1)\<rparr>]"]
      exI[of _ "[\<lparr>pt_timestamp = ''1970-01-01T01:00:00.000Z'', pt_label = POSITIVE, pt_score = Fin 1\<rparr>]"])
     (simp add: hour_command_def hour_dates hour_iso published_until_def hour_rows_def news_at_def)

end
