(* ===== verification/NewsTemplates.thy ===== *)
theory NewsTemplates
  imports JsonText Calls
begin

text \<open>
  Extraction templates of news sites (\<^verbatim>\<open>modules/news/infrastructure\<close>): the in-memory repository with
  its active version per domain and the generator that asks a language model for selectors. The HTTP
  client, the JSON parser, the hash and the clock are parameters. Selectors of a model are values of unknown
  shape, \<open>None\<close> is undefined.
\<close>

section \<open>Data\<close>

record selectors =
  se_container :: "json option"
  se_title :: "json option"
  se_summary :: "json option"
  se_link :: "json option"
  se_time :: "json option"
  se_tags :: "json option"

record extraction_template =
  tp_id :: string
  tp_domain :: string
  tp_version :: string
  tp_selectors :: selectors
  tp_snippet :: string
  tp_confidence :: number
  tp_defect_rate :: number
  tp_active :: bool
  tp_created :: string
  tp_updated :: string

record 'w templates =
  tr_rows :: "(string, extraction_template) jsmap"
  tr_world :: 'w

record 'w template_env =
  te_fetch :: "json \<Rightarrow> ('w, bool \<times> json) call"
  te_parse :: "string \<Rightarrow> json result"
  te_hash :: "string \<Rightarrow> string"
  te_now :: "'w \<Rightarrow> string"
  te_api_key :: "string option"
  te_model :: "string option"

definition in_templates :: "('w, 'a) call \<Rightarrow> ('w templates, 'a) call" where
  "in_templates f m = (case f (tr_world m) of (w, r) \<Rightarrow> (m\<lparr>tr_world := w\<rparr>, r))"

section \<open>Repository\<close>

definition normal_domain :: "string \<Rightarrow> string" where
  "normal_domain d = trim (to_lower d)"

definition of_domain :: "string \<Rightarrow> extraction_template \<Rightarrow> bool" where
  "of_domain d t = (to_lower (tp_domain t) = d)"

definition find_active_by_domain :: "string \<Rightarrow> 'w templates \<Rightarrow> extraction_template option" where
  "find_active_by_domain domain m = find (\<lambda>t. of_domain (normal_domain domain) t \<and> tp_active t) (js_values (tr_rows m))"

definition find_all_by_domain :: "string \<Rightarrow> 'w templates \<Rightarrow> extraction_template list" where
  "find_all_by_domain domain m = filter (of_domain (normal_domain domain)) (js_values (tr_rows m))"

definition find_all_templates :: "'w templates \<Rightarrow> extraction_template list" where
  "find_all_templates m = js_values (tr_rows m)"

text \<open>A loop over the stored objects that assigns to their fields.\<close>

definition update_rows :: "(extraction_template \<Rightarrow> extraction_template) \<Rightarrow> (string, extraction_template) jsmap \<Rightarrow> (string, extraction_template) jsmap" where
  "update_rows f rows = map (\<lambda>(k, t). (k, f t)) rows"

definition template_key :: "string \<Rightarrow> string \<Rightarrow> string" where
  "template_key d v = d @ '':'' @ v"

definition switch_off :: "string \<Rightarrow> string \<Rightarrow> extraction_template \<Rightarrow> extraction_template" where
  "switch_off d v t = (if of_domain d t \<and> tp_version t \<noteq> v then t\<lparr>tp_active := False\<rparr> else t)"

definition save_template :: "extraction_template \<Rightarrow> ('w templates, extraction_template) call" where
  "save_template t m = (let d = normal_domain (tp_domain t);
       rows = (if tp_active t then update_rows (switch_off d (tp_version t)) (tr_rows m) else tr_rows m) in
     (m\<lparr>tr_rows := js_set (template_key d (tp_version t)) (t\<lparr>tp_domain := d\<rparr>) rows\<rparr>, return t))"

definition switch_to :: "string \<Rightarrow> string \<Rightarrow> string \<Rightarrow> extraction_template \<Rightarrow> extraction_template" where
  "switch_to d v now t = (if \<not> of_domain d t then t
     else if tp_version t = v then t\<lparr>tp_active := True, tp_updated := now\<rparr> else t\<lparr>tp_active := False\<rparr>)"

definition last_match :: "('a \<Rightarrow> bool) \<Rightarrow> 'a list \<Rightarrow> 'a option" where
  "last_match p xs = find p (rev xs)"

definition set_active_version :: "'w template_env \<Rightarrow> string \<Rightarrow> string \<Rightarrow> ('w templates, extraction_template) call" where
  "set_active_version env domain version m = (let d = normal_domain domain;
       rows = update_rows (switch_to d version (te_now env (tr_world m))) (tr_rows m) in
     (m\<lparr>tr_rows := rows\<rparr>, case last_match (\<lambda>t. of_domain d t \<and> tp_version t = version) (js_values rows) of
        None \<Rightarrow> throw (''TEMPLATE_NOT_FOUND:'' @ domain @ '':'' @ version) | Some t \<Rightarrow> return t))"

section \<open>Selectors\<close>

definition sel :: "string \<Rightarrow> string \<Rightarrow> string \<Rightarrow> string \<Rightarrow> string \<Rightarrow> string \<Rightarrow> selectors" where
  "sel c t s l d g = \<lparr>se_container = Some (JStr c), se_title = Some (JStr t), se_summary = Some (JStr s),
     se_link = Some (JStr l), se_time = Some (JStr d), se_tags = Some (JStr g)\<rparr>"

definition default_selectors_for :: "string \<Rightarrow> selectors" where
  "default_selectors_for domain = (let d = to_lower domain in
     if has_part ''decrypt'' d then sel ''article, div.grid-cols-1'' ''h3, h2, .article-title'' ''p, .summary, description''
       (''a[href*='' @ [char_of (39 :: nat)] @ ''/'' @ [char_of (39 :: nat)] @ '']'') ''time, span.date'' (''span.category, a[href*='' @ [char_of (39 :: nat)] @ ''/tag'' @ [char_of (39 :: nat)] @ '']'')
     else if has_part ''bankless'' d then sel ''article, div.article-card'' ''h2, h1, .headline'' ''p, .excerpt, .description''
       (''a[href*='' @ [char_of (39 :: nat)] @ ''/read'' @ [char_of (39 :: nat)] @ '']'') ''time, span.published'' ''div.tags''
     else if has_part ''cryptoslate'' d then sel ''article, div.news-feed-item'' ''h1, h2, h3'' ''p, .subdeck'' ''a'' ''time, span.posted-date'' ''div.categories''
     else sel ''article, div.card, div.post, div.news-item'' ''h1, h2, h3, .title, .headline'' ''p, .summary, .description, .excerpt'' ''a'' ''time, .date, .pubDate'' ''.tags, .categories'')"

text \<open>A value as a condition, and in a template literal.\<close>

fun truthy_json :: "json option \<Rightarrow> bool" where
  "truthy_json None = False"
| "truthy_json (Some JNull) = False"
| "truthy_json (Some (JBool b)) = b"
| "truthy_json (Some (JNum x)) = (x \<noteq> NaN \<and> \<not> neq x (num 0))"
| "truthy_json (Some (JStr s)) = (s \<noteq> [])"
| "truthy_json (Some (JArr _)) = True"
| "truthy_json (Some (JObj _)) = True"

definition or_text :: "json option \<Rightarrow> string \<Rightarrow> json option" where
  "or_text x s = (if truthy_json x then x else Some (JStr s))"

fun json_to_string :: "json \<Rightarrow> string" where
  "json_to_string JNull = ''null''"
| "json_to_string (JBool b) = (if b then ''true'' else ''false'')"
| "json_to_string (JNum x) = number_to_string x"
| "json_to_string (JStr s) = s"
| "json_to_string (JArr xs) = join_with '','' (map (\<lambda>x. if x = JNull then [] else json_to_string x) xs)"
| "json_to_string (JObj _) = ''[object Object]''"

fun value_text :: "json option \<Rightarrow> string" where
  "value_text None = ''undefined''"
| "value_text (Some x) = json_to_string x"

text \<open>\<^verbatim>\<open>(answer?.selectors || (answer?.container && answer))\<close>: undefined and null fall through to the default,
  any other falsy container is used as it is, and its fields are undefined.\<close>

definition chosen_selectors :: "json \<Rightarrow> json option" where
  "chosen_selectors answer = (if truthy_json (json_field answer ''selectors'') then json_field answer ''selectors''
     else if truthy_json (json_field answer ''container'') then Some answer
     else if json_field answer ''container'' = Some JNull then None else json_field answer ''container'')"

definition fields_of :: "json \<Rightarrow> selectors" where
  "fields_of j = \<lparr>se_container = json_field j ''container'', se_title = json_field j ''title'', se_summary = json_field j ''summary'',
     se_link = json_field j ''link'', se_time = json_field j ''time'', se_tags = json_field j ''tags''\<rparr>"

definition selectors_of :: "json \<Rightarrow> selectors \<Rightarrow> selectors" where
  "selectors_of answer fallback = (case chosen_selectors answer of None \<Rightarrow> fallback | Some j \<Rightarrow> fields_of j)"

section \<open>The language model\<close>

definition chat_body :: "string \<Rightarrow> string \<Rightarrow> string \<Rightarrow> json" where
  "chat_body model system user = JObj [(''model'', JStr model), (''temperature'', JNum (num 0)),
     (''messages'', JArr [JObj [(''role'', JStr ''system''), (''content'', JStr system)], JObj [(''role'', JStr ''user''), (''content'', JStr user)]]),
     (''response_format'', JObj [(''type'', JStr ''json_object'')])]"

fun first_item :: "json option \<Rightarrow> json option" where
  "first_item (Some (JArr (x # _))) = Some x"
| "first_item (Some (JObj kvs)) = json_field (JObj kvs) ''0''"
| "first_item _ = None"

definition maybe_field :: "json option \<Rightarrow> string \<Rightarrow> json option" where
  "maybe_field x k = (case x of None \<Rightarrow> None | Some j \<Rightarrow> json_field j k)"

definition answer_text :: "json \<Rightarrow> json option" where
  "answer_text data = maybe_field (maybe_field (first_item (json_field data ''choices'')) ''message'') ''content''"

definition model_name :: "'w template_env \<Rightarrow> string" where
  "model_name env = (case present (map_option trim (te_model env)) of None \<Rightarrow> ''gemini-3.6-flash'' | Some s \<Rightarrow> s)"

definition call_llm :: "'w template_env \<Rightarrow> string \<Rightarrow> string \<Rightarrow> ('w templates, json) call" where
  "call_llm env system user = (if present (map_option trim (te_api_key env)) = None then call_return JNull
     else call_try (call_bind (in_templates (te_fetch env (chat_body (model_name env) system user))) (\<lambda>(success, data).
        if \<not> success then call_return JNull
        else (case answer_text data of Some (JStr s) \<Rightarrow> call_of (te_parse env s) | _ \<Rightarrow> call_return JNull)))
      (\<lambda>_. call_return JNull))"

definition generate_prompt :: string where
  "generate_prompt = ''You are an expert HTML parser engineer. Analyze the provided HTML sample and extract the most accurate CSS selectors/tags for articles on this website. Return ONLY a JSON object with keys: container, title, summary, link, time, tags.''"

definition repair_prompt :: string where
  "repair_prompt = ''You are a Self-Healing Web Scraper Optimizer. The previous extraction template suffered from layout drift and high defect rate. Generate updated fallback selectors (comma-separated multi-tier selectors) that ensure 100% data completeness on the new HTML. Return ONLY a JSON object with keys: container, title, summary, link, time, tags.''"

definition newline :: string where
  "newline = [char_of (10 :: nat)]"

definition template_id :: "'w template_env \<Rightarrow> string \<Rightarrow> string \<Rightarrow> string" where
  "template_id env d v = ''tpl-'' @ take 16 (te_hash env (d @ '':'' @ v))"

definition generate_template :: "'w template_env \<Rightarrow> string \<Rightarrow> string \<Rightarrow> ('w templates, extraction_template) call" where
  "generate_template env domain html m = (let d = normal_domain domain; snippet = take 4000 html; now = te_now env (tr_world m) in
     call_bind (call_llm env generate_prompt (''Website Domain: '' @ d @ newline @ ''HTML Sample:'' @ newline @ snippet)) (\<lambda>answer.
       let s = selectors_of answer (default_selectors_for d) in
       call_return \<lparr>tp_id = template_id env d ''v1.0'', tp_domain = d, tp_version = ''v1.0'',
         tp_selectors = \<lparr>se_container = or_text (se_container s) ''article'', se_title = or_text (se_title s) ''h1, h2, h3'',
           se_summary = or_text (se_summary s) ''p'', se_link = or_text (se_link s) ''a'', se_time = or_text (se_time s) ''time'', se_tags = or_text (se_tags s) ''tags''\<rparr>,
         tp_snippet = take 500 snippet, tp_confidence = lit 85 2, tp_defect_rate = num 0, tp_active = True, tp_created = now, tp_updated = now\<rparr>) m)"

text \<open>The version after a version: the second part of \<^verbatim>\<open>version.split(".")\<close> plus one.\<close>

definition next_version :: "string \<Rightarrow> string" where
  "next_version v = (if v = ''v1.0'' then ''v1.1''
     else ''v1.'' @ number_to_string (nadd (case present (second_part CHR ''.'' v) of None \<Rightarrow> num 1 | Some s \<Rightarrow> string_to_number s) (num 1)))"

definition widen :: "selectors \<Rightarrow> selectors \<Rightarrow> selectors" where
  "widen c b = (let text = (\<lambda>x y rest. Some (JStr (value_text x @ '', '' @ value_text y @ rest))) in
     \<lparr>se_container = text (se_container c) (se_container b) [], se_title = text (se_title c) (se_title b) '', .headline, .article-header'',
      se_summary = text (se_summary c) (se_summary b) '', div.desc'', se_link = text (se_link c) (se_link b) [],
      se_time = text (se_time c) (se_time b) '', pubDate'', se_tags = text (or_text (se_tags c) []) (se_tags b) []\<rparr>)"

definition selectors_json :: "selectors \<Rightarrow> json" where
  "selectors_json s = JObj (concat (map (\<lambda>(k, x). case x of None \<Rightarrow> [] | Some j \<Rightarrow> [(k, j)])
     [(''container'', se_container s), (''title'', se_title s), (''summary'', se_summary s), (''link'', se_link s), (''time'', se_time s), (''tags'', se_tags s)]))"

definition repair_template :: "'w template_env \<Rightarrow> string \<Rightarrow> extraction_template \<Rightarrow> string \<Rightarrow> number \<Rightarrow> ('w templates, extraction_template) call" where
  "repair_template env domain current html defects m = (let d = normal_domain domain; snippet = take 4000 html; now = te_now env (tr_world m);
       v = next_version (tp_version current) in
     call_bind (call_llm env repair_prompt (''Domain: '' @ d @ newline @ ''Defect Rate: '' @ number_to_string defects @ ''%'' @ newline @
         ''Previous Template Selectors: '' @ json_stringify (selectors_json (tp_selectors current)) @ newline @ ''New HTML Sample:'' @ newline @ snippet)) (\<lambda>answer.
       call_return \<lparr>tp_id = template_id env d v, tp_domain = d, tp_version = v,
         tp_selectors = selectors_of answer (widen (tp_selectors current) (default_selectors_for d)),
         tp_snippet = take 500 snippet, tp_confidence = lit 95 2, tp_defect_rate = num 0, tp_active = True, tp_created = now, tp_updated = now\<rparr>) m)"

section \<open>Operations of the module\<close>

definition apply_template :: "'w template_env \<Rightarrow> string \<Rightarrow> string \<Rightarrow> ('w templates, extraction_template) call" where
  "apply_template env domain version = set_active_version env domain version"

definition heal_template :: "'w template_env \<Rightarrow> string \<Rightarrow> string \<Rightarrow> bool \<Rightarrow> ('w templates, extraction_template) call" where
  "heal_template env domain html auto = call_bind (\<lambda>m. (m, return (find_active_by_domain domain m))) (\<lambda>found.
     call_bind (case found of Some t \<Rightarrow> call_return t
         | None \<Rightarrow> call_bind (generate_template env domain html) (\<lambda>t. call_bind (save_template t) (\<lambda>_. call_return t))) (\<lambda>active.
     call_bind (repair_template env domain active html (num 100)) (\<lambda>repaired.
       save_template (repaired\<lparr>tp_active := auto\<rparr>))))"


section \<open>One active version per domain\<close>

definition templates_ok :: "(string, extraction_template) jsmap \<Rightarrow> bool" where
  "templates_ok rows = (js_wf rows \<and>
     (\<forall>k t. js_get rows k = Some t \<longrightarrow> k = template_key (tp_domain t) (tp_version t) \<and> to_lower (tp_domain t) = tp_domain t) \<and>
     (\<forall>k t k' t'. js_get rows k = Some t \<and> js_get rows k' = Some t' \<and> tp_active t \<and> tp_active t' \<and> tp_domain t = tp_domain t' \<longrightarrow> k = k'))"

lemma js_get_update [store_simps]: "js_get (update_rows f rows) k = map_option f (js_get rows k)"
  by (induction rows) (auto simp: update_rows_def js_get_def)

lemma js_wf_update [store_simps]: "js_wf (update_rows f rows) = js_wf rows"
  by (simp add: js_wf_def update_rows_def case_prod_beta comp_def)

lemma lower_char_idem: "lower_char (lower_char c) = lower_char c"
proof -
  have "\<not> is_upper (char_of (of_char c + 32 :: nat))" if "is_upper c"
    using that by (simp add: is_upper_def of_char_of take_bit_nat_def)
  then show ?thesis by (simp add: lower_char_def)
qed

lemma set_trim: "set (trim s) \<subseteq> set s"
  by (auto simp: trim_def dest!: set_dropWhileD)

lemma normal_domain_lower: "to_lower (normal_domain d) = normal_domain d"
  unfolding to_lower_def
  by (rule map_idI) (use set_trim [of "to_lower d"] in \<open>auto simp: normal_domain_def to_lower_def lower_char_idem\<close>)

lemma switch_off_fields [simp]: "tp_domain (switch_off d v t) = tp_domain t" "tp_version (switch_off d v t) = tp_version t"
  by (simp_all add: switch_off_def)

lemma switch_to_fields [simp]: "tp_domain (switch_to d v now t) = tp_domain t" "tp_version (switch_to d v now t) = tp_version t"
  by (simp_all add: switch_to_def)

lemma switch_off_active: "tp_active (switch_off d v t) \<Longrightarrow> tp_active t \<and> (of_domain d t \<longrightarrow> tp_version t = v)"
  by (auto simp: switch_off_def split: if_splits)

lemma switch_to_active: "tp_active (switch_to d v now t) \<Longrightarrow> (if of_domain d t then tp_version t = v else tp_active t)"
  by (auto simp: switch_to_def split: if_splits)

lemma ok_keyD: "templates_ok rows \<Longrightarrow> js_get rows k = Some t \<Longrightarrow> k = template_key (tp_domain t) (tp_version t) \<and> to_lower (tp_domain t) = tp_domain t"
  by (simp add: templates_ok_def)

lemma ok_activeD: "templates_ok rows \<Longrightarrow> js_get rows k = Some t \<Longrightarrow> js_get rows k' = Some t' \<Longrightarrow> tp_active t \<Longrightarrow> tp_active t' \<Longrightarrow>
    tp_domain t = tp_domain t' \<Longrightarrow> k = k'"
  unfolding templates_ok_def by blast

lemma update_ok:
  assumes ok: "templates_ok rows" and f: "\<And>t. tp_domain (f t) = tp_domain t" "\<And>t. tp_version (f t) = tp_version t"
    and act: "\<And>t. tp_active (f t) \<Longrightarrow> if of_domain d t then tp_version t = v else tp_active t"
  shows "templates_ok (update_rows f rows)"
proof -
  have "k = k'" if k: "js_get rows k = Some a" "js_get rows k' = Some b" and on: "tp_active (f a)" "tp_active (f b)" and same: "tp_domain a = tp_domain b" for k k' a b
  proof (cases "of_domain d a")
    case True
    then have "tp_version a = tp_version b" using act [OF on(1)] act [OF on(2)] same by (simp add: of_domain_def)
    then show ?thesis using ok_keyD [OF ok k(1)] ok_keyD [OF ok k(2)] same by simp
  next
    case False
    then show ?thesis using act [OF on(1)] act [OF on(2)] same ok_activeD [OF ok k] by (simp add: of_domain_def)
  qed
  then show ?thesis using ok f by (auto simp: templates_ok_def store_simps)
qed

lemma save_keeps:
  assumes "templates_ok (tr_rows m)"
  shows "templates_ok (tr_rows (fst (save_template t m)))"
proof -
  let ?d = "normal_domain (tp_domain t)" and ?v = "tp_version t"
  define rows where "rows = (if tp_active t then update_rows (switch_off ?d ?v) (tr_rows m) else tr_rows m)"
  have ok: "templates_ok rows"
    unfolding rows_def using assms by (auto intro!: update_ok [of _ _ ?d ?v] dest: switch_off_active)
  have off: "k = template_key ?d ?v" if h: "js_get rows k = Some t'" "tp_active t" "tp_active t'" "tp_domain t' = ?d" for k t'
  proof -
    obtain a where a: "js_get (tr_rows m) k = Some a" "t' = switch_off ?d ?v a"
      using h(1,2) by (auto simp: rows_def store_simps)
    then have "tp_version a = ?v" using h(3,4) ok_keyD [OF assms a(1)] switch_off_active by (fastforce simp: of_domain_def)
    then show ?thesis using ok_keyD [OF assms a(1)] h(4) a(2) by simp
  qed
  have "templates_ok (js_set (template_key ?d ?v) (t\<lparr>tp_domain := ?d\<rparr>) rows)"
    unfolding templates_ok_def
  proof (intro conjI allI impI)
    show "js_wf (js_set (template_key ?d ?v) (t\<lparr>tp_domain := ?d\<rparr>) rows)" using ok by (simp add: templates_ok_def js_wf_set)
  qed (use ok_keyD [OF ok] ok_activeD [OF ok] off in \<open>auto simp: js_get_set normal_domain_lower split: if_splits\<close>)
  then show ?thesis by (simp add: save_template_def Let_def rows_def)
qed

lemma set_active_keeps:
  assumes "templates_ok (tr_rows m)"
  shows "templates_ok (tr_rows (fst (set_active_version env domain version m)))"
  using assms switch_to_active by (auto simp: set_active_version_def Let_def intro!: update_ok)

abbreviation keeps_templates :: "('w templates, 'a) call \<Rightarrow> bool" where
  "keeps_templates \<equiv> call_keeps (\<lambda>m. templates_ok (tr_rows m))"

lemma in_templates_keeps [call_keeps_intros]: "keeps_templates (in_templates f)"
  by (simp add: call_keeps_def in_templates_def split: prod.splits)

lemma call_llm_keeps [call_keeps_intros]: "keeps_templates (call_llm env system user)"
  unfolding call_llm_def by (auto intro!: call_keeps_intros split: prod.splits option.splits json.splits)

lemma save_call_keeps [call_keeps_intros]: "keeps_templates (save_template t)"
  using save_keeps unfolding call_keeps_def by blast

lemma started_keeps: "(\<And>m. keeps_templates (f m)) \<Longrightarrow> keeps_templates (\<lambda>m. f m m)"
  by (simp add: call_keeps_def)

lemma read_keeps [call_keeps_intros]: "keeps_templates (\<lambda>m. (m, g m))"
  by (simp add: call_keeps_def)

lemma generate_keeps [call_keeps_intros]: "keeps_templates (generate_template env domain html)"
  unfolding generate_template_def Let_def by (rule started_keeps) (intro call_keeps_intros)

lemma repair_keeps [call_keeps_intros]: "keeps_templates (repair_template env domain current html defects)"
  unfolding repair_template_def Let_def by (rule started_keeps) (intro call_keeps_intros)

lemma heal_keeps: "keeps_templates (heal_template env domain html auto)"
  unfolding heal_template_def by (auto intro!: call_keeps_intros split: option.splits)

inductive template_reachable :: "'w template_env \<Rightarrow> 'w templates \<Rightarrow> bool" for env where
  no_templates: "template_reachable env \<lparr>tr_rows = [], tr_world = w\<rparr>"
| saved: "template_reachable env m \<Longrightarrow> template_reachable env (fst (save_template t m))"
| applied: "template_reachable env m \<Longrightarrow> template_reachable env (fst (apply_template env domain version m))"
| healed: "template_reachable env m \<Longrightarrow> template_reachable env (fst (heal_template env domain html auto m))"
| moved: "template_reachable env m \<Longrightarrow> template_reachable env (m\<lparr>tr_world := w\<rparr>)"

lemma reachable_templates: "template_reachable env m \<Longrightarrow> templates_ok (tr_rows m)"
proof (induction rule: template_reachable.induct)
  case (no_templates w)
  then show ?case by (simp add: templates_ok_def js_get_Nil)
next
  case (applied m domain version)
  then show ?case using set_active_keeps by (simp add: apply_template_def)
qed (simp_all add: save_keeps call_keepsD [OF heal_keeps])

lemma stored_get: "templates_ok rows \<Longrightarrow> t \<in> set (js_values rows) \<longleftrightarrow> (\<exists>k. js_get rows k = Some t)"
  by (simp add: templates_ok_def js_values_iff)

lemma js_values_update: "js_values (update_rows f rows) = map f (js_values rows)"
  by (simp add: js_values_def update_rows_def case_prod_beta comp_def)

lemma last_match_Some: "last_match p xs = Some x \<Longrightarrow> x \<in> set xs \<and> p x"
  unfolding last_match_def by (metis find_Some_iff nth_mem set_rev)

lemma last_match_None: "last_match p xs = None \<longleftrightarrow> (\<forall>x\<in>set xs. \<not> p x)"
  by (auto simp: last_match_def find_None_iff)

text \<open>C37. However templates are saved, applied and healed, a domain has at most one active version in the
  repository, every template is stored once, and its domain is in lower case.\<close>

theorem one_active_template_per_domain:
  assumes "template_reachable env m" and "t \<in> set (find_all_templates m)" and "t' \<in> set (find_all_templates m)"
    and "tp_domain t = tp_domain t'" and "tp_active t \<and> tp_active t' \<or> tp_version t = tp_version t'"
  shows "t = t' \<and> to_lower (tp_domain t) = tp_domain t"
proof -
  have ok: "templates_ok (tr_rows m)" using reachable_templates [OF assms(1)] .
  obtain k k' where k: "js_get (tr_rows m) k = Some t" "js_get (tr_rows m) k' = Some t'"
    using assms(2,3) stored_get [OF ok] by (auto simp: find_all_templates_def)
  have "k = k'" using ok_keyD [OF ok k(1)] ok_keyD [OF ok k(2)] ok_activeD [OF ok k] assms(4,5) by auto
  then show ?thesis using k ok_keyD [OF ok k(1)] by simp
qed

lemma find_unique: "p x \<Longrightarrow> x \<in> set xs \<Longrightarrow> (\<And>y. y \<in> set xs \<Longrightarrow> p y \<Longrightarrow> y = x) \<Longrightarrow> find p xs = Some x"
  by (metis find_None_iff find_Some_iff nth_mem option.exhaust)

text \<open>Applying a stored version makes it the active template of its domain, and the only one.\<close>

lemma applied_template_is_active:
  assumes "template_reachable env m" and "apply_template env domain version m = (m', Inr t)"
  shows "find_active_by_domain domain m' = Some t \<and> tp_version t = version \<and> tp_domain t = normal_domain domain"
proof -
  let ?d = "normal_domain domain"
  let ?rows = "update_rows (switch_to ?d version (te_now env (tr_world m))) (tr_rows m)"
  have ok: "templates_ok (tr_rows m)" using reachable_templates [OF assms(1)] .
  have m': "tr_rows m' = ?rows" and t: "last_match (\<lambda>t. of_domain ?d t \<and> tp_version t = version) (js_values ?rows) = Some t"
    using assms(2) by (auto simp: apply_template_def set_active_version_def Let_def split: option.splits)
  have ok': "templates_ok ?rows" using set_active_keeps [OF ok, of env domain version] by (simp add: set_active_version_def Let_def)
  have p: "of_domain ?d t" "tp_version t = version" and mem: "t \<in> set (js_values ?rows)"
    using last_match_Some [OF t] by simp_all
  obtain k where k: "js_get ?rows k = Some t" using mem stored_get [OF ok'] by blast
  then obtain a where "t = switch_to ?d version (te_now env (tr_world m)) a" by (auto simp: store_simps)
  then have on: "tp_active t" using p by (simp add: switch_to_def of_domain_def split: if_splits)
  have d: "tp_domain t = ?d" using p(1) conjunct2 [OF ok_keyD [OF ok' k]] by (simp add: of_domain_def)
  have "y = t" if y: "y \<in> set (js_values ?rows)" "of_domain ?d y \<and> tp_active y" for y
  proof -
    obtain k' where k': "js_get ?rows k' = Some y" using y(1) stored_get [OF ok'] by blast
    have "tp_domain y = tp_domain t" using y(2) d conjunct2 [OF ok_keyD [OF ok' k']] by (simp add: of_domain_def)
    then have "k' = k" using ok_activeD [OF ok' k' k] y(2) on by blast
    then show ?thesis using k k' by (metis option.inject)
  qed
  then have "find (\<lambda>t. of_domain ?d t \<and> tp_active t) (js_values ?rows) = Some t"
    by (intro find_unique) (use p(1) on mem in blast)+
  then show ?thesis by (simp add: find_active_by_domain_def m' d p(2))
qed

text \<open>Applying a version that is not stored throws, but only after every version of the domain was switched
  off: the domain is left without an active template.\<close>

lemma unknown_version_switches_off:
  assumes "list_all (\<lambda>t. \<not> (of_domain (normal_domain domain) t \<and> tp_version t = version)) (js_values (tr_rows m))"
  shows "find_active_by_domain domain (fst (apply_template env domain version m)) = None"
    and "\<exists>e. snd (apply_template env domain version m) = Inl e"
proof -
  let ?d = "normal_domain domain"
  let ?rows = "update_rows (switch_to ?d version (te_now env (tr_world m))) (tr_rows m)"
  have none: "\<not> (of_domain ?d t \<and> tp_version t = version)" "\<not> (of_domain ?d t \<and> tp_active t)" if t: "t \<in> set (js_values ?rows)" for t
  proof -
    obtain a where a: "a \<in> set (js_values (tr_rows m))" "t = switch_to ?d version (te_now env (tr_world m)) a"
      using t by (auto simp: js_values_update)
    have no: "\<not> (of_domain ?d a \<and> tp_version a = version)" using assms a(1) by (auto simp: list_all_iff)
    show "\<not> (of_domain ?d t \<and> tp_version t = version)" using no a(2) by (simp add: of_domain_def)
    show "\<not> (of_domain ?d t \<and> tp_active t)" using no a(2) by (auto simp: switch_to_def)
  qed
  show "find_active_by_domain domain (fst (apply_template env domain version m)) = None"
    using none(2) by (simp add: apply_template_def set_active_version_def Let_def find_active_by_domain_def find_None_iff)
  show "\<exists>e. snd (apply_template env domain version m) = Inl e"
    using none(1) by (simp add: apply_template_def set_active_version_def Let_def last_match_None [THEN iffD2])
qed


section \<open>An example\<close>

definition quiet_templates :: "unit template_env" where
  "quiet_templates = \<lparr>te_fetch = (\<lambda>_ w. (w, throw ''offline'')), te_parse = (\<lambda>_. throw ''bad''), te_hash = (\<lambda>s. s), te_now = (\<lambda>_. ''now''), te_api_key = None, te_model = None\<rparr>"

definition plain_template :: "string \<Rightarrow> extraction_template" where
  "plain_template v = \<lparr>tp_id = v, tp_domain = ''X.io'', tp_version = v, tp_selectors = fields_of JNull, tp_snippet = [], tp_confidence = num 1, tp_defect_rate = num 0,
     tp_active = True, tp_created = ''c'', tp_updated = ''u''\<rparr>"

definition two_versions :: "unit templates" where
  "two_versions = fst (save_template (plain_template ''v1.1'') (fst (save_template (plain_template ''v1.0'') \<lparr>tr_rows = [], tr_world = ()\<rparr>)))"

lemma sample_domain: "normal_domain ''X.io'' = ''x.io''" "to_lower ''x.io'' = ''x.io''"
  by code_simp+

lemma two_reachable: "template_reachable env two_versions"
  unfolding two_versions_def by (intro template_reachable.intros)

lemma two_rows: "tr_rows two_versions = [(''x.io:v1.0'', (plain_template ''v1.0'')\<lparr>tp_domain := ''x.io'', tp_active := False\<rparr>), (''x.io:v1.1'', (plain_template ''v1.1'')\<lparr>tp_domain := ''x.io''\<rparr>)]"
  by (simp add: two_versions_def save_template_def plain_template_def Let_def sample_domain js_set_def template_key_def update_rows_def switch_off_def of_domain_def)

theorem one_active_template_per_domain_witness:
  "find_all_templates two_versions \<noteq> [] \<and>
   (plain_template ''v1.1'')\<lparr>tp_domain := ''x.io''\<rparr> = find_all_templates two_versions ! 1 \<and> to_lower ''x.io'' = ''x.io''"
proof -
  have "find_all_templates two_versions ! 1 = (plain_template ''v1.1'')\<lparr>tp_domain := ''x.io''\<rparr> \<and>
      to_lower (tp_domain (find_all_templates two_versions ! 1)) = tp_domain (find_all_templates two_versions ! 1)"
    by (rule one_active_template_per_domain [OF two_reachable])
       (simp_all add: find_all_templates_def two_rows js_values_def plain_template_def)
  then show ?thesis by (simp add: find_all_templates_def two_rows js_values_def)
qed

lemma applied_template_is_active_witness:
  "\<exists>m' t. apply_template quiet_templates ''X.io'' ''v1.0'' two_versions = (m', Inr t) \<and>
     find_active_by_domain ''X.io'' m' = Some t \<and> tp_version t = ''v1.0'' \<and> tp_domain t = normal_domain ''X.io''"
proof -
  have "\<exists>m' t. apply_template quiet_templates ''X.io'' ''v1.0'' two_versions = (m', Inr t)"
    by (simp add: apply_template_def set_active_version_def Let_def two_rows sample_domain js_values_def update_rows_def switch_to_def of_domain_def
      plain_template_def last_match_def)
  then show ?thesis using applied_template_is_active [OF two_reachable] by blast
qed

end
