(* ===== verification/News.thy ===== *)
theory News
  imports Sentiment NewsTemplates
begin

text \<open>
  The news module (\<^verbatim>\<open>modules/news/application/service.ts\<close>): validation, the in-memory repository, reading
  an uploaded page, collecting from uploads, sites, feeds and providers, and reading the news with its
  sentiment. The URL parser, the HTTP client, the sentiment port, the feed reader, the extraction of articles
  with a template and the scraping of a page are parameters; the templates are those of \<open>NewsTemplates\<close>.
\<close>

section \<open>Data\<close>

record news_item =
  nw_id :: string
  nw_title :: string
  nw_content :: string
  nw_source :: string
  nw_published :: string
  nw_crawled :: string
  nw_coins :: "string list"
  nw_url :: string

record url_parts =
  up_protocol :: string
  up_hostname :: string

datatype failure_stage = FETCH | MODEL | SCHEMA | VALIDATION | PERSISTENCE
datatype provider_reason = PROVIDER_TIMEOUT | PROVIDER_ERROR | INVALID_OUTPUT
datatype news_event = ProviderFailure string failure_stage provider_reason | SentimentFailure string failure_reason

record 'w news =
  nm_rows :: "(string, news_item \<times> string option) jsmap"
  nm_events :: "news_event list"
  nm_templates :: "'w templates"

record news_source =
  ns_name :: string
  ns_url :: string
  ns_type :: string

record collect_options =
  co_html :: "string option"
  co_sources :: "news_source list option"
  co_coin :: "string option"
  co_auto_healing :: "bool option"

type_synonym 'w provider_call = "('w, news_item list option) call"

record 'w news_env =
  nv_url :: "string \<Rightarrow> url_parts option"
  nv_analyze :: "news_input \<Rightarrow> ('w, sentiment_result) call"
  nv_latest :: "string \<Rightarrow> ('w, sentiment_result option) call"
  nv_fetch :: "string \<Rightarrow> ('w, bool \<times> string) call"
  nv_extract :: "string \<Rightarrow> extraction_template \<Rightarrow> string \<Rightarrow> string \<Rightarrow> string option \<Rightarrow> ('w, news_item list) call"
  nv_scrape :: "string \<Rightarrow> string \<Rightarrow> string option \<Rightarrow> ('w, news_item list) call"
  nv_feed :: "string \<Rightarrow> string \<Rightarrow> 'w provider_call"
  nv_providers :: "(string \<times> 'w provider_call) list"
  nv_sha :: "string \<Rightarrow> string"
  nv_templates :: "'w template_env"

section \<open>Rules\<close>

definition validate_news_item :: "'w news_env \<Rightarrow> news_item \<Rightarrow> news_item result" where
  "validate_news_item env x = (if \<not> list_all required_text [nw_id x, nw_title x, nw_content x, nw_source x, nw_url x] then throw ''INVALID_NEWS_ITEM''
     else if (case nv_url env (nw_url x) of None \<Rightarrow> True | Some u \<Rightarrow> up_protocol u \<notin> {''http:'', ''https:''}) then throw ''INVALID_NEWS_ITEM''
     else if \<not> canonical_timestamp (nw_published x) \<or> \<not> canonical_timestamp (nw_crawled x) \<or> \<not> list_all required_text (nw_coins x) then throw ''INVALID_NEWS_ITEM''
     else return x)"

section \<open>Repository and observers\<close>

definition news_key :: "string option \<Rightarrow> string \<Rightarrow> string" where
  "news_key user url = (case user of None \<Rightarrow> [] | Some u \<Rightarrow> u) @ ''|'' @ url"

definition insert_news :: "news_item \<Rightarrow> string option \<Rightarrow> ('w news, news_item) call" where
  "insert_news x user m = (case js_get (nm_rows m) (news_key user (nw_url x)) of
     Some (y, _) \<Rightarrow> (m, return y)
   | None \<Rightarrow> (m\<lparr>nm_rows := js_set (news_key user (nw_url x)) (x, user) (nm_rows m)\<rparr>, return x))"

definition read_all_news :: "string option \<Rightarrow> 'w news \<Rightarrow> news_item list" where
  "read_all_news user m = map fst (filter (\<lambda>(_, u). case present user of None \<Rightarrow> True | Some x \<Rightarrow> u = Some x) (js_values (nm_rows m)))"

definition sentiment_failure_reason :: "string \<Rightarrow> failure_reason" where
  "sentiment_failure_reason e = (if has_part ''timeout'' (to_lower e) then TIMEOUT else INFERENCE_ERROR)"

definition provider_failure_reason :: "string \<Rightarrow> provider_reason" where
  "provider_failure_reason e = (if has_part ''timeout'' (to_lower e) \<or> has_part ''abort'' (to_lower e) then PROVIDER_TIMEOUT else PROVIDER_ERROR)"

definition observe :: "news_event \<Rightarrow> ('w news, unit) call" where
  "observe e m = (m\<lparr>nm_events := nm_events m @ [e]\<rparr>, return ())"

definition in_store :: "('w templates, 'a) call \<Rightarrow> ('w news, 'a) call" where
  "in_store f m = (case f (nm_templates m) of (t, r) \<Rightarrow> (m\<lparr>nm_templates := t\<rparr>, r))"

abbreviation outside :: "('w, 'a) call \<Rightarrow> ('w news, 'a) call" where
  "outside f \<equiv> in_store (in_templates f)"

definition to_sentiment_input :: "news_item \<Rightarrow> news_input" where
  "to_sentiment_input x = \<lparr>ni_news = nw_id x, ni_title = nw_title x, ni_content = nw_content x, ni_source = nw_source x,
     ni_published = nw_published x, ni_coins = nw_coins x\<rparr>"

definition news_codes :: "string list" where
  "news_codes = [''INVALID_NEWS_ITEM'', ''PROVIDER_UNAVAILABLE'', ''PERSISTENCE_FAILED'']"

section \<open>Storing and analysing an item\<close>

definition persist_and_analyze :: "'w news_env \<Rightarrow> string option \<Rightarrow> news_item \<Rightarrow> ('w news, unit) call" where
  "persist_and_analyze env user raw = call_bind (call_of (validate_news_item env raw)) (\<lambda>x.
     call_bind (call_try (insert_news x user) (\<lambda>e. call_throw (if e \<in> set news_codes then e else ''PERSISTENCE_FAILED''))) (\<lambda>stored.
       call_try (call_bind (call_of (validate_news_item env stored)) (\<lambda>y. call_bind (outside (nv_analyze env (to_sentiment_input y))) (\<lambda>_. call_return ())))
         (\<lambda>e. observe (SentimentFailure (nw_id stored) (sentiment_failure_reason e)))))"

definition persist_quietly :: "'w news_env \<Rightarrow> string option \<Rightarrow> news_item \<Rightarrow> ('w news, unit) call" where
  "persist_quietly env user x = call_try (persist_and_analyze env user x) (\<lambda>_. call_return ())"

definition failed_stage :: "string \<Rightarrow> failure_stage" where
  "failed_stage e = (if e = ''INVALID_NEWS_ITEM'' then VALIDATION else PERSISTENCE)"

definition persist_observed :: "'w news_env \<Rightarrow> string option \<Rightarrow> string \<Rightarrow> news_item \<Rightarrow> ('w news, unit) call" where
  "persist_observed env user provider x = call_try (persist_and_analyze env user x) (\<lambda>e. observe (ProviderFailure provider (failed_stage e) PROVIDER_ERROR))"

section \<open>An uploaded page\<close>

definition is_word :: "char \<Rightarrow> bool" where
  "is_word c = (is_lower c \<or> is_upper c \<or> is_digit c \<or> c = CHR ''_'')"

text \<open>The rest after an opening tag at the head of a text: the name, a word boundary, and the first \<^verbatim>\<open>>\<close>.\<close>

definition after_open_tag :: "string \<Rightarrow> string \<Rightarrow> string option" where
  "after_open_tag name s = (let p = CHR ''<'' # name; r = drop (length p) s in
     if starts_with p (to_lower s) \<and> (r = [] \<or> \<not> is_word (hd r)) then
       (case dropWhile (\<lambda>c. c \<noteq> CHR ''>'') r of [] \<Rightarrow> None | _ # rest \<Rightarrow> Some rest)
     else None)"

text \<open>The text up to the first occurrence of a closing tag, and the text after it.\<close>

fun split_at_part :: "string \<Rightarrow> string \<Rightarrow> (string \<times> string) option" where
  "split_at_part p [] = None"
| "split_at_part p (c # s) = (if starts_with p (to_lower (c # s)) then Some ([], drop (length p) (c # s))
     else map_option (\<lambda>(a, b). (c # a, b)) (split_at_part p s))"

definition element_at :: "string \<Rightarrow> string \<Rightarrow> (string \<times> string) option" where
  "element_at name s = (case after_open_tag name s of None \<Rightarrow> None | Some rest \<Rightarrow> split_at_part (''</'' @ name @ ''>'') rest)"

fun element_body :: "string \<Rightarrow> string \<Rightarrow> string option" where
  "element_body name [] = None"
| "element_body name (c # s) = (case element_at name (c # s) of Some (body, _) \<Rightarrow> Some body | None \<Rightarrow> element_body name s)"

definition element_of_names :: "string list \<Rightarrow> string \<Rightarrow> (string \<times> string) option" where
  "element_of_names names s = (case filter (\<lambda>x. x \<noteq> None) (map (\<lambda>n. element_at n s) names) of [] \<Rightarrow> None | x # _ \<Rightarrow> x)"

lemma split_at_part_shorter: "split_at_part p s = Some (a, r) \<Longrightarrow> length r \<le> length s"
  by (induction p s arbitrary: a rule: split_at_part.induct) (auto split: if_splits)

lemma after_open_tag_shorter:
  assumes "after_open_tag name s = Some r"
  shows "length r < length s"
proof -
  let ?d = "dropWhile (\<lambda>c. c \<noteq> CHR ''>'') (drop (Suc (length name)) s)"
  have "?d = c # r" if "?d = c # x" "Some x = Some r" for c x using that by simp
  then obtain c where "?d = c # r"
    using assms by (auto simp: after_open_tag_def Let_def split: if_splits list.splits)
  then have "length ?d = Suc (length r)" by simp
  moreover have "length ?d \<le> length s"
    using length_dropWhile_le [of "\<lambda>c. c \<noteq> CHR ''>''" "drop (Suc (length name)) s"] by simp
  ultimately show ?thesis by simp
qed

lemma element_of_names_shorter: "element_of_names names s = Some (a, r) \<Longrightarrow> length r < length s"
proof -
  assume "element_of_names names s = Some (a, r)"
  then obtain xs where "filter (\<lambda>x. x \<noteq> None) (map (\<lambda>n. element_at n s) names) = Some (a, r) # xs"
    unfolding element_of_names_def by (cases "filter (\<lambda>x. x \<noteq> None) (map (\<lambda>n. element_at n s) names)") simp_all
  then have "Some (a, r) \<in> set (filter (\<lambda>x. x \<noteq> None) (map (\<lambda>n. element_at n s) names))" by simp
  then obtain n where "element_at n s = Some (a, r)" by auto
  then show ?thesis
    using after_open_tag_shorter split_at_part_shorter by (fastforce simp: element_at_def split: option.splits)
qed

function strip_elements :: "string list \<Rightarrow> string \<Rightarrow> string" where
  "strip_elements names [] = []"
| "strip_elements names (c # s) = (case element_of_names names (c # s) of
     Some (_, rest) \<Rightarrow> CHR '' '' # strip_elements names rest | None \<Rightarrow> c # strip_elements names s)"
  by pat_completeness auto

termination by (relation "measure (\<lambda>(_, s). length s)") (use element_of_names_shorter in force)+

function strip_tags :: "string \<Rightarrow> string" where
  "strip_tags [] = []"
| "strip_tags (c # s) = (let body = takeWhile (\<lambda>x. x \<noteq> CHR ''>'') s; rest = dropWhile (\<lambda>x. x \<noteq> CHR ''>'') s in
     if c = CHR ''<'' \<and> body \<noteq> [] \<and> rest \<noteq> [] then CHR '' '' # strip_tags (tl rest) else c # strip_tags s)"
  by pat_completeness auto

termination by (relation "measure length") (auto simp: less_Suc_eq_le intro: le_trans [OF diff_le_self length_dropWhile_le])

fun collapse_spaces :: "string \<Rightarrow> string" where
  "collapse_spaces [] = []"
| "collapse_spaces (c # s) = (if is_space c then (case s of d # _ \<Rightarrow> if is_space d then collapse_spaces s else CHR '' '' # collapse_spaces s | [] \<Rightarrow> '' '')
     else c # collapse_spaces s)"

definition plain_text :: "string \<Rightarrow> string" where
  "plain_text s = trim (collapse_spaces (strip_tags s))"

definition known_coins :: "string list" where
  "known_coins = [''BTC'', ''ETH'', ''SOL'', ''BNB'', ''XRP'', ''ADA'', ''DOGE'']"

text \<open>The chosen coin, if there is one, as a condition and in upper case.\<close>

definition target_coin :: "string option \<Rightarrow> string option" where
  "target_coin coin = (case present coin of None \<Rightarrow> None | Some c \<Rightarrow> if c = ''ALL'' then None else Some (to_upper c))"

definition related_coins :: "string option \<Rightarrow> string \<Rightarrow> string list" where
  "related_coins coin text = (let start = (case target_coin coin of None \<Rightarrow> [] | Some c \<Rightarrow> [c]);
       found = foldl (\<lambda>cs c. if has_part c (to_upper text) \<and> c \<notin> set cs then cs @ [c] else cs) start known_coins in
     if found = [] then [''BTC''] else found)"

definition or_first :: "'a option \<Rightarrow> 'a option \<Rightarrow> 'a option" where
  "or_first x y = (case x of None \<Rightarrow> y | Some _ \<Rightarrow> x)"

definition page_title :: "string \<Rightarrow> string" where
  "page_title html = (case or_first (element_body ''h1'' html) (element_body ''title'' html) of
     None \<Rightarrow> ''Uploaded HTML News Document'' | Some t \<Rightarrow> plain_text t)"

definition page_content :: "string \<Rightarrow> string" where
  "page_content html = (let body = (case or_first (element_body ''body'' html) (element_body ''article'' html) of None \<Rightarrow> html | Some b \<Rightarrow> b) in
     plain_text (strip_elements [''script'', ''style'', ''noscript''] body))"

definition parse_html_content :: "'w news_env \<Rightarrow> string \<Rightarrow> string \<Rightarrow> string option \<Rightarrow> news_item list" where
  "parse_html_content env now html coin = (let title = page_title html; content = page_content html in
     if title = [] \<or> content = [] then []
     else let hash = nv_sha env (title @ take 100 content);
       x = \<lparr>nw_id = take 24 hash, nw_title = take 500 title, nw_content = take 5000 content, nw_source = ''HTML_UPLOAD'', nw_published = now,
         nw_crawled = now, nw_coins = related_coins coin (title @ '' '' @ content), nw_url = ''https://local.html-upload.test/articles/'' @ take 16 hash\<rparr> in
     (case validate_news_item env x of Inl _ \<Rightarrow> [] | Inr y \<Rightarrow> [y]))"

section \<open>Quality of extracted items\<close>

record extraction_stats =
  ex_count :: nat
  ex_empty :: number
  ex_format :: number
  ex_defects :: number
  ex_integrity :: number
  ex_high :: bool
  ex_confidence :: number

definition item_empty :: "news_item \<Rightarrow> bool" where
  "item_empty x = (trim (nw_content x) = [] \<or> trim (nw_source x) = [] \<or> trim (nw_title x) = [] \<or> length (nw_title x) < 8)"

definition item_malformed :: "(string \<Rightarrow> url_parts option) \<Rightarrow> news_item \<Rightarrow> bool" where
  "item_malformed url x = (case url (nw_url x) of None \<Rightarrow> True | Some u \<Rightarrow> up_protocol u \<notin> {''http:'', ''https:''})"

definition share_percent :: "nat \<Rightarrow> nat \<Rightarrow> number" where
  "share_percent k n = to_fixed_num 1 (nmul (ndiv (num (int k)) (num (int n))) (num 100))"

definition validate_extracted_items :: "(string \<Rightarrow> url_parts option) \<Rightarrow> news_item list \<Rightarrow> extraction_stats" where
  "validate_extracted_items url xs = (if xs = [] then
       \<lparr>ex_count = 0, ex_empty = num 100, ex_format = num 0, ex_defects = num 100, ex_integrity = num 0, ex_high = True, ex_confidence = num 0\<rparr>
     else let empty = share_percent (length (filter item_empty xs)) (length xs); format = share_percent (length (filter (item_malformed url) xs)) (length xs);
            defects = to_fixed_num 1 (nmin (num 100) (nadd empty format)); integrity = to_fixed_num 1 (nsub (num 100) defects) in
       \<lparr>ex_count = length xs, ex_empty = empty, ex_format = format, ex_defects = defects, ex_integrity = integrity,
        ex_high = nlt (num 10) defects, ex_confidence = to_fixed_num 2 (nmul (ndiv integrity (num 100)) (lit 95 2))\<rparr>)"

section \<open>Collecting\<close>

text \<open>\<^verbatim>\<open>name.replace(/\s+WORD$/i, "")\<close>: a final word and the blanks before it.\<close>

definition drop_word :: "string \<Rightarrow> string \<Rightarrow> string" where
  "drop_word w s = (let p = take (length s - length w) s in
     if ends_with (to_lower w) (to_lower s) \<and> p \<noteq> [] \<and> is_space (last p) then rev (dropWhile is_space (rev p)) else s)"

definition source_name :: "string \<Rightarrow> string" where
  "source_name name = to_upper (trim (drop_word ''News'' (drop_word ''RSS'' name)))"

definition site_domain :: "'w news_env \<Rightarrow> news_source \<Rightarrow> string" where
  "site_domain env s = (case nv_url env (ns_url s) of
     Some u \<Rightarrow> if starts_with ''www.'' (to_lower (up_hostname u)) then drop 4 (up_hostname u) else up_hostname u
   | None \<Rightarrow> filter (\<lambda>c. \<not> is_space c) (to_lower (ns_name s)))"

definition with_coin :: "string option \<Rightarrow> news_item \<Rightarrow> news_item" where
  "with_coin coin x = (case target_coin coin of None \<Rightarrow> x
     | Some c \<Rightarrow> if c \<in> set (nw_coins x) then x else x\<lparr>nw_coins := nw_coins x @ [c]\<rparr>)"

definition fetch_page_text :: "'w news_env \<Rightarrow> string \<Rightarrow> string \<Rightarrow> ('w news, string) call" where
  "fetch_page_text env name url = call_try (call_bind (outside (nv_fetch env url)) (\<lambda>(success, text). call_return (if success then text else [])))
     (\<lambda>e. call_bind (observe (ProviderFailure name FETCH (provider_failure_reason e))) (\<lambda>_. call_return []))"

text \<open>The active template of the domain, or a generated and saved one; a failing generation leaves none.\<close>

definition site_template :: "'w news_env \<Rightarrow> string \<Rightarrow> string \<Rightarrow> ('w news, extraction_template option) call" where
  "site_template env domain html = call_bind (\<lambda>m. (m, return (find_active_by_domain domain (nm_templates m)))) (\<lambda>found. case found of
     Some t \<Rightarrow> call_return (Some t)
   | None \<Rightarrow> call_try (call_bind (in_store (generate_template (nv_templates env) domain html)) (\<lambda>g.
       call_bind (in_store (save_template g)) (\<lambda>t. call_return (Some t)))) (\<lambda>_. call_return None))"

definition healed_items :: "'w news_env \<Rightarrow> collect_options \<Rightarrow> string \<Rightarrow> news_source \<Rightarrow> string \<Rightarrow> string \<Rightarrow> extraction_template \<Rightarrow> extraction_stats \<Rightarrow> news_item list \<Rightarrow> ('w news, news_item list) call" where
  "healed_items env opts domain s name html t stats xs = call_try
     (call_bind (in_store (repair_template (nv_templates env) domain t html (ex_defects stats))) (\<lambda>r.
        let auto = (co_auto_healing opts \<noteq> Some False); repaired = r\<lparr>tp_active := auto\<rparr> in
        call_bind (in_store (save_template repaired)) (\<lambda>_.
          if \<not> auto then call_return xs
          else call_bind (outside (nv_extract env html repaired (ns_url s) name (co_coin opts))) (\<lambda>ys. call_return (if ys \<noteq> [] then ys else xs)))))
     (\<lambda>e. call_bind (observe (ProviderFailure name MODEL (provider_failure_reason e))) (\<lambda>_. call_return xs))"

definition extracted_items :: "'w news_env \<Rightarrow> collect_options \<Rightarrow> string \<Rightarrow> news_source \<Rightarrow> string \<Rightarrow> string \<Rightarrow> ('w news, news_item list) call" where
  "extracted_items env opts domain s name html = call_bind (site_template env domain html) (\<lambda>found. case found of
     None \<Rightarrow> call_return []
   | Some t \<Rightarrow> call_bind (outside (nv_extract env html t (ns_url s) name (co_coin opts))) (\<lambda>xs.
       let stats = validate_extracted_items (nv_url env) xs in
       if ex_high stats then healed_items env opts domain s name html t stats xs else call_return xs))"

definition add_new_urls :: "news_item list \<Rightarrow> news_item list \<Rightarrow> news_item list" where
  "add_new_urls xs ys = foldl (\<lambda>zs y. if nw_url y \<in> nw_url ` set zs then zs else zs @ [y]) xs ys"

definition site_items :: "'w news_env \<Rightarrow> collect_options \<Rightarrow> string \<Rightarrow> news_source \<Rightarrow> string \<Rightarrow> ('w news, news_item list) call" where
  "site_items env opts domain s name = call_bind (fetch_page_text env name (ns_url s)) (\<lambda>html.
     if html = [] then call_return []
     else call_bind (extracted_items env opts domain s name html) (\<lambda>xs.
       if length xs < 5 then call_bind (outside (nv_scrape env (ns_url s) name (co_coin opts))) (\<lambda>ys. call_return (add_new_urls xs ys))
       else call_return xs))"

definition collect_site :: "'w news_env \<Rightarrow> collect_options \<Rightarrow> string option \<Rightarrow> news_source \<Rightarrow> string \<Rightarrow> ('w news, unit) call" where
  "collect_site env opts user s name = call_bind (site_items env opts (site_domain env s) s name) (\<lambda>xs.
     call_each (\<lambda>x. persist_quietly env user (with_coin (co_coin opts) x)) xs)"

definition collect_feed :: "'w news_env \<Rightarrow> collect_options \<Rightarrow> string option \<Rightarrow> news_source \<Rightarrow> string \<Rightarrow> ('w news, unit) call" where
  "collect_feed env opts user s name = call_try (call_bind (outside (nv_feed env (ns_url s) name)) (\<lambda>found. case found of
       None \<Rightarrow> call_return ()
     | Some xs \<Rightarrow> call_each (\<lambda>x. persist_quietly env user (with_coin (co_coin opts) x)) xs))
     (\<lambda>e. observe (ProviderFailure name FETCH (provider_failure_reason e)))"

definition collect_source :: "'w news_env \<Rightarrow> collect_options \<Rightarrow> string option \<Rightarrow> news_source \<Rightarrow> ('w news, unit) call" where
  "collect_source env opts user s = (if ns_url s = [] \<or> \<not> starts_with ''http'' (ns_url s) then call_return ()
     else if ns_type s = ''WEBSITE'' then collect_site env opts user s (source_name (ns_name s))
     else collect_feed env opts user s (source_name (ns_name s)))"

definition collect_provider :: "'w news_env \<Rightarrow> string option \<Rightarrow> string \<times> 'w provider_call \<Rightarrow> ('w news, unit) call" where
  "collect_provider env user p = (case p of (name, fetch) \<Rightarrow>
     call_bind (call_try (call_bind (outside fetch) (\<lambda>found. call_return (Some found)))
         (\<lambda>e. call_bind (observe (ProviderFailure name FETCH (provider_failure_reason e))) (\<lambda>_. call_return None))) (\<lambda>fetched. case fetched of
       None \<Rightarrow> call_return ()
     | Some None \<Rightarrow> observe (ProviderFailure name SCHEMA INVALID_OUTPUT)
     | Some (Some xs) \<Rightarrow> call_each (persist_observed env user name) xs))"

definition collect_upload :: "'w news_env \<Rightarrow> collect_options \<Rightarrow> string option \<Rightarrow> string \<Rightarrow> ('w news, unit) call" where
  "collect_upload env opts user html m = call_each (persist_observed env user ''HTML_UPLOAD'')
     (parse_html_content env (te_now (nv_templates env) (tr_world (nm_templates m))) html (co_coin opts)) m"

text \<open>An uploaded page first, else the given sources, else the configured providers.\<close>

definition collect_news :: "'w news_env \<Rightarrow> collect_options option \<Rightarrow> string option \<Rightarrow> ('w news, unit) call" where
  "collect_news env opts user = (case opts of
     Some c \<Rightarrow> (case (co_html c, co_sources c) of
       (Some html, ss) \<Rightarrow> if trim html \<noteq> [] then collect_upload env c user html
         else (case ss of Some (s # rest) \<Rightarrow> call_each (collect_source env c user) (s # rest) | _ \<Rightarrow> call_each (collect_provider env user) (nv_providers env))
     | (None, Some (s # rest)) \<Rightarrow> call_each (collect_source env c user) (s # rest)
     | (None, _) \<Rightarrow> call_each (collect_provider env user) (nv_providers env))
   | None \<Rightarrow> call_each (collect_provider env user) (nv_providers env))"

section \<open>Reading\<close>

definition newest_news :: "news_item compare_fn" where
  "newest_news a b = or_else (locale_compare (nw_published b) (nw_published a)) (locale_compare (nw_id a) (nw_id b))"

fun call_map :: "('x \<Rightarrow> ('w, 'y) call) \<Rightarrow> 'x list \<Rightarrow> ('w, 'y list) call" where
  "call_map f [] = call_return []"
| "call_map f (x # xs) = call_bind (f x) (\<lambda>y. call_bind (call_map f xs) (\<lambda>ys. call_return (y # ys)))"

definition with_sentiment :: "'w news_env \<Rightarrow> news_item \<Rightarrow> ('w news, news_item \<times> sentiment_result option) call" where
  "with_sentiment env x = call_try (call_bind (outside (nv_latest env (nw_id x))) (\<lambda>r. call_return (x, r)))
     (\<lambda>e. call_bind (observe (SentimentFailure (nw_id x) (sentiment_failure_reason e))) (\<lambda>_. call_return (x, None)))"

definition news_of :: "'w news_env \<Rightarrow> string option \<Rightarrow> 'w news \<Rightarrow> news_item list result" where
  "news_of env user m = and_then (map_results (validate_news_item env) (read_all_news user m)) (\<lambda>xs. return (sort_by newest_news xs))"

definition read_news :: "'w news_env \<Rightarrow> string option \<Rightarrow> ('w news, (news_item \<times> sentiment_result option) list) call" where
  "read_news env user m = call_bind (call_of (news_of env user m)) (call_map (with_sentiment env)) m"

definition news_templates :: "'w news \<Rightarrow> extraction_template list" where
  "news_templates m = find_all_templates (nm_templates m)"

definition news_apply_template :: "'w news_env \<Rightarrow> string \<Rightarrow> string \<Rightarrow> ('w news, extraction_template) call" where
  "news_apply_template env domain version = in_store (apply_template (nv_templates env) domain version)"

definition news_heal_template :: "'w news_env \<Rightarrow> string \<Rightarrow> string option \<Rightarrow> bool option \<Rightarrow> ('w news, extraction_template) call" where
  "news_heal_template env domain html auto = in_store (heal_template (nv_templates env) domain (case html of None \<Rightarrow> [] | Some s \<Rightarrow> s) (auto \<noteq> Some False))"


section \<open>What is stored, and what is read\<close>

definition stored_ok :: "'w news_env \<Rightarrow> 'w news \<Rightarrow> bool" where
  "stored_ok env m = (js_wf (nm_rows m) \<and>
     (\<forall>k x u. js_get (nm_rows m) k = Some (x, u) \<longrightarrow> k = news_key u (nw_url x) \<and> validate_news_item env x = Inr x))"

definition grown :: "'w news \<Rightarrow> 'w news \<Rightarrow> bool" where
  "grown m m' = (\<forall>k v. js_get (nm_rows m) k = Some v \<longrightarrow> js_get (nm_rows m') k = Some v)"

text \<open>A call that keeps what is stored valid and in place.\<close>

abbreviation keeps_news :: "'w news_env \<Rightarrow> 'w news \<Rightarrow> ('w news, 'a) call \<Rightarrow> bool" where
  "keeps_news env m0 \<equiv> call_keeps (\<lambda>m. stored_ok env m \<and> grown m0 m)"

lemma rows_only:
  assumes "\<And>m. nm_rows (fst (f m)) = nm_rows m"
  shows "keeps_news env m0 f"
  using assms by (simp add: call_keeps_def stored_ok_def grown_def)

lemma in_store_keeps [call_keeps_intros]: "keeps_news env m0 (in_store f)"
  by (rule rows_only) (simp add: in_store_def split: prod.splits)

lemma observe_keeps [call_keeps_intros]: "keeps_news env m0 (observe e)"
  by (rule rows_only) (simp add: observe_def)

lemma look_keeps [call_keeps_intros]: "keeps_news env m0 (\<lambda>m. (m, g m))"
  by (rule rows_only) simp

lemma validate_same: "validate_news_item env x = Inr y \<Longrightarrow> y = x"
  by (auto simp: validate_news_item_def split: if_splits)

lemma insert_keeps: "validate_news_item env x = Inr x \<Longrightarrow> keeps_news env m0 (insert_news x user)"
  by (auto simp: call_keeps_def insert_news_def stored_ok_def grown_def js_wf_set js_get_set split: option.splits)

lemma persist_keeps_news [call_keeps_intros]: "keeps_news env m0 (persist_and_analyze env user x)"
  unfolding persist_and_analyze_def
proof (rule call_keeps_of)
  fix y assume v: "validate_news_item env x = Inr y"
  then have "keeps_news env m0 (insert_news y user)" using validate_same [OF v] by (intro insert_keeps) simp
  then show "keeps_news env m0 (call_bind (call_try (insert_news y user) (\<lambda>e. call_throw (if e \<in> set news_codes then e else ''PERSISTENCE_FAILED''))) (\<lambda>stored.
       call_try (call_bind (call_of (validate_news_item env stored)) (\<lambda>y. call_bind (outside (nv_analyze env (to_sentiment_input y))) (\<lambda>_. call_return ())))
         (\<lambda>e. observe (SentimentFailure (nw_id stored) (sentiment_failure_reason e)))))"
    by (intro call_keeps_intros)
qed

lemma cases_keep [call_keeps_intros]:
  "(z = None \<Longrightarrow> keeps_news env m0 f) \<Longrightarrow> (\<And>x. z = Some x \<Longrightarrow> keeps_news env m0 (g x)) \<Longrightarrow> keeps_news env m0 (case z of None \<Rightarrow> f | Some x \<Rightarrow> g x)"
  "keeps_news env m0 f1 \<Longrightarrow> keeps_news env m0 f2 \<Longrightarrow> keeps_news env m0 (if b then f1 else f2)"
  "(\<And>a b. keeps_news env m0 (h a b)) \<Longrightarrow> keeps_news env m0 (case p of (a, b) \<Rightarrow> h a b)"
  by (simp_all split: option.splits prod.splits)

lemmas news_operation_defs = persist_quietly_def persist_observed_def fetch_page_text_def site_template_def healed_items_def extracted_items_def
  site_items_def collect_site_def collect_feed_def collect_source_def collect_provider_def Let_def

lemma quiet_keeps [call_keeps_intros]: "keeps_news env m0 (persist_quietly env user x)" "keeps_news env m0 (persist_observed env user name x)"
  unfolding news_operation_defs by (intro call_keeps_intros)+

lemma fetch_keeps [call_keeps_intros]: "keeps_news env m0 (fetch_page_text env name url)" "keeps_news env m0 (site_template env domain html)"
  unfolding fetch_page_text_def site_template_def by (intro call_keeps_intros)+

lemma extracted_keeps [call_keeps_intros]: "keeps_news env m0 (extracted_items env opts domain s name html)"
  unfolding extracted_items_def healed_items_def Let_def by (intro call_keeps_intros)

lemma source_keeps [call_keeps_intros]: "keeps_news env m0 (collect_source env opts user s)"
  unfolding collect_source_def collect_site_def collect_feed_def site_items_def by (intro call_keeps_intros)

lemma provider_keeps [call_keeps_intros]: "keeps_news env m0 (collect_provider env user p)"
  unfolding collect_provider_def by (intro call_keeps_intros)

lemma upload_keeps [call_keeps_intros]: "keeps_news env m0 (collect_upload env opts user html)"
proof -
  have "keeps_news env m0 (call_each (persist_observed env user ''HTML_UPLOAD'') xs)" for xs by (intro call_keeps_intros)
  then show ?thesis by (simp add: call_keeps_def collect_upload_def)
qed

lemma collect_keeps: "keeps_news env m0 (collect_news env opts user)"
  unfolding collect_news_def by (auto intro!: call_keeps_intros split: option.splits list.splits)


definition start_news :: "'w templates \<Rightarrow> 'w news" where
  "start_news t = \<lparr>nm_rows = [], nm_events = [], nm_templates = t\<rparr>"

inductive news_reachable :: "'w news_env \<Rightarrow> 'w news \<Rightarrow> bool" for env where
  no_news: "news_reachable env (start_news t)"
| collected: "news_reachable env m \<Longrightarrow> news_reachable env (fst (collect_news env opts user m))"
| templated: "news_reachable env m \<Longrightarrow> news_reachable env (m\<lparr>nm_templates := t\<rparr>)"
| observed: "news_reachable env m \<Longrightarrow> news_reachable env (m\<lparr>nm_events := es\<rparr>)"

lemma collect_grows: "stored_ok env m \<Longrightarrow> stored_ok env (fst (collect_news env opts user m)) \<and> grown m (fst (collect_news env opts user m))"
  using call_keepsD [OF collect_keeps, of env m m opts user] by (simp add: grown_def)

lemma reachable_news: "news_reachable env m \<Longrightarrow> stored_ok env m"
proof (induction rule: news_reachable.induct)
  case (collected m opts user)
  then show ?case using collect_grows by blast
qed (simp_all add: stored_ok_def start_news_def)

text \<open>C38. Whatever is collected from uploads, sites, feeds and providers, and whatever fails on the way, every
  stored item is valid and stored under its user and its address, and a later collection neither removes nor
  replaces it: the first version of an article stays.\<close>

theorem stored_news_is_valid_and_stays:
  assumes "news_reachable env m" and "js_get (nm_rows m) k = Some (x, user)"
  shows "k = news_key user (nw_url x) \<and> validate_news_item env x = Inr x \<and>
    js_get (nm_rows (fst (collect_news env opts u m))) k = Some (x, user)"
  using reachable_news [OF assms(1)] collect_grows [of env m opts u] assms(2) unfolding stored_ok_def grown_def by blast

interpretation news_order: comparator_laws newest_news "\<lambda>_. True"
  by unfold_locales (auto simp: newest_news_def or_else_order_le_0)

lemma map_results_same: "(\<And>x. x \<in> set xs \<Longrightarrow> f x = Inr x) \<Longrightarrow> map_results f xs = Inr xs"
  by (induction xs) auto

lemma read_all_valid:
  assumes "stored_ok env m"
  shows "\<forall>x\<in>set (read_all_news user m). validate_news_item env x = Inr x"
  using assms js_values_iff [of "nm_rows m"] by (fastforce simp: stored_ok_def read_all_news_def)

lemma news_of_stored:
  assumes "stored_ok env m"
  shows "news_of env user m = Inr (sort_by newest_news (read_all_news user m))"
  using map_results_same [of "read_all_news user m" "validate_news_item env"] read_all_valid [OF assms] by (simp add: news_of_def)

lemma with_sentiment_returns: "\<exists>m' r. with_sentiment env x m = (m', Inr (x, r))"
  by (auto simp: with_sentiment_def call_try_def call_bind_def call_return_def observe_def split: prod.splits sum.splits)

lemma call_map_sentiment: "\<exists>m' ys. call_map (with_sentiment env) xs m = (m', Inr ys) \<and> map fst ys = xs"
proof (induction xs arbitrary: m)
  case (Cons x xs)
  obtain m1 r where "with_sentiment env x m = (m1, Inr (x, r))" using with_sentiment_returns by blast
  moreover obtain m2 ys where "call_map (with_sentiment env) xs m1 = (m2, Inr ys)" "map fst ys = xs" using Cons by blast
  ultimately show ?case by (simp add: call_bind_def call_return_def)
qed (simp add: call_return_def)

lemma distinct_mapI: "distinct (map f xs) \<Longrightarrow> distinct xs"
  by (simp add: distinct_map)

lemma user_urls_distinct:
  assumes "stored_ok env m" and "u \<noteq> []"
  shows "distinct (map nw_url (read_all_news (Some u) m))"
proof -
  let ?rows = "filter (\<lambda>e. snd (snd e) = Some u) (nm_rows m)"
  have p: "present (Some u) = Some u" using assms(2) by (simp add: present_Some_iff)
  have items: "read_all_news (Some u) m = map (fst \<circ> snd) ?rows"
    unfolding read_all_news_def p js_values_def filter_map by (simp add: comp_def case_prod_beta)
  have wf: "js_wf (nm_rows m)" using assms(1) by (simp add: stored_ok_def)
  have all: "k = news_key v (nw_url x)" if "(k, x, v) \<in> set (nm_rows m)" for k x v
    using that assms(1) wf by (auto simp: stored_ok_def js_get_def js_wf_def)
  have "distinct (map fst ?rows)" using wf by (simp add: js_wf_def distinct_map_filter)
  moreover have "map fst ?rows = map (news_key (Some u)) (map (nw_url \<circ> fst \<circ> snd) ?rows)"
    unfolding map_map by (rule map_cong) (auto dest: all)
  ultimately have "distinct (map (news_key (Some u)) (map (nw_url \<circ> fst \<circ> snd) ?rows))" by metis
  then have "distinct (map (nw_url \<circ> fst \<circ> snd) ?rows)" by (metis distinct_mapI)
  then show ?thesis unfolding items by (simp add: comp_assoc)
qed


section \<open>An example\<close>

definition hour_item :: news_item where
  "hour_item = \<lparr>nw_id = ''1'', nw_title = ''t'', nw_content = ''c'', nw_source = ''s'', nw_published = ''1970-01-01T00:30:00.000Z'',
     nw_crawled = ''1970-01-01T01:00:00.000Z'', nw_coins = [''BTC''], nw_url = ''u''\<rparr>"

text \<open>One provider with one item; the sentiment module is not configured.\<close>

definition hour_news_env :: "unit news_env" where
  "hour_news_env = \<lparr>nv_url = (\<lambda>_. Some \<lparr>up_protocol = ''https:'', up_hostname = ''h''\<rparr>), nv_analyze = (\<lambda>_ w. (w, throw ''SENTIMENT_NOT_CONFIGURED'')),
     nv_latest = (\<lambda>_ w. (w, throw ''timeout'')), nv_fetch = (\<lambda>_ w. (w, throw ''offline'')), nv_extract = (\<lambda>_ _ _ _ _ w. (w, return [])),
     nv_scrape = (\<lambda>_ _ _ w. (w, return [])), nv_feed = (\<lambda>_ _ w. (w, return None)), nv_providers = [(''p'', \<lambda>w. (w, return (Some [hour_item])))],
     nv_sha = (\<lambda>s. s), nv_templates = quiet_templates\<rparr>"

definition hour_news :: "unit news" where
  "hour_news = fst (collect_news hour_news_env None (Some ''a'') (start_news \<lparr>tr_rows = [], tr_world = ()\<rparr>))"

lemma hour_item_valid: "validate_news_item hour_news_env hour_item = Inr hour_item"
  by (simp add: validate_news_item_def hour_news_env_def hour_item_def hour_canonical hour_texts_required required_text_def trim_def is_space_def)

lemma hour_news_reachable: "news_reachable hour_news_env hour_news"
  unfolding hour_news_def by (intro news_reachable.intros)

lemma hour_news_rows: "nm_rows hour_news = [(''a|u'', (hour_item, Some ''a''))]"
proof -
  have url: "nw_url hour_item = ''u''" by (simp add: hour_item_def)
  show ?thesis
    by (simp add: hour_news_def collect_news_def hour_news_env_def [THEN arg_cong, of nv_providers] collect_provider_def call_bind_def call_try_def
      in_store_def in_templates_def start_news_def call_return_def persist_observed_def persist_and_analyze_def hour_item_valid call_of_def
      insert_news_def js_get_Nil js_set_def news_key_def url observe_def split: prod.splits sum.splits)
qed

theorem stored_news_is_valid_and_stays_witness:
  "''a|u'' = news_key (Some ''a'') (nw_url hour_item) \<and> validate_news_item hour_news_env hour_item = Inr hour_item \<and>
    js_get (nm_rows (fst (collect_news hour_news_env None None hour_news))) ''a|u'' = Some (hour_item, Some ''a'')"
  by (rule stored_news_is_valid_and_stays [OF hour_news_reachable]) (simp add: hour_news_rows js_get_def)


end
