(* ===== verification/Auth.thy ===== *)
theory Auth
  imports JsJson Calls
begin

text \<open>
  The auth module (\<^verbatim>\<open>modules/auth\<close>): validation, the in-memory user repository, the token codec and
  registration, login and verification. Password hashing, the JSON web token library, identifiers and the
  clock are parameters. A registration waits while its password is hashed, so it is modelled in two parts:
  what it does before the wait and the insertion after it; other operations may run in between.
\<close>

section \<open>Rules\<close>

definition no_space_or_at :: "string \<Rightarrow> bool" where
  "no_space_or_at s = (s \<noteq> [] \<and> list_all (\<lambda>c. \<not> is_space c \<and> c \<noteq> CHR ''@'') s)"

text \<open>The pattern \<^verbatim>\<open>^[^\s@]+@[^\s@]+\.[^\s@]+$\<close>: one at sign, and a dot with text on both sides after it.\<close>

definition email_matches :: "string \<Rightarrow> bool" where
  "email_matches s = (case split_on CHR ''@'' s of
     [a, b] \<Rightarrow> no_space_or_at a \<and> no_space_or_at b \<and> CHR ''.'' \<in> set (butlast (tl b)) | _ \<Rightarrow> False)"

definition normalize_email :: "json \<Rightarrow> string result" where
  "normalize_email x = (case string_json (Some x) of None \<Rightarrow> throw ''VALIDATION_ERROR''
     | Some s \<Rightarrow> let n = to_lower (trim s) in if \<not> email_matches n \<or> length n > 254 then throw ''VALIDATION_ERROR'' else return n)"

definition validate_password :: "json \<Rightarrow> string result" where
  "validate_password x = (case string_json (Some x) of None \<Rightarrow> throw ''VALIDATION_ERROR''
     | Some s \<Rightarrow> if length s < 8 \<or> length s > 128 then throw ''VALIDATION_ERROR'' else return s)"

definition validate_token :: "json \<Rightarrow> string result" where
  "validate_token x = (case string_json (Some x) of None \<Rightarrow> throw ''INVALID_TOKEN''
     | Some s \<Rightarrow> if trim s = [] then throw ''INVALID_TOKEN'' else return (trim s))"

section \<open>State\<close>

record user =
  us_id :: string
  us_email :: string
  us_hash :: string
  us_created :: string

record 'w auth =
  au_by_email :: "(string, user) jsmap"
  au_by_id :: "(string, user) jsmap"
  au_world :: 'w

datatype jwt_payload = JwtText string | JwtObject "json option"

record 'w auth_env =
  ae_hash :: "string \<Rightarrow> ('w, string) call"
  ae_check :: "string \<Rightarrow> string \<Rightarrow> ('w, bool) call"
  ae_id :: "('w, string) call"
  ae_now :: "'w \<Rightarrow> string"
  ae_sign :: "string \<Rightarrow> string \<Rightarrow> ('w, string) call"
  ae_verify :: "string \<Rightarrow> string \<Rightarrow> ('w, jwt_payload) call"

definition in_auth :: "('w, 'a) call \<Rightarrow> ('w auth, 'a) call" where
  "in_auth f a = (case f (au_world a) of (w, r) \<Rightarrow> (a\<lparr>au_world := w\<rparr>, r))"

text \<open>The secret of the module: an explicit one, else the one of tests, and never an empty one.\<close>

definition jwt_secret :: "string option \<Rightarrow> string option \<Rightarrow> string result" where
  "jwt_secret given node_env = (let secret = (case given of Some s \<Rightarrow> Some (trim s)
       | None \<Rightarrow> if map_option to_lower node_env = Some ''test'' then Some ''cryptox-test-only-secret'' else None) in
     case present secret of None \<Rightarrow> throw ''CONFIGURATION_ERROR'' | Some s \<Rightarrow> return s)"

section \<open>Repository\<close>

definition insert_user :: "user \<Rightarrow> ('w auth, unit) call" where
  "insert_user u a = (if js_has (au_by_email a) (us_email u) then (a, throw ''EMAIL_ALREADY_EXISTS'')
     else (a\<lparr>au_by_email := js_set (us_email u) u (au_by_email a), au_by_id := js_set (us_id u) u (au_by_id a)\<rparr>, return ()))"

definition find_by_email :: "string \<Rightarrow> 'w auth \<Rightarrow> user option" where
  "find_by_email e a = js_get (au_by_email a) e"

definition find_by_id :: "string \<Rightarrow> 'w auth \<Rightarrow> user option" where
  "find_by_id i a = js_get (au_by_id a) i"

section \<open>Tokens\<close>

definition sign_token :: "'w auth_env \<Rightarrow> string \<Rightarrow> string \<Rightarrow> ('w auth, string) call" where
  "sign_token env secret user = in_auth (ae_sign env secret user)"

definition subject_of :: "jwt_payload \<Rightarrow> string result" where
  "subject_of p = (case p of JwtText _ \<Rightarrow> throw ''JWT subject is missing''
     | JwtObject s \<Rightarrow> (case present (string_json s) of None \<Rightarrow> throw ''JWT subject is missing'' | Some i \<Rightarrow> return i))"

definition verify_jwt :: "'w auth_env \<Rightarrow> string \<Rightarrow> string \<Rightarrow> ('w auth, string) call" where
  "verify_jwt env secret token = call_try (call_bind (in_auth (ae_verify env secret token)) (\<lambda>p. call_of (subject_of p)))
     (\<lambda>_. call_throw ''INVALID_TOKEN'')"

section \<open>Operations\<close>

definition is_duplicate_error :: "string \<Rightarrow> bool" where
  "is_duplicate_error e = (e = ''EMAIL_ALREADY_EXISTS'' \<or> e = ''23505'')"

text \<open>Up to the end of hashing: the checks, the identifier, the hash and the time.\<close>

definition register_start :: "'w auth_env \<Rightarrow> json \<Rightarrow> json \<Rightarrow> ('w auth, user) call" where
  "register_start env email password = call_bind (call_of (normalize_email email)) (\<lambda>e.
     call_bind (call_of (validate_password password)) (\<lambda>p.
     call_bind (\<lambda>a. (a, return (find_by_email e a))) (\<lambda>found.
     call_bind (call_if (found \<noteq> None) ''EMAIL_ALREADY_EXISTS'') (\<lambda>_.
     call_bind (in_auth (ae_id env)) (\<lambda>i.
     call_bind (in_auth (ae_hash env p)) (\<lambda>h a.
       (a, return \<lparr>us_id = i, us_email = e, us_hash = h, us_created = ae_now env (au_world a)\<rparr>)))))))"

definition register_finish :: "user \<Rightarrow> ('w auth, unit) call" where
  "register_finish u = call_try (insert_user u) (\<lambda>e. call_throw (if is_duplicate_error e then ''EMAIL_ALREADY_EXISTS'' else e))"

definition register_user :: "'w auth_env \<Rightarrow> json \<Rightarrow> json \<Rightarrow> ('w auth, unit) call" where
  "register_user env email password = call_bind (register_start env email password) register_finish"

definition login_user :: "'w auth_env \<Rightarrow> string \<Rightarrow> json \<Rightarrow> json \<Rightarrow> ('w auth, string) call" where
  "login_user env secret email password = call_bind (call_of (normalize_email email)) (\<lambda>e.
     call_bind (\<lambda>a. (a, return (find_by_email e a))) (\<lambda>found. case found of
       None \<Rightarrow> call_throw ''INVALID_CREDENTIALS''
     | Some u \<Rightarrow> call_bind (call_of (validate_password password)) (\<lambda>p.
         call_bind (in_auth (ae_check env p (us_hash u))) (\<lambda>good.
           if \<not> good then call_throw ''INVALID_CREDENTIALS'' else sign_token env secret (us_id u)))))"

definition verify_user :: "'w auth_env \<Rightarrow> string \<Rightarrow> json \<Rightarrow> ('w auth, string) call" where
  "verify_user env secret token = call_bind (call_of (validate_token token)) (verify_jwt env secret)"

section \<open>Interleaved registrations\<close>

text \<open>The accounts and the users whose registration waits for its insertion. The world may change at any time.\<close>

inductive auth_step :: "'w auth_env \<Rightarrow> 'w auth \<times> user list \<Rightarrow> 'w auth \<times> user list \<Rightarrow> bool" for env where
  begins: "register_start env email password a = (a', Inr u) \<Longrightarrow> auth_step env (a, ps) (a', u # ps)"
| refused: "register_start env email password a = (a', Inl e) \<Longrightarrow> auth_step env (a, ps) (a', ps)"
| inserts: "register_finish u a = (a', r) \<Longrightarrow> auth_step env (a, xs @ u # ys) (a', xs @ ys)"
| logs_in: "login_user env secret email password a = (a', r) \<Longrightarrow> auth_step env (a, ps) (a', ps)"
| verifies: "verify_user env secret token a = (a', s) \<Longrightarrow> auth_step env (a, ps) (a', ps)"
| elsewhere: "auth_step env (a, ps) (a\<lparr>au_world := w\<rparr>, ps)"

definition empty_auth :: "'w \<Rightarrow> 'w auth" where
  "empty_auth w = \<lparr>au_by_email = [], au_by_id = [], au_world = w\<rparr>"

inductive auth_reachable :: "'w auth_env \<Rightarrow> 'w auth \<times> user list \<Rightarrow> bool" for env where
  starts: "auth_reachable env (empty_auth w, [])"
| steps: "auth_reachable env s \<Longrightarrow> auth_step env s s' \<Longrightarrow> auth_reachable env s'"

inductive_cases auth_stepE: "auth_step env (a, ps) s'"

definition account_ok :: "user \<Rightarrow> bool" where
  "account_ok u = (email_matches (us_email u) \<and> length (us_email u) \<le> 254)"

definition accounts_ok :: "'w auth \<times> user list \<Rightarrow> bool" where
  "accounts_ok s = (case s of (a, ps) \<Rightarrow> list_all account_ok ps \<and>
     (\<forall>e u. find_by_email e a = Some u \<longrightarrow> us_email u = e \<and> account_ok u) \<and>
     (\<forall>i u. find_by_id i a = Some u \<longrightarrow> us_id u = i \<and> find_by_email (us_email u) a = Some u))"

section \<open>Accounts under every operation\<close>

named_theorems auth_frame

definition same_users :: "'w auth \<Rightarrow> 'w auth \<Rightarrow> bool" where
  "same_users a a' = (au_by_email a' = au_by_email a \<and> au_by_id a' = au_by_id a)"

text \<open>A call that touches only the world.\<close>

definition only_world :: "('w auth, 'a) call \<Rightarrow> bool" where
  "only_world m = (\<forall>a. same_users a (fst (m a)))"

lemma only_world_in [auth_frame]: "only_world (in_auth f)"
  by (simp add: only_world_def same_users_def in_auth_def split: prod.splits)

lemma only_world_basic [auth_frame]:
  "only_world (call_of r)" "only_world (call_throw e)" "only_world (call_return x)" "only_world (call_if b e)" "only_world (\<lambda>a. (a, g a))"
  by (simp_all add: only_world_def same_users_def call_of_def call_throw_def call_return_def call_if_def)

lemma only_world_bind [auth_frame]:
  assumes "only_world m" "\<And>x. only_world (f x)"
  shows "only_world (call_bind m f)"
  unfolding only_world_def
proof
  fix a
  obtain a1 r where m: "m a = (a1, r)" by (cases "m a")
  have "same_users a a1" using assms(1) m by (metis only_world_def fst_conv)
  moreover have "same_users a1 (fst (f x a1))" for x using assms(2) by (simp add: only_world_def)
  ultimately show "same_users a (fst (call_bind m f a))"
    by (cases r) (auto simp: call_bind_def m same_users_def)
qed

lemma only_world_try [auth_frame]:
  assumes "only_world m" "\<And>e. only_world (f e)"
  shows "only_world (call_try m f)"
  unfolding only_world_def
proof
  fix a
  obtain a1 r where m: "m a = (a1, r)" by (cases "m a")
  have "same_users a a1" using assms(1) m by (metis only_world_def fst_conv)
  moreover have "same_users a1 (fst (f e a1))" for e using assms(2) by (simp add: only_world_def)
  ultimately show "same_users a (fst (call_try m f a))"
    by (cases r) (auto simp: call_try_def m same_users_def)
qed

lemma only_world_option [auth_frame]:
  "only_world f \<Longrightarrow> (\<And>x. only_world (g x)) \<Longrightarrow> only_world (case z of None \<Rightarrow> f | Some x \<Rightarrow> g x)"
  "only_world f \<Longrightarrow> only_world h \<Longrightarrow> only_world (if b then f else h)"
  by (simp_all split: option.splits)

lemma register_start_frame: "only_world (register_start env email password)"
  unfolding register_start_def by (intro auth_frame)

lemma login_frame: "only_world (login_user env secret email password)"
  unfolding login_user_def sign_token_def by (intro auth_frame)

lemma verify_frame: "only_world (verify_user env secret token)"
  unfolding verify_user_def verify_jwt_def by (intro auth_frame)

lemma only_worldD: "only_world m \<Longrightarrow> m a = (a', r) \<Longrightarrow> same_users a a'"
  by (metis only_world_def fst_conv)

lemma normalize_email_ok: "normalize_email x = Inr e \<Longrightarrow> email_matches e \<and> length e \<le> 254"
  by (auto simp: normalize_email_def Let_def split: option.splits if_splits)

lemma register_start_user:
  assumes "register_start env email password a = (a', Inr u)"
  shows "account_ok u" and "normalize_email email = Inr (us_email u)" and "find_by_email (us_email u) a = None"
  using assms normalize_email_ok
  by (auto simp: register_start_def call_bind_Inr account_ok_def call_if_def call_throw_def split: if_splits)

lemma accounts_ok_same: "same_users a a' \<Longrightarrow> accounts_ok (a, ps) \<Longrightarrow> accounts_ok (a', ps)"
  by (simp add: accounts_ok_def same_users_def find_by_email_def find_by_id_def)

lemma register_finish_cases:
  "register_finish u a = (a', r) \<Longrightarrow>
   (a' = a \<and> r = throw ''EMAIL_ALREADY_EXISTS'' \<and> find_by_email (us_email u) a \<noteq> None) \<or>
   (a' = a\<lparr>au_by_email := js_set (us_email u) u (au_by_email a), au_by_id := js_set (us_id u) u (au_by_id a)\<rparr> \<and> r = return () \<and>
    find_by_email (us_email u) a = None)"
  by (auto simp: register_finish_def insert_user_def call_try_def call_throw_def is_duplicate_error_def find_by_email_def js_has_def split: if_splits)

definition keeps_accounts :: "'w auth \<Rightarrow> 'w auth \<Rightarrow> bool" where
  "keeps_accounts a a' = (\<forall>e u. find_by_email e a = Some u \<longrightarrow> find_by_email e a' = Some u)"

lemma keeps_same: "same_users a a' \<Longrightarrow> keeps_accounts a a'"
  by (simp add: keeps_accounts_def same_users_def find_by_email_def)

lemma inserted_ok:
  assumes f: "register_finish u a = (a', r)" and ok: "accounts_ok (a, xs @ u # ys)"
  shows "accounts_ok (a', xs @ ys) \<and> keeps_accounts a a'"
  using register_finish_cases [OF f] ok
  by (auto simp: accounts_ok_def keeps_accounts_def find_by_email_def find_by_id_def js_get_set split: if_splits)
     (metis option.distinct(1))+

lemma auth_step_ok:
  assumes "auth_step env s s'" and "accounts_ok s"
  shows "accounts_ok s' \<and> keeps_accounts (fst s) (fst s')"
  using assms
proof (induction rule: auth_step.induct)
  case (begins email password a a' u ps)
  have same: "same_users a a'" using only_worldD [OF register_start_frame begins(1)] .
  have "accounts_ok (a', ps)" using accounts_ok_same [OF same begins(2)] .
  then show ?case using register_start_user(1) [OF begins(1)] keeps_same [OF same] by (simp add: accounts_ok_def)
next
  case (refused email password a a' e ps)
  have same: "same_users a a'" using only_worldD [OF register_start_frame refused(1)] .
  then show ?case using accounts_ok_same [OF same refused(2)] keeps_same [OF same] by simp
next
  case (inserts u a a' r xs ys)
  then show ?case using inserted_ok [OF inserts] by simp
next
  case (logs_in secret email password a a' r ps)
  have same: "same_users a a'" using only_worldD [OF login_frame logs_in(1)] .
  then show ?case using accounts_ok_same [OF same logs_in(2)] keeps_same [OF same] by simp
next
  case (verifies secret token a a' s ps)
  have same: "same_users a a'" using only_worldD [OF verify_frame verifies(1)] .
  then show ?case using accounts_ok_same [OF same verifies(2)] keeps_same [OF same] by simp
next
  case (elsewhere a ps w)
  have "same_users a (a\<lparr>au_world := w\<rparr>)" by (simp add: same_users_def)
  then show ?case using accounts_ok_same [OF _ elsewhere] keeps_same by simp
qed

lemma reachable_ok: "auth_reachable env s \<Longrightarrow> accounts_ok s"
  by (induction rule: auth_reachable.induct)
     (auto simp: accounts_ok_def empty_auth_def find_by_email_def find_by_id_def js_get_Nil dest: auth_step_ok)

lemma steps_keep:
  assumes "(auth_step env)\<^sup>*\<^sup>* s s'" and "accounts_ok s"
  shows "accounts_ok s' \<and> keeps_accounts (fst s) (fst s')"
  using assms(1)
proof (induction rule: rtranclp_induct)
  case base
  then show ?case using assms(2) by (simp add: keeps_accounts_def)
next
  case (step s1 s2)
  then show ?case using auth_step_ok [OF step(2)] by (simp add: keeps_accounts_def)
qed

lemma register_user_steps:
  assumes "register_user env email password a = (a1, Inr ())" and "accounts_ok (a, ps)"
  shows "\<exists>u. accounts_ok (a1, ps) \<and> find_by_email (us_email u) a1 = Some u \<and> normalize_email email = Inr (us_email u) \<and>
    (\<exists>a0. register_start env email password a = (a0, Inr u))"
proof -
  obtain u a0 where s: "register_start env email password a = (a0, Inr u)" and f: "register_finish u a0 = (a1, Inr ())"
    using assms(1) by (auto simp: register_user_def call_bind_Inr)
  have ok: "accounts_ok (a0, u # ps)" using auth_step_ok [OF auth_step.begins [OF s] assms(2)] by simp
  then have "accounts_ok (a1, ps)" using inserted_ok [OF f, of "[]" ps] by simp
  moreover have "find_by_email (us_email u) a1 = Some u"
    using register_finish_cases [OF f] by (auto simp: find_by_email_def js_get_set)
  ultimately show ?thesis using s register_start_user(2) [OF s] by blast
qed

text \<open>What the module relies on: a hash is accepted for its password, identifiers are not empty, and a token
  just signed for a user is text without outer spaces that verifies to its subject.\<close>

definition hasher_law :: "'w auth_env \<Rightarrow> bool" where
  "hasher_law env = (\<forall>p w w' h. ae_hash env p w = (w', Inr h) \<longrightarrow> (\<forall>v. \<exists>v'. ae_check env p h v = (v', Inr True)))"

definition identifier_law :: "'w auth_env \<Rightarrow> bool" where
  "identifier_law env = (\<forall>w w' i. ae_id env w = (w', Inr i) \<longrightarrow> i \<noteq> [])"

definition token_law :: "'w auth_env \<Rightarrow> string \<Rightarrow> bool" where
  "token_law env secret = (\<forall>i w. i \<noteq> [] \<longrightarrow> (\<exists>w' t w2. ae_sign env secret i w = (w', Inr t) \<and> t \<noteq> [] \<and> trim t = t \<and>
     ae_verify env secret t w' = (w2, Inr (JwtObject (Some (JStr i))))))"

lemma in_auth_Inr: "in_auth f a = (a', Inr x) \<longleftrightarrow> (\<exists>w. f (au_world a) = (w, Inr x) \<and> a' = a\<lparr>au_world := w\<rparr>)"
  by (auto simp: in_auth_def split: prod.splits)

lemma started_user:
  assumes "register_start env email password a = (a0, Inr u)" and "identifier_law env"
  shows "us_id u \<noteq> []" and "\<exists>p w w'. validate_password password = Inr p \<and> ae_hash env p w = (w', Inr (us_hash u))"
  using assms by (auto simp: register_start_def call_bind_Inr in_auth_Inr identifier_law_def) blast+

text \<open>C35. An address belongs to one account for ever: in every state reachable by any interleaving of
  registrations, logins and verifications, every account is stored under its own valid address, its
  identifier leads to the same account, and no operation removes or replaces it.\<close>

theorem accounts_keep_their_address:
  assumes "auth_reachable env s" and "auth_step env s s'"
  shows "accounts_ok s \<and> accounts_ok s' \<and> keeps_accounts (fst s) (fst s')"
  using reachable_ok [OF assms(1)] auth_step_ok [OF assms(2)] by blast

text \<open>C36. Whoever registered can sign in: after a successful registration, and whatever other operations ran
  since, a login with the same password and any spelling of the address that normalises to it returns a
  token that verifies to the identifier of that account.\<close>

theorem registered_user_can_sign_in:
  assumes "hasher_law env" and "identifier_law env" and "token_law env secret"
    and "auth_reachable env (a, ps)" and "register_user env email password a = (a1, Inr ())"
    and "(auth_step env)\<^sup>*\<^sup>* (a1, ps) (a2, ps2)" and "normalize_email again = normalize_email email"
  shows "\<exists>u t a3 a4. find_by_email (us_email u) a1 = Some u \<and> normalize_email email = Inr (us_email u) \<and>
    login_user env secret again password a2 = (a3, Inr t) \<and> verify_user env secret (JStr t) a3 = (a4, Inr (us_id u))"
proof -
  obtain u a0 where ok: "accounts_ok (a1, ps)" and u1: "find_by_email (us_email u) a1 = Some u"
    and e: "normalize_email email = Inr (us_email u)" and s: "register_start env email password a = (a0, Inr u)"
    using register_user_steps [OF assms(5) reachable_ok [OF assms(4)]] by blast
  have u2: "find_by_email (us_email u) a2 = Some u" using steps_keep [OF assms(6) ok] u1 by (simp add: keeps_accounts_def)
  obtain p where p: "validate_password password = Inr p" and h: "\<forall>v. \<exists>v'. ae_check env p (us_hash u) v = (v', Inr True)"
    using started_user(2) [OF s assms(2)] assms(1) unfolding hasher_law_def by blast
  obtain v where v: "ae_check env p (us_hash u) (au_world a2) = (v, Inr True)" using h by blast
  obtain w t w2 where t: "ae_sign env secret (us_id u) v = (w, Inr t)" "t \<noteq> []" "trim t = t"
    "ae_verify env secret t w = (w2, Inr (JwtObject (Some (JStr (us_id u)))))"
    using assms(3) started_user(1) [OF s assms(2)] unfolding token_law_def by blast
  have l: "login_user env secret again password a2 = (a2\<lparr>au_world := w\<rparr>, Inr t)"
    by (simp add: login_user_def call_bind_def call_of_def assms(7) e u2 p in_auth_def v sign_token_def t(1))
  have "verify_user env secret (JStr t) (a2\<lparr>au_world := w\<rparr>) = (a2\<lparr>au_world := w2\<rparr>, Inr (us_id u))"
    using t started_user(1) [OF s assms(2)]
    by (simp add: verify_user_def validate_token_def call_bind_def call_of_def verify_jwt_def call_try_def in_auth_def subject_of_def
        present_Some_iff [THEN iffD2, of "Some (us_id u)" "us_id u"])
  then show ?thesis using u1 e l by blast
qed

text \<open>A login with a password of an invalid length tells whether an address has an account: the check of
  the password runs only for existing ones and throws another code.\<close>

lemma login_reveals_accounts:
  assumes "normalize_email email = Inr e" and "validate_password password = Inl x"
  shows "snd (login_user env secret email password a) = Inl (if find_by_email e a = None then ''INVALID_CREDENTIALS'' else x)"
  using assms by (auto simp: login_user_def call_bind_def call_of_def call_throw_def split: option.splits)

section \<open>An example\<close>

text \<open>A toy world that counts: identifiers, a reversible hash and tokens that are numbers of a table of subjects.\<close>

definition counting_env :: "(nat \<times> string list) auth_env" where
  "counting_env = \<lparr>ae_hash = (\<lambda>p w. (w, return (CHR ''h'' # p))), ae_check = (\<lambda>p h w. (w, return (h = CHR ''h'' # p))),
     ae_id = (\<lambda>(n, ts). ((n + 1, ts), return (CHR ''u'' # show_nat n))), ae_now = (\<lambda>_. ''now''),
     ae_sign = (\<lambda>secret i (n, ts). ((n, i # ts), return ''t'')),
     ae_verify = (\<lambda>secret t (n, ts). ((n, ts), case ts of [] \<Rightarrow> throw ''bad'' | i # _ \<Rightarrow> return (JwtObject (Some (JStr i)))))\<rparr>"

lemma counting_laws: "hasher_law counting_env" "identifier_law counting_env" "token_law counting_env secret"
proof -
  show "hasher_law counting_env" "identifier_law counting_env"
    by (auto simp: hasher_law_def identifier_law_def counting_env_def)
  have "trim ''t'' = ''t''" by code_simp
  then show "token_law counting_env secret"
    by (auto simp: token_law_def counting_env_def split: prod.splits)
qed

lemma counting_email: "normalize_email (JStr ''a@b.co'') = Inr ''a@b.co''" "normalize_email (JStr '' A@b.co'') = Inr ''a@b.co''"
  by code_simp+

definition registered_world :: "(nat \<times> string list) auth" where
  "registered_world = fst (register_user counting_env (JStr ''a@b.co'') (JStr ''12345678'') (empty_auth (0, [])))"

lemma counting_registered: "register_user counting_env (JStr ''a@b.co'') (JStr ''12345678'') (empty_auth (0, [])) = (registered_world, Inr ())"
  unfolding registered_world_def
  by (simp add: register_user_def register_start_def call_bind_def call_of_def counting_email validate_password_def call_if_def call_return_def
    empty_auth_def find_by_email_def js_get_Nil in_auth_def counting_env_def register_finish_def insert_user_def js_has_def call_try_def)

theorem registered_user_can_sign_in_witness:
  "\<exists>u t a3 a4. find_by_email (us_email u) registered_world = Some u \<and> normalize_email (JStr ''a@b.co'') = Inr (us_email u) \<and>
    login_user counting_env ''s'' (JStr '' A@b.co'') (JStr ''12345678'') registered_world = (a3, Inr t) \<and>
    verify_user counting_env ''s'' (JStr t) a3 = (a4, Inr (us_id u))"
  by (rule registered_user_can_sign_in [OF counting_laws auth_reachable.starts counting_registered rtranclp.rtrancl_refl])
     (simp add: counting_email)

theorem accounts_keep_their_address_witness:
  "\<exists>s. accounts_ok (empty_auth (0 :: nat, [] :: string list), []) \<and> accounts_ok s \<and> keeps_accounts (empty_auth (0 :: nat, [] :: string list)) (fst s) \<and> snd s \<noteq> []"
proof -
  obtain a u where s: "register_start counting_env (JStr ''a@b.co'') (JStr ''12345678'') (empty_auth (0, [])) = (a, Inr u)"
    using counting_registered by (auto simp: register_user_def call_bind_Inr)
  show ?thesis
    using accounts_keep_their_address [OF auth_reachable.starts auth_step.begins [OF s]] by (intro exI [of _ "(a, [u])"]) simp
qed

end
