(* ===== verification/ClientState.thy ===== *)
theory ClientState
  imports JsonText MarketTypes
begin

text \<open>
  The state of the client (\<^verbatim>\<open>apps/frontend/src/state.ts\<close>): routes and their paths, the stored market
  layout with its panels, merging of candles, and the summary of the connection. The JSON parser is a
  parameter; a storage answers, or throws.
\<close>

section \<open>Routes\<close>

datatype app_screen = Market | Strategy_Screen | Backtest | Search_Screen | Leaderboard_Screen | News_Screen | Settings

record app_route =
  rt_screen :: app_screen
  rt_resource :: "string option"
  rt_register :: bool

definition screen_names :: "(string \<times> app_screen) list" where
  "screen_names = [(''dashboard'', Market), (''market'', Market), (''strategy'', Strategy_Screen), (''backtest'', Backtest), (''search'', Search_Screen),
     (''leaderboard'', Leaderboard_Screen), (''news'', News_Screen), (''settings'', Settings)]"

fun screen_text :: "app_screen \<Rightarrow> string" where
  "screen_text Market = ''market''"
| "screen_text Strategy_Screen = ''strategy''"
| "screen_text Backtest = ''backtest''"
| "screen_text Search_Screen = ''search''"
| "screen_text Leaderboard_Screen = ''leaderboard''"
| "screen_text News_Screen = ''news''"
| "screen_text Settings = ''settings''"

text \<open>\<^verbatim>\<open>encodeURIComponent\<close> and \<^verbatim>\<open>decodeURIComponent\<close> on the first 256 code points, which UTF-8 writes in
  one or two bytes. A malformed escape, or one of a later code point, is \<open>None\<close>.\<close>

definition unreserved :: "char \<Rightarrow> bool" where
  "unreserved c = (is_lower c \<or> is_upper c \<or> is_digit c \<or> (of_char c :: nat) \<in> {45, 95, 46, 33, 126, 42, 39, 40, 41})"

definition upper_hex :: "nat \<Rightarrow> char" where
  "upper_hex n = (if n < 10 then char_of (48 + n) else char_of (55 + n))"

definition hex_value :: "char \<Rightarrow> nat option" where
  "hex_value c = (let n = of_char c in if is_digit c then Some (n - 48) else if 65 \<le> n \<and> n \<le> 70 then Some (n - 55)
     else if 97 \<le> n \<and> n \<le> 102 then Some (n - 87) else None)"

definition escape_byte :: "nat \<Rightarrow> string" where
  "escape_byte n = [CHR ''%'', upper_hex (n div 16), upper_hex (n mod 16)]"

definition encode_component_char :: "char \<Rightarrow> string" where
  "encode_component_char c = (let n = of_char c in if unreserved c then [c] else if n < 128 then escape_byte n
     else escape_byte (192 + n div 64) @ escape_byte (128 + n mod 64))"

definition encode_uri_component :: "string \<Rightarrow> string" where
  "encode_uri_component s = concat (map encode_component_char s)"

definition byte_at :: "string \<Rightarrow> nat option" where
  "byte_at s = (case s of p # a # b # _ \<Rightarrow> if p = CHR ''%'' then (case (hex_value a, hex_value b) of (Some x, Some y) \<Rightarrow> Some (16 * x + y) | _ \<Rightarrow> None) else None
     | _ \<Rightarrow> None)"

function decode_uri_component :: "string \<Rightarrow> string option" where
  "decode_uri_component [] = Some []"
| "decode_uri_component (c # s) = (if c \<noteq> CHR ''%'' then map_option (Cons c) (decode_uri_component s)
     else (case byte_at (c # s) of None \<Rightarrow> None
       | Some n \<Rightarrow> if n < 128 then map_option (Cons (char_of n)) (decode_uri_component (drop 2 s))
           else if n = 194 \<or> n = 195 then (case byte_at (drop 2 s) of None \<Rightarrow> None
             | Some k \<Rightarrow> if 128 \<le> k \<and> k < 192 then map_option (Cons (char_of ((n - 192) * 64 + (k - 128)))) (decode_uri_component (drop 5 s)) else None)
           else None))"
  by pat_completeness auto

termination by (relation "measure length") auto

definition route :: "app_screen \<Rightarrow> app_route" where
  "route s = \<lparr>rt_screen = s, rt_resource = None, rt_register = False\<rparr>"

fun decode_parts :: "string list \<Rightarrow> string list option" where
  "decode_parts [] = Some []"
| "decode_parts (p # ps) = (case decode_uri_component p of None \<Rightarrow> None | Some x \<Rightarrow> map_option (Cons x) (decode_parts ps))"

definition route_of_parts :: "string list \<Rightarrow> app_route" where
  "route_of_parts parts = (case parts of [] \<Rightarrow> route Market
     | p # rest \<Rightarrow> if p = ''login'' then route Market
         else if p = ''register'' then (route Market)\<lparr>rt_register := True\<rparr>
         else if p = ''experiments'' \<and> rest \<noteq> [] \<and> hd rest \<noteq> [] then (route Backtest)\<lparr>rt_resource := Some (hd rest)\<rparr>
         else if p = ''search-runs'' \<and> rest \<noteq> [] \<and> hd rest \<noteq> [] then (route Search_Screen)\<lparr>rt_resource := Some (hd rest)\<rparr>
         else (case map_of screen_names p of None \<Rightarrow> route Market | Some s \<Rightarrow> route s))"

definition parse_app_route :: "string \<Rightarrow> app_route option" where
  "parse_app_route path = map_option route_of_parts (decode_parts (filter (\<lambda>p. p \<noteq> []) (split_on CHR ''/'' path)))"

definition app_route_path :: "app_route \<Rightarrow> string" where
  "app_route_path r = (if rt_register r then ''/register''
     else case present (rt_resource r) of
       Some i \<Rightarrow> ''/'' @ (if rt_screen r = Backtest then ''experiments'' else ''search-runs'') @ ''/'' @ encode_uri_component i
     | None \<Rightarrow> if rt_screen r = Market then ''/dashboard'' else ''/'' @ screen_text (rt_screen r))"

section \<open>The market layout\<close>

record chart_panel =
  cp_id :: string
  cp_pair :: string
  cp_timeframe :: timeframe

record market_layout =
  ml_panels :: "chart_panel list"
  ml_realtime :: bool
  ml_selected :: string
  ml_primary :: "string option"

definition layout_version :: int where
  "layout_version = 2"

definition default_market_layout :: market_layout where
  "default_market_layout = \<lparr>ml_panels = [], ml_realtime = True, ml_selected = ''BTCUSDT'', ml_primary = None\<rparr>"

definition initial_chart_panels :: "chart_panel list" where
  "initial_chart_panels = [\<lparr>cp_id = ''chart-1'', cp_pair = ''BTCUSDT'', cp_timeframe = M1\<rparr>, \<lparr>cp_id = ''chart-2'', cp_pair = ''BTCUSDT'', cp_timeframe = M5\<rparr>,
     \<lparr>cp_id = ''chart-3'', cp_pair = ''BTCUSDT'', cp_timeframe = M15\<rparr>, \<lparr>cp_id = ''chart-4'', cp_pair = ''BTCUSDT'', cp_timeframe = H1\<rparr>]"

definition valid_pair :: "string \<Rightarrow> bool" where
  "valid_pair s = (s \<noteq> [] \<and> (is_upper (hd s) \<or> is_digit (hd s)) \<and> list_all (\<lambda>c. is_upper c \<or> is_digit c \<or> c = CHR ''_'' \<or> c = CHR ''-'') (tl s))"

definition valid_panel_id :: "string \<Rightarrow> bool" where
  "valid_panel_id s = (starts_with ''chart-'' s \<and> (let n = drop 6 s in n \<noteq> [] \<and> is_digit (hd n) \<and> hd n \<noteq> CHR ''0'' \<and> list_all is_digit (tl n)))"

definition frame_names :: "(string \<times> timeframe) list" where
  "frame_names = [(''1m'', M1), (''5m'', M5), (''15m'', M15), (''1h'', H1), (''4h'', H4), (''1d'', D1)]"

definition read_panel :: "json \<Rightarrow> chart_panel option" where
  "read_panel j = (case (string_json (json_field j ''id''), string_json (json_field j ''pair''), string_json (json_field j ''timeframe'')) of
     (Some i, Some p, Some t) \<Rightarrow> if valid_panel_id i \<and> valid_pair p
       then map_option (\<lambda>f. \<lparr>cp_id = i, cp_pair = p, cp_timeframe = f\<rparr>) (map_of frame_names t) else None
   | _ \<Rightarrow> None)"

fun read_panels :: "json list \<Rightarrow> chart_panel list option" where
  "read_panels [] = Some []"
| "read_panels (j # js) = (case read_panel j of None \<Rightarrow> None | Some p \<Rightarrow> map_option (Cons p) (read_panels js))"

definition validate_market_layout :: "json \<Rightarrow> market_layout option" where
  "validate_market_layout j = (case (json_field j ''version'', json_field j ''panels'', json_field j ''realtimeEnabled'', json_field j ''selectedPair'') of
     (Some (JNum v), Some (JArr ps), Some (JBool b), Some (JStr s)) \<Rightarrow>
       if \<not> neq v (num layout_version) \<or> length ps > 4 \<or> \<not> valid_pair s then None
       else (case read_panels ps of None \<Rightarrow> None
         | Some panels \<Rightarrow> if \<not> distinct (map cp_id panels) then None
             else Some \<lparr>ml_panels = panels, ml_realtime = b, ml_selected = s, ml_primary = string_json (json_field j ''primaryPanelId'')\<rparr>)
   | _ \<Rightarrow> None)"

fun frame_text :: "timeframe \<Rightarrow> string" where
  "frame_text M1 = ''1m''"
| "frame_text M5 = ''5m''"
| "frame_text M15 = ''15m''"
| "frame_text H1 = ''1h''"
| "frame_text H4 = ''4h''"
| "frame_text D1 = ''1d''"

definition panel_json :: "chart_panel \<Rightarrow> json" where
  "panel_json p = JObj [(''id'', JStr (cp_id p)), (''pair'', JStr (cp_pair p)), (''timeframe'', JStr (frame_text (cp_timeframe p)))]"

definition layout_json :: "market_layout \<Rightarrow> json" where
  "layout_json l = JObj ([(''version'', JNum (num layout_version)), (''panels'', JArr (map panel_json (ml_panels l))), (''realtimeEnabled'', JBool (ml_realtime l)),
     (''selectedPair'', JStr (ml_selected l))] @ (case ml_primary l of None \<Rightarrow> [] | Some p \<Rightarrow> [(''primaryPanelId'', JStr p)]))"

definition read_market_layout :: "(string \<Rightarrow> json result) \<Rightarrow> string option result option \<Rightarrow> market_layout" where
  "read_market_layout parse stored = (case stored of Some (Inr text) \<Rightarrow>
       (case parse (case text of None \<Rightarrow> [] | Some s \<Rightarrow> s) of Inl _ \<Rightarrow> default_market_layout
        | Inr j \<Rightarrow> (case validate_market_layout j of None \<Rightarrow> default_market_layout | Some l \<Rightarrow> l))
     | _ \<Rightarrow> default_market_layout)"

text \<open>The text that is stored for a layout.\<close>

definition persisted_layout :: "market_layout \<Rightarrow> string" where
  "persisted_layout l = json_stringify (layout_json (case validate_market_layout (layout_json l) of None \<Rightarrow> default_market_layout | Some v \<Rightarrow> v))"

definition read_search_run_id :: "string option \<Rightarrow> string option" where
  "read_search_run_id stored = present (map_option trim stored)"

section \<open>Panels\<close>

definition chart_id :: "nat \<Rightarrow> string" where
  "chart_id n = ''chart-'' @ show_nat n"

lemma chart_id_inj: "chart_id a = chart_id b \<longleftrightarrow> a = b"
  using show_nat_inj by (auto simp: chart_id_def)

lemma finite_chart_ids: "finite {m. n \<le> m \<and> chart_id m \<in> set used}"
  by (rule finite_subset [of _ "chart_id -` set used"]) (auto intro: finite_vimageI simp: inj_on_def chart_id_inj)

function next_number :: "string list \<Rightarrow> nat \<Rightarrow> nat" where
  "next_number used n = (if chart_id n \<in> set used then next_number used (n + 1) else n)"
  by pat_completeness auto

termination
proof (relation "measure (\<lambda>(used, n). card {m. n \<le> m \<and> chart_id m \<in> set used})", simp)
  fix used :: "string list" and n
  assume "chart_id n \<in> set used"
  then have "{m. n + 1 \<le> m \<and> chart_id m \<in> set used} \<subset> {m. n \<le> m \<and> chart_id m \<in> set used}"
    by (intro psubsetI) (auto, metis (mono_tags, lifting) Suc_n_not_le_n le_refl mem_Collect_eq)
  then show "((used, n + 1), used, n) \<in> measure (\<lambda>(used, n). card {m. n \<le> m \<and> chart_id m \<in> set used})"
    using psubset_card_mono [OF finite_chart_ids] by simp
qed

declare next_number.simps [simp del]

definition next_chart_id :: "chart_panel list \<Rightarrow> string" where
  "next_chart_id ps = chart_id (next_number (map cp_id ps) 1)"

definition can_add_chart :: "chart_panel list \<Rightarrow> bool" where
  "can_add_chart ps = (length ps < 4)"

definition add_market_panel :: "market_layout \<Rightarrow> string \<Rightarrow> string \<Rightarrow> market_layout option" where
  "add_market_panel l pair frame = (if length (ml_panels l) \<ge> 4 \<or> \<not> valid_pair pair then None
     else (case map_of frame_names frame of None \<Rightarrow> None
       | Some f \<Rightarrow> Some (l\<lparr>ml_selected := pair, ml_panels := ml_panels l @ [\<lparr>cp_id = next_chart_id (ml_panels l), cp_pair = pair, cp_timeframe = f\<rparr>]\<rparr>)))"

section \<open>Candles, parameters and the connection\<close>

definition merge_candle :: "candle list \<Rightarrow> candle \<Rightarrow> candle list" where
  "merge_candle history c = (case find_index (\<lambda>x. c_timestamp x = c_timestamp c) history of
     None \<Rightarrow> sort_by (\<lambda>a b. locale_compare (c_timestamp a) (c_timestamp b)) (history @ [c])
   | Some i \<Rightarrow> history[i := (if c_is_closed (history ! i) \<and> \<not> c_is_closed c then history ! i else c)])"

definition equal_weights :: "string list \<Rightarrow> (string, number) jsmap" where
  "equal_weights ids = foldl (\<lambda>m i. js_set i (ndiv (num 1) (num (int (length ids)))) m) [] ids"

datatype tone = Connected | Pending | Failed | Paused

definition market_connection_summary :: "string list \<Rightarrow> bool \<Rightarrow> string \<times> tone" where
  "market_connection_summary states realtime = (if \<not> realtime then (''Realtime paused'', Paused)
     else if ''ERROR'' \<in> set states \<or> ''DISCONNECTED'' \<in> set states then (''Connection error'', Failed)
     else if ''RECONNECTING'' \<in> set states then (''Reconnecting'', Pending)
     else if ''CONNECTING'' \<in> set states then (''Connecting'', Pending)
     else if states \<noteq> [] \<and> list_all (\<lambda>s. s = ''CONNECTED'') states then (''Receiving data'', Connected)
     else (''Waiting for connection'', Pending))"


section \<open>Layouts stay valid and survive storage\<close>

definition layout_ok :: "market_layout \<Rightarrow> bool" where
  "layout_ok l = (length (ml_panels l) \<le> 4 \<and> valid_pair (ml_selected l) \<and> distinct (map cp_id (ml_panels l)) \<and>
     list_all (\<lambda>p. valid_panel_id (cp_id p) \<and> valid_pair (cp_pair p)) (ml_panels l))"

lemma frame_round: "map_of frame_names (frame_text f) = Some f"
  by (cases f) (simp_all add: frame_names_def)

lemma read_panel_json: "valid_panel_id (cp_id p) \<Longrightarrow> valid_pair (cp_pair p) \<Longrightarrow> read_panel (panel_json p) = Some p"
  by (simp add: read_panel_def panel_json_def frame_round)

lemma read_panels_json: "list_all (\<lambda>p. valid_panel_id (cp_id p) \<and> valid_pair (cp_pair p)) ps \<Longrightarrow> read_panels (map panel_json ps) = Some ps"
  by (induction ps) (simp_all add: read_panel_json)

lemma layout_fields:
  "json_field (layout_json l) ''version'' = Some (JNum (num layout_version))" "json_field (layout_json l) ''panels'' = Some (JArr (map panel_json (ml_panels l)))"
  "json_field (layout_json l) ''realtimeEnabled'' = Some (JBool (ml_realtime l))" "json_field (layout_json l) ''selectedPair'' = Some (JStr (ml_selected l))"
  "string_json (json_field (layout_json l) ''primaryPanelId'') = ml_primary l"
  by (simp_all add: layout_json_def split: option.splits)

lemma validate_layout: "layout_ok l \<Longrightarrow> validate_market_layout (layout_json l) = Some l"
  unfolding validate_market_layout_def layout_fields
  by (simp add: layout_ok_def read_panels_json neq_def layout_version_def number_simps)

lemma next_number_fresh: "chart_id (next_number used n) \<notin> set used \<and> n \<le> next_number used n"
proof (induction used n rule: next_number.induct)
  case (1 used n)
  show ?case
  proof (cases "chart_id n \<in> set used")
    case True
    then have "next_number used n = next_number used (n + 1)" by (subst next_number.simps) simp
    then show ?thesis using 1 [OF True] by simp
  next
    case False
    then have "next_number used n = n" by (subst next_number.simps) simp
    then show ?thesis using False by simp
  qed
qed

lemma digit_zero: "digit 0 = CHR ''0''"
  by code_simp

lemma chart_id_valid: "0 < n \<Longrightarrow> valid_panel_id (chart_id n)"
  using show_nat_digits [of n] show_nat_hd [of n] show_nat_not_Nil [of n]
  by (cases "show_nat n") (simp_all add: valid_panel_id_def chart_id_def starts_with_def digit_zero list_all_iff)

lemma next_id: "valid_panel_id (next_chart_id ps)" "next_chart_id ps \<notin> cp_id ` set ps"
  using next_number_fresh [of "map cp_id ps" 1]
  by (simp_all add: next_chart_id_def chart_id_valid)

lemma added_panel_ok: "layout_ok l \<Longrightarrow> add_market_panel l pair frame = Some l' \<Longrightarrow> layout_ok l'"
  using next_id by (auto simp: add_market_panel_def layout_ok_def split: if_splits option.splits)

text \<open>C40. A valid layout stays valid when a panel is added, the new panel has an identifier of its own, and
  what is stored for it is read back unchanged by a parser that inverts the printing of its value.\<close>

theorem layout_survives_storage:
  assumes "layout_ok l" and "add_market_panel l pair frame = Some l'" and "parse (json_stringify (layout_json l')) = Inr (layout_json l')"
  shows "layout_ok l' \<and> length (ml_panels l') = length (ml_panels l) + 1 \<and> read_market_layout parse (Some (Inr (Some (persisted_layout l')))) = l'"
proof -
  have ok: "layout_ok l'" using added_panel_ok assms(1,2) .
  have "persisted_layout l' = json_stringify (layout_json l')" by (simp add: persisted_layout_def validate_layout [OF ok])
  then have "read_market_layout parse (Some (Inr (Some (persisted_layout l')))) = l'"
    using assms(3) by (simp add: read_market_layout_def validate_layout [OF ok])
  moreover have "length (ml_panels l') = length (ml_panels l) + 1"
    using assms(2) by (auto simp: add_market_panel_def split: if_splits option.splits)
  ultimately show ?thesis using ok by blast
qed

section \<open>A path leads back to its route\<close>

lemma hex_round: "n < 16 \<Longrightarrow> hex_value (upper_hex n) = Some n"
  by (auto simp: hex_value_def upper_hex_def is_digit_def of_char_of take_bit_eq_mod Let_def)

lemma byte_round: "n < 256 \<Longrightarrow> byte_at (escape_byte n @ s) = Some n"
proof -
  assume "n < 256"
  then have "n div 16 < 16" "n mod 16 < 16" by auto
  then show ?thesis by (simp add: byte_at_def escape_byte_def hex_round)
qed

lemma escape_cons: "escape_byte n @ s = CHR ''%'' # upper_hex (n div 16) # upper_hex (n mod 16) # s"
  by (simp add: escape_byte_def)

lemma decode_single:
  assumes "n < 128"
  shows "decode_uri_component (escape_byte n @ s) = map_option (Cons (char_of n)) (decode_uri_component s)"
  using byte_round [of n s] assms unfolding escape_cons by (subst decode_uri_component.simps) simp

lemma decode_double:
  assumes "n = 194 \<or> n = 195" "128 \<le> k" "k < 192"
  shows "decode_uri_component (escape_byte n @ escape_byte k @ s) = map_option (Cons (char_of ((n - 192) * 64 + (k - 128)))) (decode_uri_component s)"
proof -
  have b: "byte_at (escape_byte n @ escape_byte k @ s) = Some n" using assms(1) by (intro byte_round) auto
  have k: "byte_at (escape_byte k @ s) = Some k" using assms by (intro byte_round) auto
  have n: "\<not> n < 128" using assms(1) by auto
  show ?thesis using b k n assms unfolding escape_cons by (subst decode_uri_component.simps) simp
qed

lemma decode_encoded: "decode_uri_component (encode_component_char c @ s) = map_option (Cons c) (decode_uri_component s)"
proof -
  let ?n = "of_char c :: nat"
  consider "unreserved c" | "\<not> unreserved c" "?n < 128" | "\<not> unreserved c" "128 \<le> ?n" by linarith
  then show ?thesis
  proof cases
    case 1
    then have "c \<noteq> CHR ''%''" by (auto simp: unreserved_def is_lower_def is_upper_def is_digit_def)
    then show ?thesis using 1 by (simp add: encode_component_char_def)
  next
    case 2
    then show ?thesis using decode_single [of ?n s] by (simp add: encode_component_char_def)
  next
    case 3
    have "?n < 256" by (rule nat_of_char_less_256)
    then have q: "?n div 64 = 2 \<or> ?n div 64 = 3" using 3(2) by linarith
    have m: "?n div 64 * 64 + ?n mod 64 = ?n" by simp
    have "?n mod 64 < 64" by simp
    then have "decode_uri_component (escape_byte (192 + ?n div 64) @ escape_byte (128 + ?n mod 64) @ s) =
        map_option (Cons (char_of ((192 + ?n div 64 - 192) * 64 + (128 + ?n mod 64 - 128)))) (decode_uri_component s)"
      using q by (intro decode_double) auto
    then show ?thesis using 3 m by (simp add: encode_component_char_def Let_def)
  qed
qed

lemma decode_encode: "decode_uri_component (encode_uri_component s) = Some s"
  unfolding encode_uri_component_def by (induction s) (simp_all add: decode_encoded)

lemma decode_plain: "CHR ''%'' \<notin> set s \<Longrightarrow> decode_uri_component s = Some s"
  by (induction s) auto

lemma hex_char_not_slash: "n < 16 \<Longrightarrow> upper_hex n \<noteq> CHR ''/''"
  using hex_round [of n] by (auto simp: hex_value_def is_digit_def Let_def)

lemma encoded_char: "CHR ''/'' \<notin> set (encode_component_char c)" "encode_component_char c \<noteq> []"
proof -
  have bytes: "CHR ''/'' \<notin> set (escape_byte n)" if "n < 256" for n
  proof -
    have "n div 16 < 16" "n mod 16 < 16" using that by auto
    from this [THEN hex_char_not_slash] show ?thesis by (simp add: escape_byte_def)
  qed
  have n: "(of_char c :: nat) < 256" by (rule nat_of_char_less_256)
  then have "of_char c div 64 < (4 :: nat)" by (intro less_mult_imp_div_less) simp
  then have "192 + of_char c div 64 < (256 :: nat)" "128 + of_char c mod 64 < (256 :: nat)"
    using mod_less_divisor [of 64 "of_char c :: nat"] by linarith+
  then show "CHR ''/'' \<notin> set (encode_component_char c)"
    using bytes n by (auto simp: encode_component_char_def Let_def unreserved_def is_lower_def is_upper_def is_digit_def)
  show "encode_component_char c \<noteq> []" by (simp add: encode_component_char_def Let_def escape_byte_def)
qed

lemma encoded_text: "CHR ''/'' \<notin> set (encode_uri_component s)" "s \<noteq> [] \<Longrightarrow> encode_uri_component s \<noteq> []"
  using encoded_char by (auto simp: encode_uri_component_def)

text \<open>The routes the pages use: registration, an experiment, a search run, or a page.\<close>

definition route_ok :: "app_route \<Rightarrow> bool" where
  "route_ok r = (if rt_register r then r = (route Market)\<lparr>rt_register := True\<rparr>
     else case rt_resource r of None \<Rightarrow> True | Some i \<Rightarrow> i \<noteq> [] \<and> rt_screen r \<in> {Backtest, Search_Screen})"

lemma resource_path:
  assumes "CHR ''/'' \<notin> set p" "CHR ''%'' \<notin> set p" "p \<noteq> []" "i \<noteq> []"
  shows "parse_app_route (''/'' @ p @ ''/'' @ encode_uri_component i) = Some (route_of_parts [p, i])"
proof -
  have "split_on CHR ''/'' (''/'' @ p @ ''/'' @ encode_uri_component i) = [[], p, encode_uri_component i]"
    using split_on_append [OF assms(1), of "encode_uri_component i"] split_on_single [OF encoded_text(1)] by simp
  then show ?thesis
    using assms(3) encoded_text(2) [OF assms(4)] by (simp add: parse_app_route_def decode_plain [OF assms(2)] decode_encode)
qed

lemma page_path:
  assumes "CHR ''/'' \<notin> set p" "CHR ''%'' \<notin> set p" "p \<noteq> []"
  shows "parse_app_route (''/'' @ p) = Some (route_of_parts [p])"
  using split_on_single [OF assms(1)] assms(3) by (simp add: parse_app_route_def decode_plain [OF assms(2)])

text \<open>The path of a route leads back to the route: pages, registration, and experiments and search runs with
  any identifier, whatever characters it has.\<close>

lemma route_path_roundtrip:
  assumes "route_ok r"
  shows "parse_app_route (app_route_path r) = Some r"
proof (cases "rt_register r")
  case True
  have "app_route_path r = ''/'' @ ''register''" using True by (simp add: app_route_path_def)
  then show ?thesis using page_path [of "''register''"] assms True by (simp add: route_ok_def route_of_parts_def)
next
  case False
  show ?thesis
  proof (cases "rt_resource r")
    case None
    have r: "r = route (rt_screen r)" using False None by (cases r) (simp add: route_def)
    define p where "p = (if rt_screen r = Market then ''dashboard'' else screen_text (rt_screen r))"
    have "app_route_path r = ''/'' @ p" using False None by (simp add: app_route_path_def p_def)
    moreover have "CHR ''/'' \<notin> set p" "CHR ''%'' \<notin> set p" "p \<noteq> []" by (cases "rt_screen r"; simp add: p_def)+
    moreover have "route_of_parts [p] = route (rt_screen r)" by (cases "rt_screen r") (simp_all add: p_def route_of_parts_def screen_names_def)
    ultimately show ?thesis using page_path r by metis
  next
    case (Some i)
    then have i: "i \<noteq> []" and s: "rt_screen r = Backtest \<or> rt_screen r = Search_Screen" using assms False by (simp_all add: route_ok_def)
    have r: "r = (route (rt_screen r))\<lparr>rt_resource := Some i\<rparr>" using False Some by (cases r) (simp add: route_def)
    define p where "p = (if rt_screen r = Backtest then ''experiments'' else ''search-runs'')"
    have "app_route_path r = ''/'' @ p @ ''/'' @ encode_uri_component i"
      using False Some i by (simp add: app_route_path_def p_def present_Some_iff [THEN iffD2, of "Some i" i])
    moreover have "CHR ''/'' \<notin> set p" "CHR ''%'' \<notin> set p" "p \<noteq> []" by (simp_all add: p_def)
    moreover have "route_of_parts [p, i] = (route (rt_screen r))\<lparr>rt_resource := Some i\<rparr>" using s i by (auto simp: p_def route_of_parts_def)
    ultimately show ?thesis using resource_path i r by metis
  qed
qed


definition one_panel_layout :: market_layout where
  "one_panel_layout = default_market_layout\<lparr>ml_panels := [\<lparr>cp_id = ''chart-1'', cp_pair = ''BTCUSDT'', cp_timeframe = M5\<rparr>]\<rparr>"

lemma first_panel: "layout_ok default_market_layout" "add_market_panel default_market_layout ''BTCUSDT'' ''5m'' = Some one_panel_layout"
proof -
  have p: "valid_pair ''BTCUSDT''" by code_simp
  have c: "chart_id 1 = ''chart-1''" by code_simp
  have "next_number [] 1 = 1" by (subst next_number.simps) simp
  then show "add_market_panel default_market_layout ''BTCUSDT'' ''5m'' = Some one_panel_layout"
    using p c by (simp add: add_market_panel_def default_market_layout_def one_panel_layout_def frame_names_def next_chart_id_def)
  show "layout_ok default_market_layout" using p by (simp add: layout_ok_def default_market_layout_def)
qed

theorem layout_survives_storage_witness:
  "layout_ok one_panel_layout \<and> length (ml_panels one_panel_layout) = 1 \<and>
   read_market_layout (\<lambda>_. Inr (layout_json one_panel_layout)) (Some (Inr (Some (persisted_layout one_panel_layout)))) = one_panel_layout"
  using layout_survives_storage [OF first_panel, of "\<lambda>_. Inr (layout_json one_panel_layout)"] by (simp add: default_market_layout_def)

theorem route_path_roundtrip_witness:
  "parse_app_route (app_route_path ((route Backtest)\<lparr>rt_resource := Some ''a/b %''\<rparr>)) = Some ((route Backtest)\<lparr>rt_resource := Some ''a/b %''\<rparr>)"
  by (rule route_path_roundtrip) (simp add: route_ok_def route_def)

end
