(* ===== verification/Spec2Isabelle.thy ===== *)
theory Spec2Isabelle
  imports StrategyService Leaderboard BacktestVisual SearchProtocol MarketBinance MarketHub MarketGateway News Auth ClientState
begin

text \<open>
  Cryptox: a trading laboratory. Market data is collected from an exchange, strategies are defined and
  generated, candidates are backtested by workers, their results are evaluated and ranked, searches generate
  candidates automatically, and news with its sentiment is one of the inputs of strategies. The source is a
  TypeScript monorepository; this library models the modules under \<^verbatim>\<open>src/modules\<close>, which hold the
  logic of the program, with the state of the client and the gateway that connects it to market data.

  How the parts work together. \<^verbatim>\<open>market-data\<close> seals candles into snapshots. A backtesting scope
  refers to a snapshot and, for strategies that need it, to a sealed sentiment snapshot. A submission
  creates a candidate of a composite of \<^verbatim>\<open>strategy\<close> definitions; a worker claims it with a
  lease and a fence token, simulates it, and a completion claim evaluates the run, publishes the experiment and offers it
  to the \<^verbatim>\<open>leaderboard\<close>. \<^verbatim>\<open>search\<close> fills the free slots of a run with
  generated candidates and reads back the counts. \<^verbatim>\<open>news\<close> hands every stored item to
  \<^verbatim>\<open>sentiment\<close>; \<^verbatim>\<open>auth\<close> gives the users their tokens.

  Prelude. \<open>JsPrelude\<close> (results, insertion ordered maps, stable sort, with the locales of keyed stores and
  of comparators), \<open>JsNumber\<close> (IEEE doubles as rationals rounded to 53 bits), \<open>JsText\<close> (string
  methods, printing and reading of numbers), \<open>JsDate\<close> (ISO instants), \<open>JsJson\<close> and
  \<open>JsonText\<close> (values of unknown shape and their text), \<open>Calls\<close> (asynchronous operations over a state).

  Components, each theory with the files it models.
  \<^item> \<open>Decimal\<close>, \<open>Simulator\<close>: \<^verbatim>\<open>backtesting/domain/simulator.ts\<close>, the decimal arithmetic on
    scaled integers and the simulation of a strategy on candles: equity chain, balance of each trade, no
    look ahead, achievable fills, known error codes.
  \<^item> \<open>Evaluator\<close>, \<open>Leaderboard\<close>: \<^verbatim>\<open>evaluation/domain/evaluator.ts\<close> and the leaderboard service: ranges of
    the metrics, ten active entries per scope.
  \<^item> \<open>MarketTypes\<close>, \<open>MarketRules\<close>, \<open>MarketService\<close>, \<open>MarketProtocol\<close>, \<open>MarketStream\<close>, \<open>MarketBinance\<close>,
    \<open>MarketRealtime\<close>, \<open>MarketHub\<close>: \<^verbatim>\<open>market-data\<close>, from validation and gaps to candle store, cached window,
    history pages, snapshots, the connection life cycle, the exchange adapter and delivery. \<open>MarketHub\<close> composes
    the delivery with the connection: a settled service asks upstream for exactly what its subscribers want.
  \<^item> \<open>StrategyTypes\<close>, \<open>Indicators\<close>, \<open>Plugins\<close>, \<open>StrategyCore\<close>, \<open>StrategyService\<close>: \<^verbatim>\<open>strategy\<close>,
    the built in plugins, validation of parameters, combination of signals, definitions and composites
    with their versions.
  \<^item> \<open>BacktestTypes\<close>, \<open>BacktestRepo\<close>, \<open>BacktestProtocol\<close>: the backtesting store as a state machine with
    leases, fences and completion claims, refined to an abstract life cycle; \<open>BacktestPolicy\<close>,
    \<open>BacktestScope\<close>, \<open>BacktestSubmit\<close>, \<open>BacktestRun\<close>, \<open>BacktestView\<close>, \<open>BacktestVisual\<close>: policies and pages,
    scopes, submissions and cancellation, execution and completion, replay, and visualization
    (\<^verbatim>\<open>backtesting/application/service.ts\<close>).
  \<^item> \<open>SearchRandom\<close>, \<open>SearchGenetic\<close>, \<open>SearchGenerators\<close>, \<open>SearchService\<close>, \<open>SearchProtocol\<close>: \<^verbatim>\<open>search\<close>, the
    generator of random numbers on 32 bit words, mutation and repair, the three generators, and runs with
    their budget and life cycle.
  \<^item> \<open>Sentiment\<close>: \<^verbatim>\<open>sentiment\<close>, validation, analysis, sealed points and the reader that has no look ahead.
  \<^item> \<open>NewsTemplates\<close>, \<open>News\<close>: \<^verbatim>\<open>news\<close>, extraction templates with one active version per domain, and
    collecting, storing and reading items.
  \<^item> \<open>Auth\<close>: \<^verbatim>\<open>auth\<close>, interleaved registrations, login and tokens.
  \<^item> \<open>MarketGateway\<close>, \<open>ClientState\<close>: \<^verbatim>\<open>apps/backend/src/market.gateway.ts\<close>, the commands of a client around the
    wait for the service, and \<^verbatim>\<open>apps/frontend/src/state.ts\<close>, routes that lead back from their paths and
    layouts that survive storage.

  How the code is read. A class or interface is a record, a union of literals a datatype, a JavaScript
  \<^verbatim>\<open>Map\<close> an association list in insertion order. An error thrown with a code is the left summand
  of a result. In the stores an operation that throws leaves its state unchanged; over a world
  (\<open>Calls\<close>) a failing call keeps the changes it made. Numbers are doubles with one zero; an
  invalid date is \<open>None\<close>. Where the code awaits between a check and a write (registration, worker and
  completion claims, reconnecting, subscribing and shutting down) the parts are separate steps and the theorems hold for every
  interleaving of them; the other operations run one after the other.
  Strings are lists of characters, lower and upper case and the order of \<^verbatim>\<open>localeCompare\<close> are
  those of the ASCII range.

  Parameters. What is not in the repository is an argument of the definitions: SHA-256, bcrypt, JSON web
  tokens, identifiers, the clock, HTTP, sockets, the JSON and URL parsers, language models, Redis, the queue
  and the database. What a theorem relies on of them is a named hypothesis of documented behaviour, and its
  witness instantiates them.

  Bounds and fuel. The loops of the code are structural recursions or have a measure (gaps, pages, tags of a
  text). The search for the shortest decimal text of a double looks through at most 17 significant digits,
  which always suffices (\<open>JsText\<close>); filling a run is bounded by its slots and by the attempts the code itself allows.
  Quotients of instants are exact below 2 to the 53.

  Not modelled. The React pages and the HTTP client of the front end, the NestJS controllers, which
  translate requests to the modules modelled here; composition and configuration of the processes; the PostgreSQL
  and Redis repositories, whose behaviour is that of SQL; the queue adapter; the crawler, the feed reader, the
  interpreter of pages, extraction with a template and scraping, which are regular expressions over
  HTML (they are parameters of \<open>News\<close>); the language model adapters of sentiment and of generation and the loader of public
  sources, which are calls of HTTP services; tests, scripts, migrations and generated files.
\<close>

end
